(* ===== verification/Prelude.thy ===== *)
theory Prelude
  imports Main "HOL-Library.Word" "HOL-Library.Sublist"
begin

text \<open>
  Shared vocabulary of the development: the Go base types as HOL types, the error
  monad over the sum type in which every fallible Go call is written, relational
  tables as lists of rows, and the generic lemmas the component theories use.

  A Go \<^verbatim>\<open>string\<close> is a sequence of bytes, hence \<^typ>\<open>string\<close>; \<^verbatim>\<open>int64\<close> is
  \<open>64 word\<close> read through \<open>sint\<close>; \<^verbatim>\<open>uuid.UUID\<close> is \<^verbatim>\<open>[16]byte\<close>, hence \<open>128 word\<close>;
  a \<^verbatim>\<open>time.Time\<close> is the number of microseconds since the Unix epoch, the resolution
  of the TIMESTAMPTZ columns.
\<close>

named_theorems res_simps \<open>how a result of the error monad decomposes\<close>
named_theorems tbl_simps \<open>lookups and updates of tables\<close>
named_theorems ops_defs \<open>definitions of the modelled operations\<close>

type_synonym int64 = "64 word"
type_synonym uuid = "128 word"
type_synonym byte = "8 word"
type_synonym time = int

section \<open>Go errors\<close>

text \<open>
  A Go error value: \<open>Plain\<close> is \<^verbatim>\<open>errors.New\<close> or \<^verbatim>\<open>fmt.Errorf\<close> without \<^verbatim>\<open>%w\<close>,
  \<open>Wrapf p err\<close> is \<^verbatim>\<open>fmt.Errorf("p: %w", err)\<close>, and \<open>AppError\<close> is the struct of
  pkg/apperror with its four fields.
\<close>

datatype error =
    Plain string
  | Wrapf string error
  | AppError (Code: string) (Message: string) (HTTPStatus: int) (Err: "error option")

type_synonym 'a result = "error + 'a"

section \<open>The error monad\<close>

definition bindE :: "'a result \<Rightarrow> ('a \<Rightarrow> 'b result) \<Rightarrow> 'b result" where
  "bindE m f = (case m of Inl err \<Rightarrow> Inl err | Inr x \<Rightarrow> f x)"

text \<open>\<open>wrapE g m\<close> is the idiom \<^verbatim>\<open>if err != nil { return nil, g(err) }\<close> after a call \<open>m\<close>.\<close>

definition wrapE :: "(error \<Rightarrow> error) \<Rightarrow> 'a result \<Rightarrow> 'a result" where
  "wrapE g m = (case m of Inl err \<Rightarrow> Inl (g err) | Inr x \<Rightarrow> Inr x)"

text \<open>\<open>failIf b err\<close> is a guard with an early return.\<close>

definition failIf :: "bool \<Rightarrow> error \<Rightarrow> unit result" where
  "failIf b err = (if b then Inl err else Inr ())"

text \<open>\<open>needE err o\<close> is the idiom \<^verbatim>\<open>if x == nil { return nil, err }\<close>.\<close>

definition needE :: "error \<Rightarrow> 'a option \<Rightarrow> 'a result" where
  "needE err x = (case x of None \<Rightarrow> Inl err | Some y \<Rightarrow> Inr y)"

text \<open>\<open>callE f m\<close> is an external call \<open>m\<close> whose transport may fail with the error \<open>f\<close>.\<close>

definition callE :: "error option \<Rightarrow> 'a result \<Rightarrow> 'a result" where
  "callE f m = (case f of Some err \<Rightarrow> Inl err | None \<Rightarrow> m)"

lemma bindE_simps [simp]:
  "bindE (Inl err) f = Inl err"
  "bindE (Inr x) f = f x"
  by (simp_all add: bindE_def)

lemma wrapE_simps [simp]:
  "wrapE g (Inl err) = Inl (g err)"
  "wrapE g (Inr x) = Inr x"
  by (simp_all add: wrapE_def)

lemma failIf_simps [simp]:
  "failIf True err = Inl err"
  "failIf False err = Inr ()"
  by (simp_all add: failIf_def)

lemma needE_simps [simp]:
  "needE err None = Inl err"
  "needE err (Some y) = Inr y"
  by (simp_all add: needE_def)

lemma callE_simps [simp]:
  "callE None m = m"
  "callE (Some err) m = Inl err"
  by (simp_all add: callE_def)

lemma bindE_Inr [res_simps]: "bindE m f = Inr y \<longleftrightarrow> (\<exists>x. m = Inr x \<and> f x = Inr y)"
  by (cases m) auto

lemma wrapE_Inr [res_simps]: "wrapE g m = Inr x \<longleftrightarrow> m = Inr x"
  by (cases m) auto

lemma failIf_Inr [res_simps]: "failIf b err = Inr u \<longleftrightarrow> \<not> b"
  by (simp add: failIf_def)

lemma needE_Inr [res_simps]: "needE err x = Inr y \<longleftrightarrow> x = Some y"
  by (cases x) auto

lemma callE_Inr [res_simps]: "callE f m = Inr x \<longleftrightarrow> f = None \<and> m = Inr x"
  by (cases f) auto

lemma bindE_Inl [res_simps]:
  "bindE m f = Inl err \<longleftrightarrow> m = Inl err \<or> (\<exists>x. m = Inr x \<and> f x = Inl err)"
  by (cases m) auto

lemma wrapE_Inl [res_simps]: "wrapE g m = Inl err \<longleftrightarrow> (\<exists>e0. m = Inl e0 \<and> err = g e0)"
  by (cases m) auto

lemma failIf_Inl [res_simps]: "failIf b err = Inl e0 \<longleftrightarrow> b \<and> e0 = err"
  by (auto simp: failIf_def)

lemma needE_Inl [res_simps]: "needE err x = Inl e0 \<longleftrightarrow> x = None \<and> e0 = err"
  by (cases x) auto

lemma callE_Inl [res_simps]: "callE f m = Inl err \<longleftrightarrow> f = Some err \<or> f = None \<and> m = Inl err"
  by (cases f) auto

section \<open>Tables\<close>

text \<open>
  A table is the list of its rows in insertion order. \<open>row_where\<close> is a query that scans
  one row, \<open>rows_update\<close> an UPDATE, \<open>rows_count\<close> the number of rows it affects.
\<close>

definition row_where :: "('a \<Rightarrow> bool) \<Rightarrow> 'a list \<Rightarrow> 'a option" where
  "row_where P t = find P t"

definition rows_update :: "('a \<Rightarrow> bool) \<Rightarrow> ('a \<Rightarrow> 'a) \<Rightarrow> 'a list \<Rightarrow> 'a list" where
  "rows_update P f t = map (\<lambda>r. if P r then f r else r) t"

definition rows_count :: "('a \<Rightarrow> bool) \<Rightarrow> 'a list \<Rightarrow> nat" where
  "rows_count P t = length (filter P t)"

lemma row_where_code [simp]:
  "row_where P [] = None"
  "row_where P (r # t) = (if P r then Some r else row_where P t)"
  by (simp_all add: row_where_def)

lemma rows_update_code [simp]:
  "rows_update P f [] = []"
  "rows_update P f (r # t) = (if P r then f r else r) # rows_update P f t"
  by (simp_all add: rows_update_def)

lemma rows_update_append [simp]: "rows_update P f (t @ u) = rows_update P f t @ rows_update P f u"
  by (simp add: rows_update_def)

lemma length_rows_update [simp]: "length (rows_update P f t) = length t"
  by (simp add: rows_update_def)

lemma row_where_Some: "row_where P t = Some r \<Longrightarrow> r \<in> set t \<and> P r"
  by (auto simp: row_where_def find_Some_iff)

lemma row_where_None: "row_where P t = None \<longleftrightarrow> (\<forall>r\<in>set t. \<not> P r)"
  by (auto simp: row_where_def find_None_iff)

lemma row_where_append:
  "row_where P (t @ u) = (case row_where P t of None \<Rightarrow> row_where P u | Some r \<Rightarrow> Some r)"
  by (induction t) auto

lemma rows_count_zero [tbl_simps]: "rows_count P t = 0 \<longleftrightarrow> (\<forall>r\<in>set t. \<not> P r)"
  by (simp add: rows_count_def filter_empty_conv)

text \<open>With distinct keys a row is found by its key.\<close>

lemma row_where_key:
  assumes "distinct (map k t)" and "r \<in> set t"
  shows "row_where (\<lambda>x. k x = k r) t = Some r"
  using assms by (induction t) (auto simp: rev_image_eqI)

lemma map_rows_update:
  assumes "\<And>r. r \<in> set t \<Longrightarrow> P r \<Longrightarrow> k (f r) = k r"
  shows "map k (rows_update P f t) = map k t"
  using assms by (simp add: rows_update_def)

lemma image_rows_update:
  assumes "\<And>r. r \<in> set t \<Longrightarrow> P r \<Longrightarrow> k (f r) = k r"
  shows "k ` set (rows_update P f t) = k ` set t"
  using map_rows_update [of t P k f] assms by (metis (no_types, lifting) set_map)

lemma set_rows_update: "set (rows_update P f t) = f ` {r \<in> set t. P r} \<union> {r \<in> set t. \<not> P r}"
  by (auto simp: rows_update_def)

lemma row_where_rows_update:
  assumes "\<And>r. r \<in> set t \<Longrightarrow> P r \<Longrightarrow> Q (f r) = Q r"
  shows "row_where Q (rows_update P f t) =
    map_option (\<lambda>r. if P r then f r else r) (row_where Q t)"
  using assms by (induction t) auto

lemma rows_update_id: "\<forall>r\<in>set t. \<not> P r \<Longrightarrow> rows_update P f t = t"
  by (induction t) auto

section \<open>Strings\<close>

lemma append_eq_sep:
  assumes "c \<notin> set xs" and "c \<notin> set ys"
  shows "xs @ c # us = ys @ c # vs \<longleftrightarrow> xs = ys \<and> us = vs"
  using assms
proof (induction xs arbitrary: ys)
  case Nil
  then show ?case by (cases ys) auto
next
  case (Cons x xs)
  then show ?case by (cases ys) auto
qed

end
