(* ===== verification/Go_Strings.thy ===== *)
theory Go_Strings
  imports Prelude
begin

text \<open>
  The parts of the Go standard library on strings that the gateway calls: decimal
  printing and parsing (\<^verbatim>\<open>strconv.FormatInt\<close>, \<^verbatim>\<open>strconv.ParseInt\<close>, \<^verbatim>\<open>strconv.Atoi\<close>,
  \<^verbatim>\<open>fmt.Sscanf("%d")\<close>), hexadecimal coding (\<^verbatim>\<open>encoding/hex\<close>) and the
  number of runes of a text. The round-trip lemmas of this theory are
  what makes a balance survive its way through the encrypted column.
\<close>

section \<open>Decimal digits\<close>

definition digit_char :: "nat \<Rightarrow> char" where
  "digit_char d = char_of (48 + d)"

definition is_digit :: "char \<Rightarrow> bool" where
  "is_digit c \<longleftrightarrow> 48 \<le> (of_char c :: nat) \<and> (of_char c :: nat) \<le> 57"

definition digit_val :: "char \<Rightarrow> nat" where
  "digit_val c = of_char c - 48"

lemma of_char_digit_char [simp]: "d < 10 \<Longrightarrow> (of_char (digit_char d) :: nat) = 48 + d"
  by (simp add: digit_char_def)

lemma is_digit_char [simp]: "d < 10 \<Longrightarrow> is_digit (digit_char d)"
  by (simp add: is_digit_def)

lemma digit_val_char [simp]: "d < 10 \<Longrightarrow> digit_val (digit_char d) = d"
  by (simp add: digit_val_def)

lemma digit_char_val: "is_digit c \<Longrightarrow> digit_char (digit_val c) = c"
  by (simp add: digit_char_def digit_val_def is_digit_def)

lemma digit_val_less: "is_digit c \<Longrightarrow> digit_val c < 10"
  unfolding digit_val_def is_digit_def by linarith

section \<open>strconv.FormatInt and strconv.ParseInt, base 10\<close>

fun format_nat :: "nat \<Rightarrow> string" where
  "format_nat n = (if n < 10 then [digit_char n] else format_nat (n div 10) @ [digit_char (n mod 10)])"

declare format_nat.simps [simp del]

definition FormatInt :: "int64 \<Rightarrow> string" where
  "FormatInt i = (if sint i < 0 then CHR ''-'' # format_nat (nat (- sint i))
                  else format_nat (nat (sint i)))"

datatype num_error = ErrSyntax | ErrRange

text \<open>The digit loop of \<^verbatim>\<open>strconv.ParseUint\<close> with its overflow test.\<close>

fun parse_uint_loop :: "nat \<Rightarrow> string \<Rightarrow> num_error + nat" where
  "parse_uint_loop n [] = Inr n"
| "parse_uint_loop n (c # cs) =
     (if \<not> is_digit c then Inl ErrSyntax
      else if 10 * n + digit_val c > 2 ^ 64 - 1 then Inl ErrRange
      else parse_uint_loop (10 * n + digit_val c) cs)"

definition ParseUint :: "string \<Rightarrow> num_error + nat" where
  "ParseUint s = (if s = [] then Inl ErrSyntax else parse_uint_loop 0 s)"

text \<open>
  \<^verbatim>\<open>ParseInt(s, 10, 64)\<close> returns a value and an error; on \<open>ErrRange\<close> the value is the
  nearest representable one. Both components are kept, because some callers ignore the error.
\<close>

definition ParseInt :: "string \<Rightarrow> int64 \<times> num_error option" where
  "ParseInt s0 =
     (let neg = (s0 \<noteq> [] \<and> hd s0 = CHR ''-'');
          s = (if s0 \<noteq> [] \<and> (hd s0 = CHR ''+'' \<or> hd s0 = CHR ''-'') then tl s0 else s0);
          un = (case ParseUint s of Inl ErrRange \<Rightarrow> Inr (2 ^ 64 - 1) | r \<Rightarrow> r)
      in case un of
           Inl err \<Rightarrow> (0, Some err)
         | Inr u \<Rightarrow>
             if \<not> neg \<and> u \<ge> 2 ^ 63 then (2 ^ 63 - 1, Some ErrRange)
             else if neg \<and> u > 2 ^ 63 then (- (2 ^ 63), Some ErrRange)
             else (if neg then - of_nat u else of_nat u, None))"

definition parseInt_err :: "string \<Rightarrow> num_error \<Rightarrow> error" where
  "parseInt_err s e = Plain (''strconv.ParseInt: parsing '' @ s @
     (case e of ErrSyntax \<Rightarrow> '': invalid syntax'' | ErrRange \<Rightarrow> '': value out of range''))"

text \<open>The call followed by \<^verbatim>\<open>if err != nil\<close>.\<close>

definition ParseIntE :: "string \<Rightarrow> int64 result" where
  "ParseIntE s = (case ParseInt s of (v, None) \<Rightarrow> Inr v | (v, Some e) \<Rightarrow> Inl (parseInt_err s e))"

text \<open>\<^verbatim>\<open>page, _ := strconv.Atoi(s)\<close>: the error is dropped, the value kept.\<close>

definition Atoi_value :: "string \<Rightarrow> int64" where
  "Atoi_value s = fst (ParseInt s)"

lemma format_nat_not_Nil [simp]: "format_nat n \<noteq> []"
  by (subst format_nat.simps) simp

lemma format_nat_digits: "c \<in> set (format_nat n) \<Longrightarrow> is_digit c"
proof (induction n rule: format_nat.induct)
  case (1 n)
  show ?case
  proof (cases "n < 10")
    case True
    with "1.prems" show ?thesis by (simp add: format_nat.simps [of n])
  next
    case False
    with "1.prems" "1.IH" show ?thesis by (auto simp: format_nat.simps [of n])
  qed
qed

lemma is_digit_minus [simp]: "\<not> is_digit CHR ''-''" "\<not> is_digit CHR ''+''"
  by (simp_all add: is_digit_def)

lemma format_nat_hd: "is_digit (hd (format_nat n))"
  using format_nat_digits [of "hd (format_nat n)" n] by (simp add: list.set_sel)

lemma format_nat_no_sign: "hd (format_nat n) \<noteq> CHR ''-''" "hd (format_nat n) \<noteq> CHR ''+''"
  using format_nat_hd [of n] by auto

lemma parse_uint_loop_append:
  "parse_uint_loop a (xs @ ys) =
    (case parse_uint_loop a xs of Inl e \<Rightarrow> Inl e | Inr m \<Rightarrow> parse_uint_loop m ys)"
  by (induction a xs rule: parse_uint_loop.induct) auto

lemma parse_format_nat: "n < 2 ^ 64 \<Longrightarrow> parse_uint_loop 0 (format_nat n) = Inr n"
proof (induction n rule: format_nat.induct)
  case (1 n)
  show ?case
  proof (cases "n < 10")
    case True
    then show ?thesis by (simp add: format_nat.simps [of n])
  next
    case False
    have "n div 10 < 2 ^ 64" using "1.prems" by linarith
    with False "1.IH" have IH: "parse_uint_loop 0 (format_nat (n div 10)) = Inr (n div 10)" by simp
    have "10 * (n div 10) + n mod 10 = n" by simp
    with False IH "1.prems" show ?thesis
      by (simp add: format_nat.simps [of n] parse_uint_loop_append)
  qed
qed

lemma ParseUint_format_nat: "n < 2 ^ 64 \<Longrightarrow> ParseUint (format_nat n) = Inr n"
  by (simp add: ParseUint_def parse_format_nat)

lemma sint64_bounds: "- (2 ^ 63) \<le> sint (i :: int64)" "sint (i :: int64) < 2 ^ 63"
  using sint_greater_eq [of i] sint_lt [of i] by simp_all

lemma ParseInt_FormatInt [simp]: "ParseInt (FormatInt i) = (i, None)"
proof (cases "sint i < 0")
  case True
  have "nat (- sint i) \<le> 2 ^ 63" using sint64_bounds(1) [of i] by simp
  with True show ?thesis
    by (simp add: ParseInt_def FormatInt_def ParseUint_format_nat Let_def of_nat_nat)
next
  case False
  have "nat (sint i) < 2 ^ 63" using sint64_bounds(2) [of i] by simp
  with False show ?thesis
    by (simp add: ParseInt_def FormatInt_def ParseUint_format_nat Let_def of_nat_nat
        format_nat_no_sign)
qed

lemma ParseIntE_FormatInt [simp]: "ParseIntE (FormatInt i) = Inr i"
  by (simp add: ParseIntE_def)

lemma FormatInt_inject [simp]: "FormatInt i = FormatInt j \<longleftrightarrow> i = j"
  by (metis ParseInt_FormatInt prod.inject)

lemma format_nat_0 [simp]: "format_nat 0 = ''0''"
  by code_simp

lemma FormatInt_0 [simp]: "FormatInt 0 = ''0''"
  by (simp add: FormatInt_def)

section \<open>fmt.Sscanf with the verb d\<close>

text \<open>
  Leading blanks are skipped (a newline is an error), an optional sign and the longest run
  of digits are read, and what follows is left unread.
\<close>

definition is_blank :: "char \<Rightarrow> bool" where
  "is_blank c \<longleftrightarrow> c = CHR '' '' \<or> c = CHR 0x09 \<or> c = CHR 0x0B \<or> c = CHR 0x0C \<or> c = CHR 0x0D"

definition Sscanf_d :: "string \<Rightarrow> int64 result" where
  "Sscanf_d s0 =
     (let s = dropWhile is_blank s0;
          sgn = (if s \<noteq> [] \<and> (hd s = CHR ''+'' \<or> hd s = CHR ''-'') then [hd s] else []);
          ds = takeWhile is_digit (drop (length sgn) s)
      in if ds = [] then Inl (Plain ''expected integer'')
         else ParseIntE (sgn @ ds))"

lemma is_digit_not_blank: "is_digit c \<Longrightarrow> \<not> is_blank c"
  by (auto simp: is_digit_def is_blank_def)

lemma takeWhile_format_nat [simp]: "takeWhile is_digit (format_nat n) = format_nat n"
  by (simp add: takeWhile_eq_all_conv format_nat_digits)

lemma dropWhile_blank_format_nat: "dropWhile is_blank (format_nat n) = format_nat n"
proof -
  have "\<not> is_blank (hd (format_nat n))"
    using format_nat_hd by (rule is_digit_not_blank)
  then show ?thesis by (cases "format_nat n") auto
qed

lemma Sscanf_FormatInt [simp]: "Sscanf_d (FormatInt i) = Inr i"
proof (cases "sint i < 0")
  case True
  then have "FormatInt i = CHR ''-'' # format_nat (nat (- sint i))" by (simp add: FormatInt_def)
  moreover have "\<not> is_blank CHR ''-''" by (simp add: is_blank_def)
  ultimately show ?thesis
    using ParseIntE_FormatInt [of i] by (simp add: Sscanf_d_def)
next
  case False
  then have "FormatInt i = format_nat (nat (sint i))" by (simp add: FormatInt_def)
  then show ?thesis
    using ParseIntE_FormatInt [of i]
    by (simp add: Sscanf_d_def dropWhile_blank_format_nat format_nat_no_sign)
qed

section \<open>encoding/hex\<close>

definition hex_digit :: "nat \<Rightarrow> char" where
  "hex_digit d = (if d < 10 then char_of (48 + d) else char_of (87 + d))"

definition fromHexChar :: "char \<Rightarrow> nat option" where
  "fromHexChar c =
     (let n = of_char c :: nat
      in if 48 \<le> n \<and> n \<le> 57 then Some (n - 48)
         else if 97 \<le> n \<and> n \<le> 102 then Some (n - 87)
         else if 65 \<le> n \<and> n \<le> 70 then Some (n - 55)
         else None)"

fun hex_encode :: "byte list \<Rightarrow> string" where
  "hex_encode [] = []"
| "hex_encode (b # bs) = hex_digit (unat b div 16) # hex_digit (unat b mod 16) # hex_encode bs"

fun hex_decode :: "string \<Rightarrow> byte list result" where
  "hex_decode [] = Inr []"
| "hex_decode [c] = (if fromHexChar c = None then Inl (Plain ''encoding/hex: invalid byte'')
                     else Inl (Plain ''encoding/hex: odd length hex string''))"
| "hex_decode (a # b # cs) =
     (case (fromHexChar a, fromHexChar b) of
        (Some x, Some y) \<Rightarrow> bindE (hex_decode cs) (\<lambda>bs. Inr (of_nat (16 * x + y) # bs))
      | _ \<Rightarrow> Inl (Plain ''encoding/hex: invalid byte''))"

lemma fromHexChar_hex_digit [simp]: "d < 16 \<Longrightarrow> fromHexChar (hex_digit d) = Some d"
  by (auto simp: fromHexChar_def hex_digit_def Let_def)

lemma hex_decode_encode [simp]: "hex_decode (hex_encode bs) = Inr bs"
proof (induction bs)
  case Nil
  show ?case by simp
next
  case (Cons b bs)
  have "unat b < 256" using unsigned_less [of b, where ?'a = nat] by simp
  then have "unat b div 16 < 16" "unat b mod 16 < 16" by auto
  with Cons show ?case by simp
qed

lemma length_hex_encode [simp]: "length (hex_encode bs) = 2 * length bs"
  by (induction bs) auto

section \<open>Bytes of a string\<close>

definition bytes_of :: "string \<Rightarrow> byte list" where
  "bytes_of s = map (\<lambda>c. of_nat (of_char c)) s"

definition string_of :: "byte list \<Rightarrow> string" where
  "string_of bs = map (\<lambda>b. char_of (unat b)) bs"

lemma of_char_lt_256: "(of_char c :: nat) < 256"
  by (rule of_char_mod_256 [THEN subst, where P = "\<lambda>n. n < 256"]) simp

lemma string_of_bytes_of [simp]: "string_of (bytes_of s) = s"
proof -
  have "char_of (unat (of_nat (of_char c) :: byte)) = c" for c
    using of_char_lt_256 [of c] by (simp add: unat_of_nat)
  then show ?thesis by (simp add: string_of_def bytes_of_def map_idI)
qed

lemma bytes_of_string_of [simp]: "bytes_of (string_of bs) = bs"
proof -
  have "of_nat (of_char (char_of (unat b) :: char)) = b" for b :: byte
    using unsigned_less [of b, where ?'a = nat] by (simp add: of_char_of)
  then show ?thesis by (simp add: string_of_def bytes_of_def map_idI)
qed

lemma length_bytes_of [simp]: "length (bytes_of s) = length s"
  by (simp add: bytes_of_def)

text \<open>
  Number of characters of a UTF-8 string: the bytes that are not continuation bytes. A
  VARCHAR(n) column and the validator's length tags count characters.
\<close>

definition rune_count :: "string \<Rightarrow> nat" where
  "rune_count s = length (filter (\<lambda>c. \<not> (128 \<le> (of_char c :: nat) \<and> (of_char c :: nat) < 192)) s)"

lemma rune_count_append [simp]: "rune_count (s @ t) = rune_count s + rune_count t"
  by (simp add: rune_count_def)

lemma rune_count_le: "rune_count s \<le> length s"
  by (simp add: rune_count_def)

end
