(* ===== verification/Domain.thy ===== *)
theory Domain
  imports Apperror
begin

text \<open>
  internal/core/domain and the request and response types of internal/core/ports: entities as
  records with the fields of the Go structs, the string-typed enumerations as strings with
  their declared constants, the methods on them, the idempotency keys, and the JSON image of
  a transaction that the idempotency log and cache hold.

  A field name carries a prefix for its struct (\<open>tx_\<close>, \<open>w_\<close>, \<open>m_\<close>, \<open>il_\<close>, \<open>al_\<close>, \<open>wl_\<close>),
  since the structs share names such as \<^verbatim>\<open>ID\<close>.
\<close>

section \<open>The uuid package\<close>

text \<open>
  github.com/google/uuid is not part of the repository: its \<^verbatim>\<open>String\<close> and \<^verbatim>\<open>Parse\<close> are
  parameters. What the gateway relies on is documented behaviour of the package: \<^verbatim>\<open>Parse\<close>
  reads back what \<^verbatim>\<open>String\<close> prints, and the text has 36 characters, lower-case hexadecimal
  digits and dashes.
\<close>

record uuid_pkg =
  uuid_String :: "uuid \<Rightarrow> string"
  uuid_Parse :: "string \<Rightarrow> uuid option"

locale uuid_text =
  fixes U :: uuid_pkg
  assumes Parse_String: "uuid_Parse U (uuid_String U u) = Some u"
    and length_String: "length (uuid_String U u) = 36"
    and chars_String: "set (uuid_String U u) \<subseteq> set ''0123456789abcdef-''"
begin

lemma String_inject [simp]: "uuid_String U u = uuid_String U v \<longleftrightarrow> u = v"
  by (metis Parse_String option.inject)

lemma String_no_colon: "CHR '':'' \<notin> set (uuid_String U u)"
  using chars_String [of u] by auto

end

text \<open>The canonical text of RFC 4122, which is what the package prints.\<close>

fun to_nibbles :: "nat \<Rightarrow> nat \<Rightarrow> nat list" where
  "to_nibbles 0 n = []"
| "to_nibbles (Suc k) n = to_nibbles k (n div 16) @ [n mod 16]"

definition of_nibbles :: "nat list \<Rightarrow> nat" where
  "of_nibbles ds = foldl (\<lambda>a d. 16 * a + d) 0 ds"

definition insert_dashes :: "string \<Rightarrow> string" where
  "insert_dashes h = take 8 h @ ''-'' @ take 4 (drop 8 h) @ ''-'' @ take 4 (drop 12 h) @ ''-'' @
     take 4 (drop 16 h) @ ''-'' @ drop 20 h"

definition rfc4122_String :: "uuid \<Rightarrow> string" where
  "rfc4122_String u = insert_dashes (map hex_digit (to_nibbles 32 (unat u)))"

definition rfc4122_Parse :: "string \<Rightarrow> uuid option" where
  "rfc4122_Parse s =
     (let ds = map fromHexChar (filter (\<lambda>c. c \<noteq> CHR ''-'') s)
      in if length s = 36 \<and> length ds = 32 \<and> None \<notin> set ds
         then Some (of_nat (of_nibbles (map the ds))) else None)"

definition rfc4122 :: uuid_pkg where
  "rfc4122 = \<lparr>uuid_String = rfc4122_String, uuid_Parse = rfc4122_Parse\<rparr>"

lemma length_to_nibbles [simp]: "length (to_nibbles k n) = k"
  by (induction k arbitrary: n) auto

lemma to_nibbles_less: "d \<in> set (to_nibbles k n) \<Longrightarrow> d < 16"
  by (induction k arbitrary: n) auto

lemma of_nibbles_to_nibbles: "of_nibbles (to_nibbles k n) = n mod 16 ^ k"
proof (induction k arbitrary: n)
  case 0
  show ?case by (simp add: of_nibbles_def)
next
  case (Suc k)
  have "of_nibbles (to_nibbles (Suc k) n) = 16 * (n div 16 mod 16 ^ k) + n mod 16"
    using Suc by (simp add: of_nibbles_def)
  also have "\<dots> = n mod 16 ^ Suc k"
    by (simp add: mod_mult2_eq)
  finally show ?case .
qed

lemma hex_digit_lower: "d < 16 \<Longrightarrow> hex_digit d \<in> set ''0123456789abcdef''"
proof -
  assume "d < 16"
  then have "d \<in> set [0..<16]" by simp
  moreover have "\<forall>d\<in>set [0..<16]. hex_digit d \<in> set ''0123456789abcdef''" by code_simp
  ultimately show ?thesis by blast
qed

lemma hex_digits_no_dash:
  assumes "\<forall>d\<in>set ds. d < 16"
  shows "filter (\<lambda>c. c \<noteq> CHR ''-'') (map hex_digit ds) = map hex_digit ds"
proof (rule filter_True, rule ballI)
  fix c assume "c \<in> set (map hex_digit ds)"
  with assms have "c \<in> set ''0123456789abcdef''" using hex_digit_lower by auto
  then show "c \<noteq> CHR ''-''" by auto
qed

lemma take_drop_join: "take n (drop m h) @ drop (m + n) h = drop m h"
  by (metis add.commute append_take_drop_id drop_drop)

lemma insert_dashes_join:
  "take 8 h @ take 4 (drop 8 h) @ take 4 (drop 12 h) @ take 4 (drop 16 h) @ drop 20 h = h"
  using take_drop_join [of 8 0 h] take_drop_join [of 4 8 h] take_drop_join [of 4 12 h]
    take_drop_join [of 4 16 h] by simp

lemma filter_insert_dashes:
  assumes "\<forall>c\<in>set h. c \<noteq> CHR ''-''"
  shows "filter (\<lambda>c. c \<noteq> CHR ''-'') (insert_dashes h) = h"
proof -
  have *: "filter (\<lambda>c. c \<noteq> CHR ''-'') xs = xs" if "set xs \<subseteq> set h" for xs
    using that assms by (simp add: subset_iff)
  have sub: "set (take n (drop m h)) \<subseteq> set h" "set (drop m h) \<subseteq> set h" "set (take n h) \<subseteq> set h" for n m
    by (meson set_drop_subset set_take_subset subset_trans)+
  have "filter (\<lambda>c. c \<noteq> CHR ''-'') (insert_dashes h) =
      take 8 h @ take 4 (drop 8 h) @ take 4 (drop 12 h) @ take 4 (drop 16 h) @ drop 20 h"
    by (simp add: insert_dashes_def * sub)
  then show ?thesis by (simp only: insert_dashes_join)
qed

lemma rfc4122_chars: "set (rfc4122_String u) \<subseteq> set ''0123456789abcdef-''"
proof
  fix c assume "c \<in> set (rfc4122_String u)"
  then consider "c = CHR ''-''" | "c \<in> set (map hex_digit (to_nibbles 32 (unat u)))"
    by (auto simp: rfc4122_String_def insert_dashes_def simp del: set_map
        dest: in_set_takeD in_set_dropD)
  then show "c \<in> set ''0123456789abcdef-''"
  proof cases
    case 2
    then obtain d where "d \<in> set (to_nibbles 32 (unat u))" and c: "c = hex_digit d" by auto
    then have "d < 16" using to_nibbles_less by blast
    then have "c \<in> set ''0123456789abcdef''" unfolding c by (rule hex_digit_lower)
    then show ?thesis by auto
  qed simp
qed

lemma rfc4122_Parse_String: "rfc4122_Parse (rfc4122_String u) = Some u"
proof -
  let ?ds = "to_nibbles 32 (unat u)"
  have nd: "\<forall>c\<in>set (map hex_digit ?ds). c \<noteq> CHR ''-''"
    using hex_digit_lower to_nibbles_less [of _ 32 "unat u"] by fastforce
  have f: "filter (\<lambda>c. c \<noteq> CHR ''-'') (rfc4122_String u) = map hex_digit ?ds"
    unfolding rfc4122_String_def by (rule filter_insert_dashes [OF nd])
  have m: "map fromHexChar (map hex_digit ?ds) = map Some ?ds"
    using to_nibbles_less [of _ 32 "unat u"] by simp
  have l: "length (rfc4122_String u) = 36"
    by (simp add: rfc4122_String_def insert_dashes_def)
  have "unat u < 2 ^ 128" using unsigned_less [of u, where ?'a = nat] by simp
  then have "of_nibbles ?ds = unat u" by (simp add: of_nibbles_to_nibbles)
  then show ?thesis
    unfolding rfc4122_Parse_def Let_def f m l by (simp add: comp_def)
qed

lemma length_rfc4122_String: "length (rfc4122_String u) = 36"
  by (simp add: rfc4122_String_def insert_dashes_def)

interpretation rfc: uuid_text rfc4122
  unfolding rfc4122_def
  by unfold_locales (simp_all only: uuid_pkg.simps rfc4122_Parse_String length_rfc4122_String rfc4122_chars)

section \<open>Entities\<close>

type_synonym TransactionType = string
type_synonym TransactionStatus = string
type_synonym MerchantStatus = string
type_synonym WebhookStatus = string
type_synonym AuditAction = string

abbreviation TransactionTypePayment :: TransactionType where "TransactionTypePayment \<equiv> ''PAYMENT''"
abbreviation TransactionTypeRefund :: TransactionType where "TransactionTypeRefund \<equiv> ''REFUND''"
abbreviation TransactionTypeTopup :: TransactionType where "TransactionTypeTopup \<equiv> ''TOPUP''"

abbreviation TransactionStatusPending :: TransactionStatus where "TransactionStatusPending \<equiv> ''PENDING''"
abbreviation TransactionStatusSuccess :: TransactionStatus where "TransactionStatusSuccess \<equiv> ''SUCCESS''"
abbreviation TransactionStatusFailed :: TransactionStatus where "TransactionStatusFailed \<equiv> ''FAILED''"
abbreviation TransactionStatusReversed :: TransactionStatus where "TransactionStatusReversed \<equiv> ''REVERSED''"

record Transaction =
  tx_ID :: uuid
  tx_ReferenceID :: string
  tx_MerchantID :: uuid
  tx_WalletID :: uuid
  tx_Amount :: int64
  tx_AmountEncrypted :: string
  tx_TransactionType :: TransactionType
  tx_Status :: TransactionStatus
  tx_Signature :: string
  tx_ClientIP :: string
  tx_ExtraData :: "string option"
  tx_OriginalTransactionID :: "uuid option"
  tx_CreatedAt :: time
  tx_ProcessedAt :: "time option"

definition IsTerminal :: "Transaction \<Rightarrow> bool" where
  "IsTerminal t \<longleftrightarrow> tx_Status t = TransactionStatusSuccess \<or>
     tx_Status t = TransactionStatusFailed \<or> tx_Status t = TransactionStatusReversed"

definition IsRefundable :: "Transaction \<Rightarrow> bool" where
  "IsRefundable t \<longleftrightarrow> tx_TransactionType t = TransactionTypePayment \<and>
     tx_Status t = TransactionStatusSuccess"

record Wallet =
  w_ID :: uuid
  w_MerchantID :: uuid
  w_Currency :: string
  w_EncryptedBalance :: string
  w_LastAuditHash :: "string option"
  w_CreatedAt :: time
  w_UpdatedAt :: time

abbreviation MerchantStatusActive :: MerchantStatus where "MerchantStatusActive \<equiv> ''ACTIVE''"
abbreviation MerchantStatusSuspended :: MerchantStatus where "MerchantStatusSuspended \<equiv> ''SUSPENDED''"
abbreviation MerchantStatusDeactivated :: MerchantStatus where "MerchantStatusDeactivated \<equiv> ''DEACTIVATED''"

record Merchant =
  m_ID :: uuid
  m_Username :: string
  m_PasswordHash :: string
  m_MerchantName :: string
  m_AccessKey :: string
  m_SecretKeyEnc :: string
  m_WebhookURL :: "string option"
  m_Status :: MerchantStatus
  m_CreatedAt :: time
  m_UpdatedAt :: time

definition IsActive :: "Merchant \<Rightarrow> bool" where
  "IsActive m \<longleftrightarrow> m_Status m = MerchantStatusActive"

abbreviation AuditActionPayment :: AuditAction where "AuditActionPayment \<equiv> ''PAYMENT''"
abbreviation AuditActionRefund :: AuditAction where "AuditActionRefund \<equiv> ''REFUND''"
abbreviation AuditActionTopup :: AuditAction where "AuditActionTopup \<equiv> ''TOPUP''"
abbreviation AuditActionRegister :: AuditAction where "AuditActionRegister \<equiv> ''REGISTER''"
abbreviation AuditActionLogin :: AuditAction where "AuditActionLogin \<equiv> ''LOGIN''"
abbreviation AuditActionRotateKeys :: AuditAction where "AuditActionRotateKeys \<equiv> ''ROTATE_KEYS''"
abbreviation AuditActionUpdateWebhook :: AuditAction where "AuditActionUpdateWebhook \<equiv> ''UPDATE_WEBHOOK''"

record AuditLog =
  al_ID :: uuid
  al_MerchantID :: "uuid option"
  al_Action :: AuditAction
  al_ResourceType :: string
  al_ResourceID :: string
  al_Details :: "string \<times> string \<times> int"
  al_IPAddress :: string
  al_CreatedAt :: time

section \<open>Idempotency keys\<close>

definition BuildIdempotencyKey :: "uuid_pkg \<Rightarrow> uuid \<Rightarrow> string \<Rightarrow> string" where
  "BuildIdempotencyKey U merchantID referenceID = uuid_String U merchantID @ '':'' @ referenceID"

definition BuildRefundIdempotencyKey :: "uuid_pkg \<Rightarrow> uuid \<Rightarrow> string \<Rightarrow> string" where
  "BuildRefundIdempotencyKey U merchantID originalReferenceID =
     uuid_String U merchantID @ '':refund:'' @ originalReferenceID"

context uuid_text
begin

lemma BuildIdempotencyKey_inject:
  "BuildIdempotencyKey U m r = BuildIdempotencyKey U m' r' \<longleftrightarrow> m = m' \<and> r = r'"
  by (simp add: BuildIdempotencyKey_def append_eq_sep String_no_colon)

lemma BuildRefundIdempotencyKey_inject:
  "BuildRefundIdempotencyKey U m r = BuildRefundIdempotencyKey U m' r' \<longleftrightarrow> m = m' \<and> r = r'"
  by (simp add: BuildRefundIdempotencyKey_def append_eq_sep String_no_colon)

text \<open>A payment key equals a refund key only for a reference that starts with \<^verbatim>\<open>refund:\<close>.\<close>

lemma payment_key_eq_refund_key:
  "BuildIdempotencyKey U m r = BuildRefundIdempotencyKey U m' r' \<longleftrightarrow> m = m' \<and> r = ''refund:'' @ r'"
  by (simp add: BuildIdempotencyKey_def BuildRefundIdempotencyKey_def append_eq_sep String_no_colon)

end

section \<open>Port types\<close>

record PaymentRequest =
  pq_MerchantID :: uuid
  pq_ReferenceID :: string
  pq_Amount :: int64
  pq_Currency :: string
  pq_Signature :: string
  pq_ClientIP :: string
  pq_ExtraData :: "string option"

record RefundRequest =
  rq_MerchantID :: uuid
  rq_OriginalReferenceID :: string
  rq_Amount :: "int64 option"
  rq_Reason :: string
  rq_Signature :: string
  rq_ClientIP :: string

record TopupRequest =
  tq_MerchantID :: uuid
  tq_Amount :: int64
  tq_Currency :: string

section \<open>JSON image of a transaction\<close>

text \<open>
  The bytes stored in the idempotency log and in the cache are represented by the JSON value
  they denote; bytes that are no JSON text are \<open>NotJson\<close>. A timestamp, which
  \<^verbatim>\<open>encoding/json\<close> prints in RFC 3339 form, is represented by its instant.
\<close>

datatype json =
    JNull
  | JNum int
  | JStr string
  | JTime time
  | JObj "(string \<times> json) list"
  | NotJson

record IdempotencyLog =
  il_Key :: string
  il_TransactionID :: uuid
  il_ResponseJSON :: json
  il_CreatedAt :: time

abbreviation WebhookStatusPending :: WebhookStatus where "WebhookStatusPending \<equiv> ''PENDING''"
abbreviation WebhookStatusDelivered :: WebhookStatus where "WebhookStatusDelivered \<equiv> ''DELIVERED''"
abbreviation WebhookStatusFailed :: WebhookStatus where "WebhookStatusFailed \<equiv> ''FAILED''"

record WebhookDeliveryLog =
  wl_ID :: uuid
  wl_TransactionID :: uuid
  wl_MerchantID :: uuid
  wl_WebhookURL :: string
  wl_Payload :: json
  wl_HTTPStatus :: "int option"
  wl_Attempt :: nat
  wl_Status :: WebhookStatus
  wl_NextRetryAt :: "time option"
  wl_LastError :: "string option"
  wl_CreatedAt :: time
  wl_UpdatedAt :: time

text \<open>\<^verbatim>\<open>json.Marshal(txn)\<close>: fields tagged \<^verbatim>\<open>"-"\<close> are dropped, empty \<^verbatim>\<open>omitempty\<close> fields left out.\<close>

definition marshal_Transaction :: "uuid_pkg \<Rightarrow> Transaction \<Rightarrow> json" where
  "marshal_Transaction U t = JObj (
     [(''id'', JStr (uuid_String U (tx_ID t))),
      (''reference_id'', JStr (tx_ReferenceID t)),
      (''merchant_id'', JStr (uuid_String U (tx_MerchantID t))),
      (''wallet_id'', JStr (uuid_String U (tx_WalletID t))),
      (''amount'', JNum (sint (tx_Amount t))),
      (''transaction_type'', JStr (tx_TransactionType t)),
      (''status'', JStr (tx_Status t))] @
     (if tx_ClientIP t = [] then [] else [(''client_ip'', JStr (tx_ClientIP t))]) @
     (case tx_ExtraData t of None \<Rightarrow> [] | Some x \<Rightarrow> [(''extra_data'', JStr x)]) @
     (case tx_OriginalTransactionID t of None \<Rightarrow> []
        | Some u \<Rightarrow> [(''original_transaction_id'', JStr (uuid_String U u))]) @
     [(''created_at'', JTime (tx_CreatedAt t))] @
     (case tx_ProcessedAt t of None \<Rightarrow> [] | Some p \<Rightarrow> [(''processed_at'', JTime p)]))"

text \<open>The zero \<^verbatim>\<open>time.Time\<close>, 1 January of year 1.\<close>

definition zero_time :: time where
  "zero_time = - 62135596800 * 1000000"

text \<open>
  Decoding one field into a Go variable: an absent key or \<^verbatim>\<open>null\<close> leaves the zero value, a
  value of another type is an error.
\<close>

definition json_type_error :: error where
  "json_type_error = Plain ''json: cannot unmarshal value''"

definition json_field :: "(string \<times> json) list \<Rightarrow> string \<Rightarrow> 'a \<Rightarrow> (json \<Rightarrow> 'a option) \<Rightarrow> 'a result" where
  "json_field fs k zero dec =
     (case map_of fs k of
        None \<Rightarrow> Inr zero
      | Some JNull \<Rightarrow> Inr zero
      | Some v \<Rightarrow> needE json_type_error (dec v))"

fun dec_string :: "json \<Rightarrow> string option" where
  "dec_string (JStr s) = Some s"
| "dec_string _ = None"

fun dec_uuid :: "uuid_pkg \<Rightarrow> json \<Rightarrow> uuid option" where
  "dec_uuid U (JStr s) = uuid_Parse U s"
| "dec_uuid U _ = None"

fun dec_int64 :: "json \<Rightarrow> int64 option" where
  "dec_int64 (JNum n) = (if - (2 ^ 63) \<le> n \<and> n < 2 ^ 63 then Some (word_of_int n) else None)"
| "dec_int64 _ = None"

fun dec_time :: "json \<Rightarrow> time option" where
  "dec_time (JTime t) = Some t"
| "dec_time _ = None"

fun unmarshal_Transaction :: "uuid_pkg \<Rightarrow> json \<Rightarrow> Transaction result" where
  "unmarshal_Transaction U (JObj fs) =
     bindE (json_field fs ''id'' 0 (dec_uuid U)) (\<lambda>i.
     bindE (json_field fs ''reference_id'' [] dec_string) (\<lambda>r.
     bindE (json_field fs ''merchant_id'' 0 (dec_uuid U)) (\<lambda>m.
     bindE (json_field fs ''wallet_id'' 0 (dec_uuid U)) (\<lambda>w.
     bindE (json_field fs ''amount'' 0 dec_int64) (\<lambda>a.
     bindE (json_field fs ''transaction_type'' [] dec_string) (\<lambda>ty.
     bindE (json_field fs ''status'' [] dec_string) (\<lambda>st.
     bindE (json_field fs ''client_ip'' [] dec_string) (\<lambda>ip.
     bindE (json_field fs ''extra_data'' None (\<lambda>v. map_option Some (dec_string v))) (\<lambda>ex.
     bindE (json_field fs ''original_transaction_id'' None (\<lambda>v. map_option Some (dec_uuid U v))) (\<lambda>oi.
     bindE (json_field fs ''created_at'' zero_time dec_time) (\<lambda>c.
     bindE (json_field fs ''processed_at'' None (\<lambda>v. map_option Some (dec_time v))) (\<lambda>p.
     Inr \<lparr>tx_ID = i, tx_ReferenceID = r, tx_MerchantID = m, tx_WalletID = w, tx_Amount = a,
          tx_AmountEncrypted = [], tx_TransactionType = ty, tx_Status = st, tx_Signature = [],
          tx_ClientIP = ip, tx_ExtraData = ex, tx_OriginalTransactionID = oi,
          tx_CreatedAt = c, tx_ProcessedAt = p\<rparr>))))))))))))"
| "unmarshal_Transaction U JNull =
     Inr \<lparr>tx_ID = 0, tx_ReferenceID = [], tx_MerchantID = 0, tx_WalletID = 0, tx_Amount = 0,
          tx_AmountEncrypted = [], tx_TransactionType = [], tx_Status = [], tx_Signature = [],
          tx_ClientIP = [], tx_ExtraData = None, tx_OriginalTransactionID = None,
          tx_CreatedAt = zero_time, tx_ProcessedAt = None\<rparr>"
| "unmarshal_Transaction U NotJson = Inl (Plain ''invalid character'')"
| "unmarshal_Transaction U _ = Inl json_type_error"

text \<open>What of a transaction survives the JSON image: everything but the two \<^verbatim>\<open>"-"\<close> fields.\<close>

definition json_visible :: "Transaction \<Rightarrow> Transaction" where
  "json_visible t = t\<lparr>tx_AmountEncrypted := [], tx_Signature := []\<rparr>"

lemma dec_int64_sint [simp]: "dec_int64 (JNum (sint a)) = Some a"
  using sint64_bounds [of a] by simp

context uuid_text
begin

lemma unmarshal_marshal: "unmarshal_Transaction U (marshal_Transaction U t) = Inr (json_visible t)"
  by (cases t)
    (simp add: marshal_Transaction_def json_visible_def json_field_def Parse_String
      dec_int64_sint del: dec_int64.simps split: option.split)

end

end
