(* ===== verification/Runtime.thy ===== *)
theory Runtime
  imports Domain
begin

text \<open>
  What one call of a service observes of its surroundings: the clock, the UUIDs and random
  bytes it draws, and which of its calls to PostgreSQL and Redis fail in transport. All of it
  is an argument of the model, so a theorem that quantifies over it holds for every clock,
  every draw and every pattern of failures.
\<close>

section \<open>Call sites\<close>

text \<open>One constructor per external call of the services, so that each can fail on its own.\<close>

datatype site =
    S_Cache_Get | S_Cache_Set | S_Nonce_CheckAndSet | S_RateLimit_Incr | S_RateLimit_Expire
  | S_Idemp_Get | S_Idemp_Create
  | S_Begin | S_Commit
  | S_Wallet_Lock | S_Wallet_UpdateBalance | S_Wallet_Create | S_Wallet_Get
  | S_Tx_GetByReference | S_Tx_CheckRefundExists | S_Tx_Create | S_Tx_UpdateStatus
  | S_Tx_List_Count | S_Tx_List_Query | S_Tx_GetStats
  | S_Merchant_Get | S_Merchant_Create | S_Merchant_Update
  | S_Rand nat
  | S_Body_Read
  | S_Token_Sign
  | S_Ping nat

record env =
  ev_now :: time
  ev_db_now :: time
  ev_uuid :: "nat \<Rightarrow> uuid"
  ev_rand :: "nat \<Rightarrow> nat \<Rightarrow> byte"
  ev_fault :: "site \<Rightarrow> error option"
  ev_commit_applied :: bool

text \<open>
  \<open>ev_uuid e i\<close> is the \<open>i\<close>-th UUID the call draws, \<open>ev_rand e i j\<close> the \<open>j\<close>-th byte of its
  \<open>i\<close>-th random draw. When \<^verbatim>\<open>COMMIT\<close> fails in transport the transaction may or may not
  have been applied: \<open>ev_commit_applied\<close> says which.
\<close>

definition rand_draw :: "env \<Rightarrow> nat \<Rightarrow> (nat \<Rightarrow> byte) result" where
  "rand_draw e i = (case ev_fault e (S_Rand i) of Some err \<Rightarrow> Inl err | None \<Rightarrow> Inr (ev_rand e i))"

text \<open>\<^verbatim>\<open>io.ReadFull(rand.Reader, b)\<close> and \<^verbatim>\<open>rand.Read(b)\<close> for a buffer of \<open>n\<close> bytes.\<close>

definition read_full :: "nat \<Rightarrow> (nat \<Rightarrow> byte) result \<Rightarrow> byte list result" where
  "read_full n r = bindE r (\<lambda>f. Inr (map f [0..<n]))"

lemma read_full_Inr: "read_full n r = Inr bs \<Longrightarrow> length bs = n"
  by (auto simp: read_full_def res_simps)

definition no_faults :: "env \<Rightarrow> bool" where
  "no_faults e \<longleftrightarrow> ev_fault e = (\<lambda>_. None)"

section \<open>Clock readings\<close>

definition Unix :: "time \<Rightarrow> int" where
  "Unix t = t div 1000000"

definition UnixMilli :: "time \<Rightarrow> int" where
  "UnixMilli t = t div 1000"

section \<open>EncryptionService port\<close>

text \<open>
  \<open>Encrypt svc r p\<close> encrypts \<open>p\<close> with the random draw \<open>r\<close>. The contract of the port: what
  \<^verbatim>\<open>Encrypt\<close> returned, \<^verbatim>\<open>Decrypt\<close> turns back into the plaintext.
\<close>

record EncryptionService =
  Encrypt :: "(nat \<Rightarrow> byte) result \<Rightarrow> string \<Rightarrow> string result"
  Decrypt :: "string \<Rightarrow> string result"

locale encryption_service =
  fixes encSvc :: EncryptionService
  assumes decrypt_encrypt: "Encrypt encSvc r p = Inr c \<Longrightarrow> Decrypt encSvc c = Inr p"
begin

lemma encrypt_inject:
  assumes "Encrypt encSvc r p = Inr c" and "Encrypt encSvc r' p' = Inr c"
  shows "p = p'"
  using assms decrypt_encrypt by (metis sum.inject(2))

text \<open>An amount written with \<^verbatim>\<open>FormatInt\<close> and encrypted is read back by decrypting and parsing.\<close>

lemma amount_roundtrip:
  assumes "Encrypt encSvc r (FormatInt i) = Inr c"
  shows "bindE (Decrypt encSvc c) ParseIntE = Inr i"
  using decrypt_encrypt [OF assms] by simp

end

section \<open>SignatureService port\<close>

record SignatureService =
  Sign :: "string \<Rightarrow> string \<Rightarrow> string"
  Verify :: "string \<Rightarrow> string \<Rightarrow> string \<Rightarrow> bool"

locale signature_service =
  fixes sigSvc :: SignatureService
  assumes verify_iff: "Verify sigSvc k p s \<longleftrightarrow> s = Sign sigSvc k p"
begin

lemma verify_sign [simp]: "Verify sigSvc k p (Sign sigSvc k p)"
  by (simp add: verify_iff)

lemma verify_unique:
  assumes "Verify sigSvc k p s" and "Verify sigSvc k p s'"
  shows "s = s'"
  using assms by (simp add: verify_iff)

end

end
