(* ===== verification/Postgres.thy ===== *)
theory Postgres
  imports Runtime
begin

text \<open>
  internal/adapter/storage/postgres over the schema of db/migrations/001_init_schema.up.sql. The
  database is a record of tables; an INSERT checks the primary keys, the UNIQUE and FOREIGN KEY
  constraints and the VARCHAR and DECIMAL limits of the schema, a query that scans one row
  returns the first matching row, and an UPDATE maps the matching rows. The first argument
  of an operation is the transport error its statement meets, if any.

  A transaction works on a private copy of the database (\<open>Transactor_Begin\<close>) that replaces
  the database on commit (\<open>tx_Commit\<close>) and is dropped by the deferred rollback.
\<close>

record db =
  merchants :: "Merchant list"
  wallets :: "Wallet list"
  transactions :: "Transaction list"
  idempotency_logs :: "IdempotencyLog list"
  webhook_delivery_logs :: "WebhookDeliveryLog list"
  audit_logs :: "AuditLog list"

definition empty_db :: db where
  "empty_db = \<lparr>merchants = [], wallets = [], transactions = [], idempotency_logs = [],
     webhook_delivery_logs = [], audit_logs = []\<rparr>"

text \<open>The constraints of an INSERT, each with the message of its violation.\<close>

fun check_all :: "(bool \<times> string) list \<Rightarrow> unit result" where
  "check_all [] = Inr ()"
| "check_all ((ok, msg) # cs) = (if ok then check_all cs else Inl (Plain msg))"

lemma check_all_Inr [res_simps]: "check_all cs = Inr u \<longleftrightarrow> (\<forall>(ok, msg)\<in>set cs. ok)"
  by (induction cs rule: check_all.induct) auto

section \<open>transactor.go\<close>

definition Transactor_Begin :: "error option \<Rightarrow> db \<Rightarrow> db result" where
  "Transactor_Begin f d = callE f (Inr d)"

definition tx_Commit :: "env \<Rightarrow> db \<Rightarrow> db \<Rightarrow> unit result \<times> db" where
  "tx_Commit e tx d =
     (case ev_fault e S_Commit of
        None \<Rightarrow> (Inr (), tx)
      | Some err \<Rightarrow> (Inl err, if ev_commit_applied e then tx else d))"

section \<open>merchant_repo.go\<close>

definition merchants_constraints :: "Merchant \<Rightarrow> db \<Rightarrow> (bool \<times> string) list" where
  "merchants_constraints m d =
     [(m_ID m \<notin> m_ID ` set (merchants d), ''merchants_pkey''),
      (m_Username m \<notin> m_Username ` set (merchants d), ''merchants_username_key''),
      (m_AccessKey m \<notin> m_AccessKey ` set (merchants d), ''merchants_access_key_key''),
      (rune_count (m_Username m) \<le> 50, ''value too long for type character varying(50)''),
      (rune_count (m_PasswordHash m) \<le> 255, ''value too long for type character varying(255)''),
      (rune_count (m_MerchantName m) \<le> 100, ''value too long for type character varying(100)''),
      (rune_count (m_AccessKey m) \<le> 64, ''value too long for type character varying(64)''),
      (rune_count (m_Status m) \<le> 20, ''value too long for type character varying(20)'')]"

definition MerchantRepo_Create :: "error option \<Rightarrow> Merchant \<Rightarrow> db \<Rightarrow> db result" where
  "MerchantRepo_Create f m d =
     wrapE (Wrapf ''insert merchant'') (callE f
       (bindE (check_all (merchants_constraints m d)) (\<lambda>_.
        Inr (d\<lparr>merchants := merchants d @ [m]\<rparr>))))"

definition MerchantRepo_GetByID :: "error option \<Rightarrow> uuid \<Rightarrow> db \<Rightarrow> Merchant option result" where
  "MerchantRepo_GetByID f i d =
     wrapE (Wrapf ''get merchant by id'') (callE f (Inr (row_where (\<lambda>m. m_ID m = i) (merchants d))))"

definition MerchantRepo_GetByAccessKey :: "error option \<Rightarrow> string \<Rightarrow> db \<Rightarrow> Merchant option result" where
  "MerchantRepo_GetByAccessKey f k d =
     wrapE (Wrapf ''get merchant by access_key'')
       (callE f (Inr (row_where (\<lambda>m. m_AccessKey m = k) (merchants d))))"

definition MerchantRepo_GetByUsername :: "error option \<Rightarrow> string \<Rightarrow> db \<Rightarrow> Merchant option result" where
  "MerchantRepo_GetByUsername f u d =
     wrapE (Wrapf ''get merchant by username'')
       (callE f (Inr (row_where (\<lambda>m. m_Username m = u) (merchants d))))"

text \<open>
  \<^verbatim>\<open>UPDATE merchants SET ... WHERE id = $6\<close>. It affects no row when the id is absent, which
  is no error; the UNIQUE constraint on access keys is checked against the other rows.
\<close>

definition MerchantRepo_Update :: "error option \<Rightarrow> time \<Rightarrow> Merchant \<Rightarrow> db \<Rightarrow> db result" where
  "MerchantRepo_Update f db_now m d =
     wrapE (Wrapf ''update merchant'') (callE f
       (if m_ID m \<notin> m_ID ` set (merchants d) then Inr d
        else bindE (check_all
          [(m_AccessKey m \<notin> m_AccessKey ` {r \<in> set (merchants d). m_ID r \<noteq> m_ID m}, ''merchants_access_key_key''),
           (rune_count (m_MerchantName m) \<le> 100, ''value too long for type character varying(100)''),
           (rune_count (m_AccessKey m) \<le> 64, ''value too long for type character varying(64)''),
           (rune_count (m_Status m) \<le> 20, ''value too long for type character varying(20)'')]) (\<lambda>_.
        Inr (d\<lparr>merchants := rows_update (\<lambda>r. m_ID r = m_ID m)
          (\<lambda>r. r\<lparr>m_MerchantName := m_MerchantName m, m_WebhookURL := m_WebhookURL m,
                 m_AccessKey := m_AccessKey m, m_SecretKeyEnc := m_SecretKeyEnc m,
                 m_Status := m_Status m, m_UpdatedAt := db_now\<rparr>) (merchants d)\<rparr>))))"

section \<open>wallet_repo.go\<close>

definition wallets_constraints :: "Wallet \<Rightarrow> db \<Rightarrow> (bool \<times> string) list" where
  "wallets_constraints w d =
     [(w_ID w \<notin> w_ID ` set (wallets d), ''wallets_pkey''),
      (w_MerchantID w \<in> m_ID ` set (merchants d), ''wallets_merchant_id_fkey''),
      (rune_count (w_Currency w) \<le> 3, ''value too long for type character varying(3)''),
      (case w_LastAuditHash w of None \<Rightarrow> True | Some h \<Rightarrow> rune_count h \<le> 64,
         ''value too long for type character varying(64)'')]"

definition WalletRepo_Create :: "error option \<Rightarrow> Wallet \<Rightarrow> db \<Rightarrow> db result" where
  "WalletRepo_Create f w d =
     wrapE (Wrapf ''insert wallet'') (callE f
       (bindE (check_all (wallets_constraints w d)) (\<lambda>_.
        Inr (d\<lparr>wallets := wallets d @ [w]\<rparr>))))"

definition WalletRepo_GetByID :: "error option \<Rightarrow> uuid \<Rightarrow> db \<Rightarrow> Wallet option result" where
  "WalletRepo_GetByID f i d =
     wrapE (Wrapf ''get wallet by id'') (callE f (Inr (row_where (\<lambda>w. w_ID w = i) (wallets d))))"

definition WalletRepo_GetByMerchantID :: "error option \<Rightarrow> uuid \<Rightarrow> string \<Rightarrow> db \<Rightarrow> Wallet option result" where
  "WalletRepo_GetByMerchantID f m c d =
     wrapE (Wrapf ''get wallet by merchant id'')
       (callE f (Inr (row_where (\<lambda>w. w_MerchantID w = m \<and> w_Currency w = c) (wallets d))))"

definition WalletRepo_GetByMerchantIDForUpdate ::
    "error option \<Rightarrow> uuid \<Rightarrow> string \<Rightarrow> db \<Rightarrow> Wallet option result" where
  "WalletRepo_GetByMerchantIDForUpdate f m c tx =
     wrapE (Wrapf ''get wallet for update by merchant'')
       (callE f (Inr (row_where (\<lambda>w. w_MerchantID w = m \<and> w_Currency w = c) (wallets tx))))"

definition WalletRepo_GetByIDForUpdate :: "error option \<Rightarrow> uuid \<Rightarrow> db \<Rightarrow> Wallet option result" where
  "WalletRepo_GetByIDForUpdate f i tx =
     wrapE (Wrapf ''get wallet for update by id'') (callE f (Inr (row_where (\<lambda>w. w_ID w = i) (wallets tx))))"

definition WalletRepo_UpdateBalance ::
    "uuid_pkg \<Rightarrow> error option \<Rightarrow> time \<Rightarrow> uuid \<Rightarrow> string \<Rightarrow> db \<Rightarrow> db result" where
  "WalletRepo_UpdateBalance U f db_now walletID encryptedBalance tx =
     bindE (wrapE (Wrapf ''update wallet balance'') (callE f (Inr ()))) (\<lambda>_.
     bindE (failIf (rows_count (\<lambda>w. w_ID w = walletID) (wallets tx) = 0)
              (Plain (''wallet not found: '' @ uuid_String U walletID))) (\<lambda>_.
     Inr (tx\<lparr>wallets := rows_update (\<lambda>w. w_ID w = walletID)
       (\<lambda>w. w\<lparr>w_EncryptedBalance := encryptedBalance, w_UpdatedAt := db_now\<rparr>) (wallets tx)\<rparr>)))"

section \<open>transaction_repo.go\<close>

definition transactions_constraints :: "Transaction \<Rightarrow> db \<Rightarrow> (bool \<times> string) list" where
  "transactions_constraints t d =
     [(tx_ID t \<notin> tx_ID ` set (transactions d), ''transactions_pkey''),
      (tx_MerchantID t \<in> m_ID ` set (merchants d), ''transactions_merchant_id_fkey''),
      (tx_WalletID t \<in> w_ID ` set (wallets d), ''transactions_wallet_id_fkey''),
      (case tx_OriginalTransactionID t of None \<Rightarrow> True
         | Some i \<Rightarrow> i \<in> insert (tx_ID t) (tx_ID ` set (transactions d)),
         ''transactions_original_transaction_id_fkey''),
      (rune_count (tx_ReferenceID t) \<le> 100, ''value too long for type character varying(100)''),
      (\<bar>sint (tx_Amount t)\<bar> < 10 ^ 18, ''numeric field overflow''),
      (rune_count (tx_TransactionType t) \<le> 20, ''value too long for type character varying(20)''),
      (rune_count (tx_Status t) \<le> 20, ''value too long for type character varying(20)''),
      (rune_count (tx_Signature t) \<le> 255, ''value too long for type character varying(255)''),
      (rune_count (tx_ClientIP t) \<le> 45, ''value too long for type character varying(45)'')]"

definition TransactionRepo_Create :: "error option \<Rightarrow> Transaction \<Rightarrow> db \<Rightarrow> db result" where
  "TransactionRepo_Create f t tx =
     wrapE (Wrapf ''insert transaction'') (callE f
       (bindE (check_all (transactions_constraints t tx)) (\<lambda>_.
        Inr (tx\<lparr>transactions := transactions tx @ [t]\<rparr>))))"

text \<open>
  A row that is scanned is an error of the query, no row (\<^verbatim>\<open>pgx.ErrNoRows\<close>, which is no error to the
  caller), or a row.
\<close>

definition scanTransaction :: "Transaction option result \<Rightarrow> Transaction option result" where
  "scanTransaction row =
     (case row of Inl err \<Rightarrow> Inl (Wrapf ''scan transaction'' err) | Inr None \<Rightarrow> Inr None | Inr (Some t) \<Rightarrow> Inr (Some t))"

lemma scanTransaction_wrap [simp]: "scanTransaction row = wrapE (Wrapf ''scan transaction'') row"
  by (simp add: scanTransaction_def wrapE_def split: sum.splits option.splits)

definition TransactionRepo_GetByID :: "error option \<Rightarrow> uuid \<Rightarrow> db \<Rightarrow> Transaction option result" where
  "TransactionRepo_GetByID f i d = scanTransaction (callE f (Inr (row_where (\<lambda>t. tx_ID t = i) (transactions d))))"

definition TransactionRepo_GetByReference ::
    "error option \<Rightarrow> uuid \<Rightarrow> string \<Rightarrow> db \<Rightarrow> Transaction option result" where
  "TransactionRepo_GetByReference f m r d =
     scanTransaction (callE f (Inr (row_where (\<lambda>t. tx_MerchantID t = m \<and> tx_ReferenceID t = r) (transactions d))))"

definition TransactionRepo_UpdateStatus ::
    "uuid_pkg \<Rightarrow> error option \<Rightarrow> time \<Rightarrow> uuid \<Rightarrow> TransactionStatus \<Rightarrow> db \<Rightarrow> db result" where
  "TransactionRepo_UpdateStatus U f now i status tx =
     bindE (wrapE (Wrapf ''update transaction status'') (callE f
       (check_all [(rows_count (\<lambda>t. tx_ID t = i) (transactions tx) = 0 \<or> rune_count status \<le> 20,
                    ''value too long for type character varying(20)'')]))) (\<lambda>_.
     bindE (failIf (rows_count (\<lambda>t. tx_ID t = i) (transactions tx) = 0)
              (Plain (''transaction not found: '' @ uuid_String U i))) (\<lambda>_.
     Inr (tx\<lparr>transactions := rows_update (\<lambda>t. tx_ID t = i)
       (\<lambda>t. t\<lparr>tx_Status := status, tx_ProcessedAt := Some now\<rparr>) (transactions tx)\<rparr>)))"

definition is_live_refund_of :: "uuid \<Rightarrow> Transaction \<Rightarrow> bool" where
  "is_live_refund_of i t \<longleftrightarrow> tx_OriginalTransactionID t = Some i \<and>
     tx_TransactionType t = ''REFUND'' \<and> tx_Status t \<noteq> ''FAILED''"

definition TransactionRepo_CheckRefundExists :: "error option \<Rightarrow> uuid \<Rightarrow> db \<Rightarrow> bool result" where
  "TransactionRepo_CheckRefundExists f i d =
     wrapE (Wrapf ''check refund exists'') (callE f (Inr (list_ex (is_live_refund_of i) (transactions d))))"

section \<open>idempotency_repo.go\<close>

definition idempotency_constraints :: "IdempotencyLog \<Rightarrow> db \<Rightarrow> (bool \<times> string) list" where
  "idempotency_constraints l d =
     [(il_Key l \<notin> il_Key ` set (idempotency_logs d), ''idempotency_logs_pkey''),
      (il_TransactionID l \<in> tx_ID ` set (transactions d), ''idempotency_logs_transaction_id_fkey''),
      (rune_count (il_Key l) \<le> 255, ''value too long for type character varying(255)'')]"

definition IdempotencyRepo_Create :: "error option \<Rightarrow> IdempotencyLog \<Rightarrow> db \<Rightarrow> db result" where
  "IdempotencyRepo_Create f l tx =
     wrapE (Wrapf ''insert idempotency log'') (callE f
       (bindE (check_all (idempotency_constraints l tx)) (\<lambda>_.
        Inr (tx\<lparr>idempotency_logs := idempotency_logs tx @ [l]\<rparr>))))"

definition IdempotencyRepo_Get :: "error option \<Rightarrow> string \<Rightarrow> db \<Rightarrow> IdempotencyLog option result" where
  "IdempotencyRepo_Get f k d =
     wrapE (Wrapf ''get idempotency log'')
       (callE f (Inr (row_where (\<lambda>l. il_Key l = k) (idempotency_logs d))))"

section \<open>Listing and statistics of transaction_repo.go\<close>

record TransactionListParams =
  lp_MerchantID :: uuid
  lp_Status :: "TransactionStatus option"
  lp_Type :: "TransactionType option"
  lp_From :: "int64 option"
  lp_To :: "int64 option"
  lp_Page :: int64
  lp_PageSize :: int64

record TransactionStats =
  TotalTransactions :: int64
  Successful :: int64
  Failed :: int64
  Reversed :: int64
  TotalRevenue :: int64
  TotalRefunded :: int64
  TotalTopup :: int64

text \<open>The WHERE clause that \<^verbatim>\<open>List\<close> builds: one conjunct per filter that is set.\<close>

definition to_timestamp :: "int64 \<Rightarrow> time" where
  "to_timestamp v = sint v * 1000000"

definition list_where :: "TransactionListParams \<Rightarrow> Transaction \<Rightarrow> bool" where
  "list_where p t \<longleftrightarrow>
     tx_MerchantID t = lp_MerchantID p \<and>
     (case lp_Status p of None \<Rightarrow> True | Some s \<Rightarrow> tx_Status t = s) \<and>
     (case lp_Type p of None \<Rightarrow> True | Some ty \<Rightarrow> tx_TransactionType t = ty) \<and>
     (case lp_From p of None \<Rightarrow> True | Some v \<Rightarrow> to_timestamp v \<le> tx_CreatedAt t) \<and>
     (case lp_To p of None \<Rightarrow> True | Some v \<Rightarrow> tx_CreatedAt t \<le> to_timestamp v)"

text \<open>\<^verbatim>\<open>ORDER BY created_at DESC LIMIT l OFFSET o\<close>; a negative LIMIT or OFFSET is an error.\<close>

definition page_of :: "int64 \<Rightarrow> int64 \<Rightarrow> Transaction list \<Rightarrow> Transaction list result" where
  "page_of limit offset ts =
     (if sint limit < 0 then Inl (Plain ''LIMIT must not be negative'')
      else if sint offset < 0 then Inl (Plain ''OFFSET must not be negative'')
      else Inr (take (nat (sint limit)) (drop (nat (sint offset))
             (sort_key (\<lambda>t. - tx_CreatedAt t) ts))))"

definition TransactionRepo_List ::
    "error option \<Rightarrow> error option \<Rightarrow> TransactionListParams \<Rightarrow> db \<Rightarrow> (Transaction list \<times> int64) result" where
  "TransactionRepo_List f_count f_query p d =
     (let matching = filter (list_where p) (transactions d);
          offset = (lp_Page p - 1) * lp_PageSize p
      in bindE (wrapE (Wrapf ''count transactions'') (callE f_count (Inr (of_nat (length matching) :: int64)))) (\<lambda>total.
         bindE (wrapE (Wrapf ''list transactions'') (callE f_query (page_of (lp_PageSize p) offset matching))) (\<lambda>txns.
         Inr (txns, total))))"

text \<open>A SUM is NUMERIC; scanning it into an \<^verbatim>\<open>int64\<close> fails outside the range of the type.\<close>

definition scan_int64 :: "int \<Rightarrow> int64 result" where
  "scan_int64 n = (if - (2 ^ 63) \<le> n \<and> n < 2 ^ 63 then Inr (word_of_int n)
                   else Inl (Plain ''value is out of range for int64''))"

definition amount_sum :: "(Transaction \<Rightarrow> bool) \<Rightarrow> Transaction list \<Rightarrow> int" where
  "amount_sum P ts = sum_list (map (\<lambda>t. sint (tx_Amount t)) (filter P ts))"

definition is_success_of :: "TransactionType \<Rightarrow> Transaction \<Rightarrow> bool" where
  "is_success_of ty t \<longleftrightarrow> tx_TransactionType t = ty \<and> tx_Status t = ''SUCCESS''"

definition TransactionRepo_GetStats ::
    "error option \<Rightarrow> uuid \<Rightarrow> int64 option \<Rightarrow> db \<Rightarrow> TransactionStats result" where
  "TransactionRepo_GetStats f m periodStart d =
     (let ts = filter (\<lambda>t. tx_MerchantID t = m \<and>
                 (case periodStart of None \<Rightarrow> True | Some v \<Rightarrow> to_timestamp v \<le> tx_CreatedAt t))
               (transactions d)
      in wrapE (Wrapf ''get transaction stats'') (callE f
         (bindE (scan_int64 (amount_sum (is_success_of ''PAYMENT'') ts)) (\<lambda>revenue.
          bindE (scan_int64 (amount_sum (is_success_of ''REFUND'') ts)) (\<lambda>refunded.
          bindE (scan_int64 (amount_sum (is_success_of ''TOPUP'') ts)) (\<lambda>topup.
          Inr \<lparr>TotalTransactions = of_nat (length ts),
               Successful = of_nat (length (filter (\<lambda>t. tx_Status t = ''SUCCESS'') ts)),
               Failed = of_nat (length (filter (\<lambda>t. tx_Status t = ''FAILED'') ts)),
               Reversed = of_nat (length (filter (\<lambda>t. tx_Status t = ''REVERSED'') ts)),
               TotalRevenue = revenue, TotalRefunded = refunded, TotalTopup = topup\<rparr>))))))"

section \<open>webhook_repo.go and audit_repo.go\<close>

definition webhook_constraints :: "WebhookDeliveryLog \<Rightarrow> db \<Rightarrow> (bool \<times> string) list" where
  "webhook_constraints l d =
     [(wl_ID l \<notin> wl_ID ` set (webhook_delivery_logs d), ''webhook_delivery_logs_pkey''),
      (wl_TransactionID l \<in> tx_ID ` set (transactions d), ''webhook_delivery_logs_transaction_id_fkey''),
      (wl_MerchantID l \<in> m_ID ` set (merchants d), ''webhook_delivery_logs_merchant_id_fkey''),
      (rune_count (wl_Status l) \<le> 20, ''value too long for type character varying(20)'')]"

definition webhookRepo_Create :: "error option \<Rightarrow> WebhookDeliveryLog \<Rightarrow> db \<Rightarrow> db result" where
  "webhookRepo_Create f l d =
     callE f (bindE (check_all (webhook_constraints l d)) (\<lambda>_.
       Inr (d\<lparr>webhook_delivery_logs := webhook_delivery_logs d @ [l]\<rparr>)))"

text \<open>\<^verbatim>\<open>Update\<close> also stamps the Go value it is given, so it returns the stamped log.\<close>

definition webhookRepo_Update ::
    "error option \<Rightarrow> time \<Rightarrow> WebhookDeliveryLog \<Rightarrow> db \<Rightarrow> db result \<times> WebhookDeliveryLog" where
  "webhookRepo_Update f now l0 d =
     (let l = l0\<lparr>wl_UpdatedAt := now\<rparr>
      in (callE f (Inr (d\<lparr>webhook_delivery_logs := rows_update (\<lambda>r. wl_ID r = wl_ID l)
            (\<lambda>r. r\<lparr>wl_HTTPStatus := wl_HTTPStatus l, wl_Attempt := wl_Attempt l, wl_Status := wl_Status l,
                   wl_NextRetryAt := wl_NextRetryAt l, wl_LastError := wl_LastError l,
                   wl_UpdatedAt := wl_UpdatedAt l\<rparr>) (webhook_delivery_logs d)\<rparr>)), l))"

definition webhookRepo_GetByTransactionID ::
    "error option \<Rightarrow> uuid \<Rightarrow> db \<Rightarrow> WebhookDeliveryLog list result" where
  "webhookRepo_GetByTransactionID f i d =
     callE f (Inr (sort_key (\<lambda>l. - wl_CreatedAt l)
       (filter (\<lambda>l. wl_TransactionID l = i) (webhook_delivery_logs d))))"

definition audit_constraints :: "AuditLog \<Rightarrow> db \<Rightarrow> (bool \<times> string) list" where
  "audit_constraints l d =
     [(al_ID l \<notin> al_ID ` set (audit_logs d), ''audit_logs_pkey''),
      (case al_MerchantID l of None \<Rightarrow> True | Some m \<Rightarrow> m \<in> m_ID ` set (merchants d),
         ''audit_logs_merchant_id_fkey''),
      (rune_count (al_Action l) \<le> 50, ''value too long for type character varying(50)''),
      (rune_count (al_ResourceType l) \<le> 50, ''value too long for type character varying(50)''),
      (rune_count (al_ResourceID l) \<le> 100, ''value too long for type character varying(100)''),
      (rune_count (al_IPAddress l) \<le> 45, ''value too long for type character varying(45)'')]"

definition auditRepo_Create :: "error option \<Rightarrow> AuditLog \<Rightarrow> db \<Rightarrow> db result" where
  "auditRepo_Create f l d =
     callE f (bindE (check_all (audit_constraints l d)) (\<lambda>_.
       Inr (d\<lparr>audit_logs := audit_logs d @ [l]\<rparr>)))"

section \<open>Tables with a primary key\<close>

text \<open>
  The contract between a repository and its clients: an INSERT that succeeds appends one row
  with a new key. It gives the usual laws of a finite map.
\<close>

locale pk_table =
  fixes rows :: "db \<Rightarrow> 'r list"
    and pk :: "'r \<Rightarrow> 'k"
    and insert_row :: "'r \<Rightarrow> db \<Rightarrow> db result"
  assumes insert_appends: "insert_row r d = Inr d' \<Longrightarrow> rows d' = rows d @ [r]"
    and insert_new_key: "insert_row r d = Inr d' \<Longrightarrow> pk r \<notin> pk ` set (rows d)"
begin

lemma insert_distinct:
  "insert_row r d = Inr d' \<Longrightarrow> distinct (map pk (rows d)) \<Longrightarrow> distinct (map pk (rows d'))"
  by (simp add: insert_appends insert_new_key)

lemma lookup_inserted: "insert_row r d = Inr d' \<Longrightarrow> row_where (\<lambda>x. pk x = pk r) (rows d') = Some r"
proof -
  assume ins: "insert_row r d = Inr d'"
  then have "row_where (\<lambda>x. pk x = pk r) (rows d) = None"
    using insert_new_key [OF ins] by (auto simp: row_where_None image_iff)
  with ins show ?thesis by (simp add: insert_appends row_where_append)
qed

lemma lookup_other:
  "insert_row r d = Inr d' \<Longrightarrow> k \<noteq> pk r \<Longrightarrow>
   row_where (\<lambda>x. pk x = k) (rows d') = row_where (\<lambda>x. pk x = k) (rows d)"
  by (auto simp: insert_appends row_where_append split: option.split)

lemma insert_not_idempotent: "insert_row r d = Inr d' \<Longrightarrow> \<nexists>d''. insert_row r d' = Inr d''"
  using insert_appends insert_new_key by fastforce

end

interpretation wallets_tbl: pk_table wallets w_ID "WalletRepo_Create f" for f
  by unfold_locales (auto simp: WalletRepo_Create_def wallets_constraints_def res_simps)

interpretation transactions_tbl: pk_table transactions tx_ID "TransactionRepo_Create f" for f
  by unfold_locales (auto simp: TransactionRepo_Create_def transactions_constraints_def res_simps)

interpretation idempotency_tbl: pk_table idempotency_logs il_Key "IdempotencyRepo_Create f" for f
  by unfold_locales (auto simp: IdempotencyRepo_Create_def idempotency_constraints_def res_simps)

interpretation merchants_tbl: pk_table merchants m_ID "MerchantRepo_Create f" for f
  by unfold_locales (auto simp: MerchantRepo_Create_def merchants_constraints_def res_simps)

section \<open>Integrity of the database\<close>

definition db_wf :: "db \<Rightarrow> bool" where
  "db_wf d \<longleftrightarrow>
     distinct (map m_ID (merchants d)) \<and> distinct (map m_Username (merchants d)) \<and>
     distinct (map m_AccessKey (merchants d)) \<and>
     distinct (map w_ID (wallets d)) \<and> distinct (map tx_ID (transactions d)) \<and>
     distinct (map il_Key (idempotency_logs d)) \<and>
     w_MerchantID ` set (wallets d) \<subseteq> m_ID ` set (merchants d) \<and>
     tx_MerchantID ` set (transactions d) \<subseteq> m_ID ` set (merchants d) \<and>
     tx_WalletID ` set (transactions d) \<subseteq> w_ID ` set (wallets d) \<and>
     il_TransactionID ` set (idempotency_logs d) \<subseteq> tx_ID ` set (transactions d)"

lemma db_wf_empty [simp]: "db_wf empty_db"
  by (simp add: db_wf_def empty_db_def)

lemma UpdateBalance_Inr:
  assumes "WalletRepo_UpdateBalance U f n i c d = Inr d'"
  shows "d' = d\<lparr>wallets := rows_update (\<lambda>w. w_ID w = i)
      (\<lambda>w. w\<lparr>w_EncryptedBalance := c, w_UpdatedAt := n\<rparr>) (wallets d)\<rparr>"
    and "i \<in> w_ID ` set (wallets d)" and "f = None"
  using assms
  by (auto simp: WalletRepo_UpdateBalance_def res_simps rows_count_zero)

lemma UpdateStatus_Inr:
  assumes "TransactionRepo_UpdateStatus U f n i st d = Inr d'"
  shows "d' = d\<lparr>transactions := rows_update (\<lambda>t. tx_ID t = i)
      (\<lambda>t. t\<lparr>tx_Status := st, tx_ProcessedAt := Some n\<rparr>) (transactions d)\<rparr>"
    and "i \<in> tx_ID ` set (transactions d)" and "f = None"
  using assms
  by (auto simp: TransactionRepo_UpdateStatus_def res_simps rows_count_zero)

lemma TxCreate_Inr:
  assumes "TransactionRepo_Create f t d = Inr d'"
  shows "d' = d\<lparr>transactions := transactions d @ [t]\<rparr>"
    and "\<forall>(ok, msg)\<in>set (transactions_constraints t d). ok"
  using assms by (auto simp: TransactionRepo_Create_def res_simps)

lemma IdempCreate_Inr:
  assumes "IdempotencyRepo_Create f l d = Inr d'"
  shows "d' = d\<lparr>idempotency_logs := idempotency_logs d @ [l]\<rparr>"
    and "\<forall>(ok, msg)\<in>set (idempotency_constraints l d). ok"
  using assms by (auto simp: IdempotencyRepo_Create_def res_simps)

text \<open>Each statement a service issues keeps the integrity of the database.\<close>

lemma db_wf_UpdateBalance:
  assumes "db_wf d" and "WalletRepo_UpdateBalance U f n i c d = Inr d'"
  shows "db_wf d'"
  using assms(1) UpdateBalance_Inr(1) [OF assms(2)]
  by (simp add: db_wf_def map_rows_update image_rows_update)

lemma db_wf_UpdateStatus:
  assumes "db_wf d" and "TransactionRepo_UpdateStatus U f n i st d = Inr d'"
  shows "db_wf d'"
  using assms(1) UpdateStatus_Inr(1) [OF assms(2)]
  by (simp add: db_wf_def map_rows_update image_rows_update)

lemma db_wf_TxCreate:
  assumes "db_wf d" and "TransactionRepo_Create f t d = Inr d'"
  shows "db_wf d'"
  using assms TxCreate_Inr [OF assms(2)]
  by (auto simp: db_wf_def transactions_constraints_def)

lemma db_wf_IdempCreate:
  assumes "db_wf d" and "IdempotencyRepo_Create f l d = Inr d'"
  shows "db_wf d'"
  using assms IdempCreate_Inr [OF assms(2)]
  by (auto simp: db_wf_def idempotency_constraints_def)

lemmas db_wf_intros = db_wf_UpdateBalance db_wf_UpdateStatus db_wf_TxCreate db_wf_IdempCreate

end
