(* ===== verification/Redis.thy ===== *)
theory Redis
  imports Runtime
begin

text \<open>
  internal/adapter/storage/redis: one keyspace of values with an optional expiry instant, and
  the three stores over it: the idempotency cache, the nonce store (\<^verbatim>\<open>SET NX\<close> with a TTL) and
  the fixed-window rate-limit counters (\<^verbatim>\<open>INCR\<close> and \<^verbatim>\<open>EXPIRE\<close>). A number is stored as its
  decimal text, represented by \<open>JNum\<close>.
\<close>

type_synonym redis = "string \<rightharpoonup> json \<times> time option"

definition redis_get :: "time \<Rightarrow> string \<Rightarrow> redis \<Rightarrow> json option" where
  "redis_get now k r =
     (case r k of
        None \<Rightarrow> None
      | Some (v, None) \<Rightarrow> Some v
      | Some (v, Some ex) \<Rightarrow> if now < ex then Some v else None)"

definition redis_set :: "time \<Rightarrow> string \<Rightarrow> json \<Rightarrow> time \<Rightarrow> redis \<Rightarrow> redis" where
  "redis_set now k v ttl r = r(k \<mapsto> (v, Some (now + ttl)))"

definition seconds :: "int \<Rightarrow> time" where
  "seconds n = n * 1000000"

lemma redis_get_set [simp]:
  "redis_get now' k (redis_set now k v ttl r) = (if now' < now + ttl then Some v else None)"
  by (simp add: redis_get_def redis_set_def)

lemma redis_get_set_other [simp]:
  "k' \<noteq> k \<Longrightarrow> redis_get now' k' (redis_set now k v ttl r) = redis_get now' k' r"
  by (simp add: redis_get_def redis_set_def)

section \<open>idempotency_cache.go\<close>

definition IdempotencyCache_Get :: "error option \<Rightarrow> time \<Rightarrow> string \<Rightarrow> redis \<Rightarrow> json option result" where
  "IdempotencyCache_Get f now k r =
     wrapE (Wrapf ''redis idempotency get'') (callE f (Inr (redis_get now (''idempotency:'' @ k) r)))"

definition IdempotencyCache_Set ::
    "error option \<Rightarrow> time \<Rightarrow> string \<Rightarrow> json \<Rightarrow> time \<Rightarrow> redis \<Rightarrow> redis result" where
  "IdempotencyCache_Set f now k v ttl r =
     wrapE (Wrapf ''redis idempotency set'') (callE f (Inr (redis_set now (''idempotency:'' @ k) v ttl r)))"

section \<open>nonce_store.go\<close>

definition nonce_key :: "string \<Rightarrow> string \<Rightarrow> string" where
  "nonce_key merchantID nonce = ''nonce:'' @ merchantID @ '':'' @ nonce"

text \<open>True for a new nonce, which is stored; false for one that is still in the store.\<close>

definition NonceStore_CheckAndSet ::
    "error option \<Rightarrow> time \<Rightarrow> string \<Rightarrow> string \<Rightarrow> time \<Rightarrow> redis \<Rightarrow> (bool \<times> redis) result" where
  "NonceStore_CheckAndSet f now merchantID nonce ttl r =
     wrapE (Wrapf ''redis nonce check'') (callE f
       (let k = nonce_key merchantID nonce
        in case redis_get now k r of
             Some _ \<Rightarrow> Inr (False, r)
           | None \<Rightarrow> Inr (True, redis_set now k (JNum 1) ttl r)))"

section \<open>ratelimit_store.go\<close>

record RateLimitResult =
  rl_Allowed :: bool
  rl_Limit :: int
  rl_Remaining :: int
  rl_ResetAt :: int

text \<open>\<^verbatim>\<open>INCR\<close>: a missing key counts from 0; a live key keeps its expiry.\<close>

definition redis_incr :: "time \<Rightarrow> string \<Rightarrow> redis \<Rightarrow> (int \<times> redis) result" where
  "redis_incr now k r =
     (case redis_get now k r of
        None \<Rightarrow> Inr (1, r(k \<mapsto> (JNum 1, None)))
      | Some (JNum n) \<Rightarrow>
          if n + 1 \<ge> 2 ^ 63 then Inl (Plain ''ERR increment or decrement would overflow'')
          else Inr (n + 1, r(k \<mapsto> (JNum (n + 1), snd (the (r k)))))
      | Some _ \<Rightarrow> Inl (Plain ''ERR value is not an integer or out of range''))"

definition redis_expire :: "time \<Rightarrow> string \<Rightarrow> time \<Rightarrow> redis \<Rightarrow> redis" where
  "redis_expire now k ttl r =
     (case redis_get now k r of None \<Rightarrow> r | Some v \<Rightarrow> r(k \<mapsto> (v, Some (now + ttl))))"

definition ratelimit_key :: "string \<Rightarrow> int \<Rightarrow> string" where
  "ratelimit_key k windowID = ''ratelimit:'' @ k @ '':'' @ FormatInt (word_of_int windowID)"

text \<open>
  \<open>window\<close> is in whole seconds. An error of \<^verbatim>\<open>EXPIRE\<close> is ignored by the code.
\<close>

definition RateLimitStore_Allow ::
    "error option \<Rightarrow> error option \<Rightarrow> time \<Rightarrow> string \<Rightarrow> int \<Rightarrow> int \<Rightarrow> redis \<Rightarrow>
     (RateLimitResult \<times> redis) result" where
  "RateLimitStore_Allow f_incr f_expire now k limit window r =
     (let windowID = Unix now div window;
          redisKey = ratelimit_key k windowID
      in bindE (wrapE (Wrapf ''redis rate limit incr'') (callE f_incr (redis_incr now redisKey r)))
         (\<lambda>(count, r1).
           let r2 = (if count = 1 \<and> f_expire = None then redis_expire now redisKey (seconds (window + 1)) r1 else r1);
               resetAt = (windowID + 1) * window;
               remaining = (if limit - count < 0 then 0 else limit - count)
           in Inr (\<lparr>rl_Allowed = (count \<le> limit), rl_Limit = limit, rl_Remaining = remaining,
                    rl_ResetAt = resetAt\<rparr>, r2)))"

section \<open>Nonces are accepted once per lifetime\<close>

lemma CheckAndSet_new:
  assumes "NonceStore_CheckAndSet f now m n ttl r = Inr (True, r')"
  shows "r' = redis_set now (nonce_key m n) (JNum 1) ttl r" "redis_get now (nonce_key m n) r = None"
  using assms by (auto simp: NonceStore_CheckAndSet_def res_simps Let_def split: option.splits)

lemma CheckAndSet_replay:
  assumes "NonceStore_CheckAndSet f now m n ttl r = Inr (True, r')" and "now' < now + ttl"
  shows "NonceStore_CheckAndSet None now' m n ttl' r' = Inr (False, r')"
  using CheckAndSet_new [OF assms(1)] assms(2) by (simp add: NonceStore_CheckAndSet_def)

lemma CheckAndSet_expired:
  assumes "NonceStore_CheckAndSet f now m n ttl r = Inr (True, r')" and "now + ttl \<le> now'"
  shows "\<exists>r''. NonceStore_CheckAndSet None now' m n ttl' r' = Inr (True, r'')"
  using CheckAndSet_new [OF assms(1)] assms(2) by (simp add: NonceStore_CheckAndSet_def Let_def)

end
