(* ===== verification/Go_Crypto.thy ===== *)
theory Go_Crypto
  imports Go_Strings
begin

unbundle bit_operations_syntax

text \<open>
  The primitives of the Go standard library under the security services: the AES block
  cipher (\<^verbatim>\<open>crypto/aes\<close>, FIPS 197), Galois/Counter Mode with a 12-byte nonce and a 16-byte
  tag (\<^verbatim>\<open>crypto/cipher\<close>, NIST SP 800-38D), SHA-256 (\<^verbatim>\<open>crypto/sha256\<close>, FIPS 180-4) and
  HMAC (\<^verbatim>\<open>crypto/hmac\<close>, RFC 2104). They are written out as executable functions on byte
  lists, so that the theorems on stored balances and secret keys rest on no assumption about
  the cipher. The lemmas are the laws the services rely on: opening what was sealed gives
  the plaintext back, and opening anything whose tag does not match fails.
\<close>

section \<open>AES\<close>

definition aes_sbox :: "byte list" where
  "aes_sbox =
    [0x63, 0x7c, 0x77, 0x7b, 0xf2, 0x6b, 0x6f, 0xc5, 0x30, 0x01, 0x67, 0x2b, 0xfe, 0xd7, 0xab, 0x76,
     0xca, 0x82, 0xc9, 0x7d, 0xfa, 0x59, 0x47, 0xf0, 0xad, 0xd4, 0xa2, 0xaf, 0x9c, 0xa4, 0x72, 0xc0,
     0xb7, 0xfd, 0x93, 0x26, 0x36, 0x3f, 0xf7, 0xcc, 0x34, 0xa5, 0xe5, 0xf1, 0x71, 0xd8, 0x31, 0x15,
     0x04, 0xc7, 0x23, 0xc3, 0x18, 0x96, 0x05, 0x9a, 0x07, 0x12, 0x80, 0xe2, 0xeb, 0x27, 0xb2, 0x75,
     0x09, 0x83, 0x2c, 0x1a, 0x1b, 0x6e, 0x5a, 0xa0, 0x52, 0x3b, 0xd6, 0xb3, 0x29, 0xe3, 0x2f, 0x84,
     0x53, 0xd1, 0x00, 0xed, 0x20, 0xfc, 0xb1, 0x5b, 0x6a, 0xcb, 0xbe, 0x39, 0x4a, 0x4c, 0x58, 0xcf,
     0xd0, 0xef, 0xaa, 0xfb, 0x43, 0x4d, 0x33, 0x85, 0x45, 0xf9, 0x02, 0x7f, 0x50, 0x3c, 0x9f, 0xa8,
     0x51, 0xa3, 0x40, 0x8f, 0x92, 0x9d, 0x38, 0xf5, 0xbc, 0xb6, 0xda, 0x21, 0x10, 0xff, 0xf3, 0xd2,
     0xcd, 0x0c, 0x13, 0xec, 0x5f, 0x97, 0x44, 0x17, 0xc4, 0xa7, 0x7e, 0x3d, 0x64, 0x5d, 0x19, 0x73,
     0x60, 0x81, 0x4f, 0xdc, 0x22, 0x2a, 0x90, 0x88, 0x46, 0xee, 0xb8, 0x14, 0xde, 0x5e, 0x0b, 0xdb,
     0xe0, 0x32, 0x3a, 0x0a, 0x49, 0x06, 0x24, 0x5c, 0xc2, 0xd3, 0xac, 0x62, 0x91, 0x95, 0xe4, 0x79,
     0xe7, 0xc8, 0x37, 0x6d, 0x8d, 0xd5, 0x4e, 0xa9, 0x6c, 0x56, 0xf4, 0xea, 0x65, 0x7a, 0xae, 0x08,
     0xba, 0x78, 0x25, 0x2e, 0x1c, 0xa6, 0xb4, 0xc6, 0xe8, 0xdd, 0x74, 0x1f, 0x4b, 0xbd, 0x8b, 0x8a,
     0x70, 0x3e, 0xb5, 0x66, 0x48, 0x03, 0xf6, 0x0e, 0x61, 0x35, 0x57, 0xb9, 0x86, 0xc1, 0x1d, 0x9e,
     0xe1, 0xf8, 0x98, 0x11, 0x69, 0xd9, 0x8e, 0x94, 0x9b, 0x1e, 0x87, 0xe9, 0xce, 0x55, 0x28, 0xdf,
     0x8c, 0xa1, 0x89, 0x0d, 0xbf, 0xe6, 0x42, 0x68, 0x41, 0x99, 0x2d, 0x0f, 0xb0, 0x54, 0xbb, 0x16]"

definition sub_byte :: "byte \<Rightarrow> byte" where
  "sub_byte b = aes_sbox ! unat b"

definition xtime :: "byte \<Rightarrow> byte" where
  "xtime b = (if bit b 7 then push_bit 1 b XOR 0x1b else push_bit 1 b)"

definition xor_bytes :: "byte list \<Rightarrow> byte list \<Rightarrow> byte list" where
  "xor_bytes xs ys = map2 (XOR) xs ys"

text \<open>
  The key schedule: \<open>ws\<close> holds the words made so far, the third argument counts those still
  to be made and \<open>rcon\<close> is the next round constant.
\<close>

fun aes_schedule :: "nat \<Rightarrow> byte \<Rightarrow> nat \<Rightarrow> byte list list \<Rightarrow> byte list list" where
  "aes_schedule nk rcon 0 ws = ws"
| "aes_schedule nk rcon (Suc n) ws =
     (let i = length ws; t = last ws
      in if i mod nk = 0
         then aes_schedule nk (xtime rcon) n
                (ws @ [xor_bytes (ws ! (i - nk))
                        (xor_bytes (map sub_byte (rotate1 t)) [rcon, 0, 0, 0])])
         else if nk > 6 \<and> i mod nk = 4
         then aes_schedule nk rcon n (ws @ [xor_bytes (ws ! (i - nk)) (map sub_byte t)])
         else aes_schedule nk rcon n (ws @ [xor_bytes (ws ! (i - nk)) t]))"

fun chunks4 :: "byte list \<Rightarrow> byte list list" where
  "chunks4 (a # b # c # d # bs) = [a, b, c, d] # chunks4 bs"
| "chunks4 _ = []"

definition aes_expand :: "byte list \<Rightarrow> byte list list" where
  "aes_expand k = (let nk = length k div 4
                   in aes_schedule nk 1 (4 * (nk + 7) - nk) (chunks4 k))"

definition round_key :: "byte list list \<Rightarrow> nat \<Rightarrow> byte list" where
  "round_key ws r = concat (take 4 (drop (4 * r) ws))"

definition shift_rows :: "byte list \<Rightarrow> byte list" where
  "shift_rows s = map (\<lambda>i. s ! ((i + 4 * (i mod 4)) mod 16)) [0..<16]"

definition mix_column :: "byte list \<Rightarrow> byte list" where
  "mix_column c = map (\<lambda>i. xtime (c ! i) XOR (xtime (c ! ((i + 1) mod 4)) XOR c ! ((i + 1) mod 4))
                          XOR c ! ((i + 2) mod 4) XOR c ! ((i + 3) mod 4)) [0..<4]"

definition mix_columns :: "byte list \<Rightarrow> byte list" where
  "mix_columns s = concat (map mix_column (chunks4 s))"

fun aes_rounds :: "byte list list \<Rightarrow> nat \<Rightarrow> nat \<Rightarrow> byte list \<Rightarrow> byte list" where
  "aes_rounds ws r 0 s = xor_bytes (shift_rows (map sub_byte s)) (round_key ws r)"
| "aes_rounds ws r (Suc n) s =
     aes_rounds ws (Suc r) n
       (xor_bytes (mix_columns (shift_rows (map sub_byte s))) (round_key ws r))"

definition aes_block :: "byte list \<Rightarrow> byte list \<Rightarrow> byte list" where
  "aes_block k b =
     (let ws = aes_expand k
      in aes_rounds ws 1 (length k div 4 + 5) (xor_bytes b (round_key ws 0)))"

text \<open>\<^verbatim>\<open>aes.NewCipher\<close> accepts keys of 16, 24 and 32 bytes.\<close>

definition aes_NewCipher :: "byte list \<Rightarrow> (byte list \<Rightarrow> byte list) result" where
  "aes_NewCipher k = (if length k \<in> {16, 24, 32} then Inr (aes_block k)
                      else Inl (Plain ''crypto/aes: invalid key size''))"

section \<open>GCM\<close>

definition word128_bytes :: "128 word \<Rightarrow> byte list" where
  "word128_bytes w = map (\<lambda>i. ucast (drop_bit (8 * (15 - i)) w)) [0..<16]"

definition bytes_word128 :: "byte list \<Rightarrow> 128 word" where
  "bytes_word128 bs = fold (\<lambda>b w. push_bit 8 w OR ucast b) bs 0"

fun gf128_mult :: "128 word \<Rightarrow> nat \<Rightarrow> 128 word \<Rightarrow> 128 word \<Rightarrow> 128 word" where
  "gf128_mult x 0 z v = z"
| "gf128_mult x (Suc n) z v =
     gf128_mult x n (if bit x n then z XOR v else z)
       (if bit v 0 then drop_bit 1 v XOR push_bit 120 0xe1 else drop_bit 1 v)"

fun ghash_blocks :: "128 word \<Rightarrow> nat \<Rightarrow> 128 word \<Rightarrow> byte list \<Rightarrow> 128 word" where
  "ghash_blocks h 0 y bs = y"
| "ghash_blocks h (Suc n) y bs =
     ghash_blocks h n
       (gf128_mult (y XOR bytes_word128 (take 16 (take 16 bs @ replicate 16 0))) 128 0 h) (drop 16 bs)"

definition gcm_counter :: "byte list \<Rightarrow> nat \<Rightarrow> byte list" where
  "gcm_counter nonce i = nonce @ map (\<lambda>j. of_nat (i div 256 ^ (3 - j))) [0..<4]"

definition gcm_xor :: "(byte list \<Rightarrow> byte list) \<Rightarrow> byte list \<Rightarrow> byte list \<Rightarrow> byte list" where
  "gcm_xor E nonce bs =
     map (\<lambda>i. bs ! i XOR E (gcm_counter nonce (2 + i div 16)) ! (i mod 16)) [0..<length bs]"

text \<open>The tag over a ciphertext, with no additional data.\<close>

definition gcm_tag :: "(byte list \<Rightarrow> byte list) \<Rightarrow> byte list \<Rightarrow> byte list \<Rightarrow> byte list" where
  "gcm_tag E nonce c =
     (let h = bytes_word128 (E (replicate 16 0));
          y = ghash_blocks h ((length c + 15) div 16) 0 c;
          s = gf128_mult (y XOR of_nat (8 * length c)) 128 0 h
      in word128_bytes (s XOR bytes_word128 (E (gcm_counter nonce 1))))"

definition gcm_NonceSize :: nat where
  "gcm_NonceSize = 12"

text \<open>\<open>gcm_Seal E nonce p\<close> is what \<^verbatim>\<open>Seal(dst, nonce, p, nil)\<close> appends to \<^verbatim>\<open>dst\<close>.\<close>

definition gcm_Seal :: "(byte list \<Rightarrow> byte list) \<Rightarrow> byte list \<Rightarrow> byte list \<Rightarrow> byte list" where
  "gcm_Seal E nonce p = (let c = gcm_xor E nonce p in c @ gcm_tag E nonce c)"

definition gcm_Open :: "(byte list \<Rightarrow> byte list) \<Rightarrow> byte list \<Rightarrow> byte list \<Rightarrow> byte list result" where
  "gcm_Open E nonce ct =
     (if length ct < 16 then Inl (Plain ''cipher: message authentication failed'')
      else let c = take (length ct - 16) ct
           in if gcm_tag E nonce c = drop (length ct - 16) ct then Inr (gcm_xor E nonce c)
              else Inl (Plain ''cipher: message authentication failed''))"

lemma length_gcm_xor [simp]: "length (gcm_xor E nonce bs) = length bs"
  by (simp add: gcm_xor_def)

lemma gcm_xor_involutive [simp]: "gcm_xor E nonce (gcm_xor E nonce bs) = bs"
proof (rule nth_equalityI)
  fix i assume "i < length (gcm_xor E nonce (gcm_xor E nonce bs))"
  then show "gcm_xor E nonce (gcm_xor E nonce bs) ! i = bs ! i"
    by (simp add: gcm_xor_def xor.assoc)
qed simp

lemma length_gcm_tag [simp]: "length (gcm_tag E nonce c) = 16"
  by (simp add: gcm_tag_def word128_bytes_def Let_def)

lemma gcm_Open_Seal [simp]: "gcm_Open E nonce (gcm_Seal E nonce p) = Inr p"
  by (simp add: gcm_Open_def gcm_Seal_def Let_def)

lemma gcm_Open_Inr:
  assumes "gcm_Open E nonce ct = Inr p"
  shows "ct = gcm_Seal E nonce p"
proof -
  let ?c = "take (length ct - 16) ct"
  from assms have tag: "gcm_tag E nonce ?c = drop (length ct - 16) ct"
    and p: "p = gcm_xor E nonce ?c"
    by (auto simp: gcm_Open_def Let_def split: if_splits)
  then show ?thesis by (simp add: gcm_Seal_def Let_def)
qed

section \<open>SHA-256 and HMAC\<close>

definition sha256_K :: "32 word list" where
  "sha256_K =
    [1116352408, 1899447441, 3049323471, 3921009573, 961987163, 1508970993, 2453635748, 2870763221,
     3624381080, 310598401, 607225278, 1426881987, 1925078388, 2162078206, 2614888103, 3248222580,
     3835390401, 4022224774, 264347078, 604807628, 770255983, 1249150122, 1555081692, 1996064986,
     2554220882, 2821834349, 2952996808, 3210313671, 3336571891, 3584528711, 113926993, 338241895,
     666307205, 773529912, 1294757372, 1396182291, 1695183700, 1986661051, 2177026350, 2456956037,
     2730485921, 2820302411, 3259730800, 3345764771, 3516065817, 3600352804, 4094571909, 275423344,
     430227734, 506948616, 659060556, 883997877, 958139571, 1322822218, 1537002063, 1747873779,
     1955562222, 2024104815, 2227730452, 2361852424, 2428436474, 2756734187, 3204031479, 3329325298]"

type_synonym sha256_state =
  "32 word \<times> 32 word \<times> 32 word \<times> 32 word \<times> 32 word \<times> 32 word \<times> 32 word \<times> 32 word"

definition sha256_H0 :: sha256_state where
  "sha256_H0 =
    (1779033703, 3144134277, 1013904242, 2773480762,
     1359893119, 2600822924, 528734635, 1541459225)"

definition rotr32 :: "nat \<Rightarrow> 32 word \<Rightarrow> 32 word" where
  "rotr32 n x = drop_bit n x OR push_bit (32 - n) x"

definition word32_bytes :: "32 word \<Rightarrow> byte list" where
  "word32_bytes w = map (\<lambda>i. ucast (drop_bit (8 * (3 - i)) w)) [0..<4]"

definition bytes_word32 :: "byte list \<Rightarrow> 32 word" where
  "bytes_word32 bs = fold (\<lambda>b w. push_bit 8 w OR ucast b) bs 0"

definition sha256_pad :: "byte list \<Rightarrow> byte list" where
  "sha256_pad m =
     m @ [0x80] @ replicate ((119 - length m mod 64) mod 64) 0 @
     map (\<lambda>i. of_nat (8 * length m div 256 ^ (7 - i))) [0..<8]"

fun sha256_extend :: "nat \<Rightarrow> 32 word list \<Rightarrow> 32 word list" where
  "sha256_extend 0 w = w"
| "sha256_extend (Suc n) w =
     (let i = length w;
          x = w ! (i - 15); y = w ! (i - 2);
          s0 = rotr32 7 x XOR rotr32 18 x XOR drop_bit 3 x;
          s1 = rotr32 17 y XOR rotr32 19 y XOR drop_bit 10 y
      in sha256_extend n (w @ [w ! (i - 16) + s0 + w ! (i - 7) + s1]))"

definition sha256_round :: "32 word \<times> 32 word \<Rightarrow> sha256_state \<Rightarrow> sha256_state" where
  "sha256_round kw st =
     (let (a, b, c, d, e, f, g, h) = st;
          s1 = rotr32 6 e XOR rotr32 11 e XOR rotr32 25 e;
          ch = (e AND f) XOR (NOT e AND g);
          t1 = h + s1 + ch + fst kw + snd kw;
          s0 = rotr32 2 a XOR rotr32 13 a XOR rotr32 22 a;
          maj = (a AND b) XOR (a AND c) XOR (b AND c)
      in (t1 + (s0 + maj), a, b, c, d + t1, e, f, g))"

definition sha256_block :: "sha256_state \<Rightarrow> byte list \<Rightarrow> sha256_state" where
  "sha256_block st blk =
     (let w = sha256_extend 48 (map bytes_word32 (chunks4 blk));
          (a, b, c, d, e, f, g, h) = st;
          (a', b', c', d', e', f', g', h') = fold sha256_round (zip sha256_K w) st
      in (a + a', b + b', c + c', d + d', e + e', f + f', g + g', h + h'))"

fun sha256_blocks :: "nat \<Rightarrow> sha256_state \<Rightarrow> byte list \<Rightarrow> sha256_state" where
  "sha256_blocks 0 h bs = h"
| "sha256_blocks (Suc n) h bs = sha256_blocks n (sha256_block h (take 64 bs)) (drop 64 bs)"

definition sha256 :: "byte list \<Rightarrow> byte list" where
  "sha256 m =
     (let p = sha256_pad m;
          (a, b, c, d, e, f, g, h) = sha256_blocks (length p div 64) sha256_H0 p
      in concat (map word32_bytes [a, b, c, d, e, f, g, h]))"

definition hmac_sha256 :: "byte list \<Rightarrow> byte list \<Rightarrow> byte list" where
  "hmac_sha256 key m =
     (let k0 = (if length key > 64 then sha256 key else key);
          k = k0 @ replicate (64 - length k0) 0
      in sha256 (map (\<lambda>b. b XOR 0x5c) k @ sha256 (map (\<lambda>b. b XOR 0x36) k @ m)))"

end
