(* ===== verification/Security_Services.thy ===== *)
theory Security_Services
  imports Runtime Go_Crypto
begin

text \<open>
  internal/service/encryption_service.go and signature_service.go over the primitives of
  \<^theory_text>\<open>Go_Crypto\<close>: AES-256-GCM with the nonce in front of the ciphertext, both in
  hexadecimal, and HMAC-SHA256 signatures over the canonical request string. Both are shown
  to satisfy the contract of their port.
\<close>

section \<open>encryption_service.go\<close>

record AESEncryptionService =
  key :: "byte list"

definition NewAESEncryptionService :: "string \<Rightarrow> AESEncryptionService result" where
  "NewAESEncryptionService hexKey =
     bindE (wrapE (Wrapf ''decoding AES key'') (hex_decode hexKey)) (\<lambda>k.
     bindE (failIf (length k \<noteq> 32)
              (Plain (''AES key must be 32 bytes, got '' @ FormatInt (of_nat (length k))))) (\<lambda>_.
     Inr \<lparr>key = k\<rparr>))"

definition AES_Encrypt :: "AESEncryptionService \<Rightarrow> (nat \<Rightarrow> byte) result \<Rightarrow> string \<Rightarrow> string result" where
  "AES_Encrypt s r plaintext =
     bindE (wrapE (Wrapf ''creating cipher'') (aes_NewCipher (key s))) (\<lambda>block.
     bindE (wrapE (Wrapf ''generating nonce'') (read_full gcm_NonceSize r)) (\<lambda>nonce.
     Inr (hex_encode (nonce @ gcm_Seal block nonce (bytes_of plaintext)))))"

definition AES_Decrypt :: "AESEncryptionService \<Rightarrow> string \<Rightarrow> string result" where
  "AES_Decrypt s ciphertextHex =
     bindE (wrapE (Wrapf ''decoding ciphertext'') (hex_decode ciphertextHex)) (\<lambda>ciphertext.
     bindE (wrapE (Wrapf ''creating cipher'') (aes_NewCipher (key s))) (\<lambda>block.
     bindE (failIf (length ciphertext < gcm_NonceSize) (Plain ''ciphertext too short'')) (\<lambda>_.
     bindE (wrapE (Wrapf ''decrypting'')
              (gcm_Open block (take gcm_NonceSize ciphertext) (drop gcm_NonceSize ciphertext))) (\<lambda>p.
     Inr (string_of p)))))"

definition aes_encSvc :: "AESEncryptionService \<Rightarrow> EncryptionService" where
  "aes_encSvc s = \<lparr>Encrypt = AES_Encrypt s, Decrypt = AES_Decrypt s\<rparr>"

lemma AES_Decrypt_Encrypt:
  assumes "AES_Encrypt s r p = Inr c"
  shows "AES_Decrypt s c = Inr p"
proof -
  from assms obtain block nonce where
    block: "aes_NewCipher (key s) = Inr block" and nonce: "read_full gcm_NonceSize r = Inr nonce"
    and c: "c = hex_encode (nonce @ gcm_Seal block nonce (bytes_of p))"
    by (auto simp: AES_Encrypt_def res_simps)
  from nonce have "length nonce = gcm_NonceSize" by (rule read_full_Inr)
  then show ?thesis by (simp add: AES_Decrypt_def c block)
qed

interpretation aes: encryption_service "aes_encSvc s" for s
  by unfold_locales (simp add: aes_encSvc_def AES_Decrypt_Encrypt)

text \<open>A service made by the constructor encrypts everything, given randomness.\<close>

lemma NewAES_key: "NewAESEncryptionService hexKey = Inr s \<Longrightarrow> length (key s) = 32"
  by (auto simp: NewAESEncryptionService_def res_simps)

lemma AES_Encrypt_total:
  assumes "length (key s) = 32"
  shows "\<exists>c. AES_Encrypt s (Inr f) p = Inr c"
  using assms by (simp add: AES_Encrypt_def aes_NewCipher_def read_full_def)

text \<open>
  Decryption succeeds only on the encryption of its result: a stored ciphertext that was not
  produced by sealing that plaintext under the key is rejected.
\<close>

lemma AES_Decrypt_authentic:
  assumes "AES_Decrypt s ct = Inr p"
  obtains nonce block where "aes_NewCipher (key s) = Inr block" "length nonce = gcm_NonceSize"
    "hex_decode ct = Inr (nonce @ gcm_Seal block nonce (bytes_of p))"
proof -
  from assms obtain bs block q where bs: "hex_decode ct = Inr bs"
    and block: "aes_NewCipher (key s) = Inr block" and len: "\<not> length bs < gcm_NonceSize"
    and q: "gcm_Open block (take gcm_NonceSize bs) (drop gcm_NonceSize bs) = Inr q" and p: "p = string_of q"
    by (auto simp: AES_Decrypt_def res_simps)
  from gcm_Open_Inr [OF q] p
  have "bs = take gcm_NonceSize bs @ gcm_Seal block (take gcm_NonceSize bs) (bytes_of p)"
    by (metis append_take_drop_id bytes_of_string_of)
  with bs block len show ?thesis by (intro that [of block "take gcm_NonceSize bs"]) auto
qed

section \<open>signature_service.go\<close>

definition HMAC_Sign :: "string \<Rightarrow> string \<Rightarrow> string" where
  "HMAC_Sign secretKey payload = hex_encode (hmac_sha256 (bytes_of secretKey) (bytes_of payload))"

text \<open>\<^verbatim>\<open>hmac.Equal\<close> compares in constant time; its value is equality of the byte strings.\<close>

definition HMAC_Verify :: "string \<Rightarrow> string \<Rightarrow> string \<Rightarrow> bool" where
  "HMAC_Verify secretKey payload signature \<longleftrightarrow> HMAC_Sign secretKey payload = signature"

definition BuildCanonicalString :: "string \<Rightarrow> string \<Rightarrow> int64 \<Rightarrow> string \<Rightarrow> string \<Rightarrow> string" where
  "BuildCanonicalString method path timestamp nonce body =
     method @ ''|'' @ path @ ''|'' @ FormatInt timestamp @ ''|'' @ nonce @ ''|'' @ body"

definition hmac_sigSvc :: SignatureService where
  "hmac_sigSvc = \<lparr>Sign = HMAC_Sign, Verify = HMAC_Verify\<rparr>"

interpretation hmac: signature_service hmac_sigSvc
  by unfold_locales (auto simp: hmac_sigSvc_def HMAC_Verify_def)

lemma FormatInt_no_bar: "CHR ''|'' \<notin> set (FormatInt i)"
  by (auto simp: FormatInt_def is_digit_def dest: format_nat_digits split: if_splits)

text \<open>
  The canonical string determines the request it signs, as long as method, path and nonce
  hold no bar; the body is last and may hold any byte.
\<close>

lemma canonical_inject:
  assumes "CHR ''|'' \<notin> set m" "CHR ''|'' \<notin> set m'" "CHR ''|'' \<notin> set p" "CHR ''|'' \<notin> set p'"
    "CHR ''|'' \<notin> set n" "CHR ''|'' \<notin> set n'"
    and "BuildCanonicalString m p t n b = BuildCanonicalString m' p' t' n' b'"
  shows "m = m' \<and> p = p' \<and> t = t' \<and> n = n' \<and> b = b'"
  using assms by (auto simp: BuildCanonicalString_def append_eq_sep FormatInt_no_bar)

end
