(* ===== verification/Payment_Service.thy ===== *)
theory Payment_Service
  imports Postgres Redis Security_Services
begin

text \<open>
  internal/service/payment_service.go: \<^verbatim>\<open>ProcessPayment\<close>, \<^verbatim>\<open>ProcessRefund\<close> and
  \<^verbatim>\<open>ProcessTopup\<close>, statement by statement. The idempotency layers, the balance read and the
  commit with its best-effort cache write are definitions of their own, because the Go code
  repeats them; what runs between \<^verbatim>\<open>Begin\<close> and \<^verbatim>\<open>Commit\<close> is the \<open>_in_tx\<close> part of each operation,
  whose error drops the private copy of the database, as the deferred \<^verbatim>\<open>Rollback\<close> does.
\<close>

record world =
  wd_db :: db
  wd_redis :: redis

record PaymentServiceImpl =
  ps_uuid :: uuid_pkg
  ps_encSvc :: EncryptionService

definition NewPaymentService :: "uuid_pkg \<Rightarrow> EncryptionService \<Rightarrow> PaymentServiceImpl" where
  "NewPaymentService U encSvc = \<lparr>ps_uuid = U, ps_encSvc = encSvc\<rparr>"

lemma NewPaymentService_fields [simp]:
  "ps_uuid (NewPaymentService U encSvc) = U" "ps_encSvc (NewPaymentService U encSvc) = encSvc"
  by (simp_all add: NewPaymentService_def)

definition idempotencyTTL :: time where
  "idempotencyTTL = seconds (24 * 60 * 60)"

text \<open>\<^verbatim>\<open>unmarshalCachedTransaction\<close>.\<close>

definition unmarshalCachedTransaction :: "PaymentServiceImpl \<Rightarrow> json \<Rightarrow> Transaction result" where
  "unmarshalCachedTransaction s data =
     wrapE (\<lambda>err. InternalError (Wrapf ''unmarshal cached tx'' err)) (unmarshal_Transaction (ps_uuid s) data)"

text \<open>
  Layer 1, the Redis cache, whose failure is only logged, then layer 2, the idempotency log.
\<close>

definition idempotency_lookup :: "env \<Rightarrow> string \<Rightarrow> world \<Rightarrow> json option result" where
  "idempotency_lookup e idempKey w =
     (case IdempotencyCache_Get (ev_fault e S_Cache_Get) (ev_now e) idempKey (wd_redis w) of
        Inr (Some cached) \<Rightarrow> Inr (Some cached)
      | _ \<Rightarrow>
          bindE (wrapE (\<lambda>err. InternalError (Wrapf ''db idempotency check'' err))
                   (IdempotencyRepo_Get (ev_fault e S_Idemp_Get) idempKey (wd_db w))) (\<lambda>idempLog.
          Inr (map_option il_ResponseJSON idempLog)))"

text \<open>Decrypt and parse the balance of a locked wallet.\<close>

definition read_balance :: "PaymentServiceImpl \<Rightarrow> Wallet \<Rightarrow> int64 result" where
  "read_balance s wallet =
     bindE (wrapE (\<lambda>err. ErrEncryptionFailure (Wrapf ''decrypt balance'' err))
              (Decrypt (ps_encSvc s) (w_EncryptedBalance wallet))) (\<lambda>balanceStr.
     wrapE (\<lambda>err. InternalError (Wrapf ''parse balance'' err)) (ParseIntE balanceStr))"

text \<open>Encrypt a new balance (draw 0) or an amount (draw 1).\<close>

definition encrypt_amount :: "PaymentServiceImpl \<Rightarrow> env \<Rightarrow> nat \<Rightarrow> string \<Rightarrow> int64 \<Rightarrow> string result" where
  "encrypt_amount s e i what v =
     wrapE (\<lambda>err. ErrEncryptionFailure (Wrapf what err)) (Encrypt (ps_encSvc s) (rand_draw e i) (FormatInt v))"

text \<open>Commit, then cache the response; a failed cache write is only logged.\<close>

definition commit_and_cache ::
    "env \<Rightarrow> string \<Rightarrow> Transaction \<Rightarrow> json \<Rightarrow> db \<Rightarrow> world \<Rightarrow> Transaction result \<times> world" where
  "commit_and_cache e idempKey txn respJSON tx w =
     (case tx_Commit e tx (wd_db w) of
        (Inl err, d) \<Rightarrow> (Inl (InternalError (Wrapf ''commit tx'' err)), w\<lparr>wd_db := d\<rparr>)
      | (Inr _, d) \<Rightarrow>
          (Inr txn,
           w\<lparr>wd_db := d,
             wd_redis := (case IdempotencyCache_Set (ev_fault e S_Cache_Set) (ev_now e) idempKey respJSON
                                 idempotencyTTL (wd_redis w) of
                            Inl _ \<Rightarrow> wd_redis w | Inr r \<Rightarrow> r)\<rparr>))"

section \<open>ProcessPayment\<close>

definition payment_txn :: "env \<Rightarrow> PaymentRequest \<Rightarrow> Wallet \<Rightarrow> string \<Rightarrow> Transaction" where
  "payment_txn e req wallet amountEncrypted =
     \<lparr>tx_ID = ev_uuid e 0, tx_ReferenceID = pq_ReferenceID req, tx_MerchantID = pq_MerchantID req,
      tx_WalletID = w_ID wallet, tx_Amount = pq_Amount req, tx_AmountEncrypted = amountEncrypted,
      tx_TransactionType = TransactionTypePayment, tx_Status = TransactionStatusSuccess,
      tx_Signature = pq_Signature req, tx_ClientIP = pq_ClientIP req, tx_ExtraData = pq_ExtraData req,
      tx_OriginalTransactionID = None, tx_CreatedAt = ev_now e, tx_ProcessedAt = Some (ev_now e)\<rparr>"

definition payment_in_tx ::
    "PaymentServiceImpl \<Rightarrow> env \<Rightarrow> PaymentRequest \<Rightarrow> string \<Rightarrow> db \<Rightarrow> (Transaction \<times> json \<times> db) result" where
  "payment_in_tx s e req idempKey tx0 =
     bindE (wrapE (\<lambda>err. InternalError (Wrapf ''lock wallet'' err))
       (WalletRepo_GetByMerchantIDForUpdate (ev_fault e S_Wallet_Lock) (pq_MerchantID req) (pq_Currency req) tx0)) (\<lambda>found.
     bindE (needE (ErrNotFound ''wallet'') found) (\<lambda>wallet.
     bindE (read_balance s wallet) (\<lambda>currentBalance.
     bindE (failIf (currentBalance <s pq_Amount req) ErrInsufficientFunds) (\<lambda>_.
     let newBalance = currentBalance - pq_Amount req in
     bindE (encrypt_amount s e 0 ''encrypt new balance'' newBalance) (\<lambda>newBalanceEnc.
     bindE (encrypt_amount s e 1 ''encrypt amount'' (pq_Amount req)) (\<lambda>amountEncrypted.
     let txn = payment_txn e req wallet amountEncrypted in
     bindE (wrapE (\<lambda>err. InternalError (Wrapf ''update balance'' err))
       (WalletRepo_UpdateBalance (ps_uuid s) (ev_fault e S_Wallet_UpdateBalance) (ev_db_now e) (w_ID wallet) newBalanceEnc tx0)) (\<lambda>tx1.
     bindE (wrapE (\<lambda>err. InternalError (Wrapf ''create transaction'' err))
       (TransactionRepo_Create (ev_fault e S_Tx_Create) txn tx1)) (\<lambda>tx2.
     let respJSON = marshal_Transaction (ps_uuid s) txn;
         idempLogEntry = \<lparr>il_Key = idempKey, il_TransactionID = tx_ID txn, il_ResponseJSON = respJSON,
                          il_CreatedAt = ev_now e\<rparr> in
     bindE (wrapE (\<lambda>err. InternalError (Wrapf ''save idempotency log'' err))
       (IdempotencyRepo_Create (ev_fault e S_Idemp_Create) idempLogEntry tx2)) (\<lambda>tx3.
     Inr (txn, respJSON, tx3))))))))))"

definition ProcessPayment ::
    "PaymentServiceImpl \<Rightarrow> env \<Rightarrow> PaymentRequest \<Rightarrow> world \<Rightarrow> Transaction result \<times> world" where
  "ProcessPayment s e req w =
     (if pq_Amount req \<le>s 0 then (Inl ErrInvalidAmount, w)
      else let idempKey = BuildIdempotencyKey (ps_uuid s) (pq_MerchantID req) (pq_ReferenceID req)
      in case idempotency_lookup e idempKey w of
           Inl err \<Rightarrow> (Inl err, w)
         | Inr (Some data) \<Rightarrow> (unmarshalCachedTransaction s data, w)
         | Inr None \<Rightarrow>
             (case bindE (wrapE (\<lambda>err. InternalError (Wrapf ''begin tx'' err))
                            (Transactor_Begin (ev_fault e S_Begin) (wd_db w)))
                     (payment_in_tx s e req idempKey) of
                Inl err \<Rightarrow> (Inl err, w)
              | Inr (txn, respJSON, tx) \<Rightarrow> commit_and_cache e idempKey txn respJSON tx w))"

section \<open>ProcessRefund\<close>

text \<open>What happens before \<^verbatim>\<open>Begin\<close>: the original transaction and the refund amount.\<close>

definition refund_checks :: "env \<Rightarrow> RefundRequest \<Rightarrow> db \<Rightarrow> (Transaction \<times> int64) result" where
  "refund_checks e req d =
     bindE (wrapE (\<lambda>err. InternalError (Wrapf ''find original tx'' err))
       (TransactionRepo_GetByReference (ev_fault e S_Tx_GetByReference) (rq_MerchantID req) (rq_OriginalReferenceID req) d)) (\<lambda>found.
     bindE (needE (ErrNotFound ''original transaction'') found) (\<lambda>origTx.
     bindE (failIf (\<not> IsRefundable origTx) ErrInvalidRefund) (\<lambda>_.
     bindE (wrapE (\<lambda>err. InternalError (Wrapf ''check refund exists'' err))
       (TransactionRepo_CheckRefundExists (ev_fault e S_Tx_CheckRefundExists) (tx_ID origTx) d)) (\<lambda>refundExists.
     bindE (failIf refundExists ErrDuplicateTransaction) (\<lambda>_.
     case rq_Amount req of
       None \<Rightarrow> Inr (origTx, tx_Amount origTx)
     | Some a \<Rightarrow>
         bindE (failIf (a \<le>s 0) ErrInvalidAmount) (\<lambda>_.
         bindE (failIf (tx_Amount origTx <s a) ErrRefundAmountExceedsOriginal) (\<lambda>_.
         Inr (origTx, a))))))))"

definition refund_txn :: "env \<Rightarrow> RefundRequest \<Rightarrow> Transaction \<Rightarrow> int64 \<Rightarrow> Wallet \<Rightarrow> string \<Rightarrow> Transaction" where
  "refund_txn e req origTx refundAmount wallet amountEncrypted =
     \<lparr>tx_ID = ev_uuid e 0, tx_ReferenceID = ''REFUND-'' @ rq_OriginalReferenceID req,
      tx_MerchantID = rq_MerchantID req, tx_WalletID = w_ID wallet, tx_Amount = refundAmount,
      tx_AmountEncrypted = amountEncrypted, tx_TransactionType = TransactionTypeRefund,
      tx_Status = TransactionStatusSuccess, tx_Signature = rq_Signature req,
      tx_ClientIP = rq_ClientIP req, tx_ExtraData = Some (rq_Reason req),
      tx_OriginalTransactionID = Some (tx_ID origTx), tx_CreatedAt = ev_now e,
      tx_ProcessedAt = Some (ev_now e)\<rparr>"

definition refund_in_tx ::
    "PaymentServiceImpl \<Rightarrow> env \<Rightarrow> RefundRequest \<Rightarrow> string \<Rightarrow> Transaction \<Rightarrow> int64 \<Rightarrow> db \<Rightarrow>
     (Transaction \<times> json \<times> db) result" where
  "refund_in_tx s e req idempKey origTx refundAmount tx0 =
     bindE (wrapE (\<lambda>err. InternalError (Wrapf ''lock wallet'' err))
       (WalletRepo_GetByIDForUpdate (ev_fault e S_Wallet_Lock) (tx_WalletID origTx) tx0)) (\<lambda>found.
     bindE (needE (ErrNotFound ''wallet'') found) (\<lambda>wallet.
     bindE (read_balance s wallet) (\<lambda>currentBalance.
     let newBalance = currentBalance + refundAmount in
     bindE (encrypt_amount s e 0 ''encrypt new balance'' newBalance) (\<lambda>newBalanceEnc.
     bindE (encrypt_amount s e 1 ''encrypt amount'' refundAmount) (\<lambda>amountEncrypted.
     let txn = refund_txn e req origTx refundAmount wallet amountEncrypted in
     bindE (wrapE (\<lambda>err. InternalError (Wrapf ''update balance'' err))
       (WalletRepo_UpdateBalance (ps_uuid s) (ev_fault e S_Wallet_UpdateBalance) (ev_db_now e) (w_ID wallet) newBalanceEnc tx0)) (\<lambda>tx1.
     bindE (wrapE (\<lambda>err. InternalError (Wrapf ''create refund tx'' err))
       (TransactionRepo_Create (ev_fault e S_Tx_Create) txn tx1)) (\<lambda>tx2.
     bindE (wrapE (\<lambda>err. InternalError (Wrapf ''reverse original tx'' err))
       (TransactionRepo_UpdateStatus (ps_uuid s) (ev_fault e S_Tx_UpdateStatus) (ev_now e) (tx_ID origTx) TransactionStatusReversed tx2)) (\<lambda>tx3.
     let respJSON = marshal_Transaction (ps_uuid s) txn;
         idempLogEntry = \<lparr>il_Key = idempKey, il_TransactionID = tx_ID txn, il_ResponseJSON = respJSON,
                          il_CreatedAt = ev_now e\<rparr> in
     bindE (wrapE (\<lambda>err. InternalError (Wrapf ''save idempotency log'' err))
       (IdempotencyRepo_Create (ev_fault e S_Idemp_Create) idempLogEntry tx3)) (\<lambda>tx4.
     Inr (txn, respJSON, tx4))))))))))"

definition ProcessRefund ::
    "PaymentServiceImpl \<Rightarrow> env \<Rightarrow> RefundRequest \<Rightarrow> world \<Rightarrow> Transaction result \<times> world" where
  "ProcessRefund s e req w =
     (let idempKey = BuildRefundIdempotencyKey (ps_uuid s) (rq_MerchantID req) (rq_OriginalReferenceID req)
      in case idempotency_lookup e idempKey w of
           Inl err \<Rightarrow> (Inl err, w)
         | Inr (Some data) \<Rightarrow> (unmarshalCachedTransaction s data, w)
         | Inr None \<Rightarrow>
             (case bindE (refund_checks e req (wd_db w)) (\<lambda>(origTx, refundAmount).
                     bindE (wrapE (\<lambda>err. InternalError (Wrapf ''begin tx'' err))
                              (Transactor_Begin (ev_fault e S_Begin) (wd_db w)))
                       (refund_in_tx s e req idempKey origTx refundAmount)) of
                Inl err \<Rightarrow> (Inl err, w)
              | Inr (txn, respJSON, tx) \<Rightarrow> commit_and_cache e idempKey txn respJSON tx w))"

section \<open>ProcessTopup\<close>

definition topup_ref :: "uuid_pkg \<Rightarrow> uuid \<Rightarrow> time \<Rightarrow> string" where
  "topup_ref U m now =
     ''TOPUP-'' @ take 8 (uuid_String U m) @ ''-'' @ FormatInt (word_of_int (UnixMilli now))"

definition topup_txn :: "PaymentServiceImpl \<Rightarrow> env \<Rightarrow> TopupRequest \<Rightarrow> Wallet \<Rightarrow> string \<Rightarrow> Transaction" where
  "topup_txn s e req wallet amountEncrypted =
     \<lparr>tx_ID = ev_uuid e 0, tx_ReferenceID = topup_ref (ps_uuid s) (tq_MerchantID req) (ev_now e),
      tx_MerchantID = tq_MerchantID req, tx_WalletID = w_ID wallet, tx_Amount = tq_Amount req,
      tx_AmountEncrypted = amountEncrypted, tx_TransactionType = TransactionTypeTopup,
      tx_Status = TransactionStatusSuccess, tx_Signature = ''SYSTEM_TOPUP'', tx_ClientIP = [],
      tx_ExtraData = None, tx_OriginalTransactionID = None, tx_CreatedAt = ev_now e,
      tx_ProcessedAt = Some (ev_now e)\<rparr>"

definition topup_in_tx ::
    "PaymentServiceImpl \<Rightarrow> env \<Rightarrow> TopupRequest \<Rightarrow> db \<Rightarrow> (Transaction \<times> db) result" where
  "topup_in_tx s e req tx0 =
     bindE (wrapE (\<lambda>err. InternalError (Wrapf ''lock wallet'' err))
       (WalletRepo_GetByMerchantIDForUpdate (ev_fault e S_Wallet_Lock) (tq_MerchantID req) (tq_Currency req) tx0)) (\<lambda>found.
     bindE (needE (ErrNotFound ''wallet'') found) (\<lambda>wallet.
     bindE (read_balance s wallet) (\<lambda>currentBalance.
     let newBalance = currentBalance + tq_Amount req in
     bindE (encrypt_amount s e 0 ''encrypt new balance'' newBalance) (\<lambda>newBalanceEnc.
     bindE (encrypt_amount s e 1 ''encrypt amount'' (tq_Amount req)) (\<lambda>amountEncrypted.
     let txn = topup_txn s e req wallet amountEncrypted in
     bindE (wrapE (\<lambda>err. InternalError (Wrapf ''update balance'' err))
       (WalletRepo_UpdateBalance (ps_uuid s) (ev_fault e S_Wallet_UpdateBalance) (ev_db_now e) (w_ID wallet) newBalanceEnc tx0)) (\<lambda>tx1.
     bindE (wrapE (\<lambda>err. InternalError (Wrapf ''create transaction'' err))
       (TransactionRepo_Create (ev_fault e S_Tx_Create) txn tx1)) (\<lambda>tx2.
     Inr (txn, tx2))))))))"

definition ProcessTopup ::
    "PaymentServiceImpl \<Rightarrow> env \<Rightarrow> TopupRequest \<Rightarrow> world \<Rightarrow> Transaction result \<times> world" where
  "ProcessTopup s e req w =
     (if tq_Amount req \<le>s 0 then (Inl ErrInvalidAmount, w)
      else case bindE (wrapE (\<lambda>err. InternalError (Wrapf ''begin tx'' err))
                         (Transactor_Begin (ev_fault e S_Begin) (wd_db w)))
                  (topup_in_tx s e req) of
             Inl err \<Rightarrow> (Inl err, w)
           | Inr (txn, tx) \<Rightarrow>
               (case tx_Commit e tx (wd_db w) of
                  (Inl err, d) \<Rightarrow> (Inl (InternalError (Wrapf ''commit tx'' err)), w\<lparr>wd_db := d\<rparr>)
                | (Inr _, d) \<Rightarrow> (Inr txn, w\<lparr>wd_db := d\<rparr>)))"

end
