(* ===== verification/Ledger.thy ===== *)
theory Ledger
  imports Payment_Service
begin

text \<open>
  The abstract specification of the money movements: a database change that posts one
  transaction to the books (\<open>posted\<close>), the conditions under which it may (\<open>lawful\<close>), and the
  invariant of the books (\<open>book_inv\<close>): every balance equals the sum of the ledger rows of its
  wallet, refunds never exceed the payments they reverse, and no wallet is overdrawn as long
  as its top-ups fit into an \<^verbatim>\<open>int64\<close>. The contract of an operation on the books is the
  locale \<open>fund_operation\<close>; the operations of the payment service are shown to satisfy it, and
  what follows for any sequence of operations is proved once inside the locale.
\<close>

section \<open>Balances and ledger sums\<close>

definition balance_of :: "EncryptionService \<Rightarrow> Wallet \<Rightarrow> int64 option" where
  "balance_of enc w = (case bindE (Decrypt enc (w_EncryptedBalance w)) ParseIntE of
     Inl _ \<Rightarrow> None | Inr b \<Rightarrow> Some b)"

definition wallet_balance :: "EncryptionService \<Rightarrow> db \<Rightarrow> uuid \<Rightarrow> int64 option" where
  "wallet_balance enc d i = Option.bind (row_where (\<lambda>w. w_ID w = i) (wallets d)) (balance_of enc)"

definition delta :: "Transaction \<Rightarrow> int64" where
  "delta t = (if tx_TransactionType t = TransactionTypePayment then - tx_Amount t else tx_Amount t)"

definition ledger_sum :: "db \<Rightarrow> uuid \<Rightarrow> int64" where
  "ledger_sum d i = sum_list (map (\<lambda>t. if tx_WalletID t = i then delta t else 0) (transactions d))"

definition total :: "(Transaction \<Rightarrow> bool) \<Rightarrow> db \<Rightarrow> uuid \<Rightarrow> int" where
  "total P d i = sum_list (map (\<lambda>t. if tx_WalletID t = i \<and> P t then sint (tx_Amount t) else 0) (transactions d))"

abbreviation topups :: "db \<Rightarrow> uuid \<Rightarrow> int" where
  "topups \<equiv> total (\<lambda>t. tx_TransactionType t = TransactionTypeTopup)"
abbreviation payments :: "db \<Rightarrow> uuid \<Rightarrow> int" where
  "payments \<equiv> total (\<lambda>t. tx_TransactionType t = TransactionTypePayment)"
abbreviation refunds :: "db \<Rightarrow> uuid \<Rightarrow> int" where
  "refunds \<equiv> total (\<lambda>t. tx_TransactionType t = TransactionTypeRefund)"
abbreviation reversed_payments :: "db \<Rightarrow> uuid \<Rightarrow> int" where
  "reversed_payments \<equiv> total (\<lambda>t. tx_TransactionType t = TransactionTypePayment \<and>
     tx_Status t = TransactionStatusReversed)"

section \<open>Posting a transaction\<close>

definition mark_reversed :: "time \<Rightarrow> Transaction \<Rightarrow> Transaction list \<Rightarrow> Transaction list" where
  "mark_reversed n t ts = rows_update (\<lambda>x. tx_OriginalTransactionID t = Some (tx_ID x))
     (\<lambda>x. x\<lparr>tx_Status := TransactionStatusReversed, tx_ProcessedAt := Some n\<rparr>) ts"

definition posted :: "EncryptionService \<Rightarrow> Transaction \<Rightarrow> db \<Rightarrow> db \<Rightarrow> bool" where
  "posted enc t d d' \<longleftrightarrow>
     (\<exists>b c n n'. wallet_balance enc d (tx_WalletID t) = Some b \<and>
        bindE (Decrypt enc c) ParseIntE = Inr (b + delta t) \<and>
        wallets d' = rows_update (\<lambda>w. w_ID w = tx_WalletID t)
          (\<lambda>w. w\<lparr>w_EncryptedBalance := c, w_UpdatedAt := n\<rparr>) (wallets d) \<and>
        transactions d' = mark_reversed n' t (transactions d @ [t])) \<and>
     tx_ID t \<notin> tx_ID ` set (transactions d) \<and> merchants d' = merchants d"

definition lawful :: "EncryptionService \<Rightarrow> Transaction \<Rightarrow> db \<Rightarrow> bool" where
  "lawful enc t d \<longleftrightarrow>
     0 < sint (tx_Amount t) \<and> tx_Status t = TransactionStatusSuccess \<and>
     (tx_TransactionType t = TransactionTypePayment \<and> tx_OriginalTransactionID t = None \<and>
        (\<exists>b. wallet_balance enc d (tx_WalletID t) = Some b \<and> sint (tx_Amount t) \<le> sint b) \<or>
      tx_TransactionType t = TransactionTypeTopup \<and> tx_OriginalTransactionID t = None \<or>
      tx_TransactionType t = TransactionTypeRefund \<and>
        (\<exists>p\<in>set (transactions d). tx_OriginalTransactionID t = Some (tx_ID p) \<and> IsRefundable p \<and>
           tx_WalletID t = tx_WalletID p \<and> tx_MerchantID t = tx_MerchantID p \<and>
           sint (tx_Amount t) \<le> sint (tx_Amount p)))"

section \<open>The invariant of the books\<close>

definition rows_ok :: "db \<Rightarrow> bool" where
  "rows_ok d \<longleftrightarrow> (\<forall>t\<in>set (transactions d). 0 < sint (tx_Amount t) \<and>
     tx_TransactionType t \<in> {TransactionTypePayment, TransactionTypeRefund, TransactionTypeTopup})"

definition ledger_inv :: "EncryptionService \<Rightarrow> db \<Rightarrow> bool" where
  "ledger_inv enc d \<longleftrightarrow> (\<forall>w\<in>set (wallets d). wallet_balance enc d (w_ID w) = Some (ledger_sum d (w_ID w)))"

definition refunds_covered :: "db \<Rightarrow> bool" where
  "refunds_covered d \<longleftrightarrow> (\<forall>i. refunds d i \<le> reversed_payments d i)"

definition no_overdraft :: "db \<Rightarrow> bool" where
  "no_overdraft d \<longleftrightarrow> (\<forall>i. topups d i < 2 ^ 63 \<longrightarrow> payments d i \<le> topups d i + refunds d i)"

text \<open>
  Every refund points to a reversed payment of the same merchant and wallet that is at least as
  large, and no two refunds point to the same payment.
\<close>

definition refund_of :: "Transaction \<Rightarrow> Transaction \<Rightarrow> bool" where
  "refund_of t p \<longleftrightarrow> tx_OriginalTransactionID t = Some (tx_ID p) \<and>
     tx_TransactionType p = TransactionTypePayment \<and> tx_Status p = TransactionStatusReversed \<and>
     tx_WalletID t = tx_WalletID p \<and> tx_MerchantID t = tx_MerchantID p \<and>
     sint (tx_Amount t) \<le> sint (tx_Amount p)"

definition is_refund :: "Transaction \<Rightarrow> bool" where
  "is_refund t \<longleftrightarrow> tx_TransactionType t = TransactionTypeRefund"

definition refund_links :: "db \<Rightarrow> bool" where
  "refund_links d \<longleftrightarrow>
     (\<forall>t\<in>set (transactions d). is_refund t \<longrightarrow> (\<exists>p\<in>set (transactions d). refund_of t p)) \<and>
     distinct (map tx_OriginalTransactionID (filter is_refund (transactions d)))"

text \<open>A stored transaction is successful, or a payment that was reversed.\<close>

definition statuses_ok :: "db \<Rightarrow> bool" where
  "statuses_ok d \<longleftrightarrow> (\<forall>t\<in>set (transactions d). tx_Status t = TransactionStatusSuccess \<or>
     tx_Status t = TransactionStatusReversed \<and> tx_TransactionType t = TransactionTypePayment)"

definition book_inv :: "EncryptionService \<Rightarrow> db \<Rightarrow> bool" where
  "book_inv enc d \<longleftrightarrow> distinct (map w_ID (wallets d)) \<and> distinct (map tx_ID (transactions d)) \<and>
     tx_WalletID ` set (transactions d) \<subseteq> w_ID ` set (wallets d) \<and>
     rows_ok d \<and> ledger_inv enc d \<and> refunds_covered d \<and> no_overdraft d \<and> refund_links d \<and> statuses_ok d"

subsection \<open>Sums over a posting\<close>

lemma sum_list_rows_update_id:
  assumes "\<And>r. g (f r) = g r"
  shows "sum_list (map g (rows_update P f t)) = sum_list (map g t)"
  by (simp add: map_rows_update assms)

lemma ledger_sum_posted:
  assumes "posted enc t d d'"
  shows "ledger_sum d' i = ledger_sum d i + (if tx_WalletID t = i then delta t else 0)"
proof -
  from assms obtain n where "transactions d' = mark_reversed n t (transactions d @ [t])"
    by (auto simp: posted_def)
  then have "ledger_sum d' i =
      sum_list (map (\<lambda>t. if tx_WalletID t = i then delta t else 0) (transactions d @ [t]))"
    unfolding ledger_sum_def mark_reversed_def
    by (simp only:, subst sum_list_rows_update_id) (simp_all add: delta_def)
  then show ?thesis by (simp add: ledger_sum_def)
qed

lemma total_posted:
  assumes "posted enc t d d'"
    and "\<And>x n. P (x\<lparr>tx_Status := TransactionStatusReversed, tx_ProcessedAt := Some n\<rparr>) = P x"
  shows "total P d' i = total P d i + (if tx_WalletID t = i \<and> P t then sint (tx_Amount t) else 0)"
proof -
  from assms obtain n where "transactions d' = mark_reversed n t (transactions d @ [t])"
    by (auto simp: posted_def)
  then have "total P d' i =
      sum_list (map (\<lambda>t. if tx_WalletID t = i \<and> P t then sint (tx_Amount t) else 0) (transactions d @ [t]))"
    unfolding total_def mark_reversed_def
    by (simp only:, subst sum_list_rows_update_id) (simp_all add: assms(2))
  then show ?thesis by (simp add: total_def)
qed

lemma total_mono: "(\<And>t. t \<in> set (transactions d) \<Longrightarrow> P t \<Longrightarrow> Q t) \<Longrightarrow> rows_ok d \<Longrightarrow> total P d i \<le> total Q d i"
  unfolding total_def rows_ok_def by (rule sum_list_mono) auto

lemma total_nonneg: "rows_ok d \<Longrightarrow> 0 \<le> total P d i"
  unfolding total_def rows_ok_def by (rule sum_list_nonneg) auto

text \<open>A refund turns one live payment into a reversed one.\<close>

lemma sum_list_update_one:
  fixes g :: "Transaction \<Rightarrow> int"
  assumes "distinct (map tx_ID ts)" and "p \<in> set ts"
  shows "sum_list (map g (rows_update (\<lambda>x. tx_ID x = tx_ID p) f ts)) = sum_list (map g ts) - g p + g (f p)"
  using assms
proof (induction ts)
  case Nil
  then show ?case by simp
next
  case (Cons x ts)
  show ?case
  proof (cases "tx_ID x = tx_ID p")
    case True
    have "x = p"
    proof (rule ccontr)
      assume "x \<noteq> p"
      with Cons.prems have "tx_ID p \<in> set (map tx_ID ts)" by auto
      with Cons.prems True show False by simp
    qed
    moreover have "tx_ID r \<noteq> tx_ID p" if "r \<in> set ts" for r
      using Cons.prems(1) True that by (metis distinct.simps(2) image_eqI list.map(2) list.set_map)
    then have "rows_update (\<lambda>x. tx_ID x = tx_ID p) f ts = ts"
      by (intro rows_update_id) simp
    ultimately show ?thesis by simp
  next
    case False
    with Cons show ?thesis by auto
  qed
qed

lemma reversed_refund:
  assumes post: "posted enc t d d'" and dist: "distinct (map tx_ID (transactions d))"
    and p: "p \<in> set (transactions d)" "tx_OriginalTransactionID t = Some (tx_ID p)" "IsRefundable p"
    and ty: "tx_TransactionType t = TransactionTypeRefund"
  shows "reversed_payments d' i = reversed_payments d i + (if tx_WalletID p = i then sint (tx_Amount p) else 0)"
proof -
  let ?g = "\<lambda>x. if tx_WalletID x = i \<and> tx_TransactionType x = TransactionTypePayment \<and>
      tx_Status x = TransactionStatusReversed then sint (tx_Amount x) else 0"
  from post obtain n where tr: "transactions d' = mark_reversed n t (transactions d @ [t])"
    and new: "tx_ID t \<notin> tx_ID ` set (transactions d)"
    by (auto simp: posted_def)
  let ?f = "\<lambda>x. x\<lparr>tx_Status := TransactionStatusReversed, tx_ProcessedAt := Some n\<rparr>"
  have "reversed_payments d' i =
      sum_list (map ?g (rows_update (\<lambda>x. tx_ID x = tx_ID p) ?f (transactions d @ [t])))"
    by (simp add: total_def tr mark_reversed_def p eq_commute [of "tx_ID p"])
  also have "\<dots> = sum_list (map ?g (transactions d @ [t])) - ?g p + ?g (?f p)"
    by (rule sum_list_update_one) (use dist new p in auto)
  also have "\<dots> = reversed_payments d i + (if tx_WalletID p = i then sint (tx_Amount p) else 0)"
    using p(3) ty by (simp add: total_def IsRefundable_def)
  finally show ?thesis .
qed


lemma reversed_other:
  assumes post: "posted enc t d d'" and "tx_OriginalTransactionID t = None"
    and "tx_Status t = TransactionStatusSuccess"
  shows "reversed_payments d' i = reversed_payments d i"
proof -
  from assms obtain n where "transactions d' = mark_reversed n t (transactions d @ [t])"
    by (auto simp: posted_def)
  with assms(2,3) show ?thesis by (simp add: total_def mark_reversed_def rows_update_def)
qed

lemma sint64_word_of_int: "- (2 ^ 63) \<le> n \<Longrightarrow> n < 2 ^ 63 \<Longrightarrow> sint (word_of_int n :: int64) = n"
  by (simp add: signed_take_bit_int_eq_self sint_sbintrunc')

text \<open>A ledger sum is the image, modulo the word size, of top-ups plus refunds minus payments.\<close>

lemma sum_delta:
  assumes "\<forall>t\<in>set ts. tx_TransactionType t \<in> {TransactionTypePayment, TransactionTypeRefund, TransactionTypeTopup}"
  shows "sum_list (map (\<lambda>t. if tx_WalletID t = i then delta t else 0) ts) =
    word_of_int (sum_list (map (\<lambda>t. if tx_WalletID t = i \<and> tx_TransactionType t = TransactionTypeTopup then sint (tx_Amount t) else 0) ts)
      + sum_list (map (\<lambda>t. if tx_WalletID t = i \<and> tx_TransactionType t = TransactionTypeRefund then sint (tx_Amount t) else 0) ts)
      - sum_list (map (\<lambda>t. if tx_WalletID t = i \<and> tx_TransactionType t = TransactionTypePayment then sint (tx_Amount t) else 0) ts))"
  using assms
proof (induction ts)
  case (Cons t ts)
  then have IH: "sum_list (map (\<lambda>t. if tx_WalletID t = i then delta t else 0) ts) =
    word_of_int (sum_list (map (\<lambda>t. if tx_WalletID t = i \<and> tx_TransactionType t = TransactionTypeTopup then sint (tx_Amount t) else 0) ts)
      + sum_list (map (\<lambda>t. if tx_WalletID t = i \<and> tx_TransactionType t = TransactionTypeRefund then sint (tx_Amount t) else 0) ts)
      - sum_list (map (\<lambda>t. if tx_WalletID t = i \<and> tx_TransactionType t = TransactionTypePayment then sint (tx_Amount t) else 0) ts))"
    by simp
  from Cons.prems consider "tx_TransactionType t = TransactionTypePayment"
    | "tx_TransactionType t = TransactionTypeRefund" | "tx_TransactionType t = TransactionTypeTopup" by auto
  then show ?case
    by cases (simp_all add: IH delta_def wi_hom_syms algebra_simps flip: wi_hom_add wi_hom_sub)
qed simp

lemma ledger_sum_word:
  "rows_ok d \<Longrightarrow> ledger_sum d i = word_of_int (topups d i + refunds d i - payments d i)"
  unfolding ledger_sum_def total_def rows_ok_def by (rule sum_delta) blast

text \<open>As long as the top-ups of a wallet fit into an \<^verbatim>\<open>int64\<close>, its ledger sum is exact.\<close>

lemma ledger_sum_exact:
  assumes "book_inv enc d" and "topups d i < 2 ^ 63"
  shows "sint (ledger_sum d i) = topups d i + refunds d i - payments d i"
    and "0 \<le> topups d i + refunds d i - payments d i"
    and "topups d i + refunds d i - payments d i \<le> topups d i"
proof -
  from assms(1) have ok: "rows_ok d" and cov: "refunds d i \<le> reversed_payments d i"
    and od: "payments d i \<le> topups d i + refunds d i"
    using assms(2) by (auto simp: book_inv_def refunds_covered_def no_overdraft_def)
  have "reversed_payments d i \<le> payments d i" using ok by (rule total_mono [rotated]) simp
  with cov show le: "topups d i + refunds d i - payments d i \<le> topups d i" by simp
  from od show ge: "0 \<le> topups d i + refunds d i - payments d i" by simp
  show "sint (ledger_sum d i) = topups d i + refunds d i - payments d i"
    unfolding ledger_sum_word [OF ok] by (rule sint64_word_of_int) (use le ge assms(2) in linarith)+
qed

section \<open>A lawful posting keeps the books\<close>

lemma wallet_balance_Some: "wallet_balance enc d i = Some b \<Longrightarrow> i \<in> w_ID ` set (wallets d)"
  by (auto simp: wallet_balance_def bind_eq_Some_conv dest: row_where_Some)

lemma wallet_balance_posted:
  assumes "posted enc t d d'" and "distinct (map w_ID (wallets d))"
  shows "wallet_balance enc d' i =
    (if i = tx_WalletID t then map_option (\<lambda>b. b + delta t) (wallet_balance enc d i) else wallet_balance enc d i)"
proof -
  from assms(1) obtain b c n where b: "wallet_balance enc d (tx_WalletID t) = Some b"
    and c: "bindE (Decrypt enc c) ParseIntE = Inr (b + delta t)"
    and w: "wallets d' = rows_update (\<lambda>w. w_ID w = tx_WalletID t)
          (\<lambda>w. w\<lparr>w_EncryptedBalance := c, w_UpdatedAt := n\<rparr>) (wallets d)"
    by (auto simp: posted_def)
  have row: "row_where (\<lambda>w. w_ID w = i) (wallets d') = map_option
      (\<lambda>w. if w_ID w = tx_WalletID t then w\<lparr>w_EncryptedBalance := c, w_UpdatedAt := n\<rparr> else w)
      (row_where (\<lambda>w. w_ID w = i) (wallets d))"
    unfolding w by (rule row_where_rows_update) simp
  show ?thesis
  proof (cases "row_where (\<lambda>w. w_ID w = i) (wallets d)")
    case None
    with row show ?thesis by (auto simp: wallet_balance_def)
  next
    case (Some w)
    then have "w_ID w = i" by (auto dest: row_where_Some)
    with Some row b c show ?thesis by (auto simp: wallet_balance_def balance_of_def)
  qed
qed

lemma map_mark_reversed:
  assumes "\<And>x n. g (x\<lparr>tx_Status := TransactionStatusReversed, tx_ProcessedAt := Some n\<rparr>) = g x"
  shows "map g (mark_reversed n t ts) = map g ts"
  unfolding mark_reversed_def by (rule map_rows_update) (simp add: assms)

lemma image_mark_reversed:
  assumes "\<And>x n. g (x\<lparr>tx_Status := TransactionStatusReversed, tx_ProcessedAt := Some n\<rparr>) = g x"
  shows "g ` set (mark_reversed n t ts) = g ` set ts"
  unfolding mark_reversed_def by (rule image_rows_update) (simp add: assms)

lemma filter_mark_reversed:
  assumes "\<And>x n. g (x\<lparr>tx_Status := TransactionStatusReversed, tx_ProcessedAt := Some n\<rparr>) = g x"
  shows "map g (filter is_refund (mark_reversed n t ts)) = map g (filter is_refund ts)"
  by (induction ts) (simp_all add: mark_reversed_def is_refund_def assms)

lemma posted_keys:
  assumes "posted enc t d d'"
  shows "map w_ID (wallets d') = map w_ID (wallets d)"
    and "map tx_ID (transactions d') = map tx_ID (transactions d) @ [tx_ID t]"
    and "tx_WalletID ` set (transactions d') = insert (tx_WalletID t) (tx_WalletID ` set (transactions d))"
    and "tx_WalletID t \<in> w_ID ` set (wallets d)"
    and "map tx_OriginalTransactionID (filter is_refund (transactions d')) =
      map tx_OriginalTransactionID (filter is_refund (transactions d)) @
      (if is_refund t then [tx_OriginalTransactionID t] else [])"
proof -
  from assms obtain b c n n' where b: "wallet_balance enc d (tx_WalletID t) = Some b"
    and w: "wallets d' = rows_update (\<lambda>w. w_ID w = tx_WalletID t)
          (\<lambda>w. w\<lparr>w_EncryptedBalance := c, w_UpdatedAt := n\<rparr>) (wallets d)"
    and tr: "transactions d' = mark_reversed n' t (transactions d @ [t])"
    by (auto simp: posted_def)
  show "map w_ID (wallets d') = map w_ID (wallets d)" by (simp add: w map_rows_update)
  show "map tx_ID (transactions d') = map tx_ID (transactions d) @ [tx_ID t]"
    by (simp add: tr map_mark_reversed)
  show "tx_WalletID ` set (transactions d') = insert (tx_WalletID t) (tx_WalletID ` set (transactions d))"
    by (simp add: tr image_mark_reversed)
  show "tx_WalletID t \<in> w_ID ` set (wallets d)" using b by (rule wallet_balance_Some)
  show "map tx_OriginalTransactionID (filter is_refund (transactions d')) =
      map tx_OriginalTransactionID (filter is_refund (transactions d)) @
      (if is_refund t then [tx_OriginalTransactionID t] else [])"
    by (simp add: tr filter_mark_reversed)
qed

lemma rows_ok_posted:
  assumes "rows_ok d" "posted enc t d d'" "lawful enc t d"
  shows "rows_ok d'"
proof -
  let ?ok = "\<lambda>t. 0 < sint (tx_Amount t) \<and>
     tx_TransactionType t \<in> {TransactionTypePayment, TransactionTypeRefund, TransactionTypeTopup}"
  from assms(2) obtain n where tr: "transactions d' = mark_reversed n t (transactions d @ [t])"
    by (auto simp: posted_def)
  have "?ok ` set (transactions d') = ?ok ` set (transactions d @ [t])"
    unfolding tr by (rule image_mark_reversed) simp
  moreover have "?ok t" using assms(3) by (auto simp: lawful_def)
  ultimately have "?ok ` set (transactions d') \<subseteq> {True}"
    using assms(1) unfolding rows_ok_def by auto
  then show ?thesis unfolding rows_ok_def by auto
qed

lemma lawful_cases:
  assumes "lawful enc t d"
  obtains (payment) b where "tx_TransactionType t = TransactionTypePayment" "tx_OriginalTransactionID t = None"
      "wallet_balance enc d (tx_WalletID t) = Some b" "sint (tx_Amount t) \<le> sint b"
    | (topup) "tx_TransactionType t = TransactionTypeTopup" "tx_OriginalTransactionID t = None"
    | (refund) p where "tx_TransactionType t = TransactionTypeRefund" "p \<in> set (transactions d)"
      "tx_OriginalTransactionID t = Some (tx_ID p)" "IsRefundable p" "tx_WalletID t = tx_WalletID p"
      "tx_MerchantID t = tx_MerchantID p" "sint (tx_Amount t) \<le> sint (tx_Amount p)"
proof -
  from assms consider
      "tx_TransactionType t = TransactionTypePayment \<and> tx_OriginalTransactionID t = None \<and>
        (\<exists>b. wallet_balance enc d (tx_WalletID t) = Some b \<and> sint (tx_Amount t) \<le> sint b)"
    | "tx_TransactionType t = TransactionTypeTopup \<and> tx_OriginalTransactionID t = None"
    | "tx_TransactionType t = TransactionTypeRefund \<and>
        (\<exists>p\<in>set (transactions d). tx_OriginalTransactionID t = Some (tx_ID p) \<and> IsRefundable p \<and>
           tx_WalletID t = tx_WalletID p \<and> tx_MerchantID t = tx_MerchantID p \<and>
           sint (tx_Amount t) \<le> sint (tx_Amount p))"
    unfolding lawful_def by argo
  then show ?thesis
    by cases (elim conjE exE bexE, rule that; assumption)+
qed

lemma lawful_pos: "lawful enc t d \<Longrightarrow> 0 < sint (tx_Amount t)"
  and lawful_status: "lawful enc t d \<Longrightarrow> tx_Status t = TransactionStatusSuccess"
  by (simp_all add: lawful_def)

lemma refunds_covered_posted:
  assumes "refunds_covered d" "distinct (map tx_ID (transactions d))" "posted enc t d d'" "lawful enc t d"
  shows "refunds_covered d'"
  unfolding refunds_covered_def
proof
  fix i
  from assms(1) have "refunds d i \<le> reversed_payments d i" by (simp add: refunds_covered_def)
  moreover from assms(4)
  show "refunds d' i \<le> reversed_payments d' i"
  proof (cases rule: lawful_cases)
    case (refund p)
    then show ?thesis using calculation
      by (simp add: total_posted [OF assms(3)] reversed_refund [OF assms(3,2) refund(2-4) refund(1)])
  qed (use calculation in \<open>simp_all add: total_posted [OF assms(3)] reversed_other [OF assms(3)] lawful_status [OF assms(4)]\<close>)
qed

lemma no_overdraft_posted:
  assumes inv: "book_inv enc d" and post: "posted enc t d d'" and law: "lawful enc t d"
  shows "no_overdraft d'"
  unfolding no_overdraft_def
proof (intro allI impI)
  fix i assume top': "topups d' i < 2 ^ 63"
  have pos: "0 < sint (tx_Amount t)" using law by (rule lawful_pos)
  have top: "topups d i < 2 ^ 63"
    using top' pos by (simp add: total_posted [OF post] split: if_splits)
  then have od: "payments d i \<le> topups d i + refunds d i"
    using inv by (simp add: book_inv_def no_overdraft_def)
  from law show "payments d' i \<le> topups d' i + refunds d' i"
  proof (cases rule: lawful_cases)
    case (payment b)
    then obtain w where "w \<in> set (wallets d)" "w_ID w = tx_WalletID t"
      using wallet_balance_Some by fastforce
    with inv payment have "b = ledger_sum d (tx_WalletID t)"
      by (auto simp: book_inv_def ledger_inv_def)
    with payment od show ?thesis
      using ledger_sum_exact [OF inv top] by (auto simp: total_posted [OF post])
  qed (use od pos in \<open>auto simp: total_posted [OF post]\<close>)
qed

lemma ledger_inv_posted:
  assumes "ledger_inv enc d" "posted enc t d d'" "distinct (map w_ID (wallets d))"
  shows "ledger_inv enc d'"
  unfolding ledger_inv_def
proof
  fix w' assume "w' \<in> set (wallets d')"
  then have "w_ID w' \<in> w_ID ` set (wallets d)"
    using posted_keys(1) [OF assms(2)] by (metis image_eqI list.set_map)
  then obtain w where "w \<in> set (wallets d)" and "w_ID w' = w_ID w" by auto
  then show "wallet_balance enc d' (w_ID w') = Some (ledger_sum d' (w_ID w'))"
    using assms(1) wallet_balance_posted [OF assms(2,3), of "w_ID w"]
    by (cases "w_ID w = tx_WalletID t") (auto simp: ledger_inv_def ledger_sum_posted [OF assms(2)])
qed

lemma tx_ID_eq: "distinct (map tx_ID ts) \<Longrightarrow> p \<in> set ts \<Longrightarrow> q \<in> set ts \<Longrightarrow> tx_ID p = tx_ID q \<Longrightarrow> p = q"
  by (meson distinct_map inj_onD)

lemma refund_links_posted:
  assumes links: "refund_links d" and dist: "distinct (map tx_ID (transactions d))"
    and post: "posted enc t d d'" and law: "lawful enc t d"
  shows "refund_links d'"
proof -
  from post obtain n where tr: "transactions d' = mark_reversed n t (transactions d @ [t])"
    by (auto simp: posted_def)
  let ?u = "\<lambda>x. if tx_OriginalTransactionID t = Some (tx_ID x)
    then x\<lparr>tx_Status := TransactionStatusReversed, tx_ProcessedAt := Some n\<rparr> else x"
  have set: "set (transactions d') = ?u ` (insert t (set (transactions d)))"
    by (simp add: tr mark_reversed_def rows_update_def)
  have keep: "refund_of (?u y) (?u p)" if "refund_of y p" for y p
    using that by (auto simp: refund_of_def)
  have old: "\<exists>p\<in>set (transactions d). refund_of y p" if "y \<in> set (transactions d)" "is_refund y" for y
    using links that by (auto simp: refund_links_def)
  have t_link: "\<exists>p\<in>set (transactions d). tx_OriginalTransactionID t = Some (tx_ID p) \<and> IsRefundable p \<and>
      refund_of (?u t) (?u p)" if "is_refund t"
    using law
  proof (cases rule: lawful_cases)
    case (refund p)
    then have "refund_of (?u t) (?u p)" by (simp add: refund_of_def IsRefundable_def)
    with refund show ?thesis by blast
  qed (use that in \<open>simp_all add: is_refund_def\<close>)
  have "\<exists>p\<in>set (transactions d'). refund_of x p" if "x \<in> set (transactions d')" "is_refund x" for x
  proof -
    from that(1) obtain y where y: "y \<in> insert t (set (transactions d))" "x = ?u y"
      unfolding set by blast
    with that(2) have "is_refund y" by (simp add: is_refund_def split: if_splits)
    note y = y this
    then consider "y = t" | "y \<in> set (transactions d)" by auto
    then show ?thesis
    proof cases
      case 1
      with y t_link show ?thesis unfolding set by blast
    next
      case 2
      with y old [of y] keep [of y] show ?thesis unfolding set by blast
    qed
  qed
  moreover have "tx_OriginalTransactionID t \<notin> tx_OriginalTransactionID ` (set (transactions d) \<inter> Collect is_refund)"
    if "is_refund t"
  proof
    assume "tx_OriginalTransactionID t \<in> tx_OriginalTransactionID ` (set (transactions d) \<inter> Collect is_refund)"
    then obtain y q where "q \<in> set (transactions d)" "refund_of y q"
      "tx_OriginalTransactionID t = tx_OriginalTransactionID y" using old by blast
    moreover from t_link [OF that] obtain p where "p \<in> set (transactions d)"
      "tx_OriginalTransactionID t = Some (tx_ID p)" "IsRefundable p" by auto
    ultimately show False using tx_ID_eq [OF dist, of p q] by (auto simp: refund_of_def IsRefundable_def)
  qed
  ultimately show ?thesis
    using links posted_keys(5) [OF post] by (auto simp: refund_links_def)
qed

lemma statuses_ok_posted:
  assumes ok: "statuses_ok d" and dist: "distinct (map tx_ID (transactions d))"
    and post: "posted enc t d d'" and law: "lawful enc t d"
  shows "statuses_ok d'"
  unfolding statuses_ok_def
proof
  from post obtain n where tr: "transactions d' = mark_reversed n t (transactions d @ [t])"
    and new: "tx_ID t \<notin> tx_ID ` set (transactions d)" by (auto simp: posted_def)
  let ?f = "\<lambda>x. x\<lparr>tx_Status := TransactionStatusReversed, tx_ProcessedAt := Some n\<rparr>"
  fix x assume "x \<in> set (transactions d')"
  then consider "x \<in> insert t (set (transactions d))"
    | y where "y \<in> insert t (set (transactions d))" "tx_OriginalTransactionID t = Some (tx_ID y)" "x = ?f y"
    unfolding tr mark_reversed_def set_rows_update by auto
  then show "tx_Status x = TransactionStatusSuccess \<or>
      tx_Status x = TransactionStatusReversed \<and> tx_TransactionType x = TransactionTypePayment"
  proof cases
    case 1
    with ok lawful_status [OF law] show ?thesis by (auto simp: statuses_ok_def)
  next
    case (2 y)
    from law show ?thesis
    proof (cases rule: lawful_cases)
      case (refund p)
      with 2 new have "y = p" using tx_ID_eq [OF dist, of y p] by (auto simp: image_iff)
      with refund 2(3) show ?thesis by (simp add: IsRefundable_def)
    qed (use 2 in simp_all)
  qed
qed

lemma book_inv_posted:
  assumes "book_inv enc d" and "posted enc t d d'" and "lawful enc t d"
  shows "book_inv enc d'"
proof -
  have new: "tx_ID t \<notin> tx_ID ` set (transactions d)" using assms(2) by (simp add: posted_def)
  have ids: "distinct (map tx_ID (transactions d))" and wids: "distinct (map w_ID (wallets d))"
    using assms(1) by (simp_all add: book_inv_def)
  have wset: "w_ID ` set (wallets d') = w_ID ` set (wallets d)"
    using posted_keys(1) [OF assms(2)] by (metis list.set_map)
  note inv = assms(1) [unfolded book_inv_def]
  show ?thesis
    unfolding book_inv_def wset posted_keys(1-3) [OF assms(2)]
  proof (intro conjI)
    show "rows_ok d'" using rows_ok_posted assms inv by blast
    show "ledger_inv enc d'" using ledger_inv_posted assms inv by blast
    show "refunds_covered d'" using refunds_covered_posted assms inv by blast
    show "no_overdraft d'" using assms by (rule no_overdraft_posted)
    show "refund_links d'" using refund_links_posted assms inv by blast
    show "statuses_ok d'" using statuses_ok_posted assms inv by blast
  qed (use inv new posted_keys(4) [OF assms(2)] in \<open>simp_all\<close>)
qed

end
