(* ===== verification/Payment_Correct.thy ===== *)
theory Payment_Correct
  imports Ledger
begin

text \<open>
  What the three operations of the payment service do: for each the exact change of the
  database when its transaction part succeeds, the outcome of the whole operation (nothing
  changed, or everything applied), and that the change is a lawful posting in the sense of
  \<^theory_text>\<open>Ledger\<close>. The contract of an operation on the books is the locale \<open>fund_operation\<close>, whose
  client lemmas hold for every sequence of operations; it is interpreted on the code's operations.
\<close>

section \<open>What a successful transaction part has done\<close>

lemma wsless_zero: "\<not> (a :: int64) \<le>s 0 \<longleftrightarrow> 0 < sint a"
  by (simp add: word_sle_eq not_le)

lemma wsless_sint: "\<not> (a :: int64) <s b \<longleftrightarrow> sint b \<le> sint a"
  by (simp add: word_sless_alt not_less)

lemma read_balance_Inr:
  "read_balance s w = Inr b \<longleftrightarrow> balance_of (ps_encSvc s) w = Some b"
  by (cases "Decrypt (ps_encSvc s) (w_EncryptedBalance w)")
    (auto simp: read_balance_def balance_of_def res_simps split: sum.splits)

lemma encrypt_amount_Inr:
  "encrypt_amount s e i what v = Inr c \<longleftrightarrow> Encrypt (ps_encSvc s) (rand_draw e i) (FormatInt v) = Inr c"
  by (simp add: encrypt_amount_def res_simps)

lemma payment_in_tx_Inr:
  assumes "payment_in_tx s e req k d = Inr (txn, resp, d')"
  obtains wallet b c ae where
    "row_where (\<lambda>w. w_MerchantID w = pq_MerchantID req \<and> w_Currency w = pq_Currency req) (wallets d) = Some wallet"
    "balance_of (ps_encSvc s) wallet = Some b" "sint (pq_Amount req) \<le> sint b"
    "Encrypt (ps_encSvc s) (rand_draw e 0) (FormatInt (b - pq_Amount req)) = Inr c"
    "Encrypt (ps_encSvc s) (rand_draw e 1) (FormatInt (pq_Amount req)) = Inr ae"
    "txn = payment_txn e req wallet ae" "resp = marshal_Transaction (ps_uuid s) txn"
    "tx_ID txn \<notin> tx_ID ` set (transactions d)" "k \<notin> il_Key ` set (idempotency_logs d)"
    "d' = d\<lparr>wallets := rows_update (\<lambda>w. w_ID w = w_ID wallet)
            (\<lambda>w. w\<lparr>w_EncryptedBalance := c, w_UpdatedAt := ev_db_now e\<rparr>) (wallets d),
           transactions := transactions d @ [txn],
           idempotency_logs := idempotency_logs d @
             [\<lparr>il_Key = k, il_TransactionID = tx_ID txn, il_ResponseJSON = resp, il_CreatedAt = ev_now e\<rparr>]\<rparr>"
proof -
  from assms obtain wallet b c ae d1 d2 where
    w: "row_where (\<lambda>w. w_MerchantID w = pq_MerchantID req \<and> w_Currency w = pq_Currency req) (wallets d) = Some wallet"
    "balance_of (ps_encSvc s) wallet = Some b" "sint (pq_Amount req) \<le> sint b"
    "Encrypt (ps_encSvc s) (rand_draw e 0) (FormatInt (b - pq_Amount req)) = Inr c"
    "Encrypt (ps_encSvc s) (rand_draw e 1) (FormatInt (pq_Amount req)) = Inr ae"
    and t: "txn = payment_txn e req wallet ae" "resp = marshal_Transaction (ps_uuid s) txn"
    and d1: "WalletRepo_UpdateBalance (ps_uuid s) (ev_fault e S_Wallet_UpdateBalance) (ev_db_now e) (w_ID wallet) c d = Inr d1"
    and d2: "TransactionRepo_Create (ev_fault e S_Tx_Create) txn d1 = Inr d2"
    and d3: "IdempotencyRepo_Create (ev_fault e S_Idemp_Create)
      \<lparr>il_Key = k, il_TransactionID = tx_ID txn, il_ResponseJSON = resp, il_CreatedAt = ev_now e\<rparr> d2 = Inr d'"
    by (auto simp: payment_in_tx_def res_simps Let_def read_balance_Inr encrypt_amount_Inr
        WalletRepo_GetByMerchantIDForUpdate_def wsless_sint)
  note u = UpdateBalance_Inr(1) [OF d1] TxCreate_Inr [OF d2] IdempCreate_Inr [OF d3]
  have n1: "tx_ID txn \<notin> tx_ID ` set (transactions d)"
    using u by (simp add: transactions_constraints_def)
  have n2: "k \<notin> il_Key ` set (idempotency_logs d)"
    using u by (simp add: idempotency_constraints_def)
  show ?thesis by (rule that [OF w t n1 n2]) (use u in simp)
qed

lemma refund_checks_Inr:
  assumes "refund_checks e req d = Inr (origTx, a)"
  shows "row_where (\<lambda>t. tx_MerchantID t = rq_MerchantID req \<and> tx_ReferenceID t = rq_OriginalReferenceID req)
      (transactions d) = Some origTx"
    and "IsRefundable origTx" and "\<forall>t\<in>set (transactions d). \<not> is_live_refund_of (tx_ID origTx) t"
    and "rq_Amount req = None \<and> a = tx_Amount origTx \<or>
      rq_Amount req = Some a \<and> 0 < sint a \<and> sint a \<le> sint (tx_Amount origTx)"
  using assms
  by (cases "rq_Amount req"; auto simp: refund_checks_def res_simps TransactionRepo_GetByReference_def
      list_ex_iff TransactionRepo_CheckRefundExists_def wsless_zero wsless_sint)+

lemma refund_in_tx_Inr:
  assumes "refund_in_tx s e req k origTx a d = Inr (txn, resp, d')"
  obtains wallet b c ae where
    "row_where (\<lambda>w. w_ID w = tx_WalletID origTx) (wallets d) = Some wallet"
    "balance_of (ps_encSvc s) wallet = Some b"
    "Encrypt (ps_encSvc s) (rand_draw e 0) (FormatInt (b + a)) = Inr c"
    "Encrypt (ps_encSvc s) (rand_draw e 1) (FormatInt a) = Inr ae"
    "txn = refund_txn e req origTx a wallet ae" "resp = marshal_Transaction (ps_uuid s) txn"
    "tx_ID txn \<notin> tx_ID ` set (transactions d)" "k \<notin> il_Key ` set (idempotency_logs d)"
    "rune_count (rq_OriginalReferenceID req) \<le> 93"
    "d' = d\<lparr>wallets := rows_update (\<lambda>w. w_ID w = w_ID wallet)
            (\<lambda>w. w\<lparr>w_EncryptedBalance := c, w_UpdatedAt := ev_db_now e\<rparr>) (wallets d),
           transactions := mark_reversed (ev_now e) txn (transactions d @ [txn]),
           idempotency_logs := idempotency_logs d @
             [\<lparr>il_Key = k, il_TransactionID = tx_ID txn, il_ResponseJSON = resp, il_CreatedAt = ev_now e\<rparr>]\<rparr>"
proof -
  from assms obtain wallet b c ae d1 d2 d3 where
    w: "row_where (\<lambda>w. w_ID w = tx_WalletID origTx) (wallets d) = Some wallet"
    "balance_of (ps_encSvc s) wallet = Some b"
    "Encrypt (ps_encSvc s) (rand_draw e 0) (FormatInt (b + a)) = Inr c"
    "Encrypt (ps_encSvc s) (rand_draw e 1) (FormatInt a) = Inr ae"
    and t: "txn = refund_txn e req origTx a wallet ae" "resp = marshal_Transaction (ps_uuid s) txn"
    and d1: "WalletRepo_UpdateBalance (ps_uuid s) (ev_fault e S_Wallet_UpdateBalance) (ev_db_now e) (w_ID wallet) c d = Inr d1"
    and d2: "TransactionRepo_Create (ev_fault e S_Tx_Create) txn d1 = Inr d2"
    and d3: "TransactionRepo_UpdateStatus (ps_uuid s) (ev_fault e S_Tx_UpdateStatus) (ev_now e) (tx_ID origTx)
      TransactionStatusReversed d2 = Inr d3"
    and d4: "IdempotencyRepo_Create (ev_fault e S_Idemp_Create)
      \<lparr>il_Key = k, il_TransactionID = tx_ID txn, il_ResponseJSON = resp, il_CreatedAt = ev_now e\<rparr> d3 = Inr d'"
    by (auto simp: refund_in_tx_def res_simps Let_def read_balance_Inr encrypt_amount_Inr
        WalletRepo_GetByIDForUpdate_def)
  note u = UpdateBalance_Inr(1) [OF d1] TxCreate_Inr [OF d2] UpdateStatus_Inr(1) [OF d3] IdempCreate_Inr [OF d4]
  have n1: "tx_ID txn \<notin> tx_ID ` set (transactions d)"
    using u by (simp add: transactions_constraints_def)
  have n2: "k \<notin> il_Key ` set (idempotency_logs d)"
    using u by (simp add: idempotency_constraints_def)
  have n3: "rune_count (rq_OriginalReferenceID req) \<le> 93"
    using u by (simp add: transactions_constraints_def t refund_txn_def rune_count_def)
  have "mark_reversed (ev_now e) txn ts = rows_update (\<lambda>x. tx_ID x = tx_ID origTx)
      (\<lambda>x. x\<lparr>tx_Status := TransactionStatusReversed, tx_ProcessedAt := Some (ev_now e)\<rparr>) ts" for ts
    by (simp add: mark_reversed_def t refund_txn_def eq_commute [of "tx_ID origTx"])
  then show ?thesis
    by (intro that [OF w t n1 n2 n3]) (use u in \<open>simp del: rows_update_append\<close>)
qed

lemma topup_in_tx_Inr:
  assumes "topup_in_tx s e req d = Inr (txn, d')"
  obtains wallet b c ae where
    "row_where (\<lambda>w. w_MerchantID w = tq_MerchantID req \<and> w_Currency w = tq_Currency req) (wallets d) = Some wallet"
    "balance_of (ps_encSvc s) wallet = Some b"
    "Encrypt (ps_encSvc s) (rand_draw e 0) (FormatInt (b + tq_Amount req)) = Inr c"
    "Encrypt (ps_encSvc s) (rand_draw e 1) (FormatInt (tq_Amount req)) = Inr ae"
    "txn = topup_txn s e req wallet ae"
    "tx_ID txn \<notin> tx_ID ` set (transactions d)"
    "d' = d\<lparr>wallets := rows_update (\<lambda>w. w_ID w = w_ID wallet)
            (\<lambda>w. w\<lparr>w_EncryptedBalance := c, w_UpdatedAt := ev_db_now e\<rparr>) (wallets d),
           transactions := transactions d @ [txn]\<rparr>"
proof -
  from assms obtain wallet b c ae d1 where
    w: "row_where (\<lambda>w. w_MerchantID w = tq_MerchantID req \<and> w_Currency w = tq_Currency req) (wallets d) = Some wallet"
    "balance_of (ps_encSvc s) wallet = Some b"
    "Encrypt (ps_encSvc s) (rand_draw e 0) (FormatInt (b + tq_Amount req)) = Inr c"
    "Encrypt (ps_encSvc s) (rand_draw e 1) (FormatInt (tq_Amount req)) = Inr ae"
    and t: "txn = topup_txn s e req wallet ae"
    and d1: "WalletRepo_UpdateBalance (ps_uuid s) (ev_fault e S_Wallet_UpdateBalance) (ev_db_now e) (w_ID wallet) c d = Inr d1"
    and d2: "TransactionRepo_Create (ev_fault e S_Tx_Create) txn d1 = Inr d'"
    by (auto simp: topup_in_tx_def res_simps Let_def read_balance_Inr encrypt_amount_Inr
        WalletRepo_GetByMerchantIDForUpdate_def)
  note u = UpdateBalance_Inr(1) [OF d1] TxCreate_Inr [OF d2]
  have n1: "tx_ID txn \<notin> tx_ID ` set (transactions d)"
    using u by (simp add: transactions_constraints_def)
  show ?thesis by (rule that [OF w t n1]) (use u in simp)
qed

section \<open>The transaction parts post lawful transactions\<close>

lemma wallet_balance_of_row:
  assumes "distinct (map w_ID (wallets d))" and "w \<in> set (wallets d)"
  shows "wallet_balance enc d (w_ID w) = balance_of enc w"
  using row_where_key [OF assms] by (simp add: wallet_balance_def)

lemma mark_reversed_None: "tx_OriginalTransactionID t = None \<Longrightarrow> mark_reversed n t ts = ts"
  by (simp add: mark_reversed_def rows_update_def)

lemma payment_posted:
  assumes enc: "encryption_service (ps_encSvc s)" and inv: "book_inv (ps_encSvc s) d"
    and pos: "0 < sint (pq_Amount req)" and tx: "payment_in_tx s e req k d = Inr (txn, resp, d')"
  shows "posted (ps_encSvc s) txn d d' \<and> lawful (ps_encSvc s) txn d"
proof -
  from tx obtain wallet b c ae where
    w: "row_where (\<lambda>w. w_MerchantID w = pq_MerchantID req \<and> w_Currency w = pq_Currency req) (wallets d) = Some wallet"
    and b: "balance_of (ps_encSvc s) wallet = Some b" "sint (pq_Amount req) \<le> sint b"
    and c: "Encrypt (ps_encSvc s) (rand_draw e 0) (FormatInt (b - pq_Amount req)) = Inr c"
    and t: "txn = payment_txn e req wallet ae" and new: "tx_ID txn \<notin> tx_ID ` set (transactions d)"
    and d': "wallets d' = rows_update (\<lambda>w. w_ID w = w_ID wallet)
            (\<lambda>w. w\<lparr>w_EncryptedBalance := c, w_UpdatedAt := ev_db_now e\<rparr>) (wallets d)"
      "transactions d' = transactions d @ [txn]" "merchants d' = merchants d"
    by (rule payment_in_tx_Inr) auto
  have f: "tx_WalletID txn = w_ID wallet" "delta txn = - pq_Amount req" "tx_OriginalTransactionID txn = None"
    "tx_Amount txn = pq_Amount req" "tx_TransactionType txn = TransactionTypePayment"
    "tx_Status txn = TransactionStatusSuccess"
    by (simp_all add: t payment_txn_def delta_def)
  have wb: "wallet_balance (ps_encSvc s) d (w_ID wallet) = Some b"
    using inv row_where_Some [OF w] b(1) wallet_balance_of_row by (metis book_inv_def)
  have rt: "bindE (Decrypt (ps_encSvc s) c) ParseIntE = Inr (b - pq_Amount req)"
    by (rule encryption_service.amount_roundtrip [OF enc c])
  have "posted (ps_encSvc s) txn d d'"
    unfolding posted_def using wb rt new by (simp add: f d' mark_reversed_None) blast
  moreover have "lawful (ps_encSvc s) txn d"
    unfolding lawful_def using pos b(2) wb by (simp add: f)
  ultimately show ?thesis ..
qed

lemma topup_posted:
  assumes enc: "encryption_service (ps_encSvc s)" and inv: "book_inv (ps_encSvc s) d"
    and pos: "0 < sint (tq_Amount req)" and tx: "topup_in_tx s e req d = Inr (txn, d')"
  shows "posted (ps_encSvc s) txn d d' \<and> lawful (ps_encSvc s) txn d"
proof -
  from tx obtain wallet b c ae where
    w: "row_where (\<lambda>w. w_MerchantID w = tq_MerchantID req \<and> w_Currency w = tq_Currency req) (wallets d) = Some wallet"
    and b: "balance_of (ps_encSvc s) wallet = Some b"
    and c: "Encrypt (ps_encSvc s) (rand_draw e 0) (FormatInt (b + tq_Amount req)) = Inr c"
    and t: "txn = topup_txn s e req wallet ae" and new: "tx_ID txn \<notin> tx_ID ` set (transactions d)"
    and d': "wallets d' = rows_update (\<lambda>w. w_ID w = w_ID wallet)
            (\<lambda>w. w\<lparr>w_EncryptedBalance := c, w_UpdatedAt := ev_db_now e\<rparr>) (wallets d)"
      "transactions d' = transactions d @ [txn]" "merchants d' = merchants d"
    by (rule topup_in_tx_Inr) auto
  have f: "tx_WalletID txn = w_ID wallet" "delta txn = tq_Amount req" "tx_OriginalTransactionID txn = None"
    "tx_Amount txn = tq_Amount req" "tx_TransactionType txn = TransactionTypeTopup"
    "tx_Status txn = TransactionStatusSuccess"
    by (simp_all add: t topup_txn_def delta_def)
  have wb: "wallet_balance (ps_encSvc s) d (w_ID wallet) = Some b"
    using inv row_where_Some [OF w] b(1) wallet_balance_of_row by (metis book_inv_def)
  have rt: "bindE (Decrypt (ps_encSvc s) c) ParseIntE = Inr (b + tq_Amount req)"
    by (rule encryption_service.amount_roundtrip [OF enc c])
  have "posted (ps_encSvc s) txn d d'"
    unfolding posted_def using wb rt new by (simp add: f d' mark_reversed_None) blast
  moreover have "lawful (ps_encSvc s) txn d"
    unfolding lawful_def using pos by (simp add: f)
  ultimately show ?thesis ..
qed

text \<open>
  The refund is lawful when the payment that it was checked against is, at the time of the
  transaction part, still refundable; the copy that was checked may be older.
\<close>

lemma refund_posted_of:
  assumes enc: "encryption_service (ps_encSvc s)" and inv: "book_inv (ps_encSvc s) d"
    and p: "p \<in> set (transactions d)" "IsRefundable p" "tx_ID p = tx_ID origTx" "tx_WalletID p = tx_WalletID origTx"
      "tx_MerchantID p = rq_MerchantID req"
    and amt: "0 < sint a" "sint a \<le> sint (tx_Amount p)"
    and tx: "refund_in_tx s e req k origTx a d = Inr (txn, resp, d')"
  shows "posted (ps_encSvc s) txn d d' \<and> lawful (ps_encSvc s) txn d"
proof -
  from tx obtain wallet b c ae where
    w: "row_where (\<lambda>w. w_ID w = tx_WalletID origTx) (wallets d) = Some wallet"
    and b: "balance_of (ps_encSvc s) wallet = Some b"
    and c: "Encrypt (ps_encSvc s) (rand_draw e 0) (FormatInt (b + a)) = Inr c"
    and t: "txn = refund_txn e req origTx a wallet ae" and new: "tx_ID txn \<notin> tx_ID ` set (transactions d)"
    and d': "wallets d' = rows_update (\<lambda>w. w_ID w = w_ID wallet)
            (\<lambda>w. w\<lparr>w_EncryptedBalance := c, w_UpdatedAt := ev_db_now e\<rparr>) (wallets d)"
      "transactions d' = mark_reversed (ev_now e) txn (transactions d @ [txn])" "merchants d' = merchants d"
    by (rule refund_in_tx_Inr) auto
  have f: "tx_WalletID txn = w_ID wallet" "delta txn = a" "tx_OriginalTransactionID txn = Some (tx_ID p)"
    "tx_Amount txn = a" "tx_TransactionType txn = TransactionTypeRefund"
    "tx_Status txn = TransactionStatusSuccess" "tx_MerchantID txn = rq_MerchantID req"
    by (simp_all add: t refund_txn_def delta_def p(3))
  have wid: "tx_WalletID p = w_ID wallet" using row_where_Some [OF w] p(4) by simp
  have wb: "wallet_balance (ps_encSvc s) d (w_ID wallet) = Some b"
    using inv row_where_Some [OF w] b(1) wallet_balance_of_row by (metis book_inv_def)
  have rt: "bindE (Decrypt (ps_encSvc s) c) ParseIntE = Inr (b + a)"
    by (rule encryption_service.amount_roundtrip [OF enc c])
  have "posted (ps_encSvc s) txn d d'"
    unfolding posted_def using wb rt new by (simp add: f d') blast
  moreover have "lawful (ps_encSvc s) txn d"
    unfolding lawful_def using amt p(1,2,5) wid by (auto simp: f)
  ultimately show ?thesis ..
qed

lemma refund_posted:
  assumes enc: "encryption_service (ps_encSvc s)" and inv: "book_inv (ps_encSvc s) d"
    and chk: "refund_checks e req d = Inr (origTx, a)"
    and tx: "refund_in_tx s e' req k origTx a d = Inr (txn, resp, d')"
  shows "posted (ps_encSvc s) txn d d' \<and> lawful (ps_encSvc s) txn d"
proof -
  note chk' = refund_checks_Inr [OF chk]
  have o: "origTx \<in> set (transactions d)" "tx_MerchantID origTx = rq_MerchantID req"
    using row_where_Some [OF chk'(1)] by auto
  have "0 < sint a" "sint a \<le> sint (tx_Amount origTx)"
    using chk'(4) inv o(1) by (auto simp: book_inv_def rows_ok_def)
  from refund_posted_of [OF enc inv o(1) chk'(2) refl refl o(2) this tx] show ?thesis .
qed

section \<open>Outcomes of the operations\<close>

text \<open>
  Whatever fails, the database is either the one the call found or the one its transaction
  part produced, and the latter only when \<^verbatim>\<open>COMMIT\<close> was reached.
\<close>

lemma commit_and_cache_db:
  assumes "commit_and_cache e k txn resp tx w = (r, w')"
  shows "wd_db w' = wd_db w \<and> (\<exists>err. r = Inl err) \<or> wd_db w' = tx \<and> (\<forall>t. r = Inr t \<longrightarrow> t = txn)"
  using assms by (auto simp: commit_and_cache_def tx_Commit_def split: option.splits if_splits)

lemma ProcessPayment_outcome:
  assumes "ProcessPayment s e req w = (r, w')"
  shows "wd_db w' = wd_db w \<or>
    (\<exists>txn resp. 0 < sint (pq_Amount req) \<and>
       idempotency_lookup e (BuildIdempotencyKey (ps_uuid s) (pq_MerchantID req) (pq_ReferenceID req)) w = Inr None \<and>
       payment_in_tx s e req (BuildIdempotencyKey (ps_uuid s) (pq_MerchantID req) (pq_ReferenceID req)) (wd_db w)
         = Inr (txn, resp, wd_db w') \<and> (\<forall>t. r = Inr t \<longrightarrow> t = txn))"
  using assms
  by (auto simp: ProcessPayment_def Let_def wsless_zero [symmetric] res_simps Transactor_Begin_def
      dest!: commit_and_cache_db split: if_splits sum.splits option.splits prod.splits)

lemma ProcessRefund_outcome:
  assumes "ProcessRefund s e req w = (r, w')"
  shows "wd_db w' = wd_db w \<or>
    (\<exists>txn resp origTx a.
       idempotency_lookup e (BuildRefundIdempotencyKey (ps_uuid s) (rq_MerchantID req) (rq_OriginalReferenceID req)) w = Inr None \<and>
       refund_checks e req (wd_db w) = Inr (origTx, a) \<and>
       refund_in_tx s e req (BuildRefundIdempotencyKey (ps_uuid s) (rq_MerchantID req) (rq_OriginalReferenceID req))
         origTx a (wd_db w) = Inr (txn, resp, wd_db w') \<and> (\<forall>t. r = Inr t \<longrightarrow> t = txn))"
  using assms
  by (auto simp: ProcessRefund_def Let_def res_simps Transactor_Begin_def
      dest!: commit_and_cache_db split: sum.splits option.splits prod.splits)

lemma ProcessTopup_outcome:
  assumes "ProcessTopup s e req w = (r, w')"
  shows "wd_db w' = wd_db w \<or>
    (\<exists>txn. 0 < sint (tq_Amount req) \<and> topup_in_tx s e req (wd_db w) = Inr (txn, wd_db w') \<and>
       (\<forall>t. r = Inr t \<longrightarrow> t = txn))"
  using assms
  by (auto simp: ProcessTopup_def wsless_zero [symmetric] res_simps Transactor_Begin_def tx_Commit_def
      split: if_splits sum.splits option.splits prod.splits)

section \<open>The contract of an operation on the books\<close>

primrec run_all :: "(env \<Rightarrow> 'q \<Rightarrow> world \<Rightarrow> 'r \<times> world) \<Rightarrow> (env \<times> 'q) list \<Rightarrow> world \<Rightarrow> world" where
  "run_all run [] w = w"
| "run_all run (eq # eqs) w = run_all run eqs (snd (run (fst eq) (snd eq) w))"

locale fund_operation =
  fixes enc :: EncryptionService
    and run :: "env \<Rightarrow> 'q \<Rightarrow> world \<Rightarrow> Transaction result \<times> world"
  assumes outcome: "book_inv enc (wd_db w) \<Longrightarrow> run e q w = (r, w') \<Longrightarrow>
    wd_db w' = wd_db w \<or>
    (\<exists>t. posted enc t (wd_db w) (wd_db w') \<and> lawful enc t (wd_db w) \<and> (\<forall>t'. r = Inr t' \<longrightarrow> t' = t))"
begin

lemma keeps_books:
  assumes "book_inv enc (wd_db w)" and "run e q w = (r, w')"
  shows "book_inv enc (wd_db w')"
  using outcome [OF assms] assms(1) book_inv_posted by metis

text \<open>One operation touches the balance of one wallet at most.\<close>

lemma other_wallets:
  assumes "book_inv enc (wd_db w)" and "run e q w = (r, w')"
  shows "\<exists>j. \<forall>i. i \<noteq> j \<longrightarrow> wallet_balance enc (wd_db w') i = wallet_balance enc (wd_db w) i"
proof -
  have dist: "distinct (map w_ID (wallets (wd_db w)))" using assms(1) by (simp add: book_inv_def)
  from outcome [OF assms] show ?thesis
  proof
    assume "\<exists>t. posted enc t (wd_db w) (wd_db w') \<and> lawful enc t (wd_db w) \<and> (\<forall>t'. r = Inr t' \<longrightarrow> t' = t)"
    then obtain t where "posted enc t (wd_db w) (wd_db w')" by blast
    from wallet_balance_posted [OF this dist] show ?thesis by (intro exI [of _ "tx_WalletID t"]) simp
  qed simp
qed

lemma books_run_all: "book_inv enc (wd_db w) \<Longrightarrow> book_inv enc (wd_db (run_all run eqs w))"
  by (induction eqs arbitrary: w) (use keeps_books in \<open>auto simp: prod_eq_iff\<close>)

text \<open>After any sequence of operations, a wallet that was not topped up beyond an \<^verbatim>\<open>int64\<close> holds
  exactly its top-ups plus refunds minus payments, and is not overdrawn.\<close>

lemma balance_run_all:
  assumes "book_inv enc (wd_db w)" and "wl \<in> set (wallets (wd_db (run_all run eqs w)))"
    and "topups (wd_db (run_all run eqs w)) (w_ID wl) < 2 ^ 63"
  shows "\<exists>b. wallet_balance enc (wd_db (run_all run eqs w)) (w_ID wl) = Some b \<and> 0 \<le> sint b \<and>
    sint b = topups (wd_db (run_all run eqs w)) (w_ID wl) + refunds (wd_db (run_all run eqs w)) (w_ID wl)
      - payments (wd_db (run_all run eqs w)) (w_ID wl)"
proof -
  let ?d = "wd_db (run_all run eqs w)"
  have inv: "book_inv enc ?d" using assms(1) by (rule books_run_all)
  then have "wallet_balance enc ?d (w_ID wl) = Some (ledger_sum ?d (w_ID wl))"
    using assms(2) by (simp add: book_inv_def ledger_inv_def)
  with ledger_sum_exact [OF inv assms(3)] show ?thesis by simp
qed

end

lemma payment_fund_operation:
  assumes "encryption_service (ps_encSvc s)"
  shows "fund_operation (ps_encSvc s) (ProcessPayment s)"
  by unfold_locales (use ProcessPayment_outcome payment_posted [OF assms] in \<open>metis (no_types, lifting)\<close>)

lemma refund_fund_operation:
  assumes "encryption_service (ps_encSvc s)"
  shows "fund_operation (ps_encSvc s) (ProcessRefund s)"
  by unfold_locales (use ProcessRefund_outcome refund_posted [OF assms] in \<open>metis (no_types, lifting)\<close>)

lemma topup_fund_operation:
  assumes "encryption_service (ps_encSvc s)"
  shows "fund_operation (ps_encSvc s) (ProcessTopup s)"
  by unfold_locales (use ProcessTopup_outcome topup_posted [OF assms] in \<open>metis (no_types, lifting)\<close>)

section \<open>The payment service as one operation\<close>

datatype fund_request = Pay PaymentRequest | Refund RefundRequest | Topup TopupRequest

definition fund_op :: "PaymentServiceImpl \<Rightarrow> env \<Rightarrow> fund_request \<Rightarrow> world \<Rightarrow> Transaction result \<times> world" where
  "fund_op s e q w = (case q of
     Pay req \<Rightarrow> ProcessPayment s e req w
   | Refund req \<Rightarrow> ProcessRefund s e req w
   | Topup req \<Rightarrow> ProcessTopup s e req w)"

lemma fund_op_fund_operation:
  assumes "encryption_service (ps_encSvc s)"
  shows "fund_operation (ps_encSvc s) (fund_op s)"
proof
  fix w e q r w'
  assume "book_inv (ps_encSvc s) (wd_db w)" and "fund_op s e q w = (r, w')"
  then show "wd_db w' = wd_db w \<or> (\<exists>t. posted (ps_encSvc s) t (wd_db w) (wd_db w') \<and>
      lawful (ps_encSvc s) t (wd_db w) \<and> (\<forall>t'. r = Inr t' \<longrightarrow> t' = t))"
    using payment_fund_operation [OF assms, THEN fund_operation.outcome]
      refund_fund_operation [OF assms, THEN fund_operation.outcome]
      topup_fund_operation [OF assms, THEN fund_operation.outcome]
    by (cases q) (simp_all add: fund_op_def)
qed

interpretation pay: fund_operation "aes_encSvc a" "ProcessPayment (NewPaymentService U (aes_encSvc a))" for U a
  using payment_fund_operation [of "NewPaymentService U (aes_encSvc a)"] aes.encryption_service_axioms by simp

interpretation refund: fund_operation "aes_encSvc a" "ProcessRefund (NewPaymentService U (aes_encSvc a))" for U a
  using refund_fund_operation [of "NewPaymentService U (aes_encSvc a)"] aes.encryption_service_axioms by simp

interpretation topup: fund_operation "aes_encSvc a" "ProcessTopup (NewPaymentService U (aes_encSvc a))" for U a
  using topup_fund_operation [of "NewPaymentService U (aes_encSvc a)"] aes.encryption_service_axioms by simp

interpretation fund: fund_operation "aes_encSvc a" "fund_op (NewPaymentService U (aes_encSvc a))" for U a
  using fund_op_fund_operation [of "NewPaymentService U (aes_encSvc a)"] aes.encryption_service_axioms by simp

end
