(* ===== verification/Idempotency.thy ===== *)
theory Idempotency
  imports Payment_Correct
begin

text \<open>
  The two idempotency layers of the payment service. The cache is coherent with the log when
  every cached response is the logged one. The contract \<open>logged_operation\<close> (the log only
  grows, its keys stay distinct, the cache stays coherent) is what a retry relies on: once a
  key is logged, every later lookup returns the logged response, whatever operations ran in
  between. From it follows that a payment or refund whose commit was applied is never applied
  again, also when the first call reported an error because the outcome of \<^verbatim>\<open>COMMIT\<close> was unknown.
\<close>

definition cache_coherent :: "world \<Rightarrow> bool" where
  "cache_coherent w \<longleftrightarrow> (\<forall>k v ex. wd_redis w (''idempotency:'' @ k) = Some (v, ex) \<longrightarrow>
     (\<exists>l\<in>set (idempotency_logs (wd_db w)). il_Key l = k \<and> il_ResponseJSON l = v))"

definition idemp_inv :: "world \<Rightarrow> bool" where
  "idemp_inv w \<longleftrightarrow> cache_coherent w \<and> distinct (map il_Key (idempotency_logs (wd_db w)))"

lemma redis_get_Some: "redis_get now k r = Some v \<Longrightarrow> \<exists>ex. r k = Some (v, ex)"
  by (auto simp: redis_get_def split: option.splits prod.splits if_splits)

text \<open>A logged key is answered with the logged response, from either layer.\<close>

lemma lookup_logged:
  assumes "idemp_inv w" and l: "l \<in> set (idempotency_logs (wd_db w))" and "ev_fault e S_Idemp_Get = None"
  shows "idempotency_lookup e (il_Key l) w = Inr (Some (il_ResponseJSON l))"
proof -
  have dist: "distinct (map il_Key (idempotency_logs (wd_db w)))" using assms(1) by (simp add: idemp_inv_def)
  have db: "row_where (\<lambda>x. il_Key x = il_Key l) (idempotency_logs (wd_db w)) = Some l"
    using dist l by (rule row_where_key)
  have cached: "v = il_ResponseJSON l" if "redis_get (ev_now e) (''idempotency:'' @ il_Key l) (wd_redis w) = Some v" for v
  proof -
    from redis_get_Some [OF that] assms(1) obtain l' where "l' \<in> set (idempotency_logs (wd_db w))"
      "il_Key l' = il_Key l" "il_ResponseJSON l' = v" by (auto simp: idemp_inv_def cache_coherent_def)
    with db row_where_key [OF dist, of l'] show ?thesis by simp
  qed
  show ?thesis
    using db cached assms(3)
    by (auto simp: idempotency_lookup_def IdempotencyCache_Get_def IdempotencyRepo_Get_def callE_def
        split: option.splits sum.splits)
qed

section \<open>The contract of an operation that uses the log\<close>

locale logged_operation =
  fixes run :: "env \<Rightarrow> 'q \<Rightarrow> world \<Rightarrow> 'r \<times> world"
  assumes log_grows: "run e q w = (r, w') \<Longrightarrow>
      \<exists>ls. idempotency_logs (wd_db w') = idempotency_logs (wd_db w) @ ls"
    and keeps_idemp_inv: "run e q w = (r, w') \<Longrightarrow> idemp_inv w \<Longrightarrow> idemp_inv w'"
begin

lemma log_kept: "l \<in> set (idempotency_logs (wd_db w)) \<Longrightarrow> l \<in> set (idempotency_logs (wd_db (run_all run eqs w)))"
proof (induction eqs arbitrary: w)
  case (Cons eq eqs)
  obtain r w' where step: "run (fst eq) (snd eq) w = (r, w')" by fastforce
  from log_grows [OF this] Cons.prems have "l \<in> set (idempotency_logs (wd_db w'))" by auto
  with Cons.IH step show ?case by simp
qed simp

lemma idemp_inv_run_all: "idemp_inv w \<Longrightarrow> idemp_inv (run_all run eqs w)"
  by (induction eqs arbitrary: w) (use keeps_idemp_inv in \<open>auto simp: prod_eq_iff\<close>)

lemma lookup_run_all:
  assumes "idemp_inv w" "l \<in> set (idempotency_logs (wd_db w))" "ev_fault e S_Idemp_Get = None"
  shows "idempotency_lookup e (il_Key l) (run_all run eqs w) = Inr (Some (il_ResponseJSON l))"
  using idemp_inv_run_all [OF assms(1)] log_kept [OF assms(2)] assms(3) by (rule lookup_logged)

end

section \<open>The operations satisfy it\<close>

lemma idemp_inv_same: "wd_db w' = wd_db w \<Longrightarrow> wd_redis w' = wd_redis w \<Longrightarrow> idemp_inv w' = idemp_inv w"
  by (simp add: idemp_inv_def cache_coherent_def)

lemma idemp_inv_grow:
  assumes "idemp_inv w" and "idempotency_logs d' = idempotency_logs (wd_db w) @ ls"
    and "distinct (map il_Key (idempotency_logs d'))"
  shows "idemp_inv (w\<lparr>wd_db := d'\<rparr>)"
proof -
  have "cache_coherent (w\<lparr>wd_db := d'\<rparr>)"
    unfolding cache_coherent_def
  proof (intro allI impI)
    fix k v ex assume "wd_redis (w\<lparr>wd_db := d'\<rparr>) (''idempotency:'' @ k) = Some (v, ex)"
    with assms(1) have "\<exists>l\<in>set (idempotency_logs (wd_db w)). il_Key l = k \<and> il_ResponseJSON l = v"
      by (simp add: idemp_inv_def cache_coherent_def)
    then show "\<exists>l\<in>set (idempotency_logs (wd_db (w\<lparr>wd_db := d'\<rparr>))). il_Key l = k \<and> il_ResponseJSON l = v"
      by (auto simp: assms(2))
  qed
  with assms(3) show ?thesis by (simp add: idemp_inv_def)
qed

lemma idemp_inv_cache:
  assumes "idemp_inv w" and "l \<in> set (idempotency_logs (wd_db w))"
  shows "idemp_inv (w\<lparr>wd_redis := redis_set now (''idempotency:'' @ il_Key l) (il_ResponseJSON l) ttl (wd_redis w)\<rparr>)"
  using assms by (auto simp: idemp_inv_def cache_coherent_def redis_set_def)

text \<open>The common end of a payment and a refund: commit a transaction that logged its key, then cache.\<close>

lemma commit_and_cache_idemp:
  assumes run: "commit_and_cache e k txn resp tx w = (r, w')" and inv: "idemp_inv w"
    and tx: "idempotency_logs tx = idempotency_logs (wd_db w) @
      [\<lparr>il_Key = k, il_TransactionID = tx_ID txn, il_ResponseJSON = resp, il_CreatedAt = n\<rparr>]"
    and new: "k \<notin> il_Key ` set (idempotency_logs (wd_db w))"
  shows "idemp_inv w'"
proof -
  let ?l = "\<lparr>il_Key = k, il_TransactionID = tx_ID txn, il_ResponseJSON = resp, il_CreatedAt = n\<rparr>"
  have dist: "distinct (map il_Key (idempotency_logs tx))"
    using inv new by (simp add: idemp_inv_def tx)
  have I: "idemp_inv (w\<lparr>wd_db := tx\<rparr>)" by (rule idemp_inv_grow [OF inv tx dist])
  then have "idemp_inv (w\<lparr>wd_db := tx, wd_redis := redis_set (ev_now e) (''idempotency:'' @ k) resp idempotencyTTL (wd_redis w)\<rparr>)"
    using idemp_inv_cache [OF I, of ?l] by (simp add: tx)
  moreover have "w\<lparr>wd_db := tx, wd_redis := wd_redis w\<rparr> = w\<lparr>wd_db := tx\<rparr>" "w\<lparr>wd_db := wd_db w\<rparr> = w" by simp_all
  ultimately show ?thesis
    using run I inv by (auto simp: commit_and_cache_def tx_Commit_def IdempotencyCache_Set_def callE_def
        split: option.splits if_splits)
qed

lemma ProcessPayment_cases:
  assumes "ProcessPayment s e req w = (r, w')"
  obtains (unchanged) "w' = w"
  | (committed) txn resp tx k where "k = BuildIdempotencyKey (ps_uuid s) (pq_MerchantID req) (pq_ReferenceID req)"
      "payment_in_tx s e req k (wd_db w) = Inr (txn, resp, tx)"
      "commit_and_cache e k txn resp tx w = (r, w')"
  using assms
  by (auto simp: ProcessPayment_def Let_def res_simps Transactor_Begin_def
      split: if_splits sum.splits option.splits prod.splits)

lemma ProcessRefund_cases:
  assumes "ProcessRefund s e req w = (r, w')"
  obtains (unchanged) "w' = w"
  | (committed) txn resp tx k origTx a where
      "k = BuildRefundIdempotencyKey (ps_uuid s) (rq_MerchantID req) (rq_OriginalReferenceID req)"
      "refund_checks e req (wd_db w) = Inr (origTx, a)"
      "refund_in_tx s e req k origTx a (wd_db w) = Inr (txn, resp, tx)"
      "commit_and_cache e k txn resp tx w = (r, w')"
  using assms
  by (auto simp: ProcessRefund_def Let_def res_simps Transactor_Begin_def
      split: sum.splits option.splits prod.splits)

definition logs_key :: "string \<Rightarrow> Transaction \<Rightarrow> json \<Rightarrow> time \<Rightarrow> db \<Rightarrow> db \<Rightarrow> bool" where
  "logs_key k txn resp n d d' \<longleftrightarrow> k \<notin> il_Key ` set (idempotency_logs d) \<and>
     idempotency_logs d' = idempotency_logs d @
       [\<lparr>il_Key = k, il_TransactionID = tx_ID txn, il_ResponseJSON = resp, il_CreatedAt = n\<rparr>]"

lemma payment_logs_key:
  "payment_in_tx s e req k d = Inr (txn, resp, d') \<Longrightarrow>
   logs_key k txn resp (ev_now e) d d' \<and> resp = marshal_Transaction (ps_uuid s) txn"
  by (erule payment_in_tx_Inr) (simp add: logs_key_def)

lemma refund_logs_key:
  "refund_in_tx s e req k origTx a d = Inr (txn, resp, d') \<Longrightarrow>
   logs_key k txn resp (ev_now e) d d' \<and> resp = marshal_Transaction (ps_uuid s) txn"
  by (erule refund_in_tx_Inr) (simp add: logs_key_def)

lemma topup_logs: "topup_in_tx s e req d = Inr (txn, d') \<Longrightarrow> idempotency_logs d' = idempotency_logs d"
  by (erule topup_in_tx_Inr) simp

lemma committed_logged:
  assumes "commit_and_cache e k txn resp tx w = (r, w')" and "logs_key k txn resp n (wd_db w) tx"
  shows "\<exists>ls. idempotency_logs (wd_db w') = idempotency_logs (wd_db w) @ ls"
    and "idemp_inv w \<Longrightarrow> idemp_inv w'"
  using commit_and_cache_db [OF assms(1)] assms(2) commit_and_cache_idemp [OF assms(1)]
  by (auto simp: logs_key_def)

lemma ProcessTopup_logs:
  assumes "ProcessTopup s e req w = (r, w')"
  shows "idempotency_logs (wd_db w') = idempotency_logs (wd_db w)" and "wd_redis w' = wd_redis w"
  using assms
  by (auto simp: ProcessTopup_def tx_Commit_def res_simps Transactor_Begin_def dest: topup_logs
      split: if_splits sum.splits option.splits prod.splits)

interpretation fund_log: logged_operation "fund_op s" for s
proof
  fix e q w r w'
  assume run: "fund_op s e q w = (r, w')"
  show "\<exists>ls. idempotency_logs (wd_db w') = idempotency_logs (wd_db w) @ ls"
  proof (cases q)
    case (Pay req)
    with run have "ProcessPayment s e req w = (r, w')" by (simp add: fund_op_def)
    then show ?thesis by (cases rule: ProcessPayment_cases) (use committed_logged(1) payment_logs_key in blast)+
  next
    case (Refund req)
    with run have "ProcessRefund s e req w = (r, w')" by (simp add: fund_op_def)
    then show ?thesis by (cases rule: ProcessRefund_cases) (use committed_logged(1) refund_logs_key in blast)+
  qed (use run ProcessTopup_logs in \<open>simp add: fund_op_def\<close>)
  show "idemp_inv w'" if "idemp_inv w"
  proof (cases q)
    case (Pay req)
    with run have "ProcessPayment s e req w = (r, w')" by (simp add: fund_op_def)
    then show ?thesis by (cases rule: ProcessPayment_cases) (use that committed_logged(2) payment_logs_key in blast)+
  next
    case (Refund req)
    with run have "ProcessRefund s e req w = (r, w')" by (simp add: fund_op_def)
    then show ?thesis by (cases rule: ProcessRefund_cases) (use that committed_logged(2) refund_logs_key in blast)+
  next
    case (Topup req)
    with run have "ProcessTopup s e req w = (r, w')" by (simp add: fund_op_def)
    from ProcessTopup_logs [OF this] that show ?thesis by (simp add: idemp_inv_def cache_coherent_def)
  qed
qed

section \<open>Retries\<close>

text \<open>An applied payment has logged its key with the JSON image of the row it appended.\<close>

lemma applied_logged:
  assumes "commit_and_cache e k txn resp tx w = (r, w')" "logs_key k txn resp n (wd_db w) tx"
    and "wd_db w' \<noteq> wd_db w"
  shows "\<lparr>il_Key = k, il_TransactionID = tx_ID txn, il_ResponseJSON = resp, il_CreatedAt = n\<rparr>
      \<in> set (idempotency_logs (wd_db w'))" "wd_db w' = tx" "\<forall>t. r = Inr t \<longrightarrow> t = txn"
  using commit_and_cache_db [OF assms(1)] assms(2,3) by (auto simp: logs_key_def)

lemma lookup_after_applied:
  assumes "commit_and_cache e k txn resp tx w = (r, w1)" "logs_key k txn resp n (wd_db w) tx"
    and "wd_db w1 \<noteq> wd_db w" and "idemp_inv w" and "ev_fault e' S_Idemp_Get = None"
  shows "idempotency_lookup e' k (run_all (fund_op s) eqs w1) = Inr (Some resp)"
proof -
  have "idemp_inv w1" using committed_logged(2) [OF assms(1,2)] assms(4) by simp
  from fund_log.lookup_run_all [OF this applied_logged(1) [OF assms(1-3)] assms(5)] show ?thesis by simp
qed

lemma payment_retry:
  assumes U: "uuid_text (ps_uuid s)" and inv: "idemp_inv w"
    and run: "ProcessPayment s e req w = (r, w1)" and applied: "wd_db w1 \<noteq> wd_db w"
    and same: "pq_MerchantID req' = pq_MerchantID req" "pq_ReferenceID req' = pq_ReferenceID req"
    and pos: "0 < sint (pq_Amount req')" and nofault: "ev_fault e' S_Idemp_Get = None"
  shows "\<exists>t. last (transactions (wd_db w1)) = t \<and> (\<forall>t'. r = Inr t' \<longrightarrow> t' = t) \<and>
    ProcessPayment s e' req' (run_all (fund_op s) eqs w1) = (Inr (json_visible t), run_all (fund_op s) eqs w1)"
  using run
proof (cases rule: ProcessPayment_cases)
  case unchanged
  with applied show ?thesis by simp
next
  case (committed txn resp tx k)
  note lk = payment_logs_key [OF committed(2)]
  have "transactions tx = transactions (wd_db w) @ [txn]"
    by (rule payment_in_tx_Inr [OF committed(2)]) simp
  with applied_logged(2,3) [OF committed(3) _ applied] lk
  have t: "last (transactions (wd_db w1)) = txn" "\<forall>t'. r = Inr t' \<longrightarrow> t' = txn" by auto
  have "idempotency_lookup e' k (run_all (fund_op s) eqs w1) = Inr (Some (marshal_Transaction (ps_uuid s) txn))"
    using lookup_after_applied [OF committed(3) _ applied inv nofault, of "ev_now e"] lk by blast
  then have "ProcessPayment s e' req' (run_all (fund_op s) eqs w1) = (Inr (json_visible txn), run_all (fund_op s) eqs w1)"
    using same pos wsless_zero [of "pq_Amount req'"]
    by (simp add: ProcessPayment_def committed(1) Let_def unmarshalCachedTransaction_def
        uuid_text.unmarshal_marshal [OF U])
  with t show ?thesis by blast
qed

lemma refund_retry:
  assumes U: "uuid_text (ps_uuid s)" and inv: "idemp_inv w"
    and run: "ProcessRefund s e req w = (r, w1)" and applied: "wd_db w1 \<noteq> wd_db w"
    and same: "rq_MerchantID req' = rq_MerchantID req" "rq_OriginalReferenceID req' = rq_OriginalReferenceID req"
    and nofault: "ev_fault e' S_Idemp_Get = None"
  shows "\<exists>t. is_refund t \<and> tx_ID t \<in> tx_ID ` set (transactions (wd_db w1)) \<and> (\<forall>t'. r = Inr t' \<longrightarrow> t' = t) \<and>
    ProcessRefund s e' req' (run_all (fund_op s) eqs w1) = (Inr (json_visible t), run_all (fund_op s) eqs w1)"
  using run
proof (cases rule: ProcessRefund_cases)
  case unchanged
  with applied show ?thesis by simp
next
  case (committed txn resp tx k origTx a)
  note lk = refund_logs_key [OF committed(3)]
  have tx: "is_refund txn" "tx_ID txn \<in> tx_ID ` set (transactions tx)"
    by (rule refund_in_tx_Inr [OF committed(3)], simp add: is_refund_def refund_txn_def,
        rule refund_in_tx_Inr [OF committed(3)], simp add: image_mark_reversed)
  have w1: "wd_db w1 = tx" and r: "\<forall>t'. r = Inr t' \<longrightarrow> t' = txn"
    using applied_logged(2,3) [OF committed(4) _ applied] lk by auto
  have "idempotency_lookup e' k (run_all (fund_op s) eqs w1) = Inr (Some (marshal_Transaction (ps_uuid s) txn))"
    using lookup_after_applied [OF committed(4) _ applied inv nofault, of "ev_now e"] lk by blast
  then have "ProcessRefund s e' req' (run_all (fund_op s) eqs w1) = (Inr (json_visible txn), run_all (fund_op s) eqs w1)"
    using same
    by (simp add: ProcessRefund_def committed(1) Let_def unmarshalCachedTransaction_def
        uuid_text.unmarshal_marshal [OF U])
  with tx w1 r show ?thesis by blast
qed

end
