(* ===== verification/Payment_Effects.thy ===== *)
theory Payment_Effects
  imports Idempotency
begin

text \<open>
  Functional behaviour of the payment service when nothing fails in transport: under which
  conditions a payment, refund or top-up succeeds, and what exactly it then changes; and the
  business errors, each with an unchanged world. \<open>storable\<close> collects what the INSERT statements
  demand of a new transaction.
\<close>

definition storable :: "Transaction \<Rightarrow> db \<Rightarrow> bool" where
  "storable t d \<longleftrightarrow> tx_ID t \<notin> tx_ID ` set (transactions d) \<and> tx_MerchantID t \<in> m_ID ` set (merchants d) \<and>
     tx_WalletID t \<in> w_ID ` set (wallets d) \<and>
     (\<forall>i. tx_OriginalTransactionID t = Some i \<longrightarrow> i \<in> tx_ID ` set (transactions d)) \<and>
     rune_count (tx_ReferenceID t) \<le> 100 \<and> \<bar>sint (tx_Amount t)\<bar> < 10 ^ 18 \<and>
     rune_count (tx_Signature t) \<le> 255 \<and> rune_count (tx_ClientIP t) \<le> 45"

lemma TransactionRepo_Create_storable:
  assumes "storable t d" and "tx_TransactionType t \<in> {TransactionTypePayment, TransactionTypeRefund, TransactionTypeTopup}"
    and "tx_Status t = TransactionStatusSuccess"
  shows "TransactionRepo_Create None t d = Inr (d\<lparr>transactions := transactions d @ [t]\<rparr>)"
proof -
  have "\<forall>(ok, msg)\<in>set (transactions_constraints t d). ok"
    using assms by (auto simp: storable_def transactions_constraints_def rune_count_def split: option.splits)
  then have "check_all (transactions_constraints t d) = Inr ()" by (simp add: check_all_Inr)
  then show ?thesis by (simp add: TransactionRepo_Create_def)
qed

lemma storable_wallets:
  "storable t (d\<lparr>wallets := rows_update (\<lambda>w. w_ID w = i) (\<lambda>w. w\<lparr>w_EncryptedBalance := c, w_UpdatedAt := n\<rparr>) (wallets d)\<rparr>)
   = storable t d"
  by (simp add: storable_def image_rows_update)

lemma IdempotencyRepo_Create_new:
  assumes "il_Key l \<notin> il_Key ` set (idempotency_logs d)" "il_TransactionID l \<in> tx_ID ` set (transactions d)"
    "rune_count (il_Key l) \<le> 255"
  shows "IdempotencyRepo_Create None l d = Inr (d\<lparr>idempotency_logs := idempotency_logs d @ [l]\<rparr>)"
proof -
  have "check_all (idempotency_constraints l d) = Inr ()"
    using assms by (simp add: idempotency_constraints_def)
  then show ?thesis by (simp add: IdempotencyRepo_Create_def)
qed

lemma WalletRepo_UpdateBalance_found:
  assumes "i \<in> w_ID ` set (wallets d)"
  shows "WalletRepo_UpdateBalance U None n i c d = Inr (d\<lparr>wallets := rows_update (\<lambda>w. w_ID w = i)
      (\<lambda>w. w\<lparr>w_EncryptedBalance := c, w_UpdatedAt := n\<rparr>) (wallets d)\<rparr>)"
proof -
  have "rows_count (\<lambda>w. w_ID w = i) (wallets d) \<noteq> 0" using assms by (auto simp: rows_count_zero)
  then show ?thesis by (simp add: WalletRepo_UpdateBalance_def)
qed

context uuid_text
begin

lemma payment_key_fits: "rune_count r \<le> 100 \<Longrightarrow> rune_count (BuildIdempotencyKey U m r) \<le> 255"
  using rune_count_le [of "uuid_String U m"] by (simp add: BuildIdempotencyKey_def length_String rune_count_def)

lemma refund_key_fits: "rune_count r \<le> 100 \<Longrightarrow> rune_count (BuildRefundIdempotencyKey U m r) \<le> 255"
  using rune_count_le [of "uuid_String U m"] by (simp add: BuildRefundIdempotencyKey_def length_String rune_count_def)

end

section \<open>Reading and writing amounts\<close>

lemma rand_draw_ok: "no_faults e \<Longrightarrow> rand_draw e i = Inr (ev_rand e i)"
  by (simp add: rand_draw_def no_faults_def)

lemma encrypt_amount_aes:
  assumes "no_faults e" and "length (key a) = 32"
  shows "\<exists>c. encrypt_amount (NewPaymentService U (aes_encSvc a)) e i what v = Inr c \<and>
     bindE (Decrypt (aes_encSvc a) c) ParseIntE = Inr v"
proof -
  obtain c where c: "Encrypt (aes_encSvc a) (rand_draw e i) (FormatInt v) = Inr c"
    using AES_Encrypt_total [OF assms(2), of "ev_rand e i" "FormatInt v"] rand_draw_ok [OF assms(1)]
    by (auto simp: aes_encSvc_def)
  then show ?thesis using aes.amount_roundtrip by (auto simp: encrypt_amount_def)
qed

lemma no_faults_None [simp]: "no_faults e \<Longrightarrow> ev_fault e x = None"
  by (simp add: no_faults_def)

section \<open>Payments\<close>

lemma payment_in_tx_total:
  assumes nf: "no_faults e" and key: "length (key a) = 32" and U: "uuid_text U"
    and w: "row_where (\<lambda>w. w_MerchantID w = pq_MerchantID req \<and> w_Currency w = pq_Currency req) (wallets d) = Some wallet"
    and b: "balance_of (aes_encSvc a) wallet = Some b" "sint (pq_Amount req) \<le> sint b"
    and st: "\<And>ae. storable (payment_txn e req wallet ae) d"
    and k: "k \<notin> il_Key ` set (idempotency_logs d)" "rune_count k \<le> 255"
  shows "\<exists>r. payment_in_tx (NewPaymentService U (aes_encSvc a)) e req k d = Inr r"
proof -
  let ?s = "NewPaymentService U (aes_encSvc a)"
  obtain c where c: "encrypt_amount ?s e 0 ''encrypt new balance'' (b - pq_Amount req) = Inr c"
    using encrypt_amount_aes [OF nf key] by blast
  obtain ae where ae: "encrypt_amount ?s e 1 ''encrypt amount'' (pq_Amount req) = Inr ae"
    using encrypt_amount_aes [OF nf key] by blast
  let ?t = "payment_txn e req wallet ae"
  have wid: "w_ID wallet \<in> w_ID ` set (wallets d)" using row_where_Some [OF w] by blast
  have rb: "read_balance ?s wallet = Inr b" using b(1) by (simp add: read_balance_Inr)
  have cr: "TransactionRepo_Create None ?t (d\<lparr>wallets := rows_update (\<lambda>w. w_ID w = w_ID wallet)
        (\<lambda>w. w\<lparr>w_EncryptedBalance := c, w_UpdatedAt := ev_db_now e\<rparr>) (wallets d)\<rparr>) =
      Inr (d\<lparr>wallets := rows_update (\<lambda>w. w_ID w = w_ID wallet)
        (\<lambda>w. w\<lparr>w_EncryptedBalance := c, w_UpdatedAt := ev_db_now e\<rparr>) (wallets d),
        transactions := transactions d @ [?t]\<rparr>)"
    using TransactionRepo_Create_storable [of ?t, unfolded storable_wallets, OF iffD2 [OF storable_wallets st]]
    by (simp add: payment_txn_def)
  have "\<not> b <s pq_Amount req" using b(2) by (simp add: wsless_sint)
  then show ?thesis
    using nf
    by (simp add: payment_in_tx_def WalletRepo_GetByMerchantIDForUpdate_def w rb c ae
        WalletRepo_UpdateBalance_found [OF wid] cr IdempotencyRepo_Create_new k Let_def
        del: One_nat_def)
qed

text \<open>With no fault the commit applies the transaction and the response is cached.\<close>

lemma commit_and_cache_ok:
  "no_faults e \<Longrightarrow> commit_and_cache e k txn resp tx w =
     (Inr txn, w\<lparr>wd_db := tx, wd_redis := redis_set (ev_now e) (''idempotency:'' @ k) resp idempotencyTTL (wd_redis w)\<rparr>)"
  by (simp add: commit_and_cache_def tx_Commit_def IdempotencyCache_Set_def)

lemma lookup_None_not_logged:
  assumes "idempotency_lookup e k w = Inr None"
  shows "k \<notin> il_Key ` set (idempotency_logs (wd_db w))"
  using assms
  by (auto simp: idempotency_lookup_def IdempotencyRepo_Get_def res_simps row_where_None
      split: sum.splits option.splits)

definition balance_change :: "EncryptionService \<Rightarrow> uuid \<Rightarrow> int64 \<Rightarrow> db \<Rightarrow> db \<Rightarrow> bool" where
  "balance_change enc i v d d' \<longleftrightarrow>
     (\<exists>b. wallet_balance enc d i = Some b \<and> wallet_balance enc d' i = Some (b + v)) \<and>
     (\<forall>j. j \<noteq> i \<longrightarrow> wallet_balance enc d' j = wallet_balance enc d j)"

lemma posted_balance_change:
  assumes "posted enc t d d'" and "distinct (map w_ID (wallets d))"
  shows "balance_change enc (tx_WalletID t) (delta t) d d'"
  using assms wallet_balance_posted [OF assms]
  by (auto simp: balance_change_def posted_def)

text \<open>A payment that is covered by the balance succeeds and has exactly the intended effects.\<close>

lemma payment_effects:
  assumes nf: "no_faults e" and key: "length (key a) = 32" and U: "uuid_text U"
    and inv: "book_inv (aes_encSvc a) (wd_db w)" and pos: "0 < sint (pq_Amount req)"
    and lk: "idempotency_lookup e (BuildIdempotencyKey U (pq_MerchantID req) (pq_ReferenceID req)) w = Inr None"
    and w: "row_where (\<lambda>w. w_MerchantID w = pq_MerchantID req \<and> w_Currency w = pq_Currency req) (wallets (wd_db w)) = Some wallet"
    and b: "balance_of (aes_encSvc a) wallet = Some b" "sint (pq_Amount req) \<le> sint b"
    and st: "\<And>ae. storable (payment_txn e req wallet ae) (wd_db w)"
  shows "\<exists>ae w'. ProcessPayment (NewPaymentService U (aes_encSvc a)) e req w = (Inr (payment_txn e req wallet ae), w') \<and>
    transactions (wd_db w') = transactions (wd_db w) @ [payment_txn e req wallet ae] \<and>
    balance_change (aes_encSvc a) (w_ID wallet) (- pq_Amount req) (wd_db w) (wd_db w') \<and>
    idempotency_lookup e (BuildIdempotencyKey U (pq_MerchantID req) (pq_ReferenceID req)) w'
      = Inr (Some (marshal_Transaction U (payment_txn e req wallet ae)))"
proof -
  let ?s = "NewPaymentService U (aes_encSvc a)"
  let ?k = "BuildIdempotencyKey U (pq_MerchantID req) (pq_ReferenceID req)"
  have fits: "rune_count ?k \<le> 255"
    by (rule uuid_text.payment_key_fits [OF U]) (use st in \<open>simp add: storable_def payment_txn_def\<close>)
  obtain txn resp tx where tx: "payment_in_tx ?s e req ?k (wd_db w) = Inr (txn, resp, tx)"
    using payment_in_tx_total [OF nf key U w b st lookup_None_not_logged [OF lk] fits] by auto
  from tx obtain ae where t: "txn = payment_txn e req wallet ae" "resp = marshal_Transaction U txn"
    "transactions tx = transactions (wd_db w) @ [txn]"
    by (rule payment_in_tx_Inr) (use w in simp)
  let ?w' = "w\<lparr>wd_db := tx, wd_redis := redis_set (ev_now e) (''idempotency:'' @ ?k) resp idempotencyTTL (wd_redis w)\<rparr>"
  have run: "ProcessPayment ?s e req w = (Inr txn, ?w')"
    using nf lk tx pos wsless_zero [of "pq_Amount req"]
    by (simp add: ProcessPayment_def Transactor_Begin_def commit_and_cache_ok Let_def)
  have "posted (aes_encSvc a) txn (wd_db w) tx"
    using payment_posted [OF _ _ pos tx] inv aes.encryption_service_axioms by simp
  from posted_balance_change [OF this] inv t(1)
  have "balance_change (aes_encSvc a) (w_ID wallet) (- pq_Amount req) (wd_db w) tx"
    by (simp add: book_inv_def payment_txn_def delta_def)
  moreover have "idempotency_lookup e ?k ?w' = Inr (Some resp)"
    using nf by (simp add: idempotency_lookup_def IdempotencyCache_Get_def idempotencyTTL_def seconds_def)
  ultimately show ?thesis using run t by (intro exI [of _ ae] exI [of _ ?w']) simp
qed

lemma payment_insufficient_result:
  assumes nf: "no_faults e" and pos: "0 < sint (pq_Amount req)"
    and lk: "idempotency_lookup e (BuildIdempotencyKey (ps_uuid s) (pq_MerchantID req) (pq_ReferenceID req)) w = Inr None"
    and w: "row_where (\<lambda>w. w_MerchantID w = pq_MerchantID req \<and> w_Currency w = pq_Currency req) (wallets (wd_db w)) = Some wallet"
    and b: "balance_of (ps_encSvc s) wallet = Some b" "sint b < sint (pq_Amount req)"
  shows "ProcessPayment s e req w = (Inl ErrInsufficientFunds, w)"
proof -
  have rb: "read_balance s wallet = Inr b" using b(1) by (simp add: read_balance_Inr)
  have "b <s pq_Amount req" using b(2) by (simp add: word_sless_alt)
  then have "payment_in_tx s e req k (wd_db w) = Inl ErrInsufficientFunds" for k
    using nf by (simp add: payment_in_tx_def WalletRepo_GetByMerchantIDForUpdate_def w rb)
  then show ?thesis
    using nf pos lk wsless_zero [of "pq_Amount req"] by (simp add: ProcessPayment_def Transactor_Begin_def Let_def)
qed

section \<open>Refunds\<close>

text \<open>The amount a refund request asks for: the given one, or the whole original amount.\<close>

definition refund_amount :: "RefundRequest \<Rightarrow> Transaction \<Rightarrow> int64" where
  "refund_amount req origTx = (case rq_Amount req of None \<Rightarrow> tx_Amount origTx | Some a \<Rightarrow> a)"

lemma refund_checks_ok:
  assumes "no_faults e"
    and "row_where (\<lambda>t. tx_MerchantID t = rq_MerchantID req \<and> tx_ReferenceID t = rq_OriginalReferenceID req)
      (transactions d) = Some origTx"
    and "IsRefundable origTx" and "\<forall>t\<in>set (transactions d). \<not> is_live_refund_of (tx_ID origTx) t"
    and "0 < sint (refund_amount req origTx)" "sint (refund_amount req origTx) \<le> sint (tx_Amount origTx)"
  shows "refund_checks e req d = Inr (origTx, refund_amount req origTx)"
proof -
  have "\<not> list_ex (is_live_refund_of (tx_ID origTx)) (transactions d)" using assms(4) by (simp add: list_ex_iff)
  moreover have "\<not> a \<le>s 0 \<and> \<not> tx_Amount origTx <s a" if "rq_Amount req = Some a" for a
    using that assms(5,6) by (simp add: refund_amount_def wsless_zero wsless_sint)
  ultimately show ?thesis
    using assms(1-3)
    by (cases "rq_Amount req") (simp_all add: refund_checks_def TransactionRepo_GetByReference_def
        TransactionRepo_CheckRefundExists_def refund_amount_def)
qed

lemma refund_in_tx_total:
  assumes nf: "no_faults e" and key: "length (key a) = 32" and U: "uuid_text U"
    and w: "row_where (\<lambda>w. w_ID w = tx_WalletID origTx) (wallets d) = Some wallet"
    and b: "balance_of (aes_encSvc a) wallet = Some b"
    and o: "origTx \<in> set (transactions d)"
    and st: "\<And>ae. storable (refund_txn e req origTx v wallet ae) d"
    and k: "k \<notin> il_Key ` set (idempotency_logs d)" "rune_count k \<le> 255"
  shows "\<exists>r. refund_in_tx (NewPaymentService U (aes_encSvc a)) e req k origTx v d = Inr r"
proof -
  let ?s = "NewPaymentService U (aes_encSvc a)"
  obtain c where c: "encrypt_amount ?s e 0 ''encrypt new balance'' (b + v) = Inr c"
    using encrypt_amount_aes [OF nf key] by blast
  obtain ae where ae: "encrypt_amount ?s e 1 ''encrypt amount'' v = Inr ae"
    using encrypt_amount_aes [OF nf key] by blast
  let ?t = "refund_txn e req origTx v wallet ae"
  have wid: "w_ID wallet \<in> w_ID ` set (wallets d)" using row_where_Some [OF w] by blast
  have rb: "read_balance ?s wallet = Inr b" using b(1) by (simp add: read_balance_Inr)
  have cr: "TransactionRepo_Create None ?t (d\<lparr>wallets := rows_update (\<lambda>w. w_ID w = w_ID wallet)
        (\<lambda>w. w\<lparr>w_EncryptedBalance := c, w_UpdatedAt := ev_db_now e\<rparr>) (wallets d)\<rparr>) =
      Inr (d\<lparr>wallets := rows_update (\<lambda>w. w_ID w = w_ID wallet)
        (\<lambda>w. w\<lparr>w_EncryptedBalance := c, w_UpdatedAt := ev_db_now e\<rparr>) (wallets d),
        transactions := transactions d @ [?t]\<rparr>)"
    using TransactionRepo_Create_storable [of ?t, unfolded storable_wallets, OF iffD2 [OF storable_wallets st]]
    by (simp add: refund_txn_def)
  have us: "TransactionRepo_UpdateStatus U None n (tx_ID origTx) TransactionStatusReversed d2 =
      Inr (d2\<lparr>transactions := rows_update (\<lambda>t. tx_ID t = tx_ID origTx)
       (\<lambda>t. t\<lparr>tx_Status := TransactionStatusReversed, tx_ProcessedAt := Some n\<rparr>) (transactions d2)\<rparr>)"
    if "transactions d2 = transactions d @ [?t]" for d2 n
  proof -
    have "rows_count (\<lambda>t. tx_ID t = tx_ID origTx) (transactions d2) \<noteq> 0" using o that by (auto simp: rows_count_zero)
    then show ?thesis by (simp add: TransactionRepo_UpdateStatus_def rune_count_def)
  qed
  show ?thesis
    using nf
    by (simp add: refund_in_tx_def WalletRepo_GetByIDForUpdate_def w rb c ae us
        WalletRepo_UpdateBalance_found [OF wid] cr IdempotencyRepo_Create_new k Let_def image_rows_update
        del: One_nat_def)
qed

text \<open>
  A refund of a live payment succeeds: the wallet of the payment is credited, the payment is
  marked as reversed, and the refund row is appended.
\<close>

lemma refund_effects:
  assumes nf: "no_faults e" and key: "length (key a) = 32" and U: "uuid_text U"
    and inv: "book_inv (aes_encSvc a) (wd_db w)"
    and lk: "idempotency_lookup e (BuildRefundIdempotencyKey U (rq_MerchantID req) (rq_OriginalReferenceID req)) w = Inr None"
    and o: "row_where (\<lambda>t. tx_MerchantID t = rq_MerchantID req \<and> tx_ReferenceID t = rq_OriginalReferenceID req)
      (transactions (wd_db w)) = Some origTx" "IsRefundable origTx"
      "\<forall>t\<in>set (transactions (wd_db w)). \<not> is_live_refund_of (tx_ID origTx) t"
    and amt: "0 < sint (refund_amount req origTx)" "sint (refund_amount req origTx) \<le> sint (tx_Amount origTx)"
    and w: "row_where (\<lambda>w. w_ID w = tx_WalletID origTx) (wallets (wd_db w)) = Some wallet"
    and b: "balance_of (aes_encSvc a) wallet = Some b"
    and st: "\<And>ae. storable (refund_txn e req origTx (refund_amount req origTx) wallet ae) (wd_db w)"
  shows "\<exists>ae w'. let t = refund_txn e req origTx (refund_amount req origTx) wallet ae in
    ProcessRefund (NewPaymentService U (aes_encSvc a)) e req w = (Inr t, w') \<and>
    transactions (wd_db w') = mark_reversed (ev_now e) t (transactions (wd_db w) @ [t]) \<and>
    balance_change (aes_encSvc a) (tx_WalletID origTx) (refund_amount req origTx) (wd_db w) (wd_db w') \<and>
    idempotency_lookup e (BuildRefundIdempotencyKey U (rq_MerchantID req) (rq_OriginalReferenceID req)) w'
      = Inr (Some (marshal_Transaction U t))"
proof -
  let ?s = "NewPaymentService U (aes_encSvc a)"
  let ?k = "BuildRefundIdempotencyKey U (rq_MerchantID req) (rq_OriginalReferenceID req)"
  let ?a = "refund_amount req origTx"
  have "rune_count (rq_OriginalReferenceID req) \<le> 100"
    using st by (simp add: storable_def refund_txn_def rune_count_def)
  then have fits: "rune_count ?k \<le> 255" by (rule uuid_text.refund_key_fits [OF U])
  have mem: "origTx \<in> set (transactions (wd_db w))" using row_where_Some [OF o(1)] by simp
  have chk: "refund_checks e req (wd_db w) = Inr (origTx, ?a)" by (rule refund_checks_ok [OF nf o amt])
  obtain txn resp tx where tx: "refund_in_tx ?s e req ?k origTx ?a (wd_db w) = Inr (txn, resp, tx)"
    using refund_in_tx_total [OF nf key U w b mem st lookup_None_not_logged [OF lk] fits] by auto
  from tx obtain ae where t: "txn = refund_txn e req origTx ?a wallet ae" "resp = marshal_Transaction U txn"
    "transactions tx = mark_reversed (ev_now e) txn (transactions (wd_db w) @ [txn])"
    by (rule refund_in_tx_Inr) (use w in simp)
  let ?w' = "w\<lparr>wd_db := tx, wd_redis := redis_set (ev_now e) (''idempotency:'' @ ?k) resp idempotencyTTL (wd_redis w)\<rparr>"
  have run: "ProcessRefund ?s e req w = (Inr txn, ?w')"
    using nf lk tx chk by (simp add: ProcessRefund_def Transactor_Begin_def commit_and_cache_ok Let_def)
  have wid: "tx_WalletID origTx = w_ID wallet" using row_where_Some [OF w] by simp
  have "posted (aes_encSvc a) txn (wd_db w) tx"
    using refund_posted [OF _ _ chk tx] inv aes.encryption_service_axioms by simp
  from posted_balance_change [OF this] inv t(1) wid
  have "balance_change (aes_encSvc a) (tx_WalletID origTx) ?a (wd_db w) tx"
    by (simp add: book_inv_def refund_txn_def delta_def)
  moreover have "idempotency_lookup e ?k ?w' = Inr (Some resp)"
    using nf by (simp add: idempotency_lookup_def IdempotencyCache_Get_def idempotencyTTL_def seconds_def)
  ultimately show ?thesis using run t by (intro exI [of _ ae] exI [of _ ?w']) simp
qed

section \<open>Top-ups\<close>

lemma topup_effects:
  assumes nf: "no_faults e" and key: "length (key a) = 32"
    and inv: "book_inv (aes_encSvc a) (wd_db w)" and pos: "0 < sint (tq_Amount req)"
    and w: "row_where (\<lambda>w. w_MerchantID w = tq_MerchantID req \<and> w_Currency w = tq_Currency req) (wallets (wd_db w)) = Some wallet"
    and b: "balance_of (aes_encSvc a) wallet = Some b"
    and st: "\<And>ae. storable (topup_txn (NewPaymentService U (aes_encSvc a)) e req wallet ae) (wd_db w)"
  shows "\<exists>ae w'. let t = topup_txn (NewPaymentService U (aes_encSvc a)) e req wallet ae in
    ProcessTopup (NewPaymentService U (aes_encSvc a)) e req w = (Inr t, w') \<and>
    transactions (wd_db w') = transactions (wd_db w) @ [t] \<and> wd_redis w' = wd_redis w \<and>
    balance_change (aes_encSvc a) (w_ID wallet) (tq_Amount req) (wd_db w) (wd_db w')"
proof -
  let ?s = "NewPaymentService U (aes_encSvc a)" and ?d = "wd_db w"
  obtain c where c: "encrypt_amount ?s e 0 ''encrypt new balance'' (b + tq_Amount req) = Inr c"
    using encrypt_amount_aes [OF nf key] by blast
  obtain ae where ae: "encrypt_amount ?s e 1 ''encrypt amount'' (tq_Amount req) = Inr ae"
    using encrypt_amount_aes [OF nf key] by blast
  let ?t = "topup_txn ?s e req wallet ae"
  let ?d1 = "?d\<lparr>wallets := rows_update (\<lambda>w. w_ID w = w_ID wallet)
        (\<lambda>w. w\<lparr>w_EncryptedBalance := c, w_UpdatedAt := ev_db_now e\<rparr>) (wallets ?d)\<rparr>"
  have wid: "w_ID wallet \<in> w_ID ` set (wallets ?d)" using row_where_Some [OF w] by blast
  have rb: "read_balance ?s wallet = Inr b" using b(1) by (simp add: read_balance_Inr)
  have cr: "TransactionRepo_Create None ?t ?d1 = Inr (?d1\<lparr>transactions := transactions ?d @ [?t]\<rparr>)"
    using TransactionRepo_Create_storable [of ?t, unfolded storable_wallets, OF iffD2 [OF storable_wallets st]]
    by (simp add: topup_txn_def)
  have tx: "topup_in_tx ?s e req ?d = Inr (?t, ?d1\<lparr>transactions := transactions ?d @ [?t]\<rparr>)"
    using nf
    by (simp add: topup_in_tx_def WalletRepo_GetByMerchantIDForUpdate_def w rb c ae
        WalletRepo_UpdateBalance_found [OF wid] cr Let_def del: One_nat_def)
  let ?w' = "w\<lparr>wd_db := ?d1\<lparr>transactions := transactions ?d @ [?t]\<rparr>\<rparr>"
  have run: "ProcessTopup ?s e req w = (Inr ?t, ?w')"
    using nf tx pos wsless_zero [of "tq_Amount req"]
    by (simp add: ProcessTopup_def Transactor_Begin_def tx_Commit_def)
  have "posted (aes_encSvc a) ?t ?d (wd_db ?w')"
    using topup_posted [OF _ _ pos tx] inv aes.encryption_service_axioms by simp
  from posted_balance_change [OF this] inv
  have "balance_change (aes_encSvc a) (w_ID wallet) (tq_Amount req) ?d (wd_db ?w')"
    by (simp add: book_inv_def topup_txn_def delta_def)
  with run show ?thesis by (intro exI [of _ ae] exI [of _ ?w']) (simp add: Let_def)
qed

end
