(* ===== verification/Demo_World.thy ===== *)
theory Demo_World
  imports Payment_Effects
begin

text \<open>
  A small concrete gateway on which the properties of the payment service are applied: one
  merchant with one wallet in VND that was topped up with 1000, and the same gateway after a
  payment of 400. The balances are encrypted with AES-256-GCM under a fixed key; the
  ciphertexts stay symbolic (\<open>demo_seal\<close>), all the rest is computed.
\<close>

definition demo_aes :: AESEncryptionService where
  "demo_aes = \<lparr>key = replicate 32 0\<rparr>"

definition demo_seal :: "string \<Rightarrow> string" where
  "demo_seal p = projr (AES_Encrypt demo_aes (Inr (\<lambda>_. 0)) p)"

definition demo_merchant :: Merchant where
  "demo_merchant = \<lparr>m_ID = 1, m_Username = ''shop'', m_PasswordHash = ''hash'', m_MerchantName = ''Shop'',
     m_AccessKey = ''ak'', m_SecretKeyEnc = demo_seal ''sk'', m_WebhookURL = None,
     m_Status = MerchantStatusActive, m_CreatedAt = 0, m_UpdatedAt = 0\<rparr>"

definition demo_wallet :: "int64 \<Rightarrow> Wallet" where
  "demo_wallet b = \<lparr>w_ID = 2, w_MerchantID = 1, w_Currency = ''VND'', w_EncryptedBalance = demo_seal (FormatInt b),
     w_LastAuditHash = None, w_CreatedAt = 0, w_UpdatedAt = 0\<rparr>"

definition demo_tx :: "uuid \<Rightarrow> string \<Rightarrow> int64 \<Rightarrow> TransactionType \<Rightarrow> Transaction" where
  "demo_tx i r a ty = \<lparr>tx_ID = i, tx_ReferenceID = r, tx_MerchantID = 1, tx_WalletID = 2, tx_Amount = a,
     tx_AmountEncrypted = demo_seal (FormatInt a), tx_TransactionType = ty, tx_Status = TransactionStatusSuccess,
     tx_Signature = ''sig'', tx_ClientIP = ''10.0.0.1'', tx_ExtraData = None, tx_OriginalTransactionID = None,
     tx_CreatedAt = 0, tx_ProcessedAt = Some 0\<rparr>"

definition demo_topped_up :: db where
  "demo_topped_up = empty_db\<lparr>merchants := [demo_merchant], wallets := [demo_wallet 1000],
     transactions := [demo_tx 10 ''TOPUP-1'' 1000 TransactionTypeTopup]\<rparr>"

definition demo_paid :: db where
  "demo_paid = empty_db\<lparr>merchants := [demo_merchant], wallets := [demo_wallet 600],
     transactions := [demo_tx 10 ''TOPUP-1'' 1000 TransactionTypeTopup,
                      demo_tx 11 ''ORDER-1'' 400 TransactionTypePayment]\<rparr>"

text \<open>Ten top-ups of 9 * 10^17, each below the limit of the amount column.\<close>

definition demo_rich :: db where
  "demo_rich = empty_db\<lparr>merchants := [demo_merchant], wallets := [demo_wallet 9000000000000000000],
     transactions := map (\<lambda>i. demo_tx (of_nat i) ''TOPUP-1'' 900000000000000000 TransactionTypeTopup) [10..<20]\<rparr>"

definition demo_env :: env where
  "demo_env = \<lparr>ev_now = 1700000000000000, ev_db_now = 1700000000000000, ev_uuid = (\<lambda>i. 100 + of_nat i),
     ev_rand = (\<lambda>_ _. 0), ev_fault = (\<lambda>_. None), ev_commit_applied = True\<rparr>"

definition demo_world :: "db \<Rightarrow> world" where
  "demo_world d = \<lparr>wd_db = d, wd_redis = Map.empty\<rparr>"

definition demo_service :: PaymentServiceImpl where
  "demo_service = NewPaymentService rfc4122 (aes_encSvc demo_aes)"

definition demo_payment :: "int64 \<Rightarrow> PaymentRequest" where
  "demo_payment a = \<lparr>pq_MerchantID = 1, pq_ReferenceID = ''ORDER-1'', pq_Amount = a, pq_Currency = ''VND'',
     pq_Signature = ''sig'', pq_ClientIP = ''10.0.0.1'', pq_ExtraData = None\<rparr>"

definition demo_refund :: "int64 option \<Rightarrow> RefundRequest" where
  "demo_refund a = \<lparr>rq_MerchantID = 1, rq_OriginalReferenceID = ''ORDER-1'', rq_Amount = a,
     rq_Reason = ''returned'', rq_Signature = ''sig'', rq_ClientIP = ''10.0.0.1''\<rparr>"

definition demo_topup :: "int64 \<Rightarrow> TopupRequest" where
  "demo_topup a = \<lparr>tq_MerchantID = 1, tq_Amount = a, tq_Currency = ''VND''\<rparr>"

lemma demo_merchant_fields [simp]: "m_ID demo_merchant = 1" "m_Status demo_merchant = MerchantStatusActive"
  "m_AccessKey demo_merchant = ''ak''" "m_SecretKeyEnc demo_merchant = demo_seal ''sk''" "m_Username demo_merchant = ''shop''"
  "m_WebhookURL demo_merchant = None"
  by (simp_all add: demo_merchant_def)

lemma demo_wallet_fields [simp]: "w_ID (demo_wallet b) = 2" "w_MerchantID (demo_wallet b) = 1"
  "w_Currency (demo_wallet b) = ''VND''" "w_EncryptedBalance (demo_wallet b) = demo_seal (FormatInt b)"
  by (simp_all add: demo_wallet_def)

lemma demo_tx_fields [simp]: "tx_ID (demo_tx i r a ty) = i" "tx_ReferenceID (demo_tx i r a ty) = r"
  "tx_MerchantID (demo_tx i r a ty) = 1" "tx_WalletID (demo_tx i r a ty) = 2" "tx_Amount (demo_tx i r a ty) = a"
  "tx_TransactionType (demo_tx i r a ty) = ty" "tx_Status (demo_tx i r a ty) = TransactionStatusSuccess"
  "tx_OriginalTransactionID (demo_tx i r a ty) = None" "tx_CreatedAt (demo_tx i r a ty) = 0"
  by (simp_all add: demo_tx_def)

lemma demo_topped_up_tables [simp]: "merchants demo_topped_up = [demo_merchant]" "wallets demo_topped_up = [demo_wallet 1000]"
  "transactions demo_topped_up = [demo_tx 10 ''TOPUP-1'' 1000 TransactionTypeTopup]"
  "idempotency_logs demo_topped_up = []"
  by (simp_all add: demo_topped_up_def empty_db_def)

lemma demo_paid_tables [simp]: "merchants demo_paid = [demo_merchant]" "wallets demo_paid = [demo_wallet 600]"
  "transactions demo_paid = [demo_tx 10 ''TOPUP-1'' 1000 TransactionTypeTopup,
     demo_tx 11 ''ORDER-1'' 400 TransactionTypePayment]" "idempotency_logs demo_paid = []"
  by (simp_all add: demo_paid_def empty_db_def)

lemma demo_rich_tables [simp]: "merchants demo_rich = [demo_merchant]" "wallets demo_rich = [demo_wallet 9000000000000000000]"
  "transactions demo_rich = map (\<lambda>i. demo_tx i ''TOPUP-1'' 900000000000000000 TransactionTypeTopup)
     [10, 11, 12, 13, 14, 15, 16, 17, 18, 19]" "idempotency_logs demo_rich = []"
  by (simp_all add: demo_rich_def empty_db_def upt_rec)

lemma demo_world_fields [simp]: "wd_db (demo_world d) = d" "wd_redis (demo_world d) = Map.empty"
  by (simp_all add: demo_world_def)

lemmas demo_req_defs = demo_env_def demo_payment_def demo_refund_def demo_topup_def

lemma demo_key [simp]: "length (key demo_aes) = 32"
  by (simp add: demo_aes_def)

lemma demo_encrypt: "AES_Encrypt demo_aes (Inr (\<lambda>_. 0)) p = Inr (demo_seal p)"
proof -
  obtain c where "AES_Encrypt demo_aes (Inr (\<lambda>_. 0)) p = Inr c" using AES_Encrypt_total [OF demo_key] by blast
  then show ?thesis by (simp add: demo_seal_def)
qed

lemma demo_decrypt [simp]: "Decrypt (aes_encSvc demo_aes) (demo_seal p) = Inr p"
  using demo_encrypt by (intro aes.decrypt_encrypt) (simp add: aes_encSvc_def)

lemma demo_balance [simp]: "balance_of (aes_encSvc demo_aes) (demo_wallet b) = Some b"
  by (simp add: balance_of_def)

lemma demo_no_faults [simp]: "no_faults demo_env"
  by (simp add: no_faults_def demo_env_def)

lemma demo_not_cached [simp]: "idempotency_lookup demo_env k (demo_world demo_topped_up) = Inr None"
  "idempotency_lookup demo_env k (demo_world demo_paid) = Inr None"
  by (simp_all add: idempotency_lookup_def IdempotencyCache_Get_def IdempotencyRepo_Get_def redis_get_def)

lemma demo_ledger_sum: "ledger_sum demo_topped_up 2 = 1000" "ledger_sum demo_paid 2 = 600"
  by (simp_all add: ledger_sum_def delta_def)

lemma demo_books_topped_up: "book_inv (aes_encSvc demo_aes) demo_topped_up"
  by (simp add: book_inv_def rows_ok_def ledger_inv_def refunds_covered_def no_overdraft_def
      refund_links_def statuses_ok_def wallet_balance_def demo_ledger_sum total_def is_refund_def)

lemma demo_books_paid: "book_inv (aes_encSvc demo_aes) demo_paid"
  by (simp add: book_inv_def rows_ok_def ledger_inv_def refunds_covered_def no_overdraft_def
      refund_links_def statuses_ok_def wallet_balance_def demo_ledger_sum total_def is_refund_def)

lemma demo_books_rich: "book_inv (aes_encSvc demo_aes) demo_rich"
  by (simp add: book_inv_def rows_ok_def ledger_inv_def refunds_covered_def no_overdraft_def
      refund_links_def statuses_ok_def wallet_balance_def total_def is_refund_def ledger_sum_def delta_def)

lemma demo_idemp_inv [simp]: "idemp_inv (demo_world demo_topped_up)" "idemp_inv (demo_world demo_paid)"
  by (simp_all add: idemp_inv_def cache_coherent_def)

end
