(* ===== verification/Payment_Properties.thy ===== *)
theory Payment_Properties
  imports Demo_World
begin

text \<open>
  The properties of the payment service, each stated over the operations of the code with the
  AES-256-GCM encryption service and any implementation of the uuid package that meets its
  documentation, and each followed by its application to the gateway of \<^theory_text>\<open>Demo_World\<close>.
\<close>

section \<open>Wrap-around\<close>

lemma sint64_add_overflow:
  fixes b v :: int64
  assumes "2 ^ 63 \<le> sint b + sint v"
  shows "sint (b + v) < 0"
proof -
  have "b + v = word_of_int (sint b + sint v - 2 ^ 64)"
  proof -
    have "(word_of_int (sint b + sint v - 2 ^ 64) :: int64) = word_of_int (sint b + sint v) - word_of_int (2 ^ 64)"
      by (simp add: wi_hom_sub)
    also have "(word_of_int (2 ^ 64) :: int64) = 0" by (simp add: word_of_int_eq_0_iff)
    finally show ?thesis by (simp add: wi_hom_syms)
  qed
  moreover have "sint (word_of_int (sint b + sint v - 2 ^ 64) :: int64) = sint b + sint v - 2 ^ 64"
    by (rule sint64_word_of_int) (use assms sint64_bounds [of b] sint64_bounds [of v] in simp_all)
  ultimately have "sint (b + v) = sint b + sint v - 2 ^ 64" by (simp only:)
  then show ?thesis using sint64_bounds [of b] sint64_bounds [of v] by simp
qed

section \<open>Payments\<close>

text \<open>
  C6: A payment with a positive amount that the decrypted wallet balance covers, whose key is
  neither cached nor logged and whose row fits the columns of the schema, succeeds. It returns
  and appends one SUCCESS payment row, lowers the balance of that wallet by exactly the amount,
  leaves every other wallet alone, and a lookup of its idempotency key finds the response.
\<close>

theorem payment_success:
  assumes "no_faults e" and "length (key a) = 32" and "uuid_text U"
    and "book_inv (aes_encSvc a) (wd_db w)" and "0 < sint (pq_Amount req)"
    and "idempotency_lookup e (BuildIdempotencyKey U (pq_MerchantID req) (pq_ReferenceID req)) w = Inr None"
    and "row_where (\<lambda>w. w_MerchantID w = pq_MerchantID req \<and> w_Currency w = pq_Currency req) (wallets (wd_db w)) = Some wallet"
    and "balance_of (aes_encSvc a) wallet = Some b" and "sint (pq_Amount req) \<le> sint b"
    and "\<And>ae. storable (payment_txn e req wallet ae) (wd_db w)"
  shows "\<exists>ae w'. ProcessPayment (NewPaymentService U (aes_encSvc a)) e req w = (Inr (payment_txn e req wallet ae), w') \<and>
    transactions (wd_db w') = transactions (wd_db w) @ [payment_txn e req wallet ae] \<and>
    balance_change (aes_encSvc a) (w_ID wallet) (- pq_Amount req) (wd_db w) (wd_db w') \<and>
    idempotency_lookup e (BuildIdempotencyKey U (pq_MerchantID req) (pq_ReferenceID req)) w'
      = Inr (Some (marshal_Transaction U (payment_txn e req wallet ae)))"
  using assms by (rule payment_effects)

lemma demo_payment_storable: "storable (payment_txn demo_env (demo_payment 400) (demo_wallet 1000) ae) demo_topped_up"
  by (simp add: storable_def payment_txn_def demo_req_defs rune_count_def)

theorem payment_success_witness:
  "\<exists>ae w'. ProcessPayment demo_service demo_env (demo_payment 400) (demo_world demo_topped_up) =
      (Inr (payment_txn demo_env (demo_payment 400) (demo_wallet 1000) ae), w') \<and>
    balance_change (aes_encSvc demo_aes) 2 (- 400) demo_topped_up (wd_db w')"
proof -
  have "\<exists>ae w'. ProcessPayment (NewPaymentService rfc4122 (aes_encSvc demo_aes)) demo_env (demo_payment 400)
      (demo_world demo_topped_up) = (Inr (payment_txn demo_env (demo_payment 400) (demo_wallet 1000) ae), w') \<and>
    transactions (wd_db w') = transactions (wd_db (demo_world demo_topped_up)) @
      [payment_txn demo_env (demo_payment 400) (demo_wallet 1000) ae] \<and>
    balance_change (aes_encSvc demo_aes) (w_ID (demo_wallet 1000)) (- pq_Amount (demo_payment 400))
      (wd_db (demo_world demo_topped_up)) (wd_db w') \<and>
    idempotency_lookup demo_env (BuildIdempotencyKey rfc4122 (pq_MerchantID (demo_payment 400))
        (pq_ReferenceID (demo_payment 400))) w'
      = Inr (Some (marshal_Transaction rfc4122 (payment_txn demo_env (demo_payment 400) (demo_wallet 1000) ae)))"
    by (rule payment_success [where b = 1000])
      (simp_all add: demo_books_topped_up rfc.uuid_text_axioms demo_payment_storable, simp_all add: demo_payment_def)
  then show ?thesis by (auto simp: demo_service_def demo_payment_def)
qed

text \<open>
  C7: A payment larger than the balance is refused with PAY_001 and changes nothing, neither
  in the database nor in the cache.
\<close>

theorem payment_insufficient_funds:
  assumes "no_faults e" and "0 < sint (pq_Amount req)"
    and "idempotency_lookup e (BuildIdempotencyKey U (pq_MerchantID req) (pq_ReferenceID req)) w = Inr None"
    and "row_where (\<lambda>w. w_MerchantID w = pq_MerchantID req \<and> w_Currency w = pq_Currency req) (wallets (wd_db w)) = Some wallet"
    and "balance_of (aes_encSvc a) wallet = Some b" and "sint b < sint (pq_Amount req)"
  shows "ProcessPayment (NewPaymentService U (aes_encSvc a)) e req w = (Inl ErrInsufficientFunds, w)"
  using assms payment_insufficient_result [of e req "NewPaymentService U (aes_encSvc a)" w wallet b] by simp

theorem payment_insufficient_funds_witness:
  "ProcessPayment demo_service demo_env (demo_payment 1001) (demo_world demo_topped_up) =
    (Inl ErrInsufficientFunds, demo_world demo_topped_up)"
  unfolding demo_service_def
  by (rule payment_insufficient_funds [where b = 1000 and wallet = "demo_wallet 1000"])
    (simp_all, simp_all add: demo_payment_def)

text \<open>
  C8: A payment is atomic under every pattern of failures of PostgreSQL, Redis and the random
  source: either the database is untouched, or the balance, the transaction row and the
  idempotency row were all written, and then a success reports exactly the row that was written.
\<close>

theorem payment_atomic:
  assumes "book_inv (aes_encSvc a) (wd_db w)"
    and "ProcessPayment (NewPaymentService U (aes_encSvc a)) e req w = (r, w')"
  shows "wd_db w' = wd_db w \<or>
    (\<exists>t n. posted (aes_encSvc a) t (wd_db w) (wd_db w') \<and>
       logs_key (BuildIdempotencyKey U (pq_MerchantID req) (pq_ReferenceID req)) t (marshal_Transaction U t) n
         (wd_db w) (wd_db w') \<and>
       (\<forall>t'. r = Inr t' \<longrightarrow> t' = t))"
proof -
  let ?s = "NewPaymentService U (aes_encSvc a)"
  from ProcessPayment_outcome [OF assms(2)] show ?thesis
  proof
    assume "\<exists>txn resp. 0 < sint (pq_Amount req) \<and>
       idempotency_lookup e (BuildIdempotencyKey (ps_uuid ?s) (pq_MerchantID req) (pq_ReferenceID req)) w = Inr None \<and>
       payment_in_tx ?s e req (BuildIdempotencyKey (ps_uuid ?s) (pq_MerchantID req) (pq_ReferenceID req)) (wd_db w)
         = Inr (txn, resp, wd_db w') \<and> (\<forall>t. r = Inr t \<longrightarrow> t = txn)"
    then obtain t resp where pos: "0 < sint (pq_Amount req)"
      and tx: "payment_in_tx ?s e req (BuildIdempotencyKey U (pq_MerchantID req) (pq_ReferenceID req)) (wd_db w)
        = Inr (t, resp, wd_db w')" and r: "\<forall>t'. r = Inr t' \<longrightarrow> t' = t" by auto
    have "posted (aes_encSvc a) t (wd_db w) (wd_db w')"
      using payment_posted [OF _ _ pos tx] assms(1) aes.encryption_service_axioms by simp
    with payment_logs_key [OF tx] r show ?thesis by auto
  qed simp
qed

theorem payment_atomic_witness:
  "let (r, w') = ProcessPayment demo_service (demo_env\<lparr>ev_fault := (\<lambda>_. None)(S_Commit := Some (Plain ''conn reset''))\<rparr>)
        (demo_payment 400) (demo_world demo_topped_up)
   in wd_db w' = demo_topped_up \<or> (\<exists>t. posted (aes_encSvc demo_aes) t demo_topped_up (wd_db w'))"
proof -
  obtain r w' where run: "ProcessPayment (NewPaymentService rfc4122 (aes_encSvc demo_aes))
      (demo_env\<lparr>ev_fault := (\<lambda>_. None)(S_Commit := Some (Plain ''conn reset''))\<rparr>)
      (demo_payment 400) (demo_world demo_topped_up) = (r, w')" by fastforce
  have "book_inv (aes_encSvc demo_aes) (wd_db (demo_world demo_topped_up))" by (simp add: demo_books_topped_up)
  from payment_atomic [OF this run] run show ?thesis by (auto simp: demo_service_def)
qed

text \<open>
  Once a payment was applied, every retry with the same merchant and reference, after any
  further operations and whatever the first call reported (also an error because the outcome
  of COMMIT was unknown), returns the transaction that was applied and changes nothing.
\<close>

theorem payment_retry_idempotent:
  assumes "uuid_text U" and "idemp_inv w"
    and "ProcessPayment (NewPaymentService U enc) e req w = (r, w1)" and "wd_db w1 \<noteq> wd_db w"
    and "pq_MerchantID req' = pq_MerchantID req" and "pq_ReferenceID req' = pq_ReferenceID req"
    and "0 < sint (pq_Amount req')" and "ev_fault e' S_Idemp_Get = None"
    and "w2 = run_all (fund_op (NewPaymentService U enc)) eqs w1"
  shows "ProcessPayment (NewPaymentService U enc) e' req' w2 =
      (Inr (json_visible (last (transactions (wd_db w1)))), w2) \<and>
    (\<forall>t. r = Inr t \<longrightarrow> t = last (transactions (wd_db w1)))"
  using assms payment_retry [of "NewPaymentService U enc" w e req r w1 req' e' eqs] by auto

theorem payment_retry_idempotent_witness:
  "\<exists>t w1. ProcessPayment demo_service demo_env (demo_payment 400) (demo_world demo_topped_up) = (Inr t, w1) \<and>
     ProcessPayment demo_service demo_env (demo_payment 400) w1 = (Inr (json_visible t), w1)"
proof -
  obtain ae w1 where run: "ProcessPayment (NewPaymentService rfc4122 (aes_encSvc demo_aes)) demo_env (demo_payment 400)
      (demo_world demo_topped_up) = (Inr (payment_txn demo_env (demo_payment 400) (demo_wallet 1000) ae), w1)"
    and rows: "transactions (wd_db w1) = transactions (wd_db (demo_world demo_topped_up)) @
      [payment_txn demo_env (demo_payment 400) (demo_wallet 1000) ae]"
    using payment_effects [OF demo_no_faults demo_key rfc.uuid_text_axioms, of "demo_world demo_topped_up"
      "demo_payment 400" "demo_wallet 1000" 1000] demo_payment_storable demo_books_topped_up
    by (auto simp: demo_payment_def)
  then have "wd_db w1 \<noteq> wd_db (demo_world demo_topped_up)" by (metis append_self_conv list.distinct(1))
  from payment_retry_idempotent [OF rfc.uuid_text_axioms _ run this, of "demo_payment 400" demo_env w1 "[]"]
  show ?thesis using run by (simp add: demo_service_def demo_payment_def)
qed

section \<open>Refunds\<close>

text \<open>
  C9: A refund of a live payment, in full or of a positive part of its amount, succeeds when its
  row fits the schema: the wallet of the original payment is credited with exactly the refunded
  amount, the payment becomes REVERSED, and the refund row that points to it is appended.
\<close>

theorem refund_success:
  assumes "no_faults e" and "length (key a) = 32" and "uuid_text U"
    and "book_inv (aes_encSvc a) (wd_db w)"
    and "idempotency_lookup e (BuildRefundIdempotencyKey U (rq_MerchantID req) (rq_OriginalReferenceID req)) w = Inr None"
    and "row_where (\<lambda>t. tx_MerchantID t = rq_MerchantID req \<and> tx_ReferenceID t = rq_OriginalReferenceID req)
      (transactions (wd_db w)) = Some origTx" and "IsRefundable origTx"
    and "\<forall>t\<in>set (transactions (wd_db w)). \<not> is_live_refund_of (tx_ID origTx) t"
    and "0 < sint (refund_amount req origTx)" and "sint (refund_amount req origTx) \<le> sint (tx_Amount origTx)"
    and "row_where (\<lambda>w. w_ID w = tx_WalletID origTx) (wallets (wd_db w)) = Some wallet"
    and "balance_of (aes_encSvc a) wallet = Some b"
    and "\<And>ae. storable (refund_txn e req origTx (refund_amount req origTx) wallet ae) (wd_db w)"
  shows "\<exists>ae w'. let t = refund_txn e req origTx (refund_amount req origTx) wallet ae in
    ProcessRefund (NewPaymentService U (aes_encSvc a)) e req w = (Inr t, w') \<and>
    transactions (wd_db w') = mark_reversed (ev_now e) t (transactions (wd_db w) @ [t]) \<and>
    balance_change (aes_encSvc a) (tx_WalletID origTx) (refund_amount req origTx) (wd_db w) (wd_db w') \<and>
    idempotency_lookup e (BuildRefundIdempotencyKey U (rq_MerchantID req) (rq_OriginalReferenceID req)) w'
      = Inr (Some (marshal_Transaction U t))"
  using assms by (rule refund_effects)

abbreviation demo_order :: Transaction where
  "demo_order \<equiv> demo_tx 11 ''ORDER-1'' 400 TransactionTypePayment"

lemma demo_refund_storable:
  "storable (refund_txn demo_env (demo_refund None) demo_order 400 (demo_wallet 600) ae) demo_paid"
  by (simp add: storable_def refund_txn_def demo_req_defs rune_count_def)

lemma demo_refund_ready:
  "refund_amount (demo_refund None) demo_order = 400" "IsRefundable demo_order"
  "\<forall>t\<in>set (transactions demo_paid). \<not> is_live_refund_of (tx_ID demo_order) t"
  "row_where (\<lambda>t. tx_MerchantID t = rq_MerchantID (demo_refund None) \<and>
     tx_ReferenceID t = rq_OriginalReferenceID (demo_refund None)) (transactions demo_paid) = Some demo_order"
  by (simp_all add: refund_amount_def demo_refund_def IsRefundable_def is_live_refund_of_def)

lemma demo_refund_run:
  obtains ae w' where "ProcessRefund (NewPaymentService rfc4122 (aes_encSvc demo_aes)) demo_env (demo_refund None)
      (demo_world demo_paid) = (Inr (refund_txn demo_env (demo_refund None) demo_order 400 (demo_wallet 600) ae), w')"
    and "transactions (wd_db w') = mark_reversed (ev_now demo_env)
      (refund_txn demo_env (demo_refund None) demo_order 400 (demo_wallet 600) ae)
      (transactions demo_paid @ [refund_txn demo_env (demo_refund None) demo_order 400 (demo_wallet 600) ae])"
  using refund_effects [OF demo_no_faults demo_key rfc.uuid_text_axioms, of "demo_world demo_paid" "demo_refund None"
      demo_order "demo_wallet 600" 600] demo_refund_ready demo_refund_storable
  by (auto simp: demo_books_paid Let_def)

theorem refund_success_witness:
  "\<exists>ae w'. let t = refund_txn demo_env (demo_refund None) demo_order 400 (demo_wallet 600) ae in
    ProcessRefund demo_service demo_env (demo_refund None) (demo_world demo_paid) = (Inr t, w') \<and>
    transactions (wd_db w') = mark_reversed (ev_now demo_env) t (transactions demo_paid @ [t]) \<and>
    balance_change (aes_encSvc demo_aes) 2 400 demo_paid (wd_db w')"
  using refund_success [OF demo_no_faults demo_key rfc.uuid_text_axioms, of "demo_world demo_paid" "demo_refund None"
      demo_order "demo_wallet 600" 600] demo_refund_ready demo_refund_storable
  by (auto simp: demo_books_paid demo_service_def Let_def)

text \<open>
  C10: After any sequence of payments, refunds and top-ups under any failures, every refund row
  points to a REVERSED payment of the same merchant and wallet that is at least as large, and
  no payment is the original of two refunds.
\<close>

theorem refund_at_most_once:
  assumes "book_inv (aes_encSvc a) (wd_db w)"
    and "d = wd_db (run_all (fund_op (NewPaymentService U (aes_encSvc a))) eqs w)"
    and "t \<in> set (transactions d)" and "tx_TransactionType t = TransactionTypeRefund"
  shows "(\<exists>p\<in>set (transactions d). refund_of t p) \<and>
    (\<forall>u\<in>set (transactions d). tx_TransactionType u = TransactionTypeRefund \<longrightarrow>
       tx_OriginalTransactionID u = tx_OriginalTransactionID t \<longrightarrow> u = t)"
proof -
  have "book_inv (aes_encSvc a) d" unfolding assms(2) by (rule fund.books_run_all [OF assms(1)])
  then have links: "refund_links d" by (simp add: book_inv_def)
  then have "inj_on tx_OriginalTransactionID (set (filter is_refund (transactions d)))"
    by (simp add: refund_links_def distinct_map)
  with links assms(3,4) show ?thesis
    by (auto simp: refund_links_def is_refund_def dest: inj_onD)
qed

theorem refund_at_most_once_witness:
  "\<exists>d t. t \<in> set (transactions d) \<and> tx_TransactionType t = TransactionTypeRefund \<and>
     d = wd_db (run_all (fund_op demo_service) [(demo_env, Refund (demo_refund None))] (demo_world demo_paid)) \<and>
     (\<exists>p\<in>set (transactions d). refund_of t p)"
proof -
  obtain ae w' where run: "ProcessRefund (NewPaymentService rfc4122 (aes_encSvc demo_aes)) demo_env (demo_refund None)
      (demo_world demo_paid) = (Inr (refund_txn demo_env (demo_refund None) demo_order 400 (demo_wallet 600) ae), w')"
    and rows: "transactions (wd_db w') = mark_reversed (ev_now demo_env)
      (refund_txn demo_env (demo_refund None) demo_order 400 (demo_wallet 600) ae)
      (transactions demo_paid @ [refund_txn demo_env (demo_refund None) demo_order 400 (demo_wallet 600) ae])"
    by (rule demo_refund_run)
  let ?t = "refund_txn demo_env (demo_refund None) demo_order 400 (demo_wallet 600) ae"
  have t: "?t \<in> set (transactions (wd_db w'))"
    unfolding rows by (simp add: mark_reversed_def refund_txn_def demo_env_def)
  have ty: "tx_TransactionType ?t = TransactionTypeRefund" by (simp add: refund_txn_def)
  have w': "wd_db w' = wd_db (run_all (fund_op (NewPaymentService rfc4122 (aes_encSvc demo_aes)))
      [(demo_env, Refund (demo_refund None))] (demo_world demo_paid))"
    using run by (simp add: fund_op_def)
  have "book_inv (aes_encSvc demo_aes) (wd_db (demo_world demo_paid))" by (simp add: demo_books_paid)
  from refund_at_most_once [OF this w' t ty] t ty w' show ?thesis unfolding demo_service_def by blast
qed

text \<open>
  C11: Once a refund was applied, every retry for the same merchant and original reference, after
  any further operations, returns that refund and changes nothing.
\<close>

theorem refund_retry_idempotent:
  assumes "uuid_text U" and "idemp_inv w"
    and "ProcessRefund (NewPaymentService U enc) e req w = (r, w1)" and "wd_db w1 \<noteq> wd_db w"
    and "rq_MerchantID req' = rq_MerchantID req" and "rq_OriginalReferenceID req' = rq_OriginalReferenceID req"
    and "ev_fault e' S_Idemp_Get = None"
    and "w2 = run_all (fund_op (NewPaymentService U enc)) eqs w1"
  shows "\<exists>t. is_refund t \<and> tx_ID t \<in> tx_ID ` set (transactions (wd_db w1)) \<and> (\<forall>t'. r = Inr t' \<longrightarrow> t' = t) \<and>
    ProcessRefund (NewPaymentService U enc) e' req' w2 = (Inr (json_visible t), w2)"
  using assms refund_retry [of "NewPaymentService U enc" w e req r w1 req' e' eqs] by auto

theorem refund_retry_idempotent_witness:
  "\<exists>t w1. ProcessRefund demo_service demo_env (demo_refund None) (demo_world demo_paid) = (Inr t, w1) \<and>
     ProcessRefund demo_service demo_env (demo_refund (Some 7)) w1 = (Inr (json_visible t), w1)"
proof -
  obtain ae w1 where run: "ProcessRefund (NewPaymentService rfc4122 (aes_encSvc demo_aes)) demo_env (demo_refund None)
      (demo_world demo_paid) = (Inr (refund_txn demo_env (demo_refund None) demo_order 400 (demo_wallet 600) ae), w1)"
    and rows: "transactions (wd_db w1) = mark_reversed (ev_now demo_env)
      (refund_txn demo_env (demo_refund None) demo_order 400 (demo_wallet 600) ae)
      (transactions demo_paid @ [refund_txn demo_env (demo_refund None) demo_order 400 (demo_wallet 600) ae])"
    by (rule demo_refund_run)
  have "length (transactions (wd_db w1)) = 3" unfolding rows by (simp add: mark_reversed_def)
  then have "wd_db w1 \<noteq> wd_db (demo_world demo_paid)" by auto
  from refund_retry_idempotent [OF rfc.uuid_text_axioms _ run this, of "demo_refund (Some 7)" demo_env w1 "[]"]
  show ?thesis using run by (auto simp: demo_service_def demo_refund_def)
qed

text \<open>
  C12: The refund row is stored under the reference \<^verbatim>\<open>REFUND-\<close> followed by the original one, in a
  column of 100 characters. A payment whose reference has more than 93 characters can therefore
  never be refunded: as long as its refund key is not logged, every attempt ends in an error and
  changes nothing.
\<close>

theorem refund_of_long_reference_fails:
  assumes "93 < rune_count (rq_OriginalReferenceID req)"
    and "idempotency_lookup e (BuildRefundIdempotencyKey (ps_uuid s) (rq_MerchantID req) (rq_OriginalReferenceID req)) w = Inr None"
  shows "\<exists>err. ProcessRefund s e req w = (Inl err, w)"
proof -
  have "\<nexists>x. refund_in_tx s e req k origTx a d = Inr x" for k origTx a d
    using assms(1) refund_in_tx_Inr [of s e req k origTx a d] by (metis leD prod_cases3)
  then have "\<nexists>x. bindE (refund_checks e req (wd_db w)) (\<lambda>(origTx, a).
      bindE (wrapE (\<lambda>err. InternalError (Wrapf ''begin tx'' err)) (Transactor_Begin (ev_fault e S_Begin) (wd_db w)))
        (refund_in_tx s e req k origTx a)) = Inr x" for k
    by (auto simp: res_simps)
  then show ?thesis
    using assms(2) by (auto simp: ProcessRefund_def Let_def split: sum.split)
qed

theorem refund_of_long_reference_fails_witness:
  "\<exists>err. ProcessRefund demo_service demo_env ((demo_refund None)\<lparr>rq_OriginalReferenceID := replicate 94 CHR ''A''\<rparr>)
     (demo_world demo_paid) = (Inl err, demo_world demo_paid)"
  by (rule refund_of_long_reference_fails) (simp_all add: rune_count_def)

text \<open>
  The checks of a refund, in the order of the code: an unknown reference, a transaction that
  is no live payment, a payment that has a live refund, an amount that is not positive and an
  amount above the original are refused with their own error, and nothing is changed.
\<close>

theorem refund_rejections:
  assumes "no_faults e"
    and "idempotency_lookup e (BuildRefundIdempotencyKey (ps_uuid s) (rq_MerchantID req) (rq_OriginalReferenceID req)) w = Inr None"
    and "found = row_where (\<lambda>t. tx_MerchantID t = rq_MerchantID req \<and> tx_ReferenceID t = rq_OriginalReferenceID req)
      (transactions (wd_db w))"
  shows "(found = None \<longrightarrow> ProcessRefund s e req w = (Inl (ErrNotFound ''original transaction''), w)) \<and>
    (\<forall>p. found = Some p \<longrightarrow>
      (\<not> IsRefundable p \<longrightarrow> ProcessRefund s e req w = (Inl ErrInvalidRefund, w)) \<and>
      (IsRefundable p \<longrightarrow> (\<exists>t\<in>set (transactions (wd_db w)). is_live_refund_of (tx_ID p) t) \<longrightarrow>
         ProcessRefund s e req w = (Inl ErrDuplicateTransaction, w)) \<and>
      (IsRefundable p \<longrightarrow> (\<forall>t\<in>set (transactions (wd_db w)). \<not> is_live_refund_of (tx_ID p) t) \<longrightarrow>
         (sint (refund_amount req p) \<le> 0 \<longrightarrow> rq_Amount req \<noteq> None \<longrightarrow>
            ProcessRefund s e req w = (Inl ErrInvalidAmount, w)) \<and>
         (0 < sint (refund_amount req p) \<longrightarrow> sint (tx_Amount p) < sint (refund_amount req p) \<longrightarrow>
            ProcessRefund s e req w = (Inl ErrRefundAmountExceedsOriginal, w))))"
proof -
  have run: "ProcessRefund s e req w = (Inl err, w)" if "refund_checks e req (wd_db w) = Inl err" for err
    using that assms(2) by (simp add: ProcessRefund_def Let_def)
  note chk = refund_checks_def TransactionRepo_GetByReference_def TransactionRepo_CheckRefundExists_def
    assms(3) [symmetric] list_ex_iff
  show ?thesis
    using assms(1)
    by (intro conjI allI impI run; cases "rq_Amount req")
      (auto simp: chk refund_amount_def word_sle_eq word_sless_alt)
qed

theorem refund_rejections_witness:
  "ProcessRefund demo_service demo_env (demo_refund (Some 401)) (demo_world demo_paid) =
     (Inl ErrRefundAmountExceedsOriginal, demo_world demo_paid) \<and>
   ProcessRefund demo_service demo_env ((demo_refund None)\<lparr>rq_OriginalReferenceID := ''TOPUP-1''\<rparr>) (demo_world demo_paid) =
     (Inl ErrInvalidRefund, demo_world demo_paid)"
  using refund_rejections [OF demo_no_faults, of demo_service "demo_refund (Some 401)" "demo_world demo_paid"]
    refund_rejections [OF demo_no_faults, of demo_service "(demo_refund None)\<lparr>rq_OriginalReferenceID := ''TOPUP-1''\<rparr>" "demo_world demo_paid"]
  by (simp add: demo_refund_def IsRefundable_def is_live_refund_of_def refund_amount_def)

definition referenced_row :: "uuid \<Rightarrow> string \<Rightarrow> Transaction \<Rightarrow> bool" where
  "referenced_row m x t \<longleftrightarrow> tx_MerchantID t = m \<and> tx_ReferenceID t = x"

text \<open>Later operations keep the first row with a reference, and its type.\<close>

lemma posted_first_row:
  assumes "posted enc t d d'" and "row_where (referenced_row m x) (transactions d) = Some p"
  shows "\<exists>p'. row_where (referenced_row m x) (transactions d') = Some p' \<and> tx_TransactionType p' = tx_TransactionType p"
proof -
  obtain n where rows: "transactions d' = mark_reversed n t (transactions d @ [t])" using assms(1) by (auto simp: posted_def)
  have "row_where (referenced_row m x) (transactions d @ [t]) = Some p" using assms(2) by (simp add: row_where_append)
  then show ?thesis unfolding rows mark_reversed_def
    by (subst row_where_rows_update) (auto simp: referenced_row_def)
qed

lemma run_all_first_row:
  assumes "book_inv (aes_encSvc a) (wd_db w)" and "row_where (referenced_row m x) (transactions (wd_db w)) = Some p"
  shows "\<exists>p'. row_where (referenced_row m x) (transactions (wd_db (run_all (fund_op (NewPaymentService U (aes_encSvc a))) eqs w))) = Some p' \<and>
    tx_TransactionType p' = tx_TransactionType p"
  using assms
proof (induction eqs arbitrary: w p)
  case (Cons eq eqs)
  let ?s = "NewPaymentService U (aes_encSvc a)"
  obtain r w1 where step: "fund_op ?s (fst eq) (snd eq) w = (r, w1)" by fastforce
  have inv: "book_inv (aes_encSvc a) (wd_db w1)" by (rule fund.keeps_books [OF Cons.prems(1) step])
  from fund.outcome [OF Cons.prems(1) step] posted_first_row Cons.prems(2)
  obtain p1 where "row_where (referenced_row m x) (transactions (wd_db w1)) = Some p1" "tx_TransactionType p1 = tx_TransactionType p" by metis
  with Cons.IH [OF inv] show ?case by (simp add: step)
qed simp


lemma demo_refund_applied:
  obtains r1 w1 where "ProcessRefund demo_service demo_env (demo_refund None) (demo_world demo_paid) = (r1, w1)" "wd_db w1 \<noteq> demo_paid"
    "idempotency_lookup demo_env (BuildRefundIdempotencyKey rfc4122 1 ''REFUND-ORDER-1'') w1 = Inr None"
proof -
  let ?k = "BuildRefundIdempotencyKey rfc4122 1 ''ORDER-1''" and ?k2 = "BuildRefundIdempotencyKey rfc4122 1 ''REFUND-ORDER-1''"
  obtain ae w1 where run: "ProcessRefund demo_service demo_env (demo_refund None)
      (demo_world demo_paid) = (Inr (refund_txn demo_env (demo_refund None) demo_order 400 (demo_wallet 600) ae), w1)"
    and rows: "transactions (wd_db w1) = mark_reversed (ev_now demo_env)
      (refund_txn demo_env (demo_refund None) demo_order 400 (demo_wallet 600) ae)
      (transactions demo_paid @ [refund_txn demo_env (demo_refund None) demo_order 400 (demo_wallet 600) ae])"
    unfolding demo_service_def by (rule demo_refund_run)
  have "length (transactions (wd_db w1)) = 3" unfolding rows by (simp add: mark_reversed_def)
  then have diff: "wd_db w1 \<noteq> demo_paid" by auto
  have ne: "?k2 \<noteq> ?k" by (simp add: rfc.BuildRefundIdempotencyKey_inject)
  from run have "idempotency_lookup demo_env ?k2 w1 = Inr None"
  proof (cases rule: ProcessRefund_cases)
    case (committed txn resp tx k o1 am)
    have k: "k = ?k" using committed(1) by (simp add: demo_service_def demo_refund_def)
    from committed(3) have logs: "idempotency_logs tx = idempotency_logs demo_paid @
        [\<lparr>il_Key = k, il_TransactionID = tx_ID txn, il_ResponseJSON = resp, il_CreatedAt = ev_now demo_env\<rparr>]"
      by (rule refund_in_tx_Inr) simp
    from committed(4) have "wd_db w1 = tx" "wd_redis w1 (''idempotency:'' @ ?k2) = None"
      using ne k by (auto simp: commit_and_cache_def tx_Commit_def demo_env_def IdempotencyCache_Set_def redis_set_def)
    then show ?thesis using logs ne k
      by (simp add: idempotency_lookup_def IdempotencyCache_Get_def IdempotencyRepo_Get_def redis_get_def demo_env_def demo_paid_def empty_db_def)
  qed (use diff in simp)
  with run diff that show ?thesis by blast
qed


section \<open>Top-ups\<close>

text \<open>
  C14: A top-up with a positive amount for an existing wallet succeeds when its row fits the
  schema, appends one TOPUP row and raises the balance of that wallet by the amount, as
  \<^verbatim>\<open>int64\<close> addition: when the sum of balance and amount leaves the range of \<^verbatim>\<open>int64\<close>, the new
  balance is negative.
\<close>

theorem topup_success:
  assumes "no_faults e" and "length (key a) = 32" and "book_inv (aes_encSvc a) (wd_db w)"
    and "0 < sint (tq_Amount req)"
    and "row_where (\<lambda>w. w_MerchantID w = tq_MerchantID req \<and> w_Currency w = tq_Currency req) (wallets (wd_db w)) = Some wallet"
    and "balance_of (aes_encSvc a) wallet = Some b"
    and "\<And>ae. storable (topup_txn (NewPaymentService U (aes_encSvc a)) e req wallet ae) (wd_db w)"
  shows "\<exists>ae w'. let t = topup_txn (NewPaymentService U (aes_encSvc a)) e req wallet ae in
    ProcessTopup (NewPaymentService U (aes_encSvc a)) e req w = (Inr t, w') \<and>
    transactions (wd_db w') = transactions (wd_db w) @ [t] \<and>
    balance_change (aes_encSvc a) (w_ID wallet) (tq_Amount req) (wd_db w) (wd_db w') \<and>
    (2 ^ 63 \<le> sint b + sint (tq_Amount req) \<longrightarrow>
       (\<exists>b'. wallet_balance (aes_encSvc a) (wd_db w') (w_ID wallet) = Some b' \<and> sint b' < 0))"
proof -
  have wb: "wallet_balance (aes_encSvc a) (wd_db w) (w_ID wallet) = Some b"
    using assms(3,6) row_where_Some [OF assms(5)] wallet_balance_of_row by (metis book_inv_def)
  have neg: "sint (b + tq_Amount req) < 0" if "2 ^ 63 \<le> sint b + sint (tq_Amount req)"
    using that by (rule sint64_add_overflow)
  from topup_effects [OF assms] wb neg show ?thesis
    by (auto simp: Let_def balance_change_def)
qed

lemma demo_topup_storable:
  "storable (topup_txn demo_service demo_env (demo_topup 900000000000000000) (demo_wallet 9000000000000000000) ae) demo_rich"
proof -
  have "rune_count (topup_ref rfc4122 1 1700000000000000) \<le> 100"
  proof -
    have "length (FormatInt (1700000000000 :: int64)) = 13"
      by (simp add: FormatInt_def format_nat.simps)
    then have "length (topup_ref rfc4122 1 1700000000000000) \<le> 28"
      by (simp add: topup_ref_def UnixMilli_def)
    then show ?thesis using rune_count_le order_trans by fastforce
  qed
  then show ?thesis
    by (simp add: storable_def topup_txn_def demo_req_defs demo_service_def rune_count_def)
qed

theorem topup_success_witness:
  "\<exists>t w' b'. ProcessTopup demo_service demo_env (demo_topup 900000000000000000) (demo_world demo_rich) = (Inr t, w') \<and>
     wallet_balance (aes_encSvc demo_aes) (wd_db w') 2 = Some b' \<and> sint b' < 0"
  using topup_success [OF demo_no_faults demo_key, of "demo_world demo_rich" "demo_topup 900000000000000000"
      "demo_wallet 9000000000000000000" 9000000000000000000 rfc4122] demo_topup_storable demo_books_rich
  by (auto simp: demo_service_def demo_topup_def Let_def)

end
