(* ===== verification/Go_Encoding.thy ===== *)
theory Go_Encoding
  imports Go_Strings
begin

text \<open>
  More of the Go standard library: \<^verbatim>\<open>strings.Split\<close> with a one-byte separator, the scanning of
  decimal numbers between literal text by \<^verbatim>\<open>fmt.Sscanf\<close>, and \<^verbatim>\<open>base64.RawStdEncoding\<close>. The
  theorems are the round trips that make a stored password hash readable.
\<close>

section \<open>strings.Split\<close>

fun Split :: "char \<Rightarrow> string \<Rightarrow> string list" where
  "Split sep [] = [[]]"
| "Split sep (c # cs) =
     (if c = sep then [] # Split sep cs
      else (case Split sep cs of p # ps \<Rightarrow> (c # p) # ps | [] \<Rightarrow> [[c]]))"

lemma Split_not_Nil [simp]: "Split sep s \<noteq> []"
  by (cases "(sep, s)" rule: Split.cases) (auto split: list.split)

lemma Split_no_sep: "sep \<notin> set s \<Longrightarrow> Split sep s = [s]"
  by (induction s) auto

lemma Split_append_sep: "sep \<notin> set p \<Longrightarrow> Split sep (p @ sep # s) = p # Split sep s"
  by (induction p) auto

section \<open>fmt.Sscanf: literals and unsigned or signed decimal numbers\<close>

text \<open>A literal of the format must match the input.\<close>

definition scan_lit :: "string \<Rightarrow> string \<Rightarrow> string result" where
  "scan_lit l s = (if take (length l) s = l then Inr (drop (length l) s)
                   else Inl (Plain ''input does not match format''))"

text \<open>
  \<^verbatim>\<open>%d\<close> into an unsigned variable of \<open>bits\<close> bits: blanks are skipped, then the longest run of
  digits is read; what follows stays in the input.
\<close>

definition scan_uint :: "nat \<Rightarrow> string \<Rightarrow> (nat \<times> string) result" where
  "scan_uint bits s0 =
     (let s = dropWhile is_blank s0
      in if s = [] then Inl (Plain ''unexpected EOF'')
         else let tok = takeWhile is_digit s
              in if tok = [] then Inl (Plain ''expected integer'')
                 else (case ParseUint tok of
                         Inl _ \<Rightarrow> Inl (Plain ''value out of range'')
                       | Inr n \<Rightarrow> if n < 2 ^ bits then Inr (n, drop (length tok) s)
                                  else Inl (Plain (''unsigned integer overflow on token '' @ tok))))"

text \<open>\<^verbatim>\<open>%d\<close> into an \<^verbatim>\<open>int\<close>: a sign may precede the digits.\<close>

definition scan_int :: "string \<Rightarrow> (int64 \<times> string) result" where
  "scan_int s0 =
     (let s = dropWhile is_blank s0
      in if s = [] then Inl (Plain ''unexpected EOF'')
         else let sgn = (if hd s = CHR ''+'' \<or> hd s = CHR ''-'' then [hd s] else []);
                  digits = takeWhile is_digit (drop (length sgn) s)
              in if digits = [] then Inl (Plain ''expected integer'')
                 else bindE (ParseIntE (sgn @ digits)) (\<lambda>v. Inr (v, drop (length sgn + length digits) s)))"

lemma scan_lit_append [simp]: "scan_lit l (l @ s) = Inr s"
  by (simp add: scan_lit_def)

lemma takeWhile_format_nat_append:
  assumes "s = [] \<or> \<not> is_digit (hd s)"
  shows "takeWhile is_digit (format_nat n @ s) = format_nat n"
proof -
  have all: "\<And>c. c \<in> set (format_nat n) \<Longrightarrow> is_digit c" by (rule format_nat_digits)
  have "takeWhile is_digit s = []" using assms by (cases s) auto
  with all show ?thesis by (simp add: takeWhile_append2)
qed

lemma dropWhile_blank_format_nat_append: "dropWhile is_blank (format_nat n @ s) = format_nat n @ s"
proof -
  have "\<not> is_blank (hd (format_nat n))" using format_nat_hd is_digit_not_blank by blast
  then show ?thesis by (cases "format_nat n") auto
qed

lemma scan_uint_format_nat:
  assumes "n < 2 ^ bits" "bits \<le> 64" "s = [] \<or> \<not> is_digit (hd s)"
  shows "scan_uint bits (format_nat n @ s) = Inr (n, s)"
proof -
  have "(2::nat) ^ bits \<le> 2 ^ 64" using assms(2) by (intro power_increasing) simp_all
  with assms(1) have "n < 2 ^ 64" by linarith
  then show ?thesis
    using assms by (simp add: scan_uint_def dropWhile_blank_format_nat_append
        takeWhile_format_nat_append ParseUint_format_nat)
qed

section \<open>base64.RawStdEncoding\<close>

definition base64_alphabet :: string where
  "base64_alphabet = ''ABCDEFGHIJKLMNOPQRSTUVWXYZabcdefghijklmnopqrstuvwxyz0123456789+/''"

definition base64_char :: "nat \<Rightarrow> char" where
  "base64_char d = base64_alphabet ! d"

definition base64_value :: "char \<Rightarrow> nat option" where
  "base64_value c =
     (let n = of_char c :: nat
      in if 65 \<le> n \<and> n \<le> 90 then Some (n - 65)
         else if 97 \<le> n \<and> n \<le> 122 then Some (n - 71)
         else if 48 \<le> n \<and> n \<le> 57 then Some (n + 4)
         else if c = CHR ''+'' then Some 62 else if c = CHR ''/'' then Some 63 else None)"

fun base64_digits :: "nat list \<Rightarrow> nat list" where
  "base64_digits (a # b # c # bs) =
     a div 4 # (a mod 4 * 16 + b div 16) # (b mod 16 * 4 + c div 64) # c mod 64 # base64_digits bs"
| "base64_digits [a, b] = [a div 4, a mod 4 * 16 + b div 16, b mod 16 * 4]"
| "base64_digits [a] = [a div 4, a mod 4 * 16]"
| "base64_digits [] = []"

text \<open>The decoder is not strict: the unused low bits of a last partial group are dropped.\<close>

fun base64_bytes :: "nat list \<Rightarrow> nat list option" where
  "base64_bytes (p # q # r # s # ds) =
     map_option (\<lambda>bs. (p * 4 + q div 16) # (q mod 16 * 16 + r div 4) # (r mod 4 * 64 + s) # bs) (base64_bytes ds)"
| "base64_bytes [p, q, r] = Some [p * 4 + q div 16, q mod 16 * 16 + r div 4]"
| "base64_bytes [p, q] = Some [p * 4 + q div 16]"
| "base64_bytes [p] = None"
| "base64_bytes [] = Some []"

definition RawStd_EncodeToString :: "byte list \<Rightarrow> string" where
  "RawStd_EncodeToString bs = map base64_char (base64_digits (map unat bs))"

text \<open>Line breaks in the input are ignored; the offset in the error text is left out.\<close>

definition RawStd_DecodeString :: "string \<Rightarrow> byte list result" where
  "RawStd_DecodeString s =
     (let ds = map base64_value (filter (\<lambda>c. c \<noteq> CHR 0x0A \<and> c \<noteq> CHR 0x0D) s)
      in if None \<in> set ds then Inl (Plain ''illegal base64 data'')
         else (case base64_bytes (map the ds) of
                 None \<Rightarrow> Inl (Plain ''illegal base64 data'')
               | Some bs \<Rightarrow> Inr (map of_nat bs)))"

lemma base64_digits_less: "\<forall>b\<in>set bs. b < 256 \<Longrightarrow> \<forall>d\<in>set (base64_digits bs). d < 64"
  by (induction bs rule: base64_digits.induct) auto

lemma base64_bytes_digits: "\<forall>b\<in>set bs. b < 256 \<Longrightarrow> base64_bytes (base64_digits bs) = Some bs"
  by (induction bs rule: base64_digits.induct) auto

lemma base64_alphabet_values: "map base64_value base64_alphabet = map Some [0..<64]"
  by (simp add: base64_alphabet_def base64_value_def upt_rec)

lemma base64_char_facts:
  assumes "d < 64"
  shows "base64_value (base64_char d) = Some d" and "base64_char d \<in> set base64_alphabet"
proof -
  have len: "length base64_alphabet = 64" by (simp add: base64_alphabet_def)
  then show "base64_char d \<in> set base64_alphabet" using assms by (simp add: base64_char_def)
  have "map base64_value base64_alphabet ! d = Some d" using assms by (simp add: base64_alphabet_values)
  then show "base64_value (base64_char d) = Some d" using assms len by (simp add: base64_char_def)
qed

lemma RawStd_chars: "set (RawStd_EncodeToString bs) \<subseteq> set base64_alphabet"
proof -
  have "\<forall>b\<in>set (map unat bs). b < 256" using unsigned_less [where ?'a = nat and ?'b = 8] by auto
  then have "\<forall>d\<in>set (base64_digits (map unat bs)). d < 64" by (rule base64_digits_less)
  then show ?thesis unfolding RawStd_EncodeToString_def using base64_char_facts by auto
qed

lemma RawStd_roundtrip [simp]: "RawStd_DecodeString (RawStd_EncodeToString bs) = Inr bs"
proof -
  let ?ds = "base64_digits (map unat bs)"
  have lt: "\<forall>b\<in>set (map unat bs). b < 256" using unsigned_less [where ?'a = nat and ?'b = 8] by auto
  have ds: "\<forall>d\<in>set ?ds. d < 64" by (rule base64_digits_less [OF lt])
  have "CHR 0x0A \<notin> set base64_alphabet" "CHR 0x0D \<notin> set base64_alphabet"
    by (simp_all add: base64_alphabet_def)
  then have f: "filter (\<lambda>c. c \<noteq> CHR 0x0A \<and> c \<noteq> CHR 0x0D) (RawStd_EncodeToString bs) = RawStd_EncodeToString bs"
    using RawStd_chars [of bs] by (intro filter_True) blast
  have v: "map base64_value (RawStd_EncodeToString bs) = map Some ?ds"
    using ds base64_char_facts by (simp add: RawStd_EncodeToString_def)
  show ?thesis
    unfolding RawStd_DecodeString_def Let_def f v
    using base64_bytes_digits [OF lt] by (simp add: comp_def)
qed

end
