(* ===== verification/Hash_Service.thy ===== *)
theory Hash_Service
  imports Runtime Go_Encoding Go_Crypto
begin

text \<open>
  internal/service/hash_service.go: Argon2id password hashes in the encoded form
  \<^verbatim>\<open>$argon2id$v=19$m=65536,t=1,p=4$salt$hash\<close>. golang.org/x/crypto/argon2 is not part of the
  repository: its \<^verbatim>\<open>IDKey\<close> is a parameter, of which only the documented length of the result
  is used. The service is shown to satisfy the contract of its port: a password verifies
  against its own hash.
\<close>

section \<open>HashService port\<close>

record HashService =
  Hash :: "(nat \<Rightarrow> byte) result \<Rightarrow> string \<Rightarrow> string result"
  Verify_hash :: "string \<Rightarrow> string \<Rightarrow> bool result"

locale hash_service =
  fixes hashSvc :: HashService
  assumes verify_hash: "Hash hashSvc r p = Inr h \<Longrightarrow> Verify_hash hashSvc p h = Inr True"

section \<open>The argon2 package\<close>

text \<open>\<open>IDKey password salt time memory threads keyLen\<close>.\<close>

type_synonym argon2_IDKey = "byte list \<Rightarrow> byte list \<Rightarrow> nat \<Rightarrow> nat \<Rightarrow> nat \<Rightarrow> nat \<Rightarrow> byte list"

definition argon2Time :: nat where "argon2Time = 1"
definition argon2Memory :: nat where "argon2Memory = 64 * 1024"
definition argon2Threads :: nat where "argon2Threads = 4"
definition argon2KeyLen :: nat where "argon2KeyLen = 32"
definition argon2SaltLen :: nat where "argon2SaltLen = 16"
definition argon2_Version :: nat where "argon2_Version = 19"

record argon2Params =
  ap_memory :: nat
  ap_time :: nat
  ap_threads :: nat
  ap_keyLen :: nat

section \<open>Argon2HashService\<close>

definition encode_argon2 :: "byte list \<Rightarrow> byte list \<Rightarrow> string" where
  "encode_argon2 salt hash =
     ''$argon2id$v='' @ format_nat argon2_Version @ ''$m='' @ format_nat argon2Memory @ '',t='' @
     format_nat argon2Time @ '',p='' @ format_nat argon2Threads @ ''$'' @
     RawStd_EncodeToString salt @ ''$'' @ RawStd_EncodeToString hash"

definition Argon2_Hash :: "argon2_IDKey \<Rightarrow> (nat \<Rightarrow> byte) result \<Rightarrow> string \<Rightarrow> string result" where
  "Argon2_Hash IDKey r password =
     bindE (wrapE (Wrapf ''generating salt'') (read_full argon2SaltLen r)) (\<lambda>salt.
     Inr (encode_argon2 salt
       (IDKey (bytes_of password) salt argon2Time argon2Memory argon2Threads argon2KeyLen)))"

definition decodeArgon2Hash :: "string \<Rightarrow> (byte list \<times> byte list \<times> argon2Params) result" where
  "decodeArgon2Hash encodedHash =
     (let parts = Split CHR ''$'' encodedHash
      in bindE (failIf (length parts \<noteq> 6)
           (Plain (''invalid hash format: expected 6 parts, got '' @ format_nat (length parts)))) (\<lambda>_.
         bindE (failIf (parts ! 1 \<noteq> ''argon2id'') (Plain (''unsupported algorithm: '' @ parts ! 1))) (\<lambda>_.
         bindE (wrapE (Wrapf ''parsing version'')
           (bindE (scan_lit ''v='' (parts ! 2)) scan_int)) (\<lambda>_.
         bindE (wrapE (Wrapf ''parsing params'')
           (bindE (scan_lit ''m='' (parts ! 3)) (\<lambda>s1.
            bindE (scan_uint 32 s1) (\<lambda>(m, s2).
            bindE (scan_lit '',t='' s2) (\<lambda>s3.
            bindE (scan_uint 32 s3) (\<lambda>(t, s4).
            bindE (scan_lit '',p='' s4) (\<lambda>s5.
            bindE (scan_uint 8 s5) (\<lambda>(p, _). Inr (m, t, p))))))))) (\<lambda>(m, t, p).
         bindE (wrapE (Wrapf ''decoding salt'') (RawStd_DecodeString (parts ! 4))) (\<lambda>salt.
         bindE (wrapE (Wrapf ''decoding hash'') (RawStd_DecodeString (parts ! 5))) (\<lambda>hash.
         Inr (salt, hash, \<lparr>ap_memory = m, ap_time = t, ap_threads = p, ap_keyLen = length hash mod 2 ^ 32\<rparr>))))))))"

definition Argon2_Verify :: "argon2_IDKey \<Rightarrow> string \<Rightarrow> string \<Rightarrow> bool result" where
  "Argon2_Verify IDKey password encodedHash =
     bindE (decodeArgon2Hash encodedHash) (\<lambda>(salt, hash, params).
     Inr (hash = IDKey (bytes_of password) salt (ap_time params) (ap_memory params) (ap_threads params) (ap_keyLen params)))"

definition argon2_hashSvc :: "argon2_IDKey \<Rightarrow> HashService" where
  "argon2_hashSvc IDKey = \<lparr>Hash = Argon2_Hash IDKey, Verify_hash = Argon2_Verify IDKey\<rparr>"

section \<open>Round trip\<close>

lemma argon2_numbers:
  "format_nat argon2_Version = ''19''" "format_nat argon2Memory = ''65536''"
  "format_nat argon2Time = ''1''" "format_nat argon2Threads = ''4''"
  by (simp_all add: argon2_Version_def argon2Memory_def argon2Time_def argon2Threads_def format_nat.simps digit_char_def
      char_of_def bit_0)

lemma base64_no_dollar: "CHR ''$'' \<notin> set (RawStd_EncodeToString bs)"
  using RawStd_chars [of bs] by (auto simp: base64_alphabet_def)

lemma scan_version: "\<exists>v. bindE (scan_lit ''v='' ''v=19'') scan_int = Inr v"
  by (simp add: scan_lit_def scan_int_def is_blank_def is_digit_def ParseIntE_def ParseInt_def ParseUint_def
      digit_val_def)

lemma Split_encode_argon2:
  "Split CHR ''$'' (encode_argon2 salt hash) =
     [[], ''argon2id'', ''v=19'', ''m=65536,t=1,p=4'', RawStd_EncodeToString salt, RawStd_EncodeToString hash]"
  by (simp add: encode_argon2_def argon2_numbers Split_append_sep [OF base64_no_dollar]
      Split_no_sep [OF base64_no_dollar])

lemma decode_encode_argon2:
  "decodeArgon2Hash (encode_argon2 salt hash) = Inr (salt, hash,
     \<lparr>ap_memory = argon2Memory, ap_time = argon2Time, ap_threads = argon2Threads, ap_keyLen = length hash mod 2 ^ 32\<rparr>)"
proof -
  have m: "scan_uint 32 ''65536,t=1,p=4'' = Inr (argon2Memory, '',t=1,p=4'')"
    using scan_uint_format_nat [of argon2Memory 32 "'',t=1,p=4''"] unfolding argon2_numbers
    by (simp add: is_digit_def) (simp add: argon2Memory_def)
  have t: "scan_uint 32 ''1,p=4'' = Inr (argon2Time, '',p=4'')"
    using scan_uint_format_nat [of argon2Time 32 "'',p=4''"] unfolding argon2_numbers
    by (simp add: is_digit_def) (simp add: argon2Time_def)
  have p: "scan_uint 8 ''4'' = Inr (argon2Threads, [])"
    using scan_uint_format_nat [of argon2Threads 8 "[]"] unfolding argon2_numbers by (simp add: argon2Threads_def)
  show ?thesis
    using scan_version
    by (auto simp: decodeArgon2Hash_def Split_encode_argon2 Let_def scan_lit_def m t p)
qed

text \<open>
  Verification of a password against a hash the service made compares the derived keys; in
  particular the right password is accepted.
\<close>

lemma Argon2_Verify_Hash:
  assumes "\<And>p s t m th k. length (IDKey p s t m th k) = k" and "Argon2_Hash IDKey r password = Inr h"
  shows "\<exists>salt. length salt = argon2SaltLen \<and> (\<forall>password'. Argon2_Verify IDKey password' h = Inr (
      IDKey (bytes_of password) salt argon2Time argon2Memory argon2Threads argon2KeyLen =
      IDKey (bytes_of password') salt argon2Time argon2Memory argon2Threads argon2KeyLen))"
proof -
  from assms(2) obtain salt where salt: "read_full argon2SaltLen r = Inr salt"
    and h: "h = encode_argon2 salt (IDKey (bytes_of password) salt argon2Time argon2Memory argon2Threads argon2KeyLen)"
    by (auto simp: Argon2_Hash_def res_simps)
  have "length salt = argon2SaltLen" using salt by (rule read_full_Inr)
  moreover have "argon2KeyLen mod 2 ^ 32 = argon2KeyLen" by (simp add: argon2KeyLen_def)
  ultimately show ?thesis
    by (intro exI [of _ salt]) (simp add: Argon2_Verify_def h decode_encode_argon2 assms(1))
qed

section \<open>The contract of the port\<close>

locale argon2_pkg =
  fixes IDKey :: argon2_IDKey
  assumes length_IDKey: "length (IDKey p s t m th k) = k"

lemma argon2_pkg_hash_service: "argon2_pkg IDKey \<Longrightarrow> hash_service (argon2_hashSvc IDKey)"
  by unfold_locales (use Argon2_Verify_Hash [OF argon2_pkg.length_IDKey] in \<open>fastforce simp: argon2_hashSvc_def\<close>)

sublocale argon2_pkg \<subseteq> argon2: hash_service "argon2_hashSvc IDKey"
  by (rule argon2_pkg_hash_service) unfold_locales

text \<open>
  A function with the documented length of result, on which the contract can be tried out: the
  HMAC of the salt under the password, repeated to the length.
\<close>

definition sample_IDKey :: argon2_IDKey where
  "sample_IDKey p s t m th k = map (\<lambda>i. hmac_sha256 p s ! (i mod 32)) [0..<k]"

interpretation sample: argon2_pkg sample_IDKey
  by unfold_locales (simp add: sample_IDKey_def)

end
