(* ===== verification/Token_Service.thy ===== *)
theory Token_Service
  imports Runtime
begin

text \<open>
  internal/service/token_service.go: HS256 session tokens. github.com/golang-jwt/jwt is not part
  of the repository: signing and parsing are parameters, with the documented behaviour the
  service relies on as the locale \<open>jwt_lib\<close>: a signed token parses under the same key until it
  expires, an expired token does not parse, and a token parses only if the key function
  accepted the algorithm of its header.
\<close>

section \<open>The jwt package\<close>

text \<open>\<open>SigningMethodHMAC\<close> covers HS256, HS384 and HS512; any other method is \<open>OtherMethod\<close>.\<close>

datatype jwt_method = SigningMethodHMAC string | OtherMethod string

abbreviation SigningMethodHS256 :: jwt_method where "SigningMethodHS256 \<equiv> SigningMethodHMAC ''HS256''"

datatype claim = CStr string | CNum int

type_synonym MapClaims = "(string \<times> claim) list"

record jwt_token =
  jt_Method :: jwt_method
  jt_Claims :: MapClaims
  jt_Valid :: bool

record jwt_pkg =
  jwt_SignedString :: "jwt_method \<Rightarrow> MapClaims \<Rightarrow> byte list \<Rightarrow> string result"
  jwt_Parse :: "time \<Rightarrow> (jwt_method \<Rightarrow> byte list result) \<Rightarrow> string \<Rightarrow> jwt_token result"

text \<open>A token with an \<^verbatim>\<open>exp\<close> claim is live strictly before that second.\<close>

definition live_at :: "time \<Rightarrow> MapClaims \<Rightarrow> bool" where
  "live_at now cl \<longleftrightarrow> (case map_of cl ''exp'' of Some (CNum x) \<Rightarrow> now < x * 1000000 | Some _ \<Rightarrow> False | None \<Rightarrow> True)"

locale jwt_lib =
  fixes J :: jwt_pkg
  assumes parse_signed: "jwt_SignedString J mt cl k = Inr s \<Longrightarrow> kf mt = Inr k \<Longrightarrow> live_at now cl \<Longrightarrow>
      jwt_Parse J now kf s = Inr \<lparr>jt_Method = mt, jt_Claims = cl, jt_Valid = True\<rparr>"
    and parse_expired: "jwt_SignedString J mt cl k = Inr s \<Longrightarrow> \<not> live_at now cl \<Longrightarrow>
      \<exists>err. jwt_Parse J now kf s = Inl err"
    and parse_keyed: "jwt_Parse J now kf s = Inr tok \<Longrightarrow> \<exists>k. kf (jt_Method tok) = Inr k"

section \<open>JWTTokenService\<close>

record JWTTokenService =
  ts_secret :: "byte list"
  ts_expiry :: time
  ts_issuer :: string

definition NewJWTTokenService :: "string \<Rightarrow> time \<Rightarrow> string \<Rightarrow> JWTTokenService" where
  "NewJWTTokenService secret expiry issuer =
     \<lparr>ts_secret = bytes_of secret, ts_expiry = expiry, ts_issuer = issuer\<rparr>"

record TokenClaims =
  tc_MerchantID :: uuid
  tc_AccessKey :: string

definition token_claims :: "uuid_pkg \<Rightarrow> JWTTokenService \<Rightarrow> time \<Rightarrow> uuid \<Rightarrow> string \<Rightarrow> MapClaims" where
  "token_claims U s now merchantID accessKey =
     [(''sub'', CStr (uuid_String U merchantID)),
      (''access_key'', CStr accessKey),
      (''iat'', CNum (Unix now)),
      (''exp'', CNum (Unix (now + ts_expiry s))),
      (''iss'', CStr (ts_issuer s))]"

definition Token_Generate ::
    "jwt_pkg \<Rightarrow> uuid_pkg \<Rightarrow> JWTTokenService \<Rightarrow> time \<Rightarrow> uuid \<Rightarrow> string \<Rightarrow> (string \<times> time) result" where
  "Token_Generate J U s now merchantID accessKey =
     bindE (wrapE (Wrapf ''signing token'')
       (jwt_SignedString J SigningMethodHS256 (token_claims U s now merchantID accessKey) (ts_secret s))) (\<lambda>tokenString.
     Inr (tokenString, now + ts_expiry s))"

text \<open>The key function: only an HMAC method gets the secret.\<close>

definition token_key :: "JWTTokenService \<Rightarrow> jwt_method \<Rightarrow> byte list result" where
  "token_key s mt =
     (case mt of SigningMethodHMAC alg \<Rightarrow> Inr (ts_secret s)
      | OtherMethod alg \<Rightarrow> Inl (Plain (''unexpected signing method: '' @ alg)))"

definition Token_Validate ::
    "jwt_pkg \<Rightarrow> uuid_pkg \<Rightarrow> JWTTokenService \<Rightarrow> time \<Rightarrow> string \<Rightarrow> TokenClaims result" where
  "Token_Validate J U s now tokenString =
     bindE (wrapE (Wrapf ''parsing token'') (jwt_Parse J now (token_key s) tokenString)) (\<lambda>token.
     bindE (failIf (\<not> jt_Valid token) (Plain ''invalid token claims'')) (\<lambda>_.
     case map_of (jt_Claims token) ''sub'' of
       Some (CStr sub) \<Rightarrow>
         bindE (needE (Wrapf ''invalid merchant ID in token'' (Plain ''invalid UUID'')) (uuid_Parse U sub)) (\<lambda>merchantID.
         Inr \<lparr>tc_MerchantID = merchantID,
              tc_AccessKey = (case map_of (jt_Claims token) ''access_key'' of Some (CStr a) \<Rightarrow> a | _ \<Rightarrow> [])\<rparr>)
     | _ \<Rightarrow> Inl (Plain ''missing subject claim'')))"

section \<open>Lemmas\<close>

lemma exp_token_claims: "live_at now' (token_claims U s now m a) \<longleftrightarrow> now' < Unix (now + ts_expiry s) * 1000000"
  by (simp add: live_at_def token_claims_def)

text \<open>Validation looks at the secret of the service only, not at its lifetime or issuer.\<close>

lemma Token_Validate_secret: "ts_secret s = ts_secret s' \<Longrightarrow> Token_Validate J U s now tok = Token_Validate J U s' now tok"
proof -
  assume "ts_secret s = ts_secret s'"
  then have "token_key s = token_key s'" by (simp add: token_key_def fun_eq_iff split: jwt_method.splits)
  then show ?thesis by (simp add: Token_Validate_def)
qed

context jwt_lib
begin

lemma validate_generated:
  assumes "uuid_text U" and "Token_Generate J U s now m a = Inr (tok, ex)" and "now' < Unix ex * 1000000"
  shows "Token_Validate J U s now' tok = Inr \<lparr>tc_MerchantID = m, tc_AccessKey = a\<rparr>"
proof -
  from assms(2) have sgn: "jwt_SignedString J SigningMethodHS256 (token_claims U s now m a) (ts_secret s) = Inr tok"
    and ex: "ex = now + ts_expiry s" by (auto simp: Token_Generate_def res_simps)
  have "jwt_Parse J now' (token_key s) tok =
      Inr \<lparr>jt_Method = SigningMethodHS256, jt_Claims = token_claims U s now m a, jt_Valid = True\<rparr>"
    by (rule parse_signed [OF sgn]) (use assms(3) in \<open>simp_all add: token_key_def exp_token_claims ex\<close>)
  then show ?thesis
    by (simp add: Token_Validate_def token_claims_def uuid_text.Parse_String [OF assms(1)])
qed

lemma validate_expired:
  assumes "Token_Generate J U s now m a = Inr (tok, ex)" and "Unix ex * 1000000 \<le> now'"
  shows "\<exists>err. Token_Validate J U s' now' tok = Inl err"
proof -
  from assms(1) have sgn: "jwt_SignedString J SigningMethodHS256 (token_claims U s now m a) (ts_secret s) = Inr tok"
    and ex: "ex = now + ts_expiry s" by (auto simp: Token_Generate_def res_simps)
  have "\<not> live_at now' (token_claims U s now m a)" using assms(2) by (simp add: exp_token_claims ex)
  from parse_expired [OF sgn this, of "token_key s'"] show ?thesis by (auto simp: Token_Validate_def)
qed

text \<open>No token of another algorithm family is accepted, whatever its signature.\<close>

lemma validate_only_hmac:
  assumes "Token_Validate J U s now tok = Inr c" and "jwt_Parse J now (token_key s) tok = Inr t"
  shows "\<exists>alg. jt_Method t = SigningMethodHMAC alg"
  using parse_keyed [OF assms(2)] by (auto simp: token_key_def split: jwt_method.splits)

end

section \<open>An instance of the jwt contract\<close>

text \<open>
  A token format on which the contract can be tried out: strings are written with their length
  in unary, claims one after the other, and the key in clear at the end. It offers no secrecy;
  it is only there to show that the contract can be met by a computable package.
\<close>

definition ser_str :: "string \<Rightarrow> string" where
  "ser_str s = replicate (length s) CHR ''x'' @ CHR ''.'' # s"

definition des_str :: "string \<Rightarrow> string \<times> string" where
  "des_str t = (let n = length (takeWhile (\<lambda>c. c = CHR ''x'') t) in (take n (drop (n + 1) t), drop (2 * n + 1) t))"

fun ser_claim :: "string \<times> claim \<Rightarrow> string" where
  "ser_claim (k, CStr s) = ser_str k @ CHR ''s'' # ser_str s"
| "ser_claim (k, CNum n) = ser_str k @ (if n < 0 then CHR ''-'' else CHR ''+'') # ser_str (replicate (nat \<bar>n\<bar>) CHR ''x'')"

definition des_claim :: "string \<Rightarrow> (string \<times> claim) \<times> string" where
  "des_claim t = (let (k, t1) = des_str t; (s, t2) = des_str (tl t1)
     in ((k, if hd t1 = CHR ''s'' then CStr s else if hd t1 = CHR ''-'' then CNum (- int (length s)) else CNum (int (length s))), t2))"

primrec des_claims :: "nat \<Rightarrow> string \<Rightarrow> MapClaims \<times> string" where
  "des_claims 0 t = ([], t)"
| "des_claims (Suc n) t = (let (c, t1) = des_claim t; (cs, t2) = des_claims n t1 in (c # cs, t2))"

fun ser_method :: "jwt_method \<Rightarrow> string" where
  "ser_method (SigningMethodHMAC a) = CHR ''h'' # ser_str a"
| "ser_method (OtherMethod a) = CHR ''o'' # ser_str a"

definition sample_sign :: "jwt_method \<Rightarrow> MapClaims \<Rightarrow> byte list \<Rightarrow> string result" where
  "sample_sign mt cl k = Inr (ser_method mt @ ser_str (replicate (length cl) CHR ''x'') @
     concat (map ser_claim cl) @ string_of k)"

definition sample_parse :: "time \<Rightarrow> (jwt_method \<Rightarrow> byte list result) \<Rightarrow> string \<Rightarrow> jwt_token result" where
  "sample_parse now kf t =
     (let (a, t1) = des_str (tl t); mt = (if hd t = CHR ''h'' then SigningMethodHMAC a else OtherMethod a);
          (n, t2) = des_str t1; (cl, t3) = des_claims (length n) t2
      in bindE (kf mt) (\<lambda>k.
         if string_of k = t3 \<and> live_at now cl
         then Inr \<lparr>jt_Method = mt, jt_Claims = cl, jt_Valid = True\<rparr> else Inl (Plain ''token is invalid'')))"

lemma des_ser_str [simp]: "des_str (ser_str s @ t) = (s, t)"
proof -
  have "takeWhile (\<lambda>c. c = CHR ''x'') (ser_str s @ t) = replicate (length s) CHR ''x''"
    by (simp add: ser_str_def takeWhile_append)
  then show ?thesis by (simp add: des_str_def ser_str_def)
qed

lemma des_ser_claim [simp]: "des_claim (ser_claim c @ t) = (c, t)"
  by (cases c rule: ser_claim.cases) (auto simp: des_claim_def)

lemma des_ser_claims [simp]: "des_claims (length cl) (concat (map ser_claim cl) @ t) = (cl, t)"
  by (induction cl) auto

lemma sample_parse_sign:
  "sample_sign mt cl k = Inr s \<Longrightarrow> sample_parse now kf s =
     bindE (kf mt) (\<lambda>k'. if string_of k' = string_of k \<and> live_at now cl
       then Inr \<lparr>jt_Method = mt, jt_Claims = cl, jt_Valid = True\<rparr> else Inl (Plain ''token is invalid''))"
  by (cases mt) (auto simp: sample_sign_def sample_parse_def Let_def)

definition sample_jwt :: jwt_pkg where
  "sample_jwt = \<lparr>jwt_SignedString = sample_sign, jwt_Parse = sample_parse\<rparr>"

interpretation sample_jwt: jwt_lib sample_jwt
proof
  fix mt cl k s kf now
  assume sgn: "jwt_SignedString sample_jwt mt cl k = Inr s"
  show "jwt_Parse sample_jwt now kf s = Inr \<lparr>jt_Method = mt, jt_Claims = cl, jt_Valid = True\<rparr>"
    if "kf mt = Inr k" "live_at now cl"
    using that sgn sample_parse_sign by (simp add: sample_jwt_def)
  show "\<exists>err. jwt_Parse sample_jwt now kf s = Inl err" if "\<not> live_at now cl"
    using that sgn sample_parse_sign by (cases "kf mt") (simp_all add: sample_jwt_def)
next
  fix now kf s tok
  assume "jwt_Parse sample_jwt now kf s = Inr tok"
  then show "\<exists>k. kf (jt_Method tok) = Inr k"
    by (auto simp: sample_jwt_def sample_parse_def Let_def res_simps split: prod.splits if_splits)
qed

end
