(* ===== verification/Account_Services.thy ===== *)
theory Account_Services
  imports Hash_Service Token_Service Payment_Service
begin

text \<open>
  internal/service/auth_service.go and merchant_service.go: registration with the default wallet,
  login, the profile, the webhook URL and the rotation of the key pair. Registration is two
  INSERT statements outside any transaction, in that order, as in the code.
\<close>

section \<open>auth_service.go\<close>

record AuthServiceImpl =
  as_uuid :: uuid_pkg
  as_hashSvc :: HashService
  as_encSvc :: EncryptionService
  as_jwt :: jwt_pkg
  as_tokenSvc :: JWTTokenService

definition NewAuthService ::
    "uuid_pkg \<Rightarrow> HashService \<Rightarrow> EncryptionService \<Rightarrow> jwt_pkg \<Rightarrow> JWTTokenService \<Rightarrow> AuthServiceImpl" where
  "NewAuthService U hashSvc encSvc J tokenSvc =
     \<lparr>as_uuid = U, as_hashSvc = hashSvc, as_encSvc = encSvc, as_jwt = J, as_tokenSvc = tokenSvc\<rparr>"

record RegisterRequest =
  gq_Username :: string
  gq_Password :: string
  gq_MerchantName :: string
  gq_WebhookURL :: "string option"

record RegisterResponse =
  gr_MerchantID :: uuid
  gr_AccessKey :: string
  gr_SecretKey :: string

definition generateRandomHex :: "nat \<Rightarrow> (nat \<Rightarrow> byte) result \<Rightarrow> string result" where
  "generateRandomHex n r = bindE (read_full n r) (\<lambda>bytes. Inr (hex_encode bytes))"

text \<open>Everything before the first INSERT; the random draws are numbered in program order.\<close>

definition register_merchant :: "AuthServiceImpl \<Rightarrow> env \<Rightarrow> RegisterRequest \<Rightarrow> db \<Rightarrow> (Merchant \<times> string) result" where
  "register_merchant s e req d =
     bindE (wrapE (\<lambda>err. InternalError (Wrapf ''check username'' err))
       (MerchantRepo_GetByUsername (ev_fault e S_Merchant_Get) (gq_Username req) d)) (\<lambda>existing.
     bindE (failIf (existing \<noteq> None) (Validation ''username already exists'')) (\<lambda>_.
     bindE (wrapE (\<lambda>err. InternalError (Wrapf ''generate access key'' err)) (generateRandomHex 32 (rand_draw e 0))) (\<lambda>accessKey.
     bindE (wrapE (\<lambda>err. InternalError (Wrapf ''generate secret key'' err)) (generateRandomHex 32 (rand_draw e 1))) (\<lambda>secretKey.
     bindE (wrapE (\<lambda>err. InternalError (Wrapf ''hash password'' err)) (Hash (as_hashSvc s) (rand_draw e 2) (gq_Password req))) (\<lambda>passwordHash.
     bindE (wrapE (\<lambda>err. InternalError (Wrapf ''encrypt secret key'' err)) (Encrypt (as_encSvc s) (rand_draw e 3) secretKey)) (\<lambda>secretKeyEnc.
     Inr (\<lparr>m_ID = ev_uuid e 0, m_Username = gq_Username req, m_PasswordHash = passwordHash,
           m_MerchantName = gq_MerchantName req, m_AccessKey = accessKey, m_SecretKeyEnc = secretKeyEnc,
           m_WebhookURL = gq_WebhookURL req, m_Status = MerchantStatusActive,
           m_CreatedAt = ev_now e, m_UpdatedAt = ev_now e\<rparr>, secretKey)))))))"

definition default_wallet :: "env \<Rightarrow> Merchant \<Rightarrow> string \<Rightarrow> Wallet" where
  "default_wallet e merchant encryptedBalance =
     \<lparr>w_ID = ev_uuid e 1, w_MerchantID = m_ID merchant, w_Currency = ''VND'', w_EncryptedBalance = encryptedBalance,
      w_LastAuditHash = None, w_CreatedAt = ev_now e, w_UpdatedAt = ev_now e\<rparr>"

definition Register :: "AuthServiceImpl \<Rightarrow> env \<Rightarrow> RegisterRequest \<Rightarrow> db \<Rightarrow> RegisterResponse result \<times> db" where
  "Register s e req d =
     (case register_merchant s e req d of
        Inl err \<Rightarrow> (Inl err, d)
      | Inr (merchant, secretKey) \<Rightarrow>
          (case wrapE (\<lambda>err. InternalError (Wrapf ''create merchant'' err))
                  (MerchantRepo_Create (ev_fault e S_Merchant_Create) merchant d) of
             Inl err \<Rightarrow> (Inl err, d)
           | Inr d1 \<Rightarrow>
               (case bindE (wrapE (\<lambda>err. InternalError (Wrapf ''encrypt initial balance'' err))
                       (Encrypt (as_encSvc s) (rand_draw e 4) ''0'')) (\<lambda>encryptedBalance.
                     wrapE (\<lambda>err. InternalError (Wrapf ''create wallet'' err))
                       (WalletRepo_Create (ev_fault e S_Wallet_Create) (default_wallet e merchant encryptedBalance) d1)) of
                  Inl err \<Rightarrow> (Inl err, d1)
                | Inr d2 \<Rightarrow>
                    (Inr \<lparr>gr_MerchantID = m_ID merchant, gr_AccessKey = m_AccessKey merchant,
                          gr_SecretKey = secretKey\<rparr>, d2))))"

definition Login :: "AuthServiceImpl \<Rightarrow> env \<Rightarrow> string \<Rightarrow> string \<Rightarrow> db \<Rightarrow> (string \<times> time) result" where
  "Login s e username password d =
     bindE (wrapE (\<lambda>err. InternalError (Wrapf ''find merchant'' err))
       (MerchantRepo_GetByUsername (ev_fault e S_Merchant_Get) username d)) (\<lambda>found.
     bindE (needE ErrInvalidCredentials found) (\<lambda>merchant.
     bindE (wrapE (\<lambda>err. InternalError (Wrapf ''verify password'' err))
       (Verify_hash (as_hashSvc s) password (m_PasswordHash merchant))) (\<lambda>valid.
     bindE (failIf (\<not> valid) ErrInvalidCredentials) (\<lambda>_.
     bindE (failIf (\<not> IsActive merchant) ErrMerchantSuspended) (\<lambda>_.
     wrapE (\<lambda>err. InternalError (Wrapf ''generate token'' err))
       (Token_Generate (as_jwt s) (as_uuid s) (as_tokenSvc s) (ev_now e) (m_ID merchant) (m_AccessKey merchant)))))))"

section \<open>merchant_service.go\<close>

record merchantService =
  ms_encSvc :: EncryptionService

definition NewMerchantService :: "EncryptionService \<Rightarrow> merchantService" where
  "NewMerchantService encSvc = \<lparr>ms_encSvc = encSvc\<rparr>"

text \<open>The profile; \<^verbatim>\<open>CreatedAt\<close> is kept as the instant that its RFC 3339 text denotes.\<close>

record MerchantProfile =
  mp_ID :: uuid
  mp_Username :: string
  mp_MerchantName :: string
  mp_WebhookURL :: "string option"
  mp_Status :: MerchantStatus
  mp_CreatedAt :: time

definition find_merchant :: "env \<Rightarrow> uuid \<Rightarrow> db \<Rightarrow> Merchant result" where
  "find_merchant e merchantID d =
     bindE (wrapE InternalError (MerchantRepo_GetByID (ev_fault e S_Merchant_Get) merchantID d))
       (needE (ErrNotFound ''merchant''))"

definition GetProfile :: "env \<Rightarrow> uuid \<Rightarrow> db \<Rightarrow> MerchantProfile result" where
  "GetProfile e merchantID d =
     bindE (find_merchant e merchantID d) (\<lambda>merchant.
     Inr \<lparr>mp_ID = m_ID merchant, mp_Username = m_Username merchant, mp_MerchantName = m_MerchantName merchant,
          mp_WebhookURL = m_WebhookURL merchant, mp_Status = m_Status merchant, mp_CreatedAt = m_CreatedAt merchant\<rparr>)"

definition UpdateWebhookURL :: "env \<Rightarrow> uuid \<Rightarrow> string option \<Rightarrow> db \<Rightarrow> db result" where
  "UpdateWebhookURL e merchantID webhookURL d =
     bindE (find_merchant e merchantID d) (\<lambda>merchant.
     wrapE InternalError (MerchantRepo_Update (ev_fault e S_Merchant_Update) (ev_db_now e)
       (merchant\<lparr>m_WebhookURL := webhookURL, m_UpdatedAt := ev_now e\<rparr>) d))"

record RotateKeysResponse =
  rk_AccessKey :: string
  rk_SecretKey :: string

definition generateKey :: "string \<Rightarrow> nat \<Rightarrow> (nat \<Rightarrow> byte) result \<Rightarrow> string result" where
  "generateKey pfx n r = bindE (read_full n r) (\<lambda>b. Inr (pfx @ hex_encode b))"

definition RotateKeys :: "merchantService \<Rightarrow> env \<Rightarrow> uuid \<Rightarrow> db \<Rightarrow> (RotateKeysResponse \<times> db) result" where
  "RotateKeys s e merchantID d =
     bindE (find_merchant e merchantID d) (\<lambda>merchant.
     bindE (wrapE (\<lambda>err. InternalError (Wrapf ''generate access key'' err)) (generateKey ''ak_'' 24 (rand_draw e 0))) (\<lambda>newAccessKey.
     bindE (wrapE (\<lambda>err. InternalError (Wrapf ''generate secret key'' err)) (generateKey ''sk_'' 32 (rand_draw e 1))) (\<lambda>newSecretKey.
     bindE (wrapE (\<lambda>err. InternalError (Wrapf ''encrypt secret key'' err)) (Encrypt (ms_encSvc s) (rand_draw e 2) newSecretKey)) (\<lambda>encSecretKey.
     bindE (wrapE InternalError (MerchantRepo_Update (ev_fault e S_Merchant_Update) (ev_db_now e)
       (merchant\<lparr>m_AccessKey := newAccessKey, m_SecretKeyEnc := encSecretKey, m_UpdatedAt := ev_now e\<rparr>) d)) (\<lambda>d'.
     Inr (\<lparr>rk_AccessKey = newAccessKey, rk_SecretKey = newSecretKey\<rparr>, d'))))))"

end
