(* ===== verification/Account_Correct.thy ===== *)
theory Account_Correct
  imports Account_Services Payment_Correct
begin

text \<open>
  What registration, login, key rotation and the webhook setting do to the database: the new
  merchant can log in and its session token names it, its wallet holds zero, the books stay in
  order, rotated keys replace the old ones.
\<close>

section \<open>Registration\<close>

lemma MerchantCreate_Inr:
  assumes "MerchantRepo_Create f m d = Inr d'"
  shows "d' = d\<lparr>merchants := merchants d @ [m]\<rparr>" and "\<forall>(ok, msg)\<in>set (merchants_constraints m d). ok"
  using assms by (auto simp: MerchantRepo_Create_def res_simps)

lemma WalletCreate_Inr:
  assumes "WalletRepo_Create f w d = Inr d'"
  shows "d' = d\<lparr>wallets := wallets d @ [w]\<rparr>" and "\<forall>(ok, msg)\<in>set (wallets_constraints w d). ok"
  using assms by (auto simp: WalletRepo_Create_def res_simps)

lemma register_merchant_Inr:
  assumes "register_merchant s e req d = Inr (m, sk)"
  shows "m_ID m = ev_uuid e 0" "m_Username m = gq_Username req" "m_Status m = MerchantStatusActive"
    and "Hash (as_hashSvc s) (rand_draw e 2) (gq_Password req) = Inr (m_PasswordHash m)"
    and "Encrypt (as_encSvc s) (rand_draw e 3) sk = Inr (m_SecretKeyEnc m)"
    and "length (m_AccessKey m) = 64" "length sk = 64"
  using assms
  by (auto simp: register_merchant_def res_simps generateRandomHex_def dest: read_full_Inr)

text \<open>A registration has one of three outcomes: nothing, the merchant alone, merchant and wallet.\<close>

lemma Register_cases:
  assumes "Register s e req d = (r, d')"
  obtains (nothing) err where "r = Inl err" "d' = d"
  | (merchant_only) m sk err where "register_merchant s e req d = Inr (m, sk)"
      "MerchantRepo_Create (ev_fault e S_Merchant_Create) m d = Inr d'" "r = Inl err"
  | (both) m sk c d1 where "register_merchant s e req d = Inr (m, sk)"
      "MerchantRepo_Create (ev_fault e S_Merchant_Create) m d = Inr d1"
      "Encrypt (as_encSvc s) (rand_draw e 4) ''0'' = Inr c"
      "WalletRepo_Create (ev_fault e S_Wallet_Create) (default_wallet e m c) d1 = Inr d'"
      "r = Inr \<lparr>gr_MerchantID = m_ID m, gr_AccessKey = m_AccessKey m, gr_SecretKey = sk\<rparr>"
  using assms
  by (auto simp: Register_def res_simps split: sum.splits prod.splits)

lemma Register_success:
  assumes "Register s e req d = (Inr resp, d')"
  obtains m c where "d' = d\<lparr>merchants := merchants d @ [m], wallets := wallets d @ [default_wallet e m c]\<rparr>"
    "register_merchant s e req d = Inr (m, gr_SecretKey resp)"
    "gr_MerchantID resp = m_ID m" "gr_AccessKey resp = m_AccessKey m"
    "Encrypt (as_encSvc s) (rand_draw e 4) ''0'' = Inr c"
    "m_ID m \<notin> m_ID ` set (merchants d)" "m_Username m \<notin> m_Username ` set (merchants d)"
    "m_AccessKey m \<notin> m_AccessKey ` set (merchants d)" "ev_uuid e 1 \<notin> w_ID ` set (wallets d)"
  using assms
proof (cases rule: Register_cases)
  case (both m sk c d1)
  note u = MerchantCreate_Inr [OF both(2)] WalletCreate_Inr [OF both(4)]
  show ?thesis
    by (rule that [of m c]) (use u both in \<open>simp_all add: merchants_constraints_def wallets_constraints_def default_wallet_def\<close>)
qed auto

lemma row_where_last:
  assumes "k m \<notin> k ` set ms"
  shows "row_where (\<lambda>x. k x = k m) (ms @ [m]) = Some m"
proof -
  have "row_where (\<lambda>x. k x = k m) ms = None" using assms by (auto simp: row_where_None image_iff)
  then show ?thesis by (simp add: row_where_append)
qed

text \<open>The registered merchant can log in with its password.\<close>

lemma login_after_register:
  assumes hash: "hash_service (as_hashSvc s)" and reg: "Register s e req d = (Inr resp, d')"
    and nf: "ev_fault e' S_Merchant_Get = None"
    and sgn: "Token_Generate (as_jwt s) (as_uuid s) (as_tokenSvc s) (ev_now e') (gr_MerchantID resp) (gr_AccessKey resp) = Inr tok"
  shows "Login s e' (gq_Username req) (gq_Password req) d' = Inr tok"
proof -
  obtain m where m: "register_merchant s e req d = Inr (m, gr_SecretKey resp)" and d': "merchants d' = merchants d @ [m]"
    and ids: "gr_MerchantID resp = m_ID m" "gr_AccessKey resp = m_AccessKey m"
    and new: "m_Username m \<notin> m_Username ` set (merchants d)"
    by (rule Register_success [OF reg]) auto
  have "MerchantRepo_GetByUsername None (gq_Username req) d' = Inr (Some m)"
    using row_where_last [of m_Username m, OF new] register_merchant_Inr(2) [OF m]
    by (simp add: MerchantRepo_GetByUsername_def d')
  moreover have "Verify_hash (as_hashSvc s) (gq_Password req) (m_PasswordHash m) = Inr True"
    using hash_service.verify_hash [OF hash register_merchant_Inr(4) [OF m]] .
  moreover have "IsActive m" using register_merchant_Inr(3) [OF m] by (simp add: IsActive_def)
  ultimately show ?thesis using sgn nf ids by (simp add: Login_def)
qed

text \<open>The books stay in order, also when only the merchant was stored.\<close>

lemma book_inv_same_tables:
  assumes "wallets d' = wallets d" "transactions d' = transactions d"
  shows "book_inv enc d' = book_inv enc d"
proof -
  have "wallet_balance enc d' = wallet_balance enc d" "ledger_sum d' = ledger_sum d"
    "total P d' = total P d" for P
    by (auto simp: fun_eq_iff wallet_balance_def ledger_sum_def total_def assms)
  then show ?thesis
    by (simp add: book_inv_def rows_ok_def ledger_inv_def refunds_covered_def no_overdraft_def
        refund_links_def statuses_ok_def assms)
qed

lemma book_inv_new_wallet:
  assumes inv: "book_inv enc d" and w: "wallets d' = wallets d @ [wl]" and tx: "transactions d' = transactions d"
    and new: "w_ID wl \<notin> w_ID ` set (wallets d)" and zero: "balance_of enc wl = Some 0"
  shows "book_inv enc d'"
proof -
  have same: "total P d' = total P d" "ledger_sum d' = ledger_sum d" for P
    by (auto simp: fun_eq_iff total_def ledger_sum_def tx)
  have old: "wallet_balance enc d' (w_ID v) = wallet_balance enc d (w_ID v)" if "v \<in> set (wallets d)" for v
  proof -
    from inv have "distinct (map w_ID (wallets d))" by (simp add: book_inv_def)
    from row_where_key [OF this that] show ?thesis by (simp add: wallet_balance_def w row_where_append)
  qed
  have "wallet_balance enc d' (w_ID wl) = Some 0"
    using row_where_last [of w_ID wl, OF new] zero by (simp add: wallet_balance_def w)
  moreover have "ledger_sum d (w_ID wl) = 0"
  proof -
    have "tx_WalletID t \<noteq> w_ID wl" if "t \<in> set (transactions d)" for t
      using that inv new by (metis book_inv_def imageI subsetD)
    then show ?thesis unfolding ledger_sum_def by (simp cong: map_cong)
  qed
  ultimately show ?thesis
    using inv old new
    by (auto simp: book_inv_def rows_ok_def ledger_inv_def refunds_covered_def no_overdraft_def
        refund_links_def statuses_ok_def same w tx)
qed

lemma Register_books:
  assumes enc: "encryption_service (as_encSvc s)" and inv: "book_inv (as_encSvc s) d"
    and reg: "Register s e req d = (r, d')"
  shows "book_inv (as_encSvc s) d'"
  using reg
proof (cases rule: Register_cases)
  case (merchant_only m sk err)
  from MerchantCreate_Inr(1) [OF this(2)] inv show ?thesis
    by (subst book_inv_same_tables) simp_all
next
  case (both m sk c d1)
  note u = MerchantCreate_Inr(1) [OF both(2)] WalletCreate_Inr [OF both(4)]
  have "book_inv (as_encSvc s) d1" using inv by (subst book_inv_same_tables) (simp_all add: u(1))
  then show ?thesis
  proof (rule book_inv_new_wallet)
    show "wallets d' = wallets d1 @ [default_wallet e m c]" "transactions d' = transactions d1" using u(2) by simp_all
    show "w_ID (default_wallet e m c) \<notin> w_ID ` set (wallets d1)" using u(3) by (simp add: wallets_constraints_def)
    have "bindE (Decrypt (as_encSvc s) c) ParseIntE = Inr 0"
      using encryption_service.amount_roundtrip [OF enc, of "rand_draw e 4" 0 c] both(3) by simp
    then show "balance_of (as_encSvc s) (default_wallet e m c) = Some 0"
      by (simp add: balance_of_def default_wallet_def)
  qed
qed (use inv in simp)

section \<open>Merchant self-service\<close>

lemma MerchantUpdate_Inr:
  assumes "MerchantRepo_Update f n m d = Inr d'" and "m_ID m \<in> m_ID ` set (merchants d)"
  shows "d' = d\<lparr>merchants := rows_update (\<lambda>r. m_ID r = m_ID m)
          (\<lambda>r. r\<lparr>m_MerchantName := m_MerchantName m, m_WebhookURL := m_WebhookURL m,
                 m_AccessKey := m_AccessKey m, m_SecretKeyEnc := m_SecretKeyEnc m,
                 m_Status := m_Status m, m_UpdatedAt := n\<rparr>) (merchants d)\<rparr>"
    and "m_AccessKey m \<notin> m_AccessKey ` {r \<in> set (merchants d). m_ID r \<noteq> m_ID m}"
  using assms by (auto simp: MerchantRepo_Update_def res_simps)

lemma MerchantUpdate_tables:
  assumes "MerchantRepo_Update f n m d = Inr d'"
  shows "wallets d' = wallets d" "transactions d' = transactions d" "idempotency_logs d' = idempotency_logs d"
    and "map m_ID (merchants d') = map m_ID (merchants d)" "map m_Username (merchants d') = map m_Username (merchants d)"
  using assms by (auto simp: MerchantRepo_Update_def res_simps map_rows_update split: if_splits)

lemma find_merchant_Inr:
  assumes "find_merchant e i d = Inr m"
  shows "m \<in> set (merchants d) \<and> m_ID m = i"
  using assms by (auto simp: find_merchant_def MerchantRepo_GetByID_def res_simps dest: row_where_Some)

lemma RotateKeys_Inr:
  assumes "RotateKeys s e i d = Inr (resp, d')"
  obtains m c where "m \<in> set (merchants d)" "m_ID m = i"
    "Encrypt (ms_encSvc s) (rand_draw e 2) (rk_SecretKey resp) = Inr c"
    "length (rk_AccessKey resp) = 51" "length (rk_SecretKey resp) = 67"
    "MerchantRepo_Update (ev_fault e S_Merchant_Update) (ev_db_now e)
       (m\<lparr>m_AccessKey := rk_AccessKey resp, m_SecretKeyEnc := c, m_UpdatedAt := ev_now e\<rparr>) d = Inr d'"
  using assms
  by (auto simp: RotateKeys_def res_simps generateKey_def dest!: find_merchant_Inr read_full_Inr)

text \<open>
  After a rotation the merchant is found under the new access key with the new secret, and no
  merchant is found under its old key any more.
\<close>

lemma rotate_effects:
  assumes enc: "encryption_service (ms_encSvc s)" and wf: "db_wf d"
    and rot: "RotateKeys s e i d = Inr (resp, d')"
    and old: "row_where (\<lambda>m. m_ID m = i) (merchants d) = Some m0" "m_AccessKey m0 \<noteq> rk_AccessKey resp"
  shows "\<exists>m'. row_where (\<lambda>m. m_AccessKey m = rk_AccessKey resp) (merchants d') = Some m' \<and> m_ID m' = i \<and>
      Decrypt (ms_encSvc s) (m_SecretKeyEnc m') = Inr (rk_SecretKey resp) \<and> m_Status m' = m_Status m0 \<and>
      m_WebhookURL m' = m_WebhookURL m0 \<and> m_PasswordHash m' = m_PasswordHash m0"
    and "row_where (\<lambda>m. m_AccessKey m = m_AccessKey m0) (merchants d') = None"
    and "j \<noteq> i \<Longrightarrow> row_where (\<lambda>m. m_ID m = j) (merchants d') = row_where (\<lambda>m. m_ID m = j) (merchants d)"
proof -
  obtain m c where m: "m \<in> set (merchants d)" "m_ID m = i"
    and c: "Encrypt (ms_encSvc s) (rand_draw e 2) (rk_SecretKey resp) = Inr c"
    and upd: "MerchantRepo_Update (ev_fault e S_Merchant_Update) (ev_db_now e)
       (m\<lparr>m_AccessKey := rk_AccessKey resp, m_SecretKeyEnc := c, m_UpdatedAt := ev_now e\<rparr>) d = Inr d'"
    by (rule RotateKeys_Inr [OF rot])
  have ids: "distinct (map m_ID (merchants d))" and keys: "distinct (map m_AccessKey (merchants d))"
    using wf by (simp_all add: db_wf_def)
  have m0: "m0 = m" using row_where_key [OF ids m(1)] old(1) m(2) by simp
  let ?f = "\<lambda>r. r\<lparr>m_MerchantName := m_MerchantName m, m_WebhookURL := m_WebhookURL m,
      m_AccessKey := rk_AccessKey resp, m_SecretKeyEnc := c, m_Status := m_Status m, m_UpdatedAt := ev_db_now e\<rparr>"
  have "m_ID (m\<lparr>m_AccessKey := rk_AccessKey resp, m_SecretKeyEnc := c, m_UpdatedAt := ev_now e\<rparr>) \<in> m_ID ` set (merchants d)"
    using m(1) by simp
  note u = MerchantUpdate_Inr [OF upd this]
  have d': "merchants d' = rows_update (\<lambda>r. m_ID r = i) ?f (merchants d)"
    using u(1) m(2) by simp
  have fresh: "m_AccessKey r \<noteq> rk_AccessKey resp" if "r \<in> set (merchants d)" "m_ID r \<noteq> i" for r
    using u(2) that m(2) by (auto simp: image_iff)
  have uniq: "r = m" if "r \<in> set (merchants d)" "m_ID r = i" for r
    using that m ids by (metis (full_types) distinct_map inj_onD)
  have set': "set (merchants d') = insert (?f m) {r \<in> set (merchants d). m_ID r \<noteq> i}"
  proof -
    have "{r \<in> set (merchants d). m_ID r = i} = {m}" using m uniq by blast
    then show ?thesis unfolding d' set_rows_update by simp
  qed
  show "row_where (\<lambda>m. m_ID m = j) (merchants d') = row_where (\<lambda>m. m_ID m = j) (merchants d)" if "j \<noteq> i"
  proof -
    have "row_where (\<lambda>m. m_ID m = j) (merchants d') =
        map_option (\<lambda>r. if m_ID r = i then ?f r else r) (row_where (\<lambda>m. m_ID m = j) (merchants d))"
      unfolding d' by (rule row_where_rows_update) simp
    with that show ?thesis
      by (cases "row_where (\<lambda>m. m_ID m = j) (merchants d)") (auto dest: row_where_Some)
  qed
  have "\<forall>r\<in>set (merchants d'). m_AccessKey r \<noteq> m_AccessKey m0"
  proof
    fix r assume "r \<in> set (merchants d')"
    then consider "r = ?f m" | "r \<in> set (merchants d)" "m_ID r \<noteq> i" unfolding set' by auto
    then show "m_AccessKey r \<noteq> m_AccessKey m0"
      by cases (use old(2) m0 m keys in \<open>auto simp: distinct_map dest: inj_onD\<close>)
  qed
  then show "row_where (\<lambda>m. m_AccessKey m = m_AccessKey m0) (merchants d') = None" by (simp add: row_where_None)
  have "row_where (\<lambda>m. m_AccessKey m = rk_AccessKey resp) (merchants d') = Some (?f m)"
  proof (cases "row_where (\<lambda>m. m_AccessKey m = rk_AccessKey resp) (merchants d')")
    case None
    have "?f m \<in> set (merchants d')" unfolding set' by simp
    with None show ?thesis unfolding row_where_None by fastforce
  next
    case (Some r)
    with row_where_Some [OF Some] fresh set' show ?thesis by auto
  qed
  moreover have "Decrypt (ms_encSvc s) c = Inr (rk_SecretKey resp)"
    by (rule encryption_service.decrypt_encrypt [OF enc c])
  ultimately show "\<exists>m'. row_where (\<lambda>m. m_AccessKey m = rk_AccessKey resp) (merchants d') = Some m' \<and> m_ID m' = i \<and>
      Decrypt (ms_encSvc s) (m_SecretKeyEnc m') = Inr (rk_SecretKey resp) \<and> m_Status m' = m_Status m0 \<and>
      m_WebhookURL m' = m_WebhookURL m0 \<and> m_PasswordHash m' = m_PasswordHash m0"
    using m m0 by simp
qed

end
