(* ===== verification/Concurrency.thy ===== *)
theory Concurrency
  imports Account_Correct Idempotency
begin

text \<open>
  Concurrent calls of the payment service. The other theories run a call at once; here a call
  is a session that takes its steps one by one, between the steps of other sessions:

  \<^item> the reads before the transaction (idempotency lookup, and for a refund the original payment),
    on the state committed at that time;
  \<^item> \<^verbatim>\<open>BEGIN\<close> and \<^verbatim>\<open>SELECT ... FOR UPDATE\<close>, which waits until no other session holds the row;
  \<^item> the rest of the transaction, computed from the wallet row as it was read under the lock, and
    \<^verbatim>\<open>COMMIT\<close>. PostgreSQL makes an insert wait for an uncommitted insert of the same primary key, so
    that constraints hold of the state at the commit.

  A session may also end without any effect at any time (an error, a rollback, an answer from the
  cache). Registrations run in between, and Redis may hold anything: nothing below relies on the
  cache or on the reads before the transaction being up to date.
\<close>

section \<open>The transaction parts behind the row lock\<close>

definition payment_locked ::
    "PaymentServiceImpl \<Rightarrow> env \<Rightarrow> PaymentRequest \<Rightarrow> string \<Rightarrow> Wallet \<Rightarrow> db \<Rightarrow> (Transaction \<times> json \<times> db) result" where
  "payment_locked s e req idempKey wallet tx0 =
     bindE (read_balance s wallet) (\<lambda>currentBalance.
     bindE (failIf (currentBalance <s pq_Amount req) ErrInsufficientFunds) (\<lambda>_.
     let newBalance = currentBalance - pq_Amount req in
     bindE (encrypt_amount s e 0 ''encrypt new balance'' newBalance) (\<lambda>newBalanceEnc.
     bindE (encrypt_amount s e 1 ''encrypt amount'' (pq_Amount req)) (\<lambda>amountEncrypted.
     let txn = payment_txn e req wallet amountEncrypted in
     bindE (wrapE (\<lambda>err. InternalError (Wrapf ''update balance'' err))
       (WalletRepo_UpdateBalance (ps_uuid s) (ev_fault e S_Wallet_UpdateBalance) (ev_db_now e) (w_ID wallet) newBalanceEnc tx0)) (\<lambda>tx1.
     bindE (wrapE (\<lambda>err. InternalError (Wrapf ''create transaction'' err))
       (TransactionRepo_Create (ev_fault e S_Tx_Create) txn tx1)) (\<lambda>tx2.
     let respJSON = marshal_Transaction (ps_uuid s) txn;
         idempLogEntry = \<lparr>il_Key = idempKey, il_TransactionID = tx_ID txn, il_ResponseJSON = respJSON,
                          il_CreatedAt = ev_now e\<rparr> in
     bindE (wrapE (\<lambda>err. InternalError (Wrapf ''save idempotency log'' err))
       (IdempotencyRepo_Create (ev_fault e S_Idemp_Create) idempLogEntry tx2)) (\<lambda>tx3.
     Inr (txn, respJSON, tx3))))))))"

definition refund_locked ::
    "PaymentServiceImpl \<Rightarrow> env \<Rightarrow> RefundRequest \<Rightarrow> string \<Rightarrow> Transaction \<Rightarrow> int64 \<Rightarrow> Wallet \<Rightarrow> db \<Rightarrow>
     (Transaction \<times> json \<times> db) result" where
  "refund_locked s e req idempKey origTx refundAmount wallet tx0 =
     bindE (read_balance s wallet) (\<lambda>currentBalance.
     let newBalance = currentBalance + refundAmount in
     bindE (encrypt_amount s e 0 ''encrypt new balance'' newBalance) (\<lambda>newBalanceEnc.
     bindE (encrypt_amount s e 1 ''encrypt amount'' refundAmount) (\<lambda>amountEncrypted.
     let txn = refund_txn e req origTx refundAmount wallet amountEncrypted in
     bindE (wrapE (\<lambda>err. InternalError (Wrapf ''update balance'' err))
       (WalletRepo_UpdateBalance (ps_uuid s) (ev_fault e S_Wallet_UpdateBalance) (ev_db_now e) (w_ID wallet) newBalanceEnc tx0)) (\<lambda>tx1.
     bindE (wrapE (\<lambda>err. InternalError (Wrapf ''create refund tx'' err))
       (TransactionRepo_Create (ev_fault e S_Tx_Create) txn tx1)) (\<lambda>tx2.
     bindE (wrapE (\<lambda>err. InternalError (Wrapf ''reverse original tx'' err))
       (TransactionRepo_UpdateStatus (ps_uuid s) (ev_fault e S_Tx_UpdateStatus) (ev_now e) (tx_ID origTx) TransactionStatusReversed tx2)) (\<lambda>tx3.
     let respJSON = marshal_Transaction (ps_uuid s) txn;
         idempLogEntry = \<lparr>il_Key = idempKey, il_TransactionID = tx_ID txn, il_ResponseJSON = respJSON,
                          il_CreatedAt = ev_now e\<rparr> in
     bindE (wrapE (\<lambda>err. InternalError (Wrapf ''save idempotency log'' err))
       (IdempotencyRepo_Create (ev_fault e S_Idemp_Create) idempLogEntry tx3)) (\<lambda>tx4.
     Inr (txn, respJSON, tx4))))))))"

definition topup_locked ::
    "PaymentServiceImpl \<Rightarrow> env \<Rightarrow> TopupRequest \<Rightarrow> Wallet \<Rightarrow> db \<Rightarrow> (Transaction \<times> db) result" where
  "topup_locked s e req wallet tx0 =
     bindE (read_balance s wallet) (\<lambda>currentBalance.
     let newBalance = currentBalance + tq_Amount req in
     bindE (encrypt_amount s e 0 ''encrypt new balance'' newBalance) (\<lambda>newBalanceEnc.
     bindE (encrypt_amount s e 1 ''encrypt amount'' (tq_Amount req)) (\<lambda>amountEncrypted.
     let txn = topup_txn s e req wallet amountEncrypted in
     bindE (wrapE (\<lambda>err. InternalError (Wrapf ''update balance'' err))
       (WalletRepo_UpdateBalance (ps_uuid s) (ev_fault e S_Wallet_UpdateBalance) (ev_db_now e) (w_ID wallet) newBalanceEnc tx0)) (\<lambda>tx1.
     bindE (wrapE (\<lambda>err. InternalError (Wrapf ''create transaction'' err))
       (TransactionRepo_Create (ev_fault e S_Tx_Create) txn tx1)) (\<lambda>tx2.
     Inr (txn, tx2))))))"

section \<open>Sessions\<close>

text \<open>What a refund read before its transaction: the original payment and the amount.\<close>

type_synonym checked = "(Transaction \<times> int64) option"

datatype session =
    Idle
  | LookedUp env fund_request
  | Checked env fund_request checked
  | Holding env fund_request checked Wallet

fun request_key :: "PaymentServiceImpl \<Rightarrow> fund_request \<Rightarrow> string option" where
  "request_key s (Pay req) = Some (BuildIdempotencyKey (ps_uuid s) (pq_MerchantID req) (pq_ReferenceID req))"
| "request_key s (Refund req) = Some (BuildRefundIdempotencyKey (ps_uuid s) (rq_MerchantID req) (rq_OriginalReferenceID req))"
| "request_key s (Topup req) = None"

text \<open>The guard of the amount and the idempotency lookup let the request go on.\<close>

fun looked_up :: "PaymentServiceImpl \<Rightarrow> env \<Rightarrow> fund_request \<Rightarrow> world \<Rightarrow> bool" where
  "looked_up s e (Pay req) w \<longleftrightarrow> \<not> pq_Amount req \<le>s 0 \<and>
     idempotency_lookup e (BuildIdempotencyKey (ps_uuid s) (pq_MerchantID req) (pq_ReferenceID req)) w = Inr None"
| "looked_up s e (Refund req) w \<longleftrightarrow>
     idempotency_lookup e (BuildRefundIdempotencyKey (ps_uuid s) (rq_MerchantID req) (rq_OriginalReferenceID req)) w = Inr None"
| "looked_up s e (Topup req) w \<longleftrightarrow> \<not> tq_Amount req \<le>s 0"

fun check_request :: "env \<Rightarrow> fund_request \<Rightarrow> db \<Rightarrow> checked result" where
  "check_request e (Refund req) d = bindE (refund_checks e req d) (\<lambda>info. Inr (Some info))"
| "check_request e q d = Inr None"

fun lock_wallet :: "env \<Rightarrow> fund_request \<Rightarrow> checked \<Rightarrow> db \<Rightarrow> Wallet option result" where
  "lock_wallet e (Pay req) info d =
     WalletRepo_GetByMerchantIDForUpdate (ev_fault e S_Wallet_Lock) (pq_MerchantID req) (pq_Currency req) d"
| "lock_wallet e (Refund req) (Some (origTx, a)) d =
     WalletRepo_GetByIDForUpdate (ev_fault e S_Wallet_Lock) (tx_WalletID origTx) d"
| "lock_wallet e (Refund req) None d = Inr None"
| "lock_wallet e (Topup req) info d =
     WalletRepo_GetByMerchantIDForUpdate (ev_fault e S_Wallet_Lock) (tq_MerchantID req) (tq_Currency req) d"

text \<open>The rest of the transaction, with the response to log and cache if the request has a key.\<close>

fun locked_part ::
    "PaymentServiceImpl \<Rightarrow> env \<Rightarrow> fund_request \<Rightarrow> checked \<Rightarrow> Wallet \<Rightarrow> db \<Rightarrow> (Transaction \<times> json option \<times> db) result" where
  "locked_part s e (Pay req) info wallet d =
     bindE (payment_locked s e req (the (request_key s (Pay req))) wallet d) (\<lambda>(txn, resp, tx). Inr (txn, Some resp, tx))"
| "locked_part s e (Refund req) (Some (origTx, a)) wallet d =
     bindE (refund_locked s e req (the (request_key s (Refund req))) origTx a wallet d) (\<lambda>(txn, resp, tx). Inr (txn, Some resp, tx))"
| "locked_part s e (Refund req) None wallet d = Inl (Plain [])"
| "locked_part s e (Topup req) info wallet d = bindE (topup_locked s e req wallet d) (\<lambda>(txn, tx). Inr (txn, None, tx))"

text \<open>The transaction part of the request when it runs alone, lock included.\<close>

fun sequential_part ::
    "PaymentServiceImpl \<Rightarrow> env \<Rightarrow> fund_request \<Rightarrow> checked \<Rightarrow> db \<Rightarrow> (Transaction \<times> json option \<times> db) result" where
  "sequential_part s e (Pay req) info d =
     bindE (payment_in_tx s e req (the (request_key s (Pay req))) d) (\<lambda>(txn, resp, tx). Inr (txn, Some resp, tx))"
| "sequential_part s e (Refund req) (Some (origTx, a)) d =
     bindE (refund_in_tx s e req (the (request_key s (Refund req))) origTx a d) (\<lambda>(txn, resp, tx). Inr (txn, Some resp, tx))"
| "sequential_part s e (Refund req) None d = Inl (Plain [])"
| "sequential_part s e (Topup req) info d = bindE (topup_in_tx s e req d) (\<lambda>(txn, tx). Inr (txn, None, tx))"

definition commit_session ::
    "PaymentServiceImpl \<Rightarrow> env \<Rightarrow> fund_request \<Rightarrow> Transaction \<Rightarrow> json option \<Rightarrow> db \<Rightarrow> world \<Rightarrow> world" where
  "commit_session s e q txn resp tx w =
     (case (request_key s q, resp) of
        (Some k, Some r) \<Rightarrow> snd (commit_and_cache e k txn r tx w)
      | _ \<Rightarrow> w\<lparr>wd_db := snd (tx_Commit e tx (wd_db w))\<rparr>)"

fun holds :: "session \<Rightarrow> uuid option" where
  "holds (Holding e q info wallet) = Some (w_ID wallet)"
| "holds _ = None"

inductive concurrent_step :: "PaymentServiceImpl \<Rightarrow> world \<times> (nat \<Rightarrow> session) \<Rightarrow> world \<times> (nat \<Rightarrow> session) \<Rightarrow> bool"
  for s :: PaymentServiceImpl where
  look_up: "ses i = Idle \<Longrightarrow> looked_up s e q w \<Longrightarrow> concurrent_step s (w, ses) (w, ses(i := LookedUp e q))"
| check: "ses i = LookedUp e q \<Longrightarrow> check_request e q (wd_db w) = Inr info \<Longrightarrow>
    concurrent_step s (w, ses) (w, ses(i := Checked e q info))"
| lock: "ses i = Checked e q info \<Longrightarrow> lock_wallet e q info (wd_db w) = Inr (Some wallet) \<Longrightarrow>
    (\<forall>j. holds (ses j) \<noteq> Some (w_ID wallet)) \<Longrightarrow> concurrent_step s (w, ses) (w, ses(i := Holding e q info wallet))"
| commit: "ses i = Holding e q info wallet \<Longrightarrow> locked_part s e q info wallet (wd_db w) = Inr (txn, resp, tx) \<Longrightarrow>
    concurrent_step s (w, ses) (commit_session s e q txn resp tx w, ses(i := Idle))"
| leave: "concurrent_step s (w, ses) (w, ses(i := Idle))"
| register: "as_encSvc au = ps_encSvc s \<Longrightarrow> Register au e req (wd_db w) = (r, d') \<Longrightarrow>
    concurrent_step s (w, ses) (w\<lparr>wd_db := d'\<rparr>, ses)"
| redis: "concurrent_step s (w, ses) (w\<lparr>wd_redis := r\<rparr>, ses)"


inductive concurrently :: "PaymentServiceImpl \<Rightarrow> world \<Rightarrow> world \<times> (nat \<Rightarrow> session) \<Rightarrow> bool"
  for s :: PaymentServiceImpl and w0 :: world where
  none_running: "concurrently s w0 (w0, \<lambda>_. Idle)"
| one_step: "concurrently s w0 st \<Longrightarrow> concurrent_step s st st' \<Longrightarrow> concurrently s w0 st'"

inductive_cases concurrent_stepE0: "concurrent_step s (w, ses) st'"

lemmas concurrent_stepE = concurrent_stepE0 [consumes 1, case_names look_up check lock commit leave register redis]

section \<open>What the primary key of the idempotency log enforces\<close>

definition is_payment :: "Transaction \<Rightarrow> bool" where
  "is_payment t \<longleftrightarrow> tx_TransactionType t = TransactionTypePayment"

definition pay_key :: "uuid_pkg \<Rightarrow> Transaction \<Rightarrow> string" where
  "pay_key U t = BuildIdempotencyKey U (tx_MerchantID t) (tx_ReferenceID t)"

definition refund_key :: "uuid_pkg \<Rightarrow> Transaction \<Rightarrow> string" where
  "refund_key U t = BuildRefundIdempotencyKey U (tx_MerchantID t) (tx_ReferenceID t)"

text \<open>
  Every payment is logged under its key, no two payments have the same key, and a reversed payment
  is logged under the key of its refund.
\<close>

definition keyed :: "uuid_pkg \<Rightarrow> db \<Rightarrow> bool" where
  "keyed U d \<longleftrightarrow> distinct (map (pay_key U) (filter is_payment (transactions d))) \<and>
     (\<forall>t\<in>set (transactions d). is_payment t \<longrightarrow> pay_key U t \<in> il_Key ` set (idempotency_logs d)) \<and>
     (\<forall>t\<in>set (transactions d). tx_Status t = TransactionStatusReversed \<longrightarrow> refund_key U t \<in> il_Key ` set (idempotency_logs d))"

section \<open>The invariant of a session\<close>

definition original_stored :: "RefundRequest \<Rightarrow> Transaction \<Rightarrow> int64 \<Rightarrow> db \<Rightarrow> bool" where
  "original_stored req origTx a d \<longleftrightarrow> (\<exists>p\<in>set (transactions d). is_payment p \<and> tx_ID p = tx_ID origTx \<and>
     tx_WalletID p = tx_WalletID origTx \<and> tx_MerchantID p = rq_MerchantID req \<and>
     tx_ReferenceID p = rq_OriginalReferenceID req \<and> 0 < sint a \<and> sint a \<le> sint (tx_Amount p))"

fun ready :: "fund_request \<Rightarrow> checked \<Rightarrow> db \<Rightarrow> bool" where
  "ready (Pay req) info d \<longleftrightarrow> 0 < sint (pq_Amount req)"
| "ready (Refund req) (Some (origTx, a)) d \<longleftrightarrow> original_stored req origTx a d"
| "ready (Refund req) None d \<longleftrightarrow> False"
| "ready (Topup req) info d \<longleftrightarrow> 0 < sint (tq_Amount req)"

fun session_ok :: "db \<Rightarrow> session \<Rightarrow> bool" where
  "session_ok d Idle \<longleftrightarrow> True"
| "session_ok d (LookedUp e q) \<longleftrightarrow> (case q of Refund _ \<Rightarrow> True | _ \<Rightarrow> ready q None d)"
| "session_ok d (Checked e q info) \<longleftrightarrow> ready q info d"
| "session_ok d (Holding e q info wallet) \<longleftrightarrow> ready q info d \<and> lock_wallet e q info d = Inr (Some wallet)"

text \<open>No two sessions hold the same row.\<close>

definition exclusive :: "(nat \<Rightarrow> session) \<Rightarrow> bool" where
  "exclusive ses \<longleftrightarrow> (\<forall>i j x. holds (ses i) = Some x \<longrightarrow> holds (ses j) = Some x \<longrightarrow> i = j)"

definition concurrent_inv :: "PaymentServiceImpl \<Rightarrow> world \<times> (nat \<Rightarrow> session) \<Rightarrow> bool" where
  "concurrent_inv s st \<longleftrightarrow> (case st of (w, ses) \<Rightarrow>
     book_inv (ps_encSvc s) (wd_db w) \<and> keyed (ps_uuid s) (wd_db w) \<and> (\<forall>i. session_ok (wd_db w) (ses i)) \<and> exclusive ses)"

lemma concurrent_invD:
  assumes "concurrent_inv s (w, ses)"
  shows "book_inv (ps_encSvc s) (wd_db w)" "keyed (ps_uuid s) (wd_db w)" "session_ok (wd_db w) (ses i)" "exclusive ses"
  using assms by (simp_all add: concurrent_inv_def)

lemma concurrent_invI:
  "book_inv (ps_encSvc s) (wd_db w) \<Longrightarrow> keyed (ps_uuid s) (wd_db w) \<Longrightarrow> (\<And>i. session_ok (wd_db w) (ses i)) \<Longrightarrow> exclusive ses \<Longrightarrow>
   concurrent_inv s (w, ses)"
  by (simp add: concurrent_inv_def)

lemma exclusive_update:
  assumes "exclusive ses" and "\<And>j y. holds x = Some y \<Longrightarrow> j \<noteq> i \<Longrightarrow> holds (ses j) \<noteq> Some y"
  shows "exclusive (ses(i := x))"
  unfolding exclusive_def
proof (intro allI impI)
  fix a b y assume h: "holds ((ses(i := x)) a) = Some y" "holds ((ses(i := x)) b) = Some y"
  consider "a = i" | "a \<noteq> i" "b = i" | "a \<noteq> i" "b \<noteq> i" by blast
  then show "a = b"
  proof cases
    case 1
    with h assms(2) [of y b] show ?thesis by (cases "b = i") simp_all
  next
    case 2
    with h assms(2) [of y a] show ?thesis by simp
  next
    case 3
    with h assms(1) show ?thesis unfolding exclusive_def by simp
  qed
qed

section \<open>A locked part is the sequential transaction part\<close>

lemma locked_sequential:
  assumes "lock_wallet e q info d = Inr (Some wallet)"
  shows "locked_part s e q info wallet d = sequential_part s e q info d"
  using assms
  by (cases "(e, q, info, d)" rule: lock_wallet.cases)
    (simp_all add: payment_in_tx_def payment_locked_def refund_in_tx_def refund_locked_def topup_in_tx_def topup_locked_def)

section \<open>Committing keeps the books, the keys and the other sessions\<close>

lemma refundable_unlogged:
  assumes "book_inv enc d" and "keyed U d" and "p \<in> set (transactions d)" and "is_payment p"
    and "refund_key U p \<notin> il_Key ` set (idempotency_logs d)"
  shows "IsRefundable p"
  using assms by (auto simp: IsRefundable_def is_payment_def keyed_def book_inv_def statuses_ok_def)

lemma sequential_posted:
  assumes enc: "encryption_service (ps_encSvc s)" and inv: "book_inv (ps_encSvc s) d" and keys: "keyed (ps_uuid s) d"
    and ready: "ready q info d" and run: "sequential_part s e q info d = Inr (txn, resp, tx)"
  shows "posted (ps_encSvc s) txn d tx \<and> lawful (ps_encSvc s) txn d"
proof (cases "(q, info, d)" rule: ready.cases)
  case (1 req info' d')
  with run ready payment_posted [OF enc inv] show ?thesis by (auto simp: res_simps)
next
  case (2 req origTx a d')
  with run obtain r where r: "refund_in_tx s e req (BuildRefundIdempotencyKey (ps_uuid s) (rq_MerchantID req) (rq_OriginalReferenceID req))
      origTx a d = Inr (txn, r, tx)" by (auto simp: res_simps)
  from 2 ready obtain p where p: "p \<in> set (transactions d)" "is_payment p" "tx_ID p = tx_ID origTx" "tx_WalletID p = tx_WalletID origTx"
    "tx_MerchantID p = rq_MerchantID req" "tx_ReferenceID p = rq_OriginalReferenceID req" "0 < sint a" "sint a \<le> sint (tx_Amount p)"
    by (auto simp: original_stored_def)
  have "refund_key (ps_uuid s) p \<notin> il_Key ` set (idempotency_logs d)"
    using refund_logs_key [OF r] p by (simp add: refund_key_def logs_key_def)
  with refundable_unlogged [OF inv keys p(1,2)] have "IsRefundable p" by blast
  from refund_posted_of [OF enc inv p(1) this p(3-5,7,8) r] show ?thesis .
next
  case (4 req info' d')
  with run ready topup_posted [OF enc inv] show ?thesis by (auto simp: res_simps)
qed (use ready in simp)

text \<open>A posting keeps what a session has read, except the row of the wallet it posts to.\<close>

lemma posted_original:
  assumes "posted enc t d d'" and "original_stored req origTx a d"
  shows "original_stored req origTx a d'"
proof -
  from assms(1) obtain n where tr: "transactions d' = mark_reversed n t (transactions d @ [t])" by (auto simp: posted_def)
  let ?u = "\<lambda>x. if tx_OriginalTransactionID t = Some (tx_ID x)
    then x\<lparr>tx_Status := TransactionStatusReversed, tx_ProcessedAt := Some n\<rparr> else x"
  from assms(2) obtain p where p: "p \<in> set (transactions d)" "is_payment p" "tx_ID p = tx_ID origTx" "tx_WalletID p = tx_WalletID origTx"
    "tx_MerchantID p = rq_MerchantID req" "tx_ReferenceID p = rq_OriginalReferenceID req" "0 < sint a" "sint a \<le> sint (tx_Amount p)"
    by (auto simp: original_stored_def)
  have "?u p \<in> set (transactions d')" using p(1) by (auto simp: tr mark_reversed_def rows_update_def)
  then show ?thesis unfolding original_stored_def by (rule bexI [rotated]) (use p in \<open>auto simp: is_payment_def\<close>)
qed

lemma posted_lock:
  assumes "posted enc t d d'" and "lock_wallet e q info d = Inr (Some wallet)" and "w_ID wallet \<noteq> tx_WalletID t"
  shows "lock_wallet e q info d' = Inr (Some wallet)"
proof -
  from assms(1) obtain c n where w: "wallets d' = rows_update (\<lambda>w. w_ID w = tx_WalletID t)
      (\<lambda>w. w\<lparr>w_EncryptedBalance := c, w_UpdatedAt := n\<rparr>) (wallets d)" by (auto simp: posted_def)
  have keep: "row_where P (wallets d') = Some wallet" if "row_where P (wallets d) = Some wallet"
    "\<And>w. P (w\<lparr>w_EncryptedBalance := c, w_UpdatedAt := n\<rparr>) = P w" for P
    unfolding w by (subst row_where_rows_update) (use that assms(3) in auto)
  from assms(2) show ?thesis
    by (cases "(e, q, info, d)" rule: lock_wallet.cases)
      (auto simp: WalletRepo_GetByMerchantIDForUpdate_def WalletRepo_GetByIDForUpdate_def res_simps keep)
qed

lemma ready_posted: "posted enc t d d' \<Longrightarrow> ready q info d \<Longrightarrow> ready q info d'"
  by (cases "(q, info, d)" rule: ready.cases) (auto intro: posted_original)

lemma session_ok_posted:
  assumes "posted enc t d d'" and "session_ok d x" and "holds x \<noteq> Some (tx_WalletID t)"
  shows "session_ok d' x"
  using assms(2,3) ready_posted [OF assms(1)] posted_lock [OF assms(1)]
  by (cases x) (auto split: fund_request.splits)

text \<open>The wallet that a locked part posts to is the one it holds.\<close>

lemma sequential_wallet:
  assumes "lock_wallet e q info d = Inr (Some wallet)" and "sequential_part s e q info d = Inr (txn, resp, tx)"
  shows "tx_WalletID txn = w_ID wallet"
  using assms
  by (cases "(e, q, info, d)" rule: lock_wallet.cases)
    (auto simp: res_simps WalletRepo_GetByMerchantIDForUpdate_def WalletRepo_GetByIDForUpdate_def payment_txn_def refund_txn_def topup_txn_def
      elim!: payment_in_tx_Inr refund_in_tx_Inr topup_in_tx_Inr)

lemma keyed_append:
  assumes "keyed U d" and "transactions d' = transactions d @ [t]" and "tx_Status t \<noteq> TransactionStatusReversed"
    and "il_Key ` set (idempotency_logs d) \<subseteq> il_Key ` set (idempotency_logs d')"
    and "is_payment t \<Longrightarrow> pay_key U t \<in> il_Key ` set (idempotency_logs d') \<and> pay_key U t \<notin> il_Key ` set (idempotency_logs d)"
  shows "keyed U d'"
  using assms unfolding keyed_def by auto

lemma keyed_payment:
  assumes "keyed (ps_uuid s) d" and "payment_in_tx s e req (BuildIdempotencyKey (ps_uuid s) (pq_MerchantID req) (pq_ReferenceID req)) d = Inr (txn, resp, d')"
  shows "keyed (ps_uuid s) d'"
  by (rule payment_in_tx_Inr [OF assms(2)], rule keyed_append [OF assms(1)])
    (auto simp: payment_txn_def pay_key_def)

lemma keyed_topup:
  assumes "keyed (ps_uuid s) d" and "topup_in_tx s e req d = Inr (txn, d')"
  shows "keyed (ps_uuid s) d'"
  by (rule topup_in_tx_Inr [OF assms(2)], rule keyed_append [OF assms(1)])
    (auto simp: topup_txn_def is_payment_def)

lemma keyed_refund:
  assumes keys: "keyed (ps_uuid s) d" and dist: "distinct (map tx_ID (transactions d))"
    and orig: "original_stored req origTx a d"
    and run: "refund_in_tx s e req (BuildRefundIdempotencyKey (ps_uuid s) (rq_MerchantID req) (rq_OriginalReferenceID req)) origTx a d
      = Inr (txn, resp, d')"
  shows "keyed (ps_uuid s) d'"
proof -
  let ?K = "BuildRefundIdempotencyKey (ps_uuid s) (rq_MerchantID req) (rq_OriginalReferenceID req)"
  let ?U = "ps_uuid s"
  from run obtain wallet ae where t: "txn = refund_txn e req origTx a wallet ae" "tx_ID txn \<notin> tx_ID ` set (transactions d)"
    and tr: "transactions d' = mark_reversed (ev_now e) txn (transactions d @ [txn])"
    and lg: "il_Key ` set (idempotency_logs d') = insert ?K (il_Key ` set (idempotency_logs d))"
    by (rule refund_in_tx_Inr) simp
  from orig obtain p where p: "p \<in> set (transactions d)" "tx_ID p = tx_ID origTx" "refund_key ?U p = ?K"
    by (auto simp: original_stored_def refund_key_def)
  have f: "tx_OriginalTransactionID txn = Some (tx_ID p)" "\<not> is_payment txn" "tx_Status txn = TransactionStatusSuccess"
    by (simp_all add: t refund_txn_def is_payment_def p(2))
  have u: "map (pay_key ?U) (filter is_payment (mark_reversed n txn ts)) = map (pay_key ?U) (filter is_payment ts)" for n ts
    by (induction ts) (simp_all add: mark_reversed_def is_payment_def pay_key_def)
  have rows: "(\<exists>y\<in>insert txn (set (transactions d)). is_payment y = is_payment x \<and> pay_key ?U y = pay_key ?U x \<and>
      refund_key ?U y = refund_key ?U x \<and> (tx_Status y = tx_Status x \<or> tx_ID y = tx_ID p))" if "x \<in> set (transactions d')" for x
  proof -
    let ?u = "\<lambda>x. if tx_OriginalTransactionID txn = Some (tx_ID x)
      then x\<lparr>tx_Status := TransactionStatusReversed, tx_ProcessedAt := Some (ev_now e)\<rparr> else x"
    have "set (transactions d') = ?u ` insert txn (set (transactions d))" by (simp add: tr mark_reversed_def rows_update_def)
    with that obtain y where "y \<in> insert txn (set (transactions d))" "x = ?u y" by blast
    then show ?thesis by (intro bexI [of _ y]) (auto simp: f(1) is_payment_def pay_key_def refund_key_def)
  qed
  have same: "y = p" if "y \<in> insert txn (set (transactions d))" "tx_ID y = tx_ID p" for y
    using that p(1) t(2) tx_ID_eq [OF dist] by (auto simp: image_iff)
  have "refund_key ?U x \<in> il_Key ` set (idempotency_logs d')" if "x \<in> set (transactions d')" "tx_Status x = TransactionStatusReversed" for x
  proof -
    from rows [OF that(1)] obtain y where y: "y \<in> insert txn (set (transactions d))" "refund_key ?U y = refund_key ?U x"
      "tx_Status y = tx_Status x \<or> tx_ID y = tx_ID p" by blast
    show ?thesis
    proof (cases "tx_ID y = tx_ID p")
      case True
      with same [OF y(1)] have "y = p" by simp
      with y(2) p(3) show ?thesis by (simp add: lg)
    next
      case False
      with y that(2) f(3) have "y \<in> set (transactions d)" "tx_Status y = TransactionStatusReversed" by auto
      with keys have "refund_key ?U y \<in> il_Key ` set (idempotency_logs d)" by (simp add: keyed_def)
      with y(2) show ?thesis by (simp add: lg)
    qed
  qed
  moreover have "pay_key ?U x \<in> il_Key ` set (idempotency_logs d')" if "x \<in> set (transactions d')" "is_payment x" for x
  proof -
    from rows [OF that(1)] that(2) f(2) obtain y where y: "y \<in> set (transactions d)" "is_payment y" "pay_key ?U y = pay_key ?U x" by auto
    from keys y(1,2) have "pay_key ?U y \<in> il_Key ` set (idempotency_logs d)" by (simp add: keyed_def)
    with y(3) show ?thesis by (simp add: lg)
  qed
  moreover have "distinct (map (pay_key ?U) (filter is_payment (transactions d')))"
    using keys f(2) by (simp add: tr u keyed_def)
  ultimately show ?thesis by (simp add: keyed_def)
qed

lemma keyed_sequential:
  assumes "book_inv enc d" and "keyed (ps_uuid s) d" and "ready q info d" and "sequential_part s e q info d = Inr (txn, resp, tx)"
  shows "keyed (ps_uuid s) tx"
proof -
  have dist: "distinct (map tx_ID (transactions d))" using assms(1) by (simp add: book_inv_def)
  from assms(3,4) show ?thesis
    by (cases "(q, info, d)" rule: ready.cases)
      (auto simp: res_simps dest: keyed_payment [OF assms(2)] keyed_topup [OF assms(2)] keyed_refund [OF assms(2) dist])
qed

lemma commit_session_db:
  "wd_db (commit_session s e q txn resp tx w) = wd_db w \<or> wd_db (commit_session s e q txn resp tx w) = tx"
proof -
  have "wd_db (snd (commit_and_cache e k txn r tx w)) \<in> {wd_db w, tx}" for k r
    using commit_and_cache_db [OF prod.collapse [symmetric], of e k txn r tx w] by auto
  then show ?thesis by (auto simp: commit_session_def tx_Commit_def split: option.splits)
qed

section \<open>The invariant of interleaved executions\<close>

lemma concurrent_inv_ses:
  assumes "concurrent_inv s (w, ses)" and "session_ok (wd_db w) x"
    and "\<And>j y. holds x = Some y \<Longrightarrow> j \<noteq> i \<Longrightarrow> holds (ses j) \<noteq> Some y"
  shows "concurrent_inv s (w, ses(i := x))"
proof (rule concurrent_invI)
  show "session_ok (wd_db w) ((ses(i := x)) j)" for j using concurrent_invD(3) [OF assms(1)] assms(2) by simp
  show "exclusive (ses(i := x))" using concurrent_invD(4) [OF assms(1)] assms(3) by (rule exclusive_update)
qed (rule concurrent_invD [OF assms(1)])+

lemma concurrent_inv_commit:
  assumes enc: "encryption_service (ps_encSvc s)" and inv: "concurrent_inv s (w, ses)"
    and i: "ses i = Holding e q info wallet" and run: "locked_part s e q info wallet (wd_db w) = Inr (txn, resp, tx)"
    and db: "wd_db w' = wd_db w \<or> wd_db w' = tx"
  shows "concurrent_inv s (w', ses(i := Idle))"
proof -
  note ok = concurrent_invD [OF inv]
  have ex: "\<And>j x. holds (ses j) = Some x \<Longrightarrow> holds (ses i) = Some x \<Longrightarrow> j = i"
    using ok(4) unfolding exclusive_def by blast
  have lk: "lock_wallet e q info (wd_db w) = Inr (Some wallet)" and rd: "ready q info (wd_db w)" using ok(3) [of i] by (simp_all add: i)
  have sq: "sequential_part s e q info (wd_db w) = Inr (txn, resp, tx)" using run by (simp add: locked_sequential [OF lk])
  note pl = sequential_posted [OF enc ok(1,2) rd sq]
  have wid: "holds (ses i) = Some (tx_WalletID txn)" using sequential_wallet [OF lk sq] by (simp add: i)
  have idle: "concurrent_inv s (w, ses(i := Idle))" by (rule concurrent_inv_ses [OF inv]) simp_all
  show ?thesis
  proof (cases "wd_db w' = tx")
    case True
    have "session_ok tx ((ses(i := Idle)) j)" for j
    proof (cases "j = i")
      case False
      with ex [of j] wid have "holds (ses j) \<noteq> Some (tx_WalletID txn)" by blast
      from session_ok_posted [OF conjunct1 [OF pl] ok(3) this] False show ?thesis by simp
    qed simp
    moreover have "book_inv (ps_encSvc s) tx" using book_inv_posted [OF ok(1)] pl by blast
    moreover note keyed_sequential [OF ok(1,2) rd sq]
    ultimately show ?thesis using concurrent_invD(4) [OF idle] by (intro concurrent_invI) (simp_all add: True)
  next
    case False
    with db concurrent_invD [OF idle] show ?thesis by (intro concurrent_invI) simp_all
  qed
qed

lemma Register_tables:
  assumes "Register au e req d = (r, d')"
  shows "transactions d' = transactions d \<and> idempotency_logs d' = idempotency_logs d \<and> (\<exists>ws. wallets d' = wallets d @ ws)"
  using assms
proof (cases rule: Register_cases)
  case (both m sk c d1)
  then show ?thesis using MerchantCreate_Inr(1) [OF both(2)] WalletCreate_Inr(1) [OF both(4)] by simp
qed (auto dest: MerchantCreate_Inr(1))

lemma session_ok_new_wallets:
  assumes "transactions d' = transactions d" and "wallets d' = wallets d @ ws" and "session_ok d x"
  shows "session_ok d' x"
proof -
  have "ready q info d' = ready q info d" for q info
    by (cases "(q, info, d)" rule: ready.cases) (simp_all add: original_stored_def assms(1))
  moreover have "lock_wallet e q info d' = Inr (Some wl)" if "lock_wallet e q info d = Inr (Some wl)" for e q info wl
    using that by (cases "(e, q, info, d)" rule: lock_wallet.cases)
      (auto simp: WalletRepo_GetByMerchantIDForUpdate_def WalletRepo_GetByIDForUpdate_def res_simps assms(2) row_where_append)
  ultimately show ?thesis using assms(3) by (cases x) (auto split: fund_request.splits)
qed

lemma concurrent_inv_step:
  assumes enc: "encryption_service (ps_encSvc s)" and inv: "concurrent_inv s (w, ses)" and step: "concurrent_step s (w, ses) st'"
  shows "concurrent_inv s st'"
  using step
proof (cases rule: concurrent_stepE)
  case (look_up i e q)
  have "session_ok (wd_db w) (LookedUp e q)" using look_up(3) by (cases q) (auto simp: wsless_zero)
  from concurrent_inv_ses [OF inv this, of i] look_up(1) show ?thesis by simp
next
  case (check i e q info)
  have old: "session_ok (wd_db w) (LookedUp e q)" using concurrent_invD(3) [OF inv, of i] check(2) by simp
  have "ready q info (wd_db w)"
  proof (cases q)
    case (Refund req)
    with check(3) obtain o' a where ia: "info = Some (o', a)" "refund_checks e req (wd_db w) = Inr (o', a)"
      by (cases info) (auto simp: res_simps)
    note c = refund_checks_Inr [OF ia(2)]
    have o: "o' \<in> set (transactions (wd_db w))" using row_where_Some [OF c(1)] by simp
    then have "0 < sint (tx_Amount o')" using concurrent_invD(1) [OF inv] by (auto simp: book_inv_def rows_ok_def)
    with o c show ?thesis
      unfolding Refund ia ready.simps original_stored_def
      by (intro bexI [of _ o']) (auto simp: is_payment_def IsRefundable_def dest: row_where_Some)
  qed (use old check(3) in auto)
  with check(1) concurrent_inv_ses [OF inv, of "Checked e q info" i] show ?thesis by simp
next
  case (lock i e q info wallet)
  have "session_ok (wd_db w) (Checked e q info)" using concurrent_invD(3) [OF inv, of i] lock(2) by simp
  with lock concurrent_inv_ses [OF inv, of "Holding e q info wallet" i] show ?thesis by simp
next
  case (commit i e q info wallet txn resp tx)
  from concurrent_inv_commit [OF enc inv commit(2,3) commit_session_db] commit(1) show ?thesis by simp
next
  case (leave i)
  with concurrent_inv_ses [OF inv, of Idle i] show ?thesis by simp
next
  case (register au e req r d')
  note tb = Register_tables [OF register(3)]
  then obtain ws where ws: "wallets d' = wallets (wd_db w) @ ws" by blast
  have "book_inv (ps_encSvc s) d'"
    using Register_books [OF _ _ register(3)] concurrent_invD(1) [OF inv] register(2) enc by simp
  moreover have "keyed (ps_uuid s) d'" using concurrent_invD(2) [OF inv] tb by (simp add: keyed_def)
  moreover have "session_ok d' (ses j)" for j
    using session_ok_new_wallets [OF _ ws concurrent_invD(3) [OF inv]] tb by simp
  ultimately show ?thesis using concurrent_invD(4) [OF inv] unfolding register(1) by (intro concurrent_invI) simp_all
next
  case (redis r)
  with inv show ?thesis by (simp add: concurrent_inv_def)
qed

lemma concurrently_inv:
  assumes "concurrently s w0 st" and "encryption_service (ps_encSvc s)" and "book_inv (ps_encSvc s) (wd_db w0)"
    and "keyed (ps_uuid s) (wd_db w0)"
  shows "concurrent_inv s st"
  using assms(1)
proof (induction rule: concurrently.induct)
  case none_running
  then show ?case using assms(3,4) by (simp add: concurrent_inv_def exclusive_def)
next
  case (one_step st st')
  then show ?case using concurrent_inv_step [OF assms(2)] by (cases st) auto
qed

end
