(* ===== verification/Concurrency_Properties.thy ===== *)
theory Concurrency_Properties
  imports Concurrency Payment_Properties
begin

text \<open>
  The properties of concurrent payments, refunds and top-ups, and a race of two sessions to which
  they apply.
\<close>

section \<open>Serializability\<close>

text \<open>
  C5: Row locks make concurrent fund movements serializable. In every interleaving of payments,
  refunds, top-ups and registrations, whatever Redis holds, a session that has the lock of its
  wallet and finishes its transaction from the wallet row it read under the lock gets the same
  outcome, error or new database, as the transaction part of its request would have if it ran
  alone, from the lock to the end, on the database as it is at the commit.
\<close>

theorem concurrent_serializable:
  assumes "concurrently (NewPaymentService U (aes_encSvc a)) w0 (w, ses)"
    and "book_inv (aes_encSvc a) (wd_db w0)" and "keyed U (wd_db w0)" and "ses i = Holding e q info wallet"
  shows "locked_part (NewPaymentService U (aes_encSvc a)) e q info wallet (wd_db w) =
    sequential_part (NewPaymentService U (aes_encSvc a)) e q info (wd_db w)"
proof -
  have "concurrent_inv (NewPaymentService U (aes_encSvc a)) (w, ses)"
    using concurrently_inv [OF assms(1)] aes.encryption_service_axioms assms(2,3) by simp
  from concurrent_invD(3) [OF this, of i] assms(4) show ?thesis by (simp add: locked_sequential)
qed

text \<open>
  C4: Concurrency breaks neither the books nor idempotency. In every interleaving, whatever Redis
  holds and however old the reads before a transaction are, the books stay in order (so no wallet
  is overdrawn by a race and no payment is refunded twice), and no two payments of a merchant
  have the same reference: of concurrent requests with one reference at most one is applied.
\<close>

theorem concurrent_books:
  assumes "concurrently (NewPaymentService U (aes_encSvc a)) w0 (w, ses)"
    and "book_inv (aes_encSvc a) (wd_db w0)" and "keyed U (wd_db w0)"
  shows "book_inv (aes_encSvc a) (wd_db w) \<and>
    distinct (map (\<lambda>t. (tx_MerchantID t, tx_ReferenceID t)) (filter is_payment (transactions (wd_db w))))"
proof -
  have inv: "concurrent_inv (NewPaymentService U (aes_encSvc a)) (w, ses)"
    using concurrently_inv [OF assms(1)] aes.encryption_service_axioms assms(2,3) by simp
  let ?ps = "filter is_payment (transactions (wd_db w))" and ?r = "\<lambda>t. (tx_MerchantID t, tx_ReferenceID t)"
  have "distinct (map (pay_key U) ?ps)" using concurrent_invD(2) [OF inv] by (simp add: keyed_def)
  then have "distinct ?ps" "inj_on (pay_key U) (set ?ps)" by (simp_all only: distinct_map)
  moreover from this(2) have "inj_on ?r (set ?ps)" by (auto simp: inj_on_def pay_key_def)
  ultimately have "distinct (map ?r ?ps)" by (simp only: distinct_map)
  with concurrent_invD(1) [OF inv] show ?thesis by simp
qed

section \<open>A race\<close>

text \<open>Two sessions look up the same new payment before either takes the lock.\<close>

definition demo_race :: "nat \<Rightarrow> session" where
  "demo_race = (\<lambda>_. Idle)(0 := Checked demo_env (Pay (demo_payment 400)) None, 1 := Checked demo_env (Pay (demo_payment 400)) None)"

lemma demo_keyed: "keyed rfc4122 demo_topped_up"
  by (simp add: keyed_def is_payment_def)

lemma demo_lookup_race: "concurrently demo_service (demo_world demo_topped_up) (demo_world demo_topped_up, demo_race)"
proof -
  let ?w = "demo_world demo_topped_up" and ?q = "Pay (demo_payment 400)"
  have lk: "looked_up demo_service demo_env ?q ?w" by (simp add: wsless_zero) (simp add: demo_payment_def)
  have step: "concurrently demo_service ?w (?w, ses(i := Checked demo_env ?q None))"
    if "concurrently demo_service ?w (?w, ses)" "ses i = Idle" for ses i
  proof -
    have "concurrently demo_service ?w (?w, ses(i := LookedUp demo_env ?q))"
      by (rule one_step [OF that(1)], rule look_up) (use that(2) lk in auto)
    moreover have "concurrent_step demo_service (?w, ses(i := LookedUp demo_env ?q)) (?w, (ses(i := LookedUp demo_env ?q))(i := Checked demo_env ?q None))"
      by (rule check) auto
    ultimately show ?thesis using one_step by fastforce
  qed
  show ?thesis unfolding demo_race_def by (rule step [OF step [OF none_running]]) simp_all
qed

lemma demo_lock_race:
  "concurrently demo_service (demo_world demo_topped_up)
     (demo_world demo_topped_up, demo_race(0 := Holding demo_env (Pay (demo_payment 400)) None (demo_wallet 1000)))"
proof -
  have "concurrent_step demo_service (demo_world demo_topped_up, demo_race)
      (demo_world demo_topped_up, demo_race(0 := Holding demo_env (Pay (demo_payment 400)) None (demo_wallet 1000)))"
    by (rule lock) (auto simp: demo_race_def WalletRepo_GetByMerchantIDForUpdate_def demo_env_def demo_payment_def row_where_def)
  with one_step [OF demo_lookup_race] show ?thesis .
qed

lemma demo_payment_runs:
  obtains txn resp tx where "payment_in_tx demo_service demo_env (demo_payment 400) (BuildIdempotencyKey rfc4122 1 ''ORDER-1'') demo_topped_up =
    Inr (txn, resp, tx)"
proof -
  have fits: "rune_count (BuildIdempotencyKey rfc4122 1 ''ORDER-1'') \<le> 255"
    by (rule uuid_text.payment_key_fits [OF rfc.uuid_text_axioms]) (simp add: rune_count_def)
  have "\<exists>r. payment_in_tx (NewPaymentService rfc4122 (aes_encSvc demo_aes)) demo_env (demo_payment 400)
      (BuildIdempotencyKey rfc4122 1 ''ORDER-1'') demo_topped_up = Inr r"
    by (rule payment_in_tx_total [where b = 1000 and wallet = "demo_wallet 1000"])
      (simp_all add: rfc.uuid_text_axioms demo_payment_storable fits, simp_all add: demo_payment_def)
  with that show ?thesis by (auto simp: demo_service_def)
qed

theorem concurrent_serializable_witness:
  "locked_part demo_service demo_env (Pay (demo_payment 400)) None (demo_wallet 1000) demo_topped_up =
     sequential_part demo_service demo_env (Pay (demo_payment 400)) None demo_topped_up"
  using concurrent_serializable [OF demo_lock_race [unfolded demo_service_def], of 0 demo_env "Pay (demo_payment 400)" None "demo_wallet 1000"]
    demo_books_topped_up demo_keyed by (simp add: demo_service_def)

theorem concurrent_books_witness:
  "\<exists>w ses. concurrently demo_service (demo_world demo_topped_up) (w, ses) \<and> ses 1 = Checked demo_env (Pay (demo_payment 400)) None \<and>
     length (transactions (wd_db w)) = 2 \<and> book_inv (aes_encSvc demo_aes) (wd_db w)"
proof -
  let ?K = "BuildIdempotencyKey rfc4122 1 ''ORDER-1''" and ?q = "Pay (demo_payment 400)"
  obtain txn resp tx where run: "payment_in_tx demo_service demo_env (demo_payment 400) ?K demo_topped_up = Inr (txn, resp, tx)"
    by (rule demo_payment_runs)
  have two: "length (transactions tx) = 2" by (rule payment_in_tx_Inr [OF run]) simp
  have seq: "sequential_part demo_service demo_env ?q None demo_topped_up = Inr (txn, Some resp, tx)"
    using run by (simp add: demo_service_def demo_payment_def)
  have lk: "lock_wallet demo_env ?q None demo_topped_up = Inr (Some (demo_wallet 1000))"
    by (simp add: WalletRepo_GetByMerchantIDForUpdate_def demo_env_def demo_payment_def row_where_def)
  let ?w = "commit_session demo_service demo_env ?q txn (Some resp) tx (demo_world demo_topped_up)"
  let ?ses = "(demo_race(0 := Holding demo_env ?q None (demo_wallet 1000)))(0 := Idle)"
  have reach: "concurrently demo_service (demo_world demo_topped_up) (?w, ?ses)"
    by (rule one_step [OF demo_lock_race], rule commit [where info = None and wallet = "demo_wallet 1000"])
      (simp, simp only: locked_sequential [OF lk] seq demo_world_fields)
  have "wd_db ?w = tx"
    using commit_and_cache_ok [OF demo_no_faults] by (simp add: commit_session_def)
  with reach two concurrent_books [OF reach [unfolded demo_service_def]] demo_books_topped_up demo_keyed
  show ?thesis by (intro exI [of _ ?w] exI [of _ ?ses]) (simp add: demo_race_def demo_service_def)
qed

end
