(* ===== verification/Logger_Pkg.thy ===== *)
theory Logger_Pkg
  imports Prelude
begin

text \<open>
  pkg/logger and the lines that the HTTP middleware logs. A logger is its level, its format and
  the fields that it adds to every line; which lines it writes is decided by the order of the
  levels. Of zerolog only that order is used; the text of a line is represented by its fields.
\<close>

section \<open>Levels\<close>

datatype Level = DebugLevel | InfoLevel | WarnLevel | ErrorLevel

primrec severity :: "Level \<Rightarrow> nat" where
  "severity DebugLevel = 0"
| "severity InfoLevel = 1"
| "severity WarnLevel = 2"
| "severity ErrorLevel = 3"

instantiation Level :: linorder
begin

definition less_eq_Level :: "Level \<Rightarrow> Level \<Rightarrow> bool" where
  "less_eq_Level l l' \<longleftrightarrow> severity l \<le> severity l'"

definition less_Level :: "Level \<Rightarrow> Level \<Rightarrow> bool" where
  "less_Level l l' \<longleftrightarrow> severity l < severity l'"

instance
proof
  fix l l' :: Level
  assume "l \<le> l'" and "l' \<le> l"
  then have "severity l = severity l'" by (simp add: less_eq_Level_def)
  then show "l = l'" by (cases l; cases l'; simp)
qed (auto simp: less_eq_Level_def less_Level_def)

end

section \<open>logger.go\<close>

definition parseLevel :: "string \<Rightarrow> Level" where
  "parseLevel level =
     (if level = ''debug'' then DebugLevel else if level = ''info'' then InfoLevel
      else if level = ''warn'' then WarnLevel else if level = ''error'' then ErrorLevel else InfoLevel)"

text \<open>Where a logger writes: standard output as JSON, the console format, or a writer of the caller.\<close>

datatype log_writer = Stdout | ConsoleWriter | CustomWriter

record Logger =
  lg_Level :: Level
  lg_Writer :: log_writer
  lg_Timestamp :: bool
  lg_Caller :: bool

definition logger_New :: "string \<Rightarrow> bool \<Rightarrow> Logger" where
  "logger_New level pretty =
     \<lparr>lg_Level = parseLevel level, lg_Writer = (if pretty then ConsoleWriter else Stdout),
      lg_Timestamp = True, lg_Caller = True\<rparr>"

definition NewWithWriter :: "string \<Rightarrow> Logger" where
  "NewWithWriter level =
     \<lparr>lg_Level = parseLevel level, lg_Writer = CustomWriter, lg_Timestamp = True, lg_Caller = False\<rparr>"

section \<open>Lines of the HTTP middleware\<close>

text \<open>
  The line of a handled request with its level, method, path, status, latency in microseconds and
  client address, and the line of a recovered panic, which has level error, with its value and path.
\<close>

datatype log_line =
    HttpRequest Level string string int time string
  | PanicRecovered string string

primrec line_level :: "log_line \<Rightarrow> Level" where
  "line_level (HttpRequest l m p st lat ip) = l"
| "line_level (PanicRecovered v p) = ErrorLevel"

definition write_line :: "Logger \<Rightarrow> log_line \<Rightarrow> log_line list \<Rightarrow> log_line list" where
  "write_line lg l ls = (if lg_Level lg \<le> line_level l then ls @ [l] else ls)"

text \<open>A line of level error is written by every logger that the program can make.\<close>

lemma error_line_written: "line_level l = ErrorLevel \<Longrightarrow> write_line lg l ls = ls @ [l]"
  by (cases "lg_Level lg") (simp_all add: write_line_def less_eq_Level_def)

end
