(* ===== verification/Go_Url.thy ===== *)
theory Go_Url
  imports Go_Strings
begin

text \<open>
  The parts of the Go standard library that look at untrusted text: \<^verbatim>\<open>url.ParseRequestURI\<close> as
  far as the gateway uses it (does it succeed, and which scheme does it find),
  \<^verbatim>\<open>strings.TrimSpace\<close> and \<^verbatim>\<open>html.EscapeString\<close>. A host in square brackets is an IP literal,
  whose syntax belongs to \<^verbatim>\<open>net/netip\<close>; the check of such a host is the argument \<open>ip_literal\<close>.
\<close>

section \<open>url.ParseRequestURI\<close>

definition is_letter :: "char \<Rightarrow> bool" where
  "is_letter c \<longleftrightarrow> c \<in> set ''abcdefghijklmnopqrstuvwxyzABCDEFGHIJKLMNOPQRSTUVWXYZ''"

definition to_lower :: "char \<Rightarrow> char" where
  "to_lower c = (let n = of_char c :: nat in if 65 \<le> n \<and> n \<le> 90 then char_of (n + 32) else c)"

definition scheme_char :: "char \<Rightarrow> bool" where
  "scheme_char c \<longleftrightarrow> is_letter c \<or> is_digit c \<or> c \<in> set ''+-.''"

text \<open>The scheme and the rest; no scheme is the empty text.\<close>

definition getScheme :: "string \<Rightarrow> (string \<times> string) result" where
  "getScheme raw =
     (case raw of
        [] \<Rightarrow> Inr ([], raw)
      | c # _ \<Rightarrow>
          if c = CHR '':'' then Inl (Plain ''missing protocol scheme'')
          else if \<not> is_letter c then Inr ([], raw)
          else case dropWhile scheme_char raw of
                 [] \<Rightarrow> Inr ([], raw)
               | d # rest \<Rightarrow> if d = CHR '':'' then Inr (takeWhile scheme_char raw, rest) else Inr ([], raw))"

datatype encoding = encodePath | encodeUserPassword | encodeHost

definition host_char :: "char \<Rightarrow> bool" where
  "host_char c \<longleftrightarrow> 128 \<le> (of_char c :: nat) \<or> is_letter c \<or> is_digit c \<or>
     c \<in> set ''!$&()*+,;=:[]<>-_.~'' \<or> of_char c \<in> {34 :: nat, 39}"

text \<open>Whether \<^verbatim>\<open>unescape\<close> succeeds: every percent sign is followed by two hexadecimal digits.\<close>

fun unescape_ok :: "encoding \<Rightarrow> string \<Rightarrow> bool" where
  "unescape_ok m [] = True"
| "unescape_ok m (c # cs) =
     (if c = CHR ''%'' then
        (case cs of
           a # b # rest \<Rightarrow>
             (case (fromHexChar a, fromHexChar b) of
                (Some x, Some y) \<Rightarrow> \<not> (m = encodeHost \<and> x < 8 \<and> [a, b] \<noteq> ''25'') \<and> unescape_ok m rest
              | _ \<Rightarrow> False)
         | _ \<Rightarrow> False)
      else (m = encodeHost \<longrightarrow> host_char c) \<and> unescape_ok m cs)"

definition validOptionalPort :: "string \<Rightarrow> bool" where
  "validOptionalPort port =
     (case port of [] \<Rightarrow> True | c # ds \<Rightarrow> c = CHR '':'' \<and> list_all is_digit ds)"

text \<open>The part of a text from its last occurrence of a character on, and the part before it.\<close>

definition from_last :: "char \<Rightarrow> string \<Rightarrow> string" where
  "from_last c s = (if c \<in> set s then c # rev (takeWhile (\<lambda>x. x \<noteq> c) (rev s)) else [])"

definition before_last :: "char \<Rightarrow> string \<Rightarrow> string" where
  "before_last c s = take (length s - length (from_last c s)) s"

definition parseHost_ok :: "(string \<Rightarrow> bool) \<Rightarrow> string \<Rightarrow> bool" where
  "parseHost_ok ip_literal host =
     (if CHR ''['' \<in> set host then ip_literal host
      else validOptionalPort (from_last CHR '':'' host) \<and> unescape_ok encodeHost host)"

definition validUserinfo :: "string \<Rightarrow> bool" where
  "validUserinfo s \<longleftrightarrow> (\<forall>c \<in> set s. is_letter c \<or> is_digit c \<or> c \<in> set ''-._:~!$&()*+,;=%@'' \<or> c = CHR 0x27)"

definition parseAuthority_ok :: "(string \<Rightarrow> bool) \<Rightarrow> string \<Rightarrow> bool" where
  "parseAuthority_ok ip_literal authority =
     (if CHR ''@'' \<notin> set authority then parseHost_ok ip_literal authority
      else parseHost_ok ip_literal (tl (from_last CHR ''@'' authority)) \<and>
           (let userinfo = before_last CHR ''@'' authority
            in validUserinfo userinfo \<and> unescape_ok encodeUserPassword userinfo))"

text \<open>
  The scheme that \<^verbatim>\<open>ParseRequestURI\<close> returns, in lower case, or its error. Cutting the user
  information at its first colon does not split an escape sequence, so its two parts can be
  checked together.
\<close>

definition ParseRequestURI :: "(string \<Rightarrow> bool) \<Rightarrow> string \<Rightarrow> string result" where
  "ParseRequestURI ip_literal raw =
     (if \<exists>c \<in> set raw. (of_char c :: nat) < 32 \<or> (of_char c :: nat) = 127
      then Inl (Plain ''net/url: invalid control character in URL'')
      else if raw = [] then Inl (Plain ''empty url'')
      else if raw = ''*'' then Inr []
      else bindE (getScheme raw) (\<lambda>(scheme, rest0).
        let rest = takeWhile (\<lambda>c. c \<noteq> CHR ''?'') rest0
        in if take 1 rest \<noteq> ''/'' then
             (if scheme \<noteq> [] then Inr (map to_lower scheme) else Inl (Plain ''invalid URI for request''))
           else if scheme \<noteq> [] \<and> take 2 rest = ''//'' then
             (let authority = takeWhile (\<lambda>c. c \<noteq> CHR ''/'') (drop 2 rest);
                  path = dropWhile (\<lambda>c. c \<noteq> CHR ''/'') (drop 2 rest)
              in if \<not> parseAuthority_ok ip_literal authority then Inl (Plain ''invalid authority'')
                 else if \<not> unescape_ok encodePath path then Inl (Plain ''invalid URL escape'')
                 else Inr (map to_lower scheme))
           else if \<not> unescape_ok encodePath rest then Inl (Plain ''invalid URL escape'')
           else Inr (map to_lower scheme)))"

text \<open>A scheme that was found stands in front of the first colon.\<close>

lemma getScheme_Inr:
  assumes "getScheme raw = Inr (scheme, rest)" and "scheme \<noteq> []"
  shows "raw = scheme @ CHR '':'' # rest"
proof -
  from assms obtain d where drop: "dropWhile scheme_char raw = d # rest" "d = CHR '':''"
    and scheme: "scheme = takeWhile scheme_char raw"
    by (auto simp: getScheme_def split: list.splits if_splits)
  then show ?thesis using takeWhile_dropWhile_id [of scheme_char raw] by simp
qed

lemma ParseRequestURI_scheme:
  assumes "ParseRequestURI ip raw = Inr sch" and "sch \<noteq> []"
  shows "\<exists>scheme rest. raw = scheme @ CHR '':'' # rest \<and> map to_lower scheme = sch"
proof -
  from assms obtain scheme rest where "getScheme raw = Inr (scheme, rest)" "map to_lower scheme = sch"
    by (auto simp: ParseRequestURI_def res_simps Let_def split: if_splits)
  with assms(2) getScheme_Inr show ?thesis by blast
qed

section \<open>strings.TrimSpace\<close>

text \<open>
  The characters of \<^verbatim>\<open>unicode.IsSpace\<close> in UTF-8: six of ASCII and the others of the Unicode
  White_Space property.
\<close>

definition space_runes :: "string list" where
  "space_runes =
     [[CHR 0x09], [CHR 0x0A], [CHR 0x0B], [CHR 0x0C], [CHR 0x0D], [CHR 0x20],
      [CHR 0xC2, CHR 0x85], [CHR 0xC2, CHR 0xA0], [CHR 0xE1, CHR 0x9A, CHR 0x80]] @
     map (\<lambda>n. [CHR 0xE2, CHR 0x80, char_of n]) ([0x80..<0x8B] @ [0xA8, 0xA9, 0xAF :: nat]) @
     [[CHR 0xE2, CHR 0x81, CHR 0x9F], [CHR 0xE3, CHR 0x80, CHR 0x80]]"

definition leading_space :: "string \<Rightarrow> nat" where
  "leading_space s = (case find (\<lambda>r. take (length r) s = r) space_runes of Some r \<Rightarrow> length r | None \<Rightarrow> 0)"

definition trailing_space :: "string \<Rightarrow> nat" where
  "trailing_space s =
     (case find (\<lambda>r. length r \<le> length s \<and> drop (length s - length r) s = r) space_runes of
        Some r \<Rightarrow> length r | None \<Rightarrow> 0)"

function trim_left :: "string \<Rightarrow> string" where
  "trim_left s = (if s = [] \<or> leading_space s = 0 then s else trim_left (drop (leading_space s) s))"
  by pat_completeness auto
termination by (relation "measure length") auto

function trim_right :: "string \<Rightarrow> string" where
  "trim_right s = (if s = [] \<or> trailing_space s = 0 then s else trim_right (take (length s - trailing_space s) s))"
  by pat_completeness auto
termination by (relation "measure length") auto

declare trim_left.simps [simp del] trim_right.simps [simp del]

definition TrimSpace :: "string \<Rightarrow> string" where
  "TrimSpace s = trim_right (trim_left s)"

text \<open>A text is trimmed when no white space stands at its ends.\<close>

definition trimmed :: "string \<Rightarrow> bool" where
  "trimmed s \<longleftrightarrow> s = [] \<or> leading_space s = 0 \<and> trailing_space s = 0"

lemma space_runes_nonempty: "r \<in> set space_runes \<Longrightarrow> r \<noteq> []"
  by (auto simp: space_runes_def)

lemma leading_space_0: "leading_space s = 0 \<longleftrightarrow> (\<forall>r \<in> set space_runes. take (length r) s \<noteq> r)"
  using space_runes_nonempty
  by (auto simp: leading_space_def find_None_iff find_Some_iff split: option.splits)

lemma leading_space_take: "leading_space s = 0 \<Longrightarrow> leading_space (take n s) = 0"
proof (rule leading_space_0 [THEN iffD2], intro ballI notI)
  fix r assume "leading_space s = 0" "r \<in> set space_runes" "take (length r) (take n s) = r"
  then show False
    by (metis leading_space_0 length_take min.absorb_iff2 min.left_idem min_def take_take)
qed

lemma trim_left_leading: "trim_left s = [] \<or> leading_space (trim_left s) = 0"
  by (induction s rule: trim_left.induct) (subst (1 2) trim_left.simps, auto)

lemma trim_right_trimmed: "s = [] \<or> leading_space s = 0 \<Longrightarrow> trimmed (trim_right s)"
proof (induction s rule: trim_right.induct)
  case (1 s)
  show ?case
  proof (cases "s = [] \<or> trailing_space s = 0")
    case True
    then have "trim_right s = s" by (metis trim_right.simps)
    then show ?thesis using 1(2) True by (auto simp: trimmed_def)
  next
    case False
    then have "trimmed (trim_right (take (length s - trailing_space s) s))"
      by (intro 1(1)) (use 1(2) leading_space_take in auto)
    with False show ?thesis by (metis trim_right.simps)
  qed
qed

lemma trimmed_TrimSpace: "trimmed (TrimSpace s)"
  unfolding TrimSpace_def by (rule trim_right_trimmed [OF trim_left_leading])

lemma TrimSpace_id: "trimmed s \<Longrightarrow> TrimSpace s = s"
  unfolding TrimSpace_def
  by (metis trimmed_def trim_left.simps trim_right.simps)

text \<open>A text of printable ASCII characters has no white space to trim.\<close>

lemma plain_not_space:
  assumes "r \<in> set space_runes" and "c \<in> set r"
  shows "(of_char c :: nat) \<le> 32 \<or> 128 \<le> (of_char c :: nat)"
proof -
  have "list_all (list_all (\<lambda>c. (of_char c :: nat) \<le> 32 \<or> 128 \<le> (of_char c :: nat))) space_runes" by code_simp
  with assms show ?thesis by (auto simp: list_all_iff)
qed

lemma trimmed_printable:
  assumes "\<And>c. c \<in> set s \<Longrightarrow> 32 < (of_char c :: nat) \<and> (of_char c :: nat) < 128"
  shows "trimmed s"
proof (cases "s = []")
  case False
  have sub: "r = [] \<or> r \<notin> set space_runes" if "set r \<subseteq> set s" for r
    using that assms plain_not_space [of r "hd r"] by (cases r) fastforce+
  have "leading_space s = 0"
    unfolding leading_space_0 using sub space_runes_nonempty by (metis set_take_subset)
  moreover have "trailing_space s = 0"
    using sub space_runes_nonempty
    by (auto simp: trailing_space_def find_Some_iff split: option.splits) (metis nth_mem set_drop_subset)
  ultimately show ?thesis by (simp add: trimmed_def)
qed (simp add: trimmed_def)

section \<open>html.EscapeString\<close>

definition escape_char :: "char \<Rightarrow> string" where
  "escape_char c =
     (if c = CHR ''&'' then ''&amp;''
      else if c = CHR 0x27 then ''&#39;''
      else if c = CHR ''<'' then ''&lt;''
      else if c = CHR ''>'' then ''&gt;''
      else if c = CHR 0x22 then ''&#34;''
      else [c])"

definition EscapeString :: "string \<Rightarrow> string" where
  "EscapeString s = concat (map escape_char s)"

lemma escape_char_safe: "set (escape_char c) \<inter> {CHR ''<'', CHR ''>'', CHR 0x22, CHR 0x27} = {}"
  by (auto simp: escape_char_def)

lemma EscapeString_safe: "c \<in> set (EscapeString s) \<Longrightarrow> c \<notin> {CHR ''<'', CHR ''>'', CHR 0x22, CHR 0x27}"
  using escape_char_safe by (fastforce simp: EscapeString_def)

lemma EscapeString_id: "set s \<inter> {CHR ''&'', CHR ''<'', CHR ''>'', CHR 0x22, CHR 0x27} = {} \<Longrightarrow> EscapeString s = s"
  by (induction s) (auto simp: EscapeString_def escape_char_def)

end
