(* ===== verification/Dto.thy ===== *)
theory Dto
  imports Go_Url Domain
begin

text \<open>
  internal/adapter/http/dto: the request structs with their tags, the custom validators and
  \<^verbatim>\<open>SanitizeStruct\<close>. The code handles these structs by reflection (JSON decoding by field tag,
  validation by binding tag, sanitizing by field kind), so a request struct is a list of fields,
  each with its JSON name, its binding tags and its value.

  Gin's JSON codec and github.com/go-playground/validator are not part of the repository. The
  codec turns the body into a JSON value (the argument \<open>json_codec\<close> of the handlers); the rules
  by which \<^verbatim>\<open>encoding/json\<close> stores a value in a struct are modelled here. The validator engine is
  the argument \<open>validator_pkg\<close>, with the documented meaning of the tags that the structs use as
  the locale \<open>validator_lib\<close>.
\<close>

section \<open>Request structs\<close>

datatype fval =
    FString string
  | FInt64 int64
  | FStringPtr "string option"
  | FInt64Ptr "int64 option"

record field =
  f_json :: string
  f_binding :: "string list"
  f_val :: fval

type_synonym gostruct = "field list"

definition fld :: "string \<Rightarrow> string list \<Rightarrow> fval \<Rightarrow> field" where
  "fld n b v = \<lparr>f_json = n, f_binding = b, f_val = v\<rparr>"

definition dto_RegisterRequest :: gostruct where
  "dto_RegisterRequest =
     [fld ''username'' [''required'', ''min=3'', ''max=50'', ''safe_id''] (FString []),
      fld ''password'' [''required'', ''min=8'', ''max=128''] (FString []),
      fld ''merchant_name'' [''required'', ''min=1'', ''max=100''] (FString []),
      fld ''webhook_url'' [''omitempty'', ''safe_url''] (FStringPtr None)]"

definition dto_LoginRequest :: gostruct where
  "dto_LoginRequest =
     [fld ''username'' [''required''] (FString []),
      fld ''password'' [''required''] (FString [])]"

definition dto_PaymentRequest :: gostruct where
  "dto_PaymentRequest =
     [fld ''reference_id'' [''required'', ''max=100'', ''safe_id''] (FString []),
      fld ''amount'' [''required'', ''gt=0''] (FInt64 0),
      fld ''currency'' [''required'', ''len=3'', ''alpha''] (FString []),
      fld ''extra_data'' [''omitempty'', ''max=1000''] (FStringPtr None)]"

definition dto_RefundRequest :: gostruct where
  "dto_RefundRequest =
     [fld ''original_reference_id'' [''required'', ''max=100'', ''safe_id''] (FString []),
      fld ''amount'' [''omitempty'', ''gt=0''] (FInt64Ptr None),
      fld ''reason'' [''required'', ''max=500''] (FString [])]"

definition dto_TopupRequest :: gostruct where
  "dto_TopupRequest =
     [fld ''amount'' [''required'', ''gt=0''] (FInt64 0),
      fld ''currency'' [''required'', ''len=3'', ''alpha''] (FString [])]"

definition dto_UpdateWebhookRequest :: gostruct where
  "dto_UpdateWebhookRequest = [fld ''webhook_url'' [''omitempty'', ''safe_url''] (FStringPtr None)]"

text \<open>Selecting a field of a struct value, by its JSON name.\<close>

definition get_field :: "string \<Rightarrow> gostruct \<Rightarrow> fval" where
  "get_field n st = (case find (\<lambda>f. f_json f = n) st of Some f \<Rightarrow> f_val f | None \<Rightarrow> FString [])"

definition get_string :: "string \<Rightarrow> gostruct \<Rightarrow> string" where
  "get_string n st = (case get_field n st of FString s \<Rightarrow> s | _ \<Rightarrow> [])"

definition get_int64 :: "string \<Rightarrow> gostruct \<Rightarrow> int64" where
  "get_int64 n st = (case get_field n st of FInt64 i \<Rightarrow> i | _ \<Rightarrow> 0)"

definition get_string_ptr :: "string \<Rightarrow> gostruct \<Rightarrow> string option" where
  "get_string_ptr n st = (case get_field n st of FStringPtr p \<Rightarrow> p | _ \<Rightarrow> None)"

definition get_int64_ptr :: "string \<Rightarrow> gostruct \<Rightarrow> int64 option" where
  "get_int64_ptr n st = (case get_field n st of FInt64Ptr p \<Rightarrow> p | _ \<Rightarrow> None)"

section \<open>JSON decoding into a struct\<close>

text \<open>A JSON value as the decoder sees it; a number keeps its literal.\<close>

datatype jvalue =
    V_null
  | V_bool bool
  | V_number string
  | V_string string
  | V_array "jvalue list"
  | V_object "(string \<times> jvalue) list"

fun json_kind :: "jvalue \<Rightarrow> string" where
  "json_kind V_null = ''null''"
| "json_kind (V_bool _) = ''bool''"
| "json_kind (V_number _) = ''number''"
| "json_kind (V_string _) = ''string''"
| "json_kind (V_array _) = ''array''"
| "json_kind (V_object _) = ''object''"

text \<open>
  Keys match field names exactly or else up to case. Folding also maps the two letters outside
  ASCII that fold to ASCII ones: the long s and the Kelvin sign.
\<close>

fun fold_name :: "string \<Rightarrow> string" where
  "fold_name [] = []"
| "fold_name (c # cs) =
     (if c = CHR 0xC5 \<and> take 1 cs = [CHR 0xBF] then CHR ''s'' # fold_name (drop 1 cs)
      else if c = CHR 0xE2 \<and> take 2 cs = [CHR 0x84, CHR 0xAA] then CHR ''k'' # fold_name (drop 2 cs)
      else to_lower c # fold_name cs)"

definition field_index :: "string \<Rightarrow> gostruct \<Rightarrow> nat option" where
  "field_index k st =
     (case find (\<lambda>i. f_json (st ! i) = k) [0..<length st] of
        Some i \<Rightarrow> Some i
      | None \<Rightarrow> find (\<lambda>i. fold_name (f_json (st ! i)) = fold_name k) [0..<length st])"

definition type_error :: "string \<Rightarrow> string \<Rightarrow> string \<Rightarrow> string \<Rightarrow> error" where
  "type_error v structName k ty =
     Plain (''json: cannot unmarshal '' @ v @ '' into Go struct field '' @ structName @ ''.'' @ k @ '' of type '' @ ty)"

text \<open>Storing a value in a field: null empties a pointer and leaves the other kinds alone.\<close>

definition store_string :: "string \<Rightarrow> string \<Rightarrow> jvalue \<Rightarrow> string result" where
  "store_string sn k v = (case v of V_string s \<Rightarrow> Inr s | _ \<Rightarrow> Inl (type_error (json_kind v) sn k ''string''))"

definition store_int64 :: "string \<Rightarrow> string \<Rightarrow> jvalue \<Rightarrow> int64 result" where
  "store_int64 sn k v =
     (case v of
        V_number lit \<Rightarrow>
          (case ParseIntE lit of Inr n \<Rightarrow> Inr n | Inl _ \<Rightarrow> Inl (type_error (''number '' @ lit) sn k ''int64''))
      | _ \<Rightarrow> Inl (type_error (json_kind v) sn k ''int64''))"

definition store_value :: "string \<Rightarrow> string \<Rightarrow> jvalue \<Rightarrow> fval \<Rightarrow> fval result" where
  "store_value sn k v old =
     (case old of
        FString _ \<Rightarrow> if v = V_null then Inr old else map_sum id FString (store_string sn k v)
      | FInt64 _ \<Rightarrow> if v = V_null then Inr old else map_sum id FInt64 (store_int64 sn k v)
      | FStringPtr _ \<Rightarrow> if v = V_null then Inr (FStringPtr None)
                       else map_sum id (\<lambda>s. FStringPtr (Some s)) (store_string sn k v)
      | FInt64Ptr _ \<Rightarrow> if v = V_null then Inr (FInt64Ptr None)
                      else map_sum id (\<lambda>n. FInt64Ptr (Some n)) (store_int64 sn k v))"

text \<open>
  The members in order, a later one overwriting an earlier one. A type error is remembered and
  decoding goes on; the first one is returned at the end. Unknown keys are ignored.
\<close>

fun decode_members :: "string \<Rightarrow> (string \<times> jvalue) list \<Rightarrow> gostruct \<Rightarrow> error option \<times> gostruct" where
  "decode_members sn [] st = (None, st)"
| "decode_members sn ((k, v) # ms) st =
     (case field_index k st of
        None \<Rightarrow> decode_members sn ms st
      | Some i \<Rightarrow>
          (case store_value sn (f_json (st ! i)) v (f_val (st ! i)) of
             Inr x \<Rightarrow> decode_members sn ms (st[i := (st ! i)\<lparr>f_val := x\<rparr>])
           | Inl err \<Rightarrow> (Some err, snd (decode_members sn ms st))))"

definition decode_struct :: "string \<Rightarrow> jvalue \<Rightarrow> gostruct \<Rightarrow> gostruct result" where
  "decode_struct sn v st =
     (case v of
        V_null \<Rightarrow> Inr st
      | V_object ms \<Rightarrow>
          (case decode_members sn ms st of (None, st') \<Rightarrow> Inr st' | (Some err, _) \<Rightarrow> Inl err)
      | _ \<Rightarrow> Inl (Plain (''json: cannot unmarshal '' @ json_kind v @ '' into Go value of type dto.'' @ sn)))"

section \<open>validators.go\<close>

text \<open>The regular expression is anchored at both ends of the text.\<close>

definition safe_char :: "char \<Rightarrow> bool" where
  "safe_char c \<longleftrightarrow> is_letter c \<or> is_digit c \<or> c \<in> set ''_-.''"

definition validateSafeID :: "string \<Rightarrow> bool" where
  "validateSafeID s \<longleftrightarrow> s \<noteq> [] \<and> list_all safe_char s"

definition validateSafeURL :: "(string \<Rightarrow> bool) \<Rightarrow> string \<Rightarrow> bool" where
  "validateSafeURL ip_literal raw =
     (if raw = [] then True
      else case ParseRequestURI ip_literal raw of
             Inl _ \<Rightarrow> False
           | Inr scheme \<Rightarrow> scheme = ''http'' \<or> scheme = ''https'')"

text \<open>What \<^verbatim>\<open>init\<close> registers with the engine.\<close>

definition custom_validators :: "(string \<Rightarrow> bool) \<Rightarrow> string \<rightharpoonup> (string \<Rightarrow> bool)" where
  "custom_validators ip_literal =
     [''safe_id'' \<mapsto> validateSafeID, ''safe_url'' \<mapsto> validateSafeURL ip_literal]"

subsection \<open>SanitizeStruct\<close>

definition sanitize :: "string \<Rightarrow> string" where
  "sanitize s = EscapeString (TrimSpace s)"

definition sanitize_val :: "fval \<Rightarrow> fval" where
  "sanitize_val v =
     (case v of
        FString s \<Rightarrow> FString (sanitize s)
      | FStringPtr (Some s) \<Rightarrow> FStringPtr (Some (sanitize s))
      | _ \<Rightarrow> v)"

definition SanitizeStruct :: "gostruct \<Rightarrow> gostruct" where
  "SanitizeStruct st = map (\<lambda>f. f\<lparr>f_val := sanitize_val (f_val f)\<rparr>) st"

section \<open>The validator engine\<close>

text \<open>
  \<open>vp_field reg tags v\<close> is the complaint about a field, if any; \<open>vp_errors\<close> joins the complaints
  about a struct into one error.
\<close>

record validator_pkg =
  vp_field :: "(string \<rightharpoonup> (string \<Rightarrow> bool)) \<Rightarrow> string list \<Rightarrow> fval \<Rightarrow> error option"
  vp_errors :: "error list \<Rightarrow> error"

definition validate_struct :: "validator_pkg \<Rightarrow> (string \<Rightarrow> bool) \<Rightarrow> gostruct \<Rightarrow> unit result" where
  "validate_struct V ip_literal st =
     (case List.map_filter (\<lambda>f. vp_field V (custom_validators ip_literal) (f_binding f) (f_val f)) st of
        [] \<Rightarrow> Inr ()
      | errs \<Rightarrow> Inl (vp_errors V errs))"

locale validator_lib =
  fixes V :: validator_pkg
  assumes field_ok: "vp_field V reg [] v = None"
    and field_required: "vp_field V reg (''required'' # ts) (FString s) = None \<longleftrightarrow>
      s \<noteq> [] \<and> vp_field V reg ts (FString s) = None"
    and field_required_int: "vp_field V reg (''required'' # ts) (FInt64 n) = None \<longleftrightarrow>
      n \<noteq> 0 \<and> vp_field V reg ts (FInt64 n) = None"
    and field_max: "k < 2 ^ 64 \<Longrightarrow> vp_field V reg ((''max='' @ format_nat k) # ts) (FString s) = None \<longleftrightarrow>
      rune_count s \<le> k \<and> vp_field V reg ts (FString s) = None"
    and field_min: "k < 2 ^ 64 \<Longrightarrow> vp_field V reg ((''min='' @ format_nat k) # ts) (FString s) = None \<longleftrightarrow>
      k \<le> rune_count s \<and> vp_field V reg ts (FString s) = None"
    and field_len: "k < 2 ^ 64 \<Longrightarrow> vp_field V reg ((''len='' @ format_nat k) # ts) (FString s) = None \<longleftrightarrow>
      rune_count s = k \<and> vp_field V reg ts (FString s) = None"
    and field_alpha: "vp_field V reg (''alpha'' # ts) (FString s) = None \<longleftrightarrow>
      (s \<noteq> [] \<and> list_all is_letter s) \<and> vp_field V reg ts (FString s) = None"
    and field_gt0: "vp_field V reg (''gt=0'' # ts) (FInt64 n) = None \<longleftrightarrow>
      0 < sint n \<and> vp_field V reg ts (FInt64 n) = None"
    and field_nil: "vp_field V reg (''omitempty'' # ts) (FStringPtr None) = None"
      "vp_field V reg (''omitempty'' # ts) (FInt64Ptr None) = None"
    and field_ptr: "vp_field V reg (''omitempty'' # ts) (FStringPtr (Some s)) = vp_field V reg ts (FString s)"
      "vp_field V reg (''omitempty'' # ts) (FInt64Ptr (Some n)) = vp_field V reg ts (FInt64 n)"
    and field_custom: "reg t = Some p \<Longrightarrow> t \<in> {''safe_id'', ''safe_url''} \<Longrightarrow>
      vp_field V reg (t # ts) (FString s) = None \<longleftrightarrow> p s \<and> vp_field V reg ts (FString s) = None"

section \<open>Lemmas on decoding\<close>

text \<open>Decoding keeps the names, tags and kinds of the fields.\<close>

fun kind_of :: "fval \<Rightarrow> nat" where
  "kind_of (FString _) = 0" | "kind_of (FInt64 _) = 1" | "kind_of (FStringPtr _) = 2" | "kind_of (FInt64Ptr _) = 3"

definition shape :: "gostruct \<Rightarrow> (string \<times> string list \<times> nat) list" where
  "shape st = map (\<lambda>f. (f_json f, f_binding f, kind_of (f_val f))) st"

lemma store_value_kind: "store_value sn k v old = Inr x \<Longrightarrow> kind_of x = kind_of old"
  by (cases old) (auto simp: store_value_def map_sum_def split: if_splits sum.splits)

lemma field_index_less: "field_index k st = Some i \<Longrightarrow> i < length st"
  by (auto simp: field_index_def find_Some_iff split: option.splits)

lemma shape_update: "i < length st \<Longrightarrow> kind_of x = kind_of (f_val (st ! i)) \<Longrightarrow>
    shape (st[i := (st ! i)\<lparr>f_val := x\<rparr>]) = shape st"
  by (simp add: shape_def map_update list_update_same_conv)

lemma shape_decode_members: "shape (snd (decode_members sn ms st)) = shape st"
  by (induction sn ms st rule: decode_members.induct)
    (auto simp: shape_update store_value_kind field_index_less split: option.splits sum.splits)

lemma shape_decode: "decode_struct sn v st = Inr st' \<Longrightarrow> shape st' = shape st"
  using shape_decode_members by (auto simp: decode_struct_def split: jvalue.splits prod.splits option.splits) (metis snd_conv)+

section \<open>Lemmas on validation and sanitizing\<close>

lemma safe_char_ascii: "safe_char c \<Longrightarrow> 32 < (of_char c :: nat) \<and> (of_char c :: nat) < 128 \<and>
    c \<notin> {CHR ''&'', CHR ''<'', CHR ''>'', CHR 0x22, CHR 0x27, CHR '':'', CHR ''|''}"
  by (auto simp: safe_char_def is_letter_def is_digit_def)

lemma validateSafeID_plain:
  assumes "validateSafeID s"
  shows "TrimSpace s = s" "EscapeString s = s" "CHR '':'' \<notin> set s" "rune_count s = length s"
proof -
  have safe: "safe_char c" if "c \<in> set s" for c using assms that by (simp add: validateSafeID_def list_all_iff)
  show "TrimSpace s = s" by (intro TrimSpace_id trimmed_printable) (use safe safe_char_ascii in blast)
  show "EscapeString s = s" by (intro EscapeString_id) (use safe safe_char_ascii in blast)
  show "CHR '':'' \<notin> set s" using safe safe_char_ascii by blast
  have "filter (\<lambda>c. \<not> (128 \<le> (of_char c :: nat) \<and> (of_char c :: nat) < 192)) s = s"
    by (rule filter_True) (use safe safe_char_ascii in fastforce)
  then show "rune_count s = length s" by (simp add: rune_count_def)
qed

lemma letters_safe: "s \<noteq> [] \<Longrightarrow> list_all is_letter s \<Longrightarrow> validateSafeID s"
  by (auto simp: validateSafeID_def list_all_iff safe_char_def)

lemma rune_count_letters: "list_all is_letter s \<Longrightarrow> rune_count s = length s"
  by (cases "s = []") (simp_all add: rune_count_def [of "[]"] validateSafeID_plain(4) [OF letters_safe])

lemma sanitize_safe: "validateSafeID s \<Longrightarrow> sanitize s = s"
  by (simp add: sanitize_def validateSafeID_plain)

lemma tag_values: "format_nat 3 = ''3''" "format_nat 50 = ''50''" "format_nat 8 = ''8''" "format_nat 128 = ''128''"
  "format_nat 1 = ''1''" "format_nat 100 = ''100''" "format_nat 1000 = ''1000''" "format_nat 500 = ''500''"
  by code_simp+

definition payment_struct :: "string \<Rightarrow> int64 \<Rightarrow> string \<Rightarrow> string option \<Rightarrow> gostruct" where
  "payment_struct r a c x =
     [fld ''reference_id'' [''required'', ''max=100'', ''safe_id''] (FString r),
      fld ''amount'' [''required'', ''gt=0''] (FInt64 a),
      fld ''currency'' [''required'', ''len=3'', ''alpha''] (FString c),
      fld ''extra_data'' [''omitempty'', ''max=1000''] (FStringPtr x)]"

definition refund_struct :: "string \<Rightarrow> int64 option \<Rightarrow> string \<Rightarrow> gostruct" where
  "refund_struct r a m =
     [fld ''original_reference_id'' [''required'', ''max=100'', ''safe_id''] (FString r),
      fld ''amount'' [''omitempty'', ''gt=0''] (FInt64Ptr a),
      fld ''reason'' [''required'', ''max=500''] (FString m)]"

lemma kind_cases: "kind_of v = 0 \<longleftrightarrow> (\<exists>s. v = FString s)" "kind_of v = Suc 0 \<longleftrightarrow> (\<exists>n. v = FInt64 n)"
  "kind_of v = 2 \<longleftrightarrow> (\<exists>p. v = FStringPtr p)" "kind_of v = 3 \<longleftrightarrow> (\<exists>p. v = FInt64Ptr p)"
  by (cases v; simp)+

lemma field_eq: "f_json f = n \<Longrightarrow> f_binding f = b \<Longrightarrow> f_val f = v \<Longrightarrow> f = fld n b v"
  by (simp add: fld_def)

lemma payment_decoded:
  assumes "decode_struct sn v dto_PaymentRequest = Inr st"
  obtains r a c x where "st = payment_struct r a c x"
  using shape_decode [OF assms] that
  by (auto simp: shape_def dto_PaymentRequest_def payment_struct_def fld_def map_eq_Cons_conv kind_cases)
    (metis field_eq fld_def)

lemma refund_decoded:
  assumes "decode_struct sn v dto_RefundRequest = Inr st"
  obtains r a m where "st = refund_struct r a m"
  using shape_decode [OF assms] that
  by (auto simp: shape_def dto_RefundRequest_def refund_struct_def fld_def map_eq_Cons_conv kind_cases)
    (metis field_eq fld_def)

lemma validate_struct_ok: "validate_struct V ip st = Inr () \<longleftrightarrow>
    (\<forall>f \<in> set st. vp_field V (custom_validators ip) (f_binding f) (f_val f) = None)"
proof -
  have "List.map_filter g xs = [] \<longleftrightarrow> (\<forall>x \<in> set xs. g x = None)" for g and xs :: gostruct
    by (induction xs) (auto simp: map_filter_simps split: option.splits)
  from this [of "\<lambda>f. vp_field V (custom_validators ip) (f_binding f) (f_val f)" st] show ?thesis
    by (cases "List.map_filter (\<lambda>f. vp_field V (custom_validators ip) (f_binding f) (f_val f)) st")
      (simp_all add: validate_struct_def)
qed

context validator_lib
begin

lemmas field_rules = field_ok field_required field_required_int field_alpha field_gt0 field_nil field_ptr
  field_max [of 100, simplified tag_values, simplified] field_max [of 1000, simplified tag_values, simplified]
  field_max [of 500, simplified tag_values, simplified] field_max [of 50, simplified tag_values, simplified]
  field_max [of 128, simplified tag_values, simplified] field_min [of 3, simplified tag_values, simplified]
  field_min [of 8, simplified tag_values, simplified] field_min [of 1, simplified tag_values, simplified]
  field_len [of 3, simplified tag_values, simplified] field_custom

text \<open>What a request that passes validation looks like.\<close>

lemma payment_valid:
  "validate_struct V ip (payment_struct r a c x) = Inr () \<longleftrightarrow>
     (validateSafeID r \<and> length r \<le> 100) \<and> 0 < sint a \<and> (length c = 3 \<and> list_all is_letter c) \<and>
     (case x of None \<Rightarrow> True | Some y \<Rightarrow> rune_count y \<le> 1000)"
  using validateSafeID_plain(4) [of r] rune_count_letters [of c]
  by (auto simp: validate_struct_ok payment_struct_def fld_def field_rules custom_validators_def validateSafeID_def
      split: option.splits)

lemma refund_valid:
  "validate_struct V ip (refund_struct r a m) = Inr () \<longleftrightarrow>
     (validateSafeID r \<and> length r \<le> 100) \<and> (case a of None \<Rightarrow> True | Some n \<Rightarrow> 0 < sint n) \<and>
     (m \<noteq> [] \<and> rune_count m \<le> 500)"
  using validateSafeID_plain(4) [of r]
  by (auto simp: validate_struct_ok refund_struct_def fld_def field_rules custom_validators_def validateSafeID_def
      split: option.splits)

end

text \<open>
  An engine that follows the documentation of the tags, to try the contract on.
\<close>

definition sample_check :: "(string \<rightharpoonup> (string \<Rightarrow> bool)) \<Rightarrow> string \<Rightarrow> string \<Rightarrow> bool" where
  "sample_check reg t s =
     (if t = ''required'' then s \<noteq> []
      else if t = ''alpha'' then s \<noteq> [] \<and> list_all is_letter s
      else if take 4 t \<in> {''max='', ''min='', ''len=''} then
        (case ParseUint (drop 4 t) of
           Inl _ \<Rightarrow> False
         | Inr k \<Rightarrow> (if take 4 t = ''max='' then rune_count s \<le> k
                    else if take 4 t = ''min='' then k \<le> rune_count s else rune_count s = k))
      else case reg t of Some p \<Rightarrow> p s | None \<Rightarrow> False)"

definition sample_check_int :: "string \<Rightarrow> int64 \<Rightarrow> bool" where
  "sample_check_int t n = (if t = ''required'' then n \<noteq> 0 else t = ''gt=0'' \<and> 0 < sint n)"

definition complain :: "bool \<Rightarrow> string \<Rightarrow> error option \<Rightarrow> error option" where
  "complain ok t next = (if ok then next else Some (Plain (''failed on the '' @ t @ '' tag'')))"

fun sample_field :: "(string \<rightharpoonup> (string \<Rightarrow> bool)) \<Rightarrow> string list \<Rightarrow> fval \<Rightarrow> error option" where
  "sample_field reg [] v = None"
| "sample_field reg (t # ts) (FString s) = complain (sample_check reg t s) t (sample_field reg ts (FString s))"
| "sample_field reg (t # ts) (FInt64 n) = complain (sample_check_int t n) t (sample_field reg ts (FInt64 n))"
| "sample_field reg (t # ts) (FStringPtr None) = complain (t = ''omitempty'') t None"
| "sample_field reg (t # ts) (FInt64Ptr None) = complain (t = ''omitempty'') t None"
| "sample_field reg (t # ts) (FStringPtr (Some s)) = complain (t = ''omitempty'') t (sample_field reg ts (FString s))"
| "sample_field reg (t # ts) (FInt64Ptr (Some n)) = complain (t = ''omitempty'') t (sample_field reg ts (FInt64 n))"

definition sample_validator :: validator_pkg where
  "sample_validator = \<lparr>vp_field = sample_field, vp_errors = hd\<rparr>"

lemma sample_check_rules:
  "sample_check reg ''required'' s \<longleftrightarrow> s \<noteq> []"
  "sample_check reg ''alpha'' s \<longleftrightarrow> s \<noteq> [] \<and> list_all is_letter s"
  "k < 2 ^ 64 \<Longrightarrow> sample_check reg (''max='' @ format_nat k) s \<longleftrightarrow> rune_count s \<le> k"
  "k < 2 ^ 64 \<Longrightarrow> sample_check reg (''min='' @ format_nat k) s \<longleftrightarrow> k \<le> rune_count s"
  "k < 2 ^ 64 \<Longrightarrow> sample_check reg (''len='' @ format_nat k) s \<longleftrightarrow> rune_count s = k"
  by (simp_all add: sample_check_def ParseUint_format_nat)

lemma sample_check_custom:
  "reg t = Some p \<Longrightarrow> t \<in> {''safe_id'', ''safe_url''} \<Longrightarrow> sample_check reg t s = p s"
  by (elim insertE emptyE) (simp_all add: sample_check_def)

lemma complain_None: "complain ok t next = None \<longleftrightarrow> ok \<and> next = None"
  by (simp add: complain_def)

interpretation sample_tags: validator_lib sample_validator
  by unfold_locales
    (simp_all add: sample_validator_def complain_None sample_check_rules [simplified] sample_check_custom
      complain_def [of True] sample_check_int_def)

end
