(* ===== verification/Webhook_Service.thy ===== *)
theory Webhook_Service
  imports Postgres Security_Services
begin

text \<open>
  internal/service/webhook_service.go: the signed notification of a merchant and its delivery with
  retries. \<open>EnqueueWebhook\<close> returns the job that the code hands to a goroutine;
  \<open>deliverWithRetries\<close> is that goroutine, a loop over at most six attempts that ends early at the
  first 2xx response. The HTTP client, the clock and the failures of the log table are the
  arguments in \<open>delivery_env\<close>, so that the theorems hold for every behaviour of the receiver.
\<close>

section \<open>Payload\<close>

definition EventPaymentUpdate :: string where "EventPaymentUpdate = ''PAYMENT_UPDATE''"
definition EventRefundUpdate :: string where "EventRefundUpdate = ''REFUND_UPDATE''"
definition EventTopupUpdate :: string where "EventTopupUpdate = ''TOPUP_UPDATE''"

record WebhookPayloadData =
  wd_MerchantOrderID :: string
  wd_GatewayTransactionID :: string
  wd_Status :: string
  wd_Amount :: int64
  wd_Currency :: string
  wd_Reason :: string
  wd_Timestamp :: int64

record WebhookPayload =
  wp_EventType :: string
  wp_Data :: WebhookPayloadData
  wp_Signature :: string

text \<open>
  A string literal of \<^verbatim>\<open>encoding/json\<close>, which also escapes the characters that are special in
  HTML and the two line separators of Unicode. The text is taken to be valid UTF-8, as every text
  that comes out of PostgreSQL is.
\<close>

definition hex4 :: "nat \<Rightarrow> string" where
  "hex4 n = ''00'' @ [hex_digit (n div 16), hex_digit (n mod 16)]"

fun json_escape :: "string \<Rightarrow> string" where
  "json_escape [] = []"
| "json_escape (c # cs) =
     (let n = of_char c :: nat;
          u = CHR 0x5C # ''u''
      in if c = CHR 0x22 \<or> c = CHR 0x5C then CHR 0x5C # c # json_escape cs
         else if n = 8 then CHR 0x5C # ''b'' @ json_escape cs
         else if n = 9 then CHR 0x5C # ''t'' @ json_escape cs
         else if n = 10 then CHR 0x5C # ''n'' @ json_escape cs
         else if n = 12 then CHR 0x5C # ''f'' @ json_escape cs
         else if n = 13 then CHR 0x5C # ''r'' @ json_escape cs
         else if n < 32 \<or> c \<in> set ''<>&'' then u @ hex4 n @ json_escape cs
         else if n = 226 \<and> take 2 cs = [CHR 0x80, CHR 0xA8] then u @ ''2028'' @ json_escape (drop 2 cs)
         else if n = 226 \<and> take 2 cs = [CHR 0x80, CHR 0xA9] then u @ ''2029'' @ json_escape (drop 2 cs)
         else c # json_escape cs)"

definition json_string :: "string \<Rightarrow> string" where
  "json_string s = CHR 0x22 # json_escape s @ [CHR 0x22]"

definition json_member :: "string \<Rightarrow> string \<Rightarrow> string" where
  "json_member k v = json_string k @ '':'' @ v"

text \<open>\<^verbatim>\<open>json.Marshal(data)\<close>, the text that is signed.\<close>

definition marshal_data :: "WebhookPayloadData \<Rightarrow> string" where
  "marshal_data x = ''{'' @
     json_member ''merchant_order_id'' (json_string (wd_MerchantOrderID x)) @ '','' @
     json_member ''gateway_transaction_id'' (json_string (wd_GatewayTransactionID x)) @ '','' @
     json_member ''status'' (json_string (wd_Status x)) @ '','' @
     json_member ''amount'' (FormatInt (wd_Amount x)) @ '','' @
     json_member ''currency'' (json_string (wd_Currency x)) @ '','' @
     json_member ''reason'' (json_string (wd_Reason x)) @ '','' @
     json_member ''timestamp'' (FormatInt (wd_Timestamp x)) @ ''}''"

text \<open>The value of \<^verbatim>\<open>json.Marshal(payload)\<close>, as the JSONB column stores it.\<close>

definition payload_json :: "WebhookPayload \<Rightarrow> json" where
  "payload_json p = JObj
     [(''event_type'', JStr (wp_EventType p)),
      (''data'', JObj
        [(''merchant_order_id'', JStr (wd_MerchantOrderID (wp_Data p))),
         (''gateway_transaction_id'', JStr (wd_GatewayTransactionID (wp_Data p))),
         (''status'', JStr (wd_Status (wp_Data p))),
         (''amount'', JNum (sint (wd_Amount (wp_Data p)))),
         (''currency'', JStr (wd_Currency (wp_Data p))),
         (''reason'', JStr (wd_Reason (wp_Data p))),
         (''timestamp'', JNum (sint (wd_Timestamp (wp_Data p))))]),
      (''signature'', JStr (wp_Signature p))]"

section \<open>EnqueueWebhook\<close>

record webhookService =
  ws_uuid :: uuid_pkg
  ws_encSvc :: EncryptionService
  ws_sigSvc :: SignatureService
  ws_persist :: bool

text \<open>
  \<open>ws_persist\<close> is false when the service was built without a webhook repository: the repository is
  a variadic argument of the constructor.
\<close>

definition NewWebhookService :: "uuid_pkg \<Rightarrow> EncryptionService \<Rightarrow> SignatureService \<Rightarrow> unit list \<Rightarrow> webhookService" where
  "NewWebhookService U encSvc sigSvc webhookRepo =
     \<lparr>ws_uuid = U, ws_encSvc = encSvc, ws_sigSvc = sigSvc, ws_persist = (length webhookRepo > 0)\<rparr>"

record webhook_job =
  wj_url :: string
  wj_payload :: WebhookPayload
  wj_txID :: uuid
  wj_merchantID :: uuid

definition event_type :: "TransactionType \<Rightarrow> string" where
  "event_type ty =
     (if ty = TransactionTypeRefund then EventRefundUpdate
      else if ty = TransactionTypeTopup then EventTopupUpdate else EventPaymentUpdate)"

text \<open>A failed wallet lookup is not an error: the currency then stays VND.\<close>

definition webhook_currency :: "env \<Rightarrow> uuid \<Rightarrow> db \<Rightarrow> string" where
  "webhook_currency e walletID d =
     (case WalletRepo_GetByID (ev_fault e S_Wallet_Get) walletID d of
        Inr (Some wallet) \<Rightarrow> w_Currency wallet | _ \<Rightarrow> ''VND'')"

definition EnqueueWebhook :: "webhookService \<Rightarrow> env \<Rightarrow> Transaction \<Rightarrow> db \<Rightarrow> webhook_job option result" where
  "EnqueueWebhook s e transaction d =
     bindE (MerchantRepo_GetByID (ev_fault e S_Merchant_Get) (tx_MerchantID transaction) d) (\<lambda>found.
     case Option.bind found m_WebhookURL of
       None \<Rightarrow> Inr None
     | Some url \<Rightarrow>
         if url = [] then Inr None
         else
           (let data = \<lparr>wd_MerchantOrderID = tx_ReferenceID transaction,
                        wd_GatewayTransactionID = uuid_String (ws_uuid s) (tx_ID transaction),
                        wd_Status = tx_Status transaction, wd_Amount = tx_Amount transaction,
                        wd_Currency = webhook_currency e (tx_WalletID transaction) d,
                        wd_Reason = ''Transaction '' @ tx_Status transaction,
                        wd_Timestamp = word_of_int (Unix (ev_now e))\<rparr>
            in bindE (Decrypt (ws_encSvc s) (m_SecretKeyEnc (the found))) (\<lambda>secretKey.
               Inr (Some \<lparr>wj_url = url,
                          wj_payload = \<lparr>wp_EventType = event_type (tx_TransactionType transaction), wp_Data = data,
                                        wp_Signature = Sign (ws_sigSvc s) secretKey (marshal_data data)\<rparr>,
                          wj_txID = tx_ID transaction, wj_merchantID = tx_MerchantID transaction\<rparr>))))"

section \<open>deliverWithRetries\<close>

definition webhookRetryIntervals :: "time list" where
  "webhookRetryIntervals = [15 * 1000000, 60 * 1000000, 2 * 60 * 1000000, 5 * 60 * 1000000, 10 * 60 * 1000000]"

text \<open>
  What the delivery meets, by the number of the attempt: the error of \<^verbatim>\<open>http.NewRequest\<close>, the
  outcome of the HTTP call (an error or a status), the clock readings, and the failures of the
  log table.
\<close>

record delivery_env =
  de_uuid :: uuid
  de_start :: time
  de_create_fault :: "error option"
  de_now :: "nat \<Rightarrow> time"
  de_newreq :: "nat \<Rightarrow> error option"
  de_do :: "nat \<Rightarrow> error + int"
  de_retry_now :: "nat \<Rightarrow> time"
  de_persist_fault :: "nat \<Rightarrow> error option"
  de_persist_now :: "nat \<Rightarrow> time"

text \<open>The state of a delivery: the in-memory log, the database, the attempts sent and the sleeps.\<close>

record delivery =
  dl_log :: WebhookDeliveryLog
  dl_db :: db
  dl_sent :: "nat list"
  dl_slept :: "time list"

text \<open>A failed update of the log table is only logged; the in-memory log is stamped either way.\<close>

definition persistLog :: "webhookService \<Rightarrow> delivery_env \<Rightarrow> nat \<Rightarrow> delivery \<Rightarrow> delivery" where
  "persistLog s de i st =
     (if \<not> ws_persist s then st
      else case webhookRepo_Update (de_persist_fault de i) (de_persist_now de i) (dl_log st) (dl_db st) of
             (Inl _, l) \<Rightarrow> st\<lparr>dl_log := l\<rparr>
           | (Inr d, l) \<Rightarrow> st\<lparr>dl_log := l, dl_db := d\<rparr>)"

definition retry_at :: "delivery_env \<Rightarrow> nat \<Rightarrow> WebhookDeliveryLog \<Rightarrow> WebhookDeliveryLog" where
  "retry_at de attempt l =
     (if attempt < length webhookRetryIntervals
      then l\<lparr>wl_NextRetryAt := Some (de_retry_now de attempt + webhookRetryIntervals ! attempt)\<rparr> else l)"

text \<open>The body of the loop; the flag tells whether the loop returns.\<close>

definition deliver_attempt :: "webhookService \<Rightarrow> delivery_env \<Rightarrow> nat \<Rightarrow> delivery \<Rightarrow> bool \<times> delivery" where
  "deliver_attempt s de attempt st0 =
     (let st1 = (if attempt > 0 then st0\<lparr>dl_slept := dl_slept st0 @ [webhookRetryIntervals ! (attempt - 1)]\<rparr> else st0);
          l1 = (dl_log st1)\<lparr>wl_Attempt := attempt + 1, wl_UpdatedAt := de_now de attempt\<rparr>
      in case de_newreq de attempt of
           Some err \<Rightarrow>
             (False, persistLog s de attempt (st1\<lparr>dl_log := l1\<lparr>wl_LastError := Some (Error_text err)\<rparr>\<rparr>))
         | None \<Rightarrow>
             (let st2 = st1\<lparr>dl_sent := dl_sent st1 @ [attempt + 1]\<rparr>
              in case de_do de attempt of
                   Inl err \<Rightarrow>
                     (False, persistLog s de attempt
                        (st2\<lparr>dl_log := retry_at de attempt (l1\<lparr>wl_LastError := Some (Error_text err)\<rparr>)\<rparr>))
                 | Inr status \<Rightarrow>
                     (let l2 = l1\<lparr>wl_HTTPStatus := Some status\<rparr>
                      in if 200 \<le> status \<and> status < 300
                         then (True, persistLog s de attempt
                                (st2\<lparr>dl_log := l2\<lparr>wl_Status := WebhookStatusDelivered, wl_LastError := None,
                                                 wl_NextRetryAt := None\<rparr>\<rparr>))
                         else (False, persistLog s de attempt
                                (st2\<lparr>dl_log := retry_at de attempt
                                   (l2\<lparr>wl_LastError := Some (''HTTP '' @ FormatInt (word_of_int status))\<rparr>)\<rparr>)))))"

function deliver_from :: "webhookService \<Rightarrow> delivery_env \<Rightarrow> nat \<Rightarrow> delivery \<Rightarrow> delivery" where
  "deliver_from s de attempt st =
     (if attempt \<le> length webhookRetryIntervals
      then (case deliver_attempt s de attempt st of
              (True, st') \<Rightarrow> st'
            | (False, st') \<Rightarrow> deliver_from s de (attempt + 1) st')
      else persistLog s de attempt
             (st\<lparr>dl_log := (dl_log st)\<lparr>wl_Status := WebhookStatusFailed, wl_NextRetryAt := None\<rparr>\<rparr>))"
  by pat_completeness auto
termination by (relation "measure (\<lambda>(s, de, attempt, st). Suc (length webhookRetryIntervals) - attempt)") auto

declare deliver_from.simps [simp del]

definition deliverWithRetries :: "webhookService \<Rightarrow> delivery_env \<Rightarrow> webhook_job \<Rightarrow> db \<Rightarrow> delivery" where
  "deliverWithRetries s de job d =
     (let deliveryLog = \<lparr>wl_ID = de_uuid de, wl_TransactionID = wj_txID job, wl_MerchantID = wj_merchantID job,
            wl_WebhookURL = wj_url job, wl_Payload = payload_json (wj_payload job), wl_HTTPStatus = None,
            wl_Attempt = 0, wl_Status = WebhookStatusPending, wl_NextRetryAt = None, wl_LastError = None,
            wl_CreatedAt = de_start de, wl_UpdatedAt = de_start de\<rparr>;
          d1 = (if ws_persist s
                then (case webhookRepo_Create (de_create_fault de) deliveryLog d of Inl _ \<Rightarrow> d | Inr d' \<Rightarrow> d')
                else d)
      in deliver_from s de 0 \<lparr>dl_log = deliveryLog, dl_db = d1, dl_sent = [], dl_slept = []\<rparr>)"

end
