(* ===== verification/Middleware.thy ===== *)
theory Middleware
  imports Logger_Pkg Dto Postgres Redis Security_Services Token_Service Payment_Service Account_Services Webhook_Service
begin

text \<open>
  internal/adapter/http/middleware and internal/service/audit_service.go. Gin runs the handlers
  of a route one after the other on a context; a middleware either aborts the chain with a
  response or lets it go on with a changed context. That is the sum type of \<open>mw_result\<close>: \<open>Inl\<close> a
  response, \<open>Inr\<close> the context for the next handler.

  The goroutines that handlers start (webhook deliveries, audit entries) are collected in the
  state of the server in the order in which they are started, and so are the lines that the
  request logger and the recovery middleware write.
\<close>

section \<open>Requests, contexts and the state of the server\<close>

text \<open>
  \<open>hr_Body\<close> are the bytes that can be read of the body and \<open>hr_BodyErr\<close> the error that follows
  them (\<open>None\<close> is the end of the body). \<open>hr_ClientIP\<close> is what Gin's \<^verbatim>\<open>c.ClientIP()\<close> returns.
\<close>

record request =
  hr_Method :: string
  hr_Path :: string
  hr_Header :: "string \<Rightarrow> string"
  hr_Query :: "string \<rightharpoonup> string"
  hr_ClientIP :: string
  hr_Body :: string
  hr_BodyErr :: "error option"

record gin_context =
  c_Request :: request
  c_Keys :: ctx_keys
  c_Headers :: "(string \<times> string) list"

text \<open>What the handlers put into the data field of a success response.\<close>

record TransactionResponse =
  tr_ID :: string
  tr_ReferenceID :: string
  tr_Amount :: int64
  tr_TransactionType :: string
  tr_Status :: string
  tr_CreatedAt :: string
  tr_ProcessedAt :: "string option"

record TransactionListResponse =
  tl_Items :: "TransactionResponse list"
  tl_Total :: int64
  tl_Page :: int64
  tl_PageSize :: int64
  tl_TotalPages :: int64

datatype payload =
    P_Register string string string
  | P_Login string int64
  | P_Transaction TransactionResponse
  | P_Balance int64 string
  | P_Stats TransactionStats
  | P_Transactions TransactionListResponse
  | P_Profile string string string "string option" string time
  | P_Keys string string
  | P_Message string
  | P_Health string "string \<rightharpoonup> string \<times> string"
  | P_Text string string
  | P_Panic string string

record http_response =
  hp_reply :: "payload reply"
  hp_headers :: "(string \<times> string) list"

record server =
  sv_world :: world
  sv_hooks :: "webhook_job list"
  sv_audit :: "AuditLog list"
  sv_log :: "log_line list"

abbreviation sv_db :: "server \<Rightarrow> db" where "sv_db sv \<equiv> wd_db (sv_world sv)"
abbreviation sv_redis :: "server \<Rightarrow> redis" where "sv_redis sv \<equiv> wd_redis (sv_world sv)"

definition set_redis :: "redis \<Rightarrow> server \<Rightarrow> server" where
  "set_redis r sv = sv\<lparr>sv_world := (sv_world sv)\<lparr>wd_redis := r\<rparr>\<rparr>"

definition set_db :: "db \<Rightarrow> server \<Rightarrow> server" where
  "set_db d sv = sv\<lparr>sv_world := (sv_world sv)\<lparr>wd_db := d\<rparr>\<rparr>"

text \<open>
  What the handling of one request observes: the clock and the failures met by the middleware,
  by the service call and by the webhook call, the UUID for the request id, the time in the
  response, the UUID and time of the audit entry, the error of a statement
  on the connection pool and of a ping to Redis, and the instants between which the request logger measures the latency.
\<close>

record http_env =
  hx_mw :: env
  hx_svc :: env
  hx_hook :: env
  hx_reqID :: uuid
  hx_reply_now :: time
  hx_auditID :: uuid
  hx_audit_now :: time
  hx_exec :: "string \<Rightarrow> error option"
  hx_redis_ping :: "error option"
  hx_start :: time
  hx_end :: time

text \<open>The port of a health checker (health.go of the ports) and its two implementations.\<close>

record HealthChecker =
  hc_Ping :: "http_env \<Rightarrow> error option"
  hc_Name :: string

definition pg_HealthCheck :: HealthChecker where
  "pg_HealthCheck = \<lparr>hc_Ping = (\<lambda>h. hx_exec h ''SELECT 1''), hc_Name = ''postgresql''\<rparr>"

definition redis_HealthCheck :: HealthChecker where
  "redis_HealthCheck = \<lparr>hc_Ping = hx_redis_ping, hc_Name = ''redis''\<rparr>"

text \<open>
  The dependencies of the router. A rate-limit store, webhook service, merchant service or
  audit service that is \<^verbatim>\<open>nil\<close> is \<open>False\<close> or \<open>None\<close>. \<open>dp_json\<close> is Gin's JSON codec on the readable
  bytes of the body and the error behind them. \<open>dp_swaggerSpec\<close> is the
  package variable of swagger.go, which only the start of the program sets.
\<close>

record RouterDeps =
  dp_uuid :: uuid_pkg
  dp_jwt :: jwt_pkg
  dp_validator :: validator_pkg
  dp_ip_literal :: "string \<Rightarrow> bool"
  dp_json :: "string \<Rightarrow> error option \<Rightarrow> jvalue result"
  dp_AuthSvc :: AuthServiceImpl
  dp_PaymentSvc :: PaymentServiceImpl
  dp_WebhookSvc :: "webhookService option"
  dp_EncSvc :: EncryptionService
  dp_SigSvc :: SignatureService
  dp_TokenSvc :: JWTTokenService
  dp_RateLimitStore :: bool
  dp_HealthCheckers :: "HealthChecker list"
  dp_MerchantSvc :: "merchantService option"
  dp_AuditSvc :: bool
  dp_Logger :: Logger
  dp_swaggerSpec :: "string option"

type_synonym mw_result = "(http_response + gin_context) \<times> server"

definition respond :: "gin_context \<Rightarrow> payload reply \<Rightarrow> http_response" where
  "respond c r = \<lparr>hp_reply = r, hp_headers = c_Headers c\<rparr>"

definition error_response :: "RouterDeps \<Rightarrow> http_env \<Rightarrow> gin_context \<Rightarrow> error \<Rightarrow> http_response" where
  "error_response dp h c err =
     respond c (response_Error (c_Keys c) (uuid_String (dp_uuid dp) (hx_reqID h)) (hx_reply_now h) err)"

definition ReadAll :: "request \<Rightarrow> string result" where
  "ReadAll rq = (case hr_BodyErr rq of Some err \<Rightarrow> Inl err | None \<Rightarrow> Inr (hr_Body rq))"

section \<open>sanitizer.go\<close>

text \<open>\<^verbatim>\<open>http.MaxBytesReader\<close>: the first \<open>maxBytes\<close> bytes can be read, then there is an error.\<close>

definition MaxBodySize :: "nat \<Rightarrow> request \<Rightarrow> request" where
  "MaxBodySize maxBytes rq =
     (if length (hr_Body rq) \<le> maxBytes then rq
      else rq\<lparr>hr_Body := take maxBytes (hr_Body rq), hr_BodyErr := Some (Plain ''http: request body too large'')\<rparr>)"

section \<open>middleware.go\<close>

definition HeaderAccessKey :: string where "HeaderAccessKey = ''X-Merchant-Access-Key''"
definition HeaderSignature :: string where "HeaderSignature = ''X-Signature''"
definition HeaderTimestamp :: string where "HeaderTimestamp = ''X-Timestamp''"
definition HeaderNonce :: string where "HeaderNonce = ''X-Nonce''"
definition CtxMerchantID :: string where "CtxMerchantID = ''merchant_id''"
definition CtxAccessKey :: string where "CtxAccessKey = ''access_key''"
definition CtxMerchantKey :: string where "CtxMerchantKey = ''merchant''"

text \<open>In seconds.\<close>

definition maxTimestampDrift :: int where "maxTimestampDrift = 60"
definition nonceTTL :: int where "nonceTTL = 120"

text \<open>
  \<^verbatim>\<open>math.Abs(float64(now-timestamp)) > 60\<close>: the difference is an \<^verbatim>\<open>int64\<close> and may wrap; the
  conversion to \<^verbatim>\<open>float64\<close> is exact near the bound and monotone, so the comparison is that of
  integers.
\<close>

definition timestamp_expired :: "time \<Rightarrow> int64 \<Rightarrow> bool" where
  "timestamp_expired t timestamp \<longleftrightarrow> maxTimestampDrift < \<bar>sint (word_of_int (Unix t) - timestamp)\<bar>"

text \<open>Step 3 of the pipeline: the signature over the request.\<close>

definition verify_signature ::
    "RouterDeps \<Rightarrow> http_env \<Rightarrow> gin_context \<Rightarrow> Merchant \<Rightarrow> int64 \<Rightarrow> server \<Rightarrow> mw_result" where
  "verify_signature dp h c merchant timestamp sv =
     (case Decrypt (dp_EncSvc dp) (m_SecretKeyEnc merchant) of
        Inl err \<Rightarrow> (Inl (error_response dp h c (InternalError err)), sv)
      | Inr secretKey \<Rightarrow>
          (case ReadAll (c_Request c) of
             Inl _ \<Rightarrow> (Inl (error_response dp h c (Validation ''cannot read request body'')), sv)
           | Inr body \<Rightarrow>
               (let rq = c_Request c;
                    canonical = BuildCanonicalString (hr_Method rq) (hr_Path rq) timestamp (hr_Header rq HeaderNonce) body
                in if \<not> Verify (dp_SigSvc dp) secretKey canonical (hr_Header rq HeaderSignature)
                   then (Inl (error_response dp h c ErrInvalidSignature), sv)
                   else (Inr (c\<lparr>c_Keys := (c_Keys c)(CtxMerchantID \<mapsto> CtxUUID (m_ID merchant),
                                CtxAccessKey \<mapsto> CtxString (m_AccessKey merchant), CtxMerchantKey \<mapsto> CtxOther)\<rparr>), sv))))"

text \<open>
  Step 2: the merchant and the nonce. A failing nonce store lets the request pass, and the nonce
  is stored before the signature is checked.
\<close>

definition check_merchant_nonce ::
    "RouterDeps \<Rightarrow> http_env \<Rightarrow> gin_context \<Rightarrow> int64 \<Rightarrow> server \<Rightarrow> mw_result" where
  "check_merchant_nonce dp h c timestamp sv =
     (let e = hx_mw h; rq = c_Request c
      in case MerchantRepo_GetByAccessKey (ev_fault e S_Merchant_Get) (hr_Header rq HeaderAccessKey) (sv_db sv) of
           Inl err \<Rightarrow> (Inl (error_response dp h c (InternalError err)), sv)
         | Inr None \<Rightarrow> (Inl (error_response dp h c ErrInvalidAccessKey), sv)
         | Inr (Some merchant) \<Rightarrow>
             if \<not> IsActive merchant then (Inl (error_response dp h c ErrMerchantSuspended), sv)
             else (case NonceStore_CheckAndSet (ev_fault e S_Nonce_CheckAndSet) (ev_now e)
                          (uuid_String (dp_uuid dp) (m_ID merchant)) (hr_Header rq HeaderNonce)
                          (seconds nonceTTL) (sv_redis sv) of
                     Inl _ \<Rightarrow> verify_signature dp h c merchant timestamp sv
                   | Inr (True, r) \<Rightarrow> verify_signature dp h c merchant timestamp (set_redis r sv)
                   | Inr (False, r) \<Rightarrow> (Inl (error_response dp h c ErrNonceUsed), set_redis r sv)))"

definition HMACAuth :: "RouterDeps \<Rightarrow> http_env \<Rightarrow> gin_context \<Rightarrow> server \<Rightarrow> mw_result" where
  "HMACAuth dp h c sv =
     (let rq = c_Request c
      in if hr_Header rq HeaderAccessKey = [] \<or> hr_Header rq HeaderSignature = [] \<or>
            hr_Header rq HeaderTimestamp = [] \<or> hr_Header rq HeaderNonce = []
         then (Inl (error_response dp h c ErrInvalidAccessKey), sv)
         else case ParseIntE (hr_Header rq HeaderTimestamp) of
                Inl _ \<Rightarrow> (Inl (error_response dp h c ErrTimestampExpired), sv)
              | Inr timestamp \<Rightarrow>
                  if timestamp_expired (ev_now (hx_mw h)) timestamp
                  then (Inl (error_response dp h c ErrTimestampExpired), sv)
                  else check_merchant_nonce dp h c timestamp sv)"

definition JWTAuth :: "RouterDeps \<Rightarrow> http_env \<Rightarrow> gin_context \<Rightarrow> server \<Rightarrow> mw_result" where
  "JWTAuth dp h c sv =
     (let authHeader = hr_Header (c_Request c) ''Authorization''
      in if authHeader = [] \<or> length authHeader < 8 \<or> take 7 authHeader \<noteq> ''Bearer ''
         then (Inl (error_response dp h c ErrInvalidToken), sv)
         else case Token_Validate (dp_jwt dp) (dp_uuid dp) (dp_TokenSvc dp) (ev_now (hx_mw h)) (drop 7 authHeader) of
                Inl _ \<Rightarrow> (Inl (error_response dp h c ErrInvalidToken), sv)
              | Inr claims \<Rightarrow>
                  (Inr (c\<lparr>c_Keys := (c_Keys c)(CtxMerchantID \<mapsto> CtxUUID (tc_MerchantID claims),
                          CtxAccessKey \<mapsto> CtxString (tc_AccessKey claims))\<rparr>), sv))"

text \<open>
  The outcome of a chain of handlers: a response, or a panic with its value. \<open>RequestLogger_after\<close> is
  what follows \<^verbatim>\<open>c.Next()\<close> in the request logger. A panic unwinds the middleware, so neither this
  nor the audit middleware goes on; the deferred function of \<open>Recovery\<close>, the outermost middleware,
  logs the panic and answers, without the envelope of the other responses.
\<close>

datatype handled = Responded http_response | Panicked string

definition request_level :: "int \<Rightarrow> Level" where
  "request_level status = (if 500 \<le> status then ErrorLevel else if 400 \<le> status then WarnLevel else InfoLevel)"

definition RequestLogger_after :: "RouterDeps \<Rightarrow> http_env \<Rightarrow> gin_context \<Rightarrow> http_response \<Rightarrow> server \<Rightarrow> server" where
  "RequestLogger_after dp h c resp sv =
     (let rq = c_Request c; status = rp_status (hp_reply resp)
      in sv\<lparr>sv_log := write_line (dp_Logger dp) (HttpRequest (request_level status) (hr_Method rq) (hr_Path rq) status
               (hx_end h - hx_start h) (hr_ClientIP rq)) (sv_log sv)\<rparr>)"

definition Recovery :: "RouterDeps \<Rightarrow> string \<Rightarrow> gin_context \<Rightarrow> server \<Rightarrow> http_response \<times> server" where
  "Recovery dp v c sv =
     (respond c \<lparr>rp_status = 500, rp_body = Bare (P_Panic ''SYS_001'' ''Internal server error'')\<rparr>,
      sv\<lparr>sv_log := write_line (dp_Logger dp) (PanicRecovered v (hr_Path (c_Request c))) (sv_log sv)\<rparr>)"

section \<open>ratelimit.go\<close>

record RateLimitRule =
  rr_Limit :: int
  rr_Window :: int

text \<open>Windows in seconds.\<close>

definition DefaultRateLimitRules :: "string \<rightharpoonup> RateLimitRule" where
  "DefaultRateLimitRules =
     [''payments'' \<mapsto> \<lparr>rr_Limit = 100, rr_Window = 60\<rparr>,
      ''payments_refund'' \<mapsto> \<lparr>rr_Limit = 30, rr_Window = 60\<rparr>,
      ''auth_login'' \<mapsto> \<lparr>rr_Limit = 10, rr_Window = 60\<rparr>,
      ''auth_register'' \<mapsto> \<lparr>rr_Limit = 5, rr_Window = 3600\<rparr>,
      ''dashboard'' \<mapsto> \<lparr>rr_Limit = 60, rr_Window = 60\<rparr>,
      ''wallets_topup'' \<mapsto> \<lparr>rr_Limit = 20, rr_Window = 60\<rparr>]"

definition extractIdentifier :: "RouterDeps \<Rightarrow> gin_context \<Rightarrow> string" where
  "extractIdentifier dp c =
     (let ak = hr_Header (c_Request c) HeaderAccessKey
      in if ak \<noteq> [] then ak
         else case c_Keys c CtxMerchantID of
                Some (CtxUUID m) \<Rightarrow> uuid_String (dp_uuid dp) m
              | Some (CtxString s) \<Rightarrow> s
              | _ \<Rightarrow> hr_ClientIP (c_Request c))"

definition RateLimiter ::
    "RouterDeps \<Rightarrow> string \<Rightarrow> RateLimitRule \<Rightarrow> http_env \<Rightarrow> gin_context \<Rightarrow> server \<Rightarrow> mw_result" where
  "RateLimiter dp grp rule h c sv =
     (let e = hx_mw h; key = extractIdentifier dp c @ '':'' @ grp
      in case RateLimitStore_Allow (ev_fault e S_RateLimit_Incr) (ev_fault e S_RateLimit_Expire) (ev_now e)
                key (rr_Limit rule) (rr_Window rule) (sv_redis sv) of
           Inl _ \<Rightarrow> (Inr c, sv)
         | Inr (result, r) \<Rightarrow>
             (let c1 = c\<lparr>c_Headers := c_Headers c @
                       [(''X-RateLimit-Limit'', FormatInt (word_of_int (rl_Limit result))),
                        (''X-RateLimit-Remaining'', FormatInt (word_of_int (rl_Remaining result))),
                        (''X-RateLimit-Reset'', FormatInt (word_of_int (rl_ResetAt result)))]\<rparr>
              in if \<not> rl_Allowed result
                 then (let retryAfter = rl_ResetAt result - Unix (ev_now e);
                           c2 = c1\<lparr>c_Headers := c_Headers c1 @ [(''Retry-After'',
                                  FormatInt (word_of_int (if retryAfter < 1 then 1 else retryAfter)))]\<rparr>
                       in (Inl (error_response dp h c2 ErrRateLimitExceeded), set_redis r sv))
                 else (Inr c1, set_redis r sv)))"

text \<open>The helper \<^verbatim>\<open>rl\<close> of the router: no store or no rule, no limit.\<close>

definition rl :: "RouterDeps \<Rightarrow> string \<Rightarrow> http_env \<Rightarrow> gin_context \<Rightarrow> server \<Rightarrow> mw_result" where
  "rl dp grp h c sv =
     (if \<not> dp_RateLimitStore dp then (Inr c, sv)
      else case DefaultRateLimitRules grp of
             None \<Rightarrow> (Inr c, sv)
           | Some rule \<Rightarrow> RateLimiter dp grp rule h c sv)"

section \<open>audit.go and audit_service.go\<close>

text \<open>The empty action stands for "no entry".\<close>

definition mapPathToAction :: "string \<Rightarrow> string \<Rightarrow> AuditAction \<times> string" where
  "mapPathToAction path method =
     (if path = ''/api/v1/auth/register'' \<and> method = ''POST'' then (AuditActionRegister, ''merchant'')
      else if path = ''/api/v1/auth/login'' \<and> method = ''POST'' then (AuditActionLogin, ''session'')
      else if path = ''/api/v1/payments'' \<and> method = ''POST'' then (AuditActionPayment, ''transaction'')
      else if path = ''/api/v1/payments/refund'' \<and> method = ''POST'' then (AuditActionRefund, ''transaction'')
      else if path = ''/api/v1/wallets/topup'' \<and> method = ''POST'' then (AuditActionTopup, ''wallet'')
      else if path = ''/api/v1/merchants/me/webhook'' \<and> method = ''PUT'' then (AuditActionUpdateWebhook, ''merchant'')
      else if path = ''/api/v1/merchants/me/rotate-keys'' \<and> method = ''POST'' then (AuditActionRotateKeys, ''merchant'')
      else ([], []))"

definition audit_entry :: "http_env \<Rightarrow> gin_context \<Rightarrow> int \<Rightarrow> AuditLog option" where
  "audit_entry h c status =
     (let rq = c_Request c; (action, resourceType) = mapPathToAction (hr_Path rq) (hr_Method rq)
      in if status < 200 \<or> 300 \<le> status then None
         else if hr_Method rq \<in> {''GET'', ''HEAD'', ''OPTIONS''} then None
         else if action = [] then None
         else Some \<lparr>al_ID = hx_auditID h,
                    al_MerchantID = (case c_Keys c CtxMerchantID of Some (CtxUUID m) \<Rightarrow> Some m | _ \<Rightarrow> None),
                    al_Action = action, al_ResourceType = resourceType, al_ResourceID = [],
                    al_Details = (hr_Method rq, hr_Path rq, status), al_IPAddress = hr_ClientIP rq,
                    al_CreatedAt = hx_audit_now h\<rparr>)"

text \<open>The part of the middleware behind \<^verbatim>\<open>c.Next()\<close>, on the last context of the chain.\<close>

definition AuditLog_after :: "RouterDeps \<Rightarrow> http_env \<Rightarrow> gin_context \<Rightarrow> http_response \<Rightarrow> server \<Rightarrow> server" where
  "AuditLog_after dp h c resp sv =
     (if \<not> dp_AuditSvc dp then sv
      else case audit_entry h c (rp_status (hp_reply resp)) of
             None \<Rightarrow> sv | Some entry \<Rightarrow> sv\<lparr>sv_audit := sv_audit sv @ [entry]\<rparr>)"

text \<open>The goroutine of \<^verbatim>\<open>auditService.Log\<close>: a failure is only logged.\<close>

definition auditService_Log :: "bool \<Rightarrow> error option \<Rightarrow> AuditLog \<Rightarrow> db \<Rightarrow> db" where
  "auditService_Log has_repo f entry d =
     (if \<not> has_repo then d else case auditRepo_Create f entry d of Inl _ \<Rightarrow> d | Inr d' \<Rightarrow> d')"

end
