(* ===== verification/Reporting_Service.thy ===== *)
theory Reporting_Service
  imports Payment_Correct
begin

text \<open>
  internal/service/reporting_service.go: dashboard statistics over a period, paginated
  transaction lists and the wallet balance. \<^verbatim>\<open>time.Now().AddDate\<close> works on the calendar date;
  the location of the clock is taken to be UTC.
\<close>

section \<open>Calendar arithmetic of package time\<close>

text \<open>
  Days since 1 January 1970 and the proleptic Gregorian calendar, with years that start in
  March inside a 400-year era of 146097 days.
\<close>

definition days_from_civil :: "int \<Rightarrow> int \<Rightarrow> int \<Rightarrow> int" where
  "days_from_civil y0 m d =
     (let y = (if m \<le> 2 then y0 - 1 else y0);
          era = y div 400; yoe = y mod 400;
          doy = (153 * (if m > 2 then m - 3 else m + 9) + 2) div 5 + d - 1;
          doe = yoe * 365 + yoe div 4 - yoe div 100 + doy
      in era * 146097 + doe - 719468)"

definition civil_from_days :: "int \<Rightarrow> int \<times> int \<times> int" where
  "civil_from_days z0 =
     (let z = z0 + 719468; era = z div 146097; doe = z mod 146097;
          yoe = (doe - doe div 1460 + doe div 36524 - doe div 146096) div 365;
          doy = doe - (365 * yoe + yoe div 4 - yoe div 100);
          mp = (5 * doy + 2) div 153;
          d = doy - (153 * mp + 2) div 5 + 1;
          m = (if mp < 10 then mp + 3 else mp - 9)
      in (yoe + era * 400 + (if m \<le> 2 then 1 else 0), m, d))"

definition day_usec :: int where
  "day_usec = 86400 * 1000000"

text \<open>
  \<^verbatim>\<open>t.AddDate(years, months, days)\<close>: the fields are added and normalised, the time of day is kept.
\<close>

definition AddDate :: "time \<Rightarrow> int \<Rightarrow> int \<Rightarrow> int \<Rightarrow> time" where
  "AddDate t years months days =
     (let (y, m, d) = civil_from_days (t div day_usec);
          mm = m - 1 + months;
          y' = y + years + mm div 12;
          m' = mm mod 12 + 1
      in (days_from_civil y' m' 1 + (d - 1) + days) * day_usec + t mod day_usec)"

section \<open>The service\<close>

definition period_start :: "time \<Rightarrow> string \<Rightarrow> int64 option result" where
  "period_start now period =
     (if period = ''day'' then Inr (Some (word_of_int (Unix (AddDate now 0 0 (- 1)))))
      else if period = ''week'' then Inr (Some (word_of_int (Unix (AddDate now 0 0 (- 7)))))
      else if period = ''month'' then Inr (Some (word_of_int (Unix (AddDate now 0 (- 1) 0))))
      else if period = ''all'' \<or> period = [] then Inr None
      else Inl (Validation ''invalid period: must be day, week, month, or all''))"

definition GetDashboardStats :: "env \<Rightarrow> uuid \<Rightarrow> string \<Rightarrow> db \<Rightarrow> TransactionStats result" where
  "GetDashboardStats e merchantID period d =
     bindE (period_start (ev_now e) period) (\<lambda>periodStart.
     wrapE InternalError (TransactionRepo_GetStats (ev_fault e S_Tx_GetStats) merchantID periodStart d))"

definition ListTransactions :: "env \<Rightarrow> TransactionListParams \<Rightarrow> db \<Rightarrow> (Transaction list \<times> int64) result" where
  "ListTransactions e params d =
     wrapE InternalError (TransactionRepo_List (ev_fault e S_Tx_List_Count) (ev_fault e S_Tx_List_Query) params d)"

definition GetWalletBalance :: "EncryptionService \<Rightarrow> env \<Rightarrow> uuid \<Rightarrow> db \<Rightarrow> (int64 \<times> string) result" where
  "GetWalletBalance encSvc e merchantID d =
     bindE (wrapE InternalError (WalletRepo_GetByMerchantID (ev_fault e S_Wallet_Get) merchantID ''VND'' d)) (\<lambda>found.
     bindE (needE (ErrNotFound ''wallet'') found) (\<lambda>wallet.
     bindE (wrapE InternalError (Decrypt encSvc (w_EncryptedBalance wallet))) (\<lambda>balanceStr.
     bindE (wrapE InternalError (Sscanf_d balanceStr)) (\<lambda>balance.
     Inr (balance, w_Currency wallet)))))"

section \<open>Lemmas\<close>

subsection \<open>Pages\<close>

definition listing :: "TransactionListParams \<Rightarrow> db \<Rightarrow> Transaction list" where
  "listing p d = sort_key (\<lambda>t. - tx_CreatedAt t) (filter (list_where p) (transactions d))"

lemma page_offset:
  fixes page size :: int64
  assumes "1 \<le> sint page" "1 \<le> sint size" "sint page * sint size < 2 ^ 63"
  shows "sint ((page - 1) * size) = (sint page - 1) * sint size"
proof -
  have le: "(sint page - 1) * sint size \<le> sint page * sint size" using assms by (simp add: mult_right_mono)
  have ge: "0 \<le> (sint page - 1) * sint size" using assms by simp
  have "(page - 1) * size = word_of_int ((sint page - 1) * sint size)"
    by (simp add: wi_hom_syms)
  then show ?thesis using sint64_word_of_int [of "(sint page - 1) * sint size"] le ge assms(3) by simp
qed

lemma TransactionRepo_List_page:
  assumes "1 \<le> sint (lp_Page p)" "1 \<le> sint (lp_PageSize p)" "sint (lp_Page p) * sint (lp_PageSize p) < 2 ^ 63"
  shows "TransactionRepo_List None None p d =
    Inr (take (nat (sint (lp_PageSize p))) (drop ((nat (sint (lp_Page p)) - 1) * nat (sint (lp_PageSize p))) (listing p d)),
         of_nat (length (listing p d)))"
proof -
  have "nat ((sint (lp_Page p) - 1) * sint (lp_PageSize p)) = (nat (sint (lp_Page p)) - 1) * nat (sint (lp_PageSize p))"
    using assms by (simp add: nat_mult_distrib nat_diff_distrib)
  moreover have "0 \<le> (sint (lp_Page p) - 1) * sint (lp_PageSize p)" using assms by simp
  ultimately show ?thesis
    using assms by (simp add: TransactionRepo_List_def page_of_def page_offset listing_def Let_def not_less)
qed

text \<open>Consecutive pages are consecutive segments of the whole list.\<close>

lemma concat_pages: "concat (map (\<lambda>i. take n (drop (i * n) xs)) [0..<k]) = take (k * n) xs"
proof (induction k)
  case (Suc k)
  have "take (Suc k * n) xs = take (k * n) xs @ take n (drop (k * n) xs)"
    by (metis add.commute mult_Suc take_add)
  with Suc show ?case by simp
qed simp

end
