(* ===== verification/Handlers.thy ===== *)
theory Handlers
  imports Middleware Reporting_Service
begin

text \<open>
  internal/adapter/http/handler: the handlers of the routes and the router. A handler takes the
  context and the state of the server and gives a response and the new state. \<open>SetupRouter\<close> runs
  the chain of a route in the order of the code: body limit, authentication of the route group,
  rate limit, handler, and once the response is known the audit entry and the log line of the
  request.

  A handler can panic: it asserts that the merchant id in the context is a UUID. The code that it
  calls has no panics of its own, and packages outside the repository are taken not to panic. A
  request that matches no route is \<open>None\<close>: Gin answers it itself.
\<close>

type_synonym handler = "RouterDeps \<Rightarrow> http_env \<Rightarrow> gin_context \<Rightarrow> server \<Rightarrow> handled \<times> server"

section \<open>Shared parts\<close>

definition ok_response :: "RouterDeps \<Rightarrow> http_env \<Rightarrow> gin_context \<Rightarrow> payload \<Rightarrow> handled" where
  "ok_response dp h c d =
     Responded (respond c (response_OK (c_Keys c) (uuid_String (dp_uuid dp) (hx_reqID h)) (hx_reply_now h) d))"

definition created_response :: "RouterDeps \<Rightarrow> http_env \<Rightarrow> gin_context \<Rightarrow> payload \<Rightarrow> handled" where
  "created_response dp h c d =
     Responded (respond c (response_Created (c_Keys c) (uuid_String (dp_uuid dp) (hx_reqID h)) (hx_reply_now h) d))"

definition fail_response :: "RouterDeps \<Rightarrow> http_env \<Rightarrow> gin_context \<Rightarrow> error \<Rightarrow> handled" where
  "fail_response dp h c err = Responded (error_response dp h c err)"

text \<open>Gin's \<^verbatim>\<open>ShouldBindJSON\<close>: decode the body, then validate the struct.\<close>

definition ShouldBindJSON :: "RouterDeps \<Rightarrow> gin_context \<Rightarrow> string \<Rightarrow> gostruct \<Rightarrow> gostruct result" where
  "ShouldBindJSON dp c structName zero =
     bindE (dp_json dp (hr_Body (c_Request c)) (hr_BodyErr (c_Request c))) (\<lambda>v.
     bindE (decode_struct structName v zero) (\<lambda>st.
     bindE (validate_struct (dp_validator dp) (dp_ip_literal dp) st) (\<lambda>_. Inr st)))"

text \<open>Every handler that takes a body binds it, answers a failure with PAY_002 and sanitizes.\<close>

definition bind_request :: "RouterDeps \<Rightarrow> gin_context \<Rightarrow> string \<Rightarrow> gostruct \<Rightarrow> gostruct result" where
  "bind_request dp c structName zero =
     (case ShouldBindJSON dp c structName zero of
        Inl err \<Rightarrow> Inl (Validation (Error_text err)) | Inr st \<Rightarrow> Inr (SanitizeStruct st))"

text \<open>
  \<^verbatim>\<open>c.Get(CtxMerchantID)\<close>, and the type assertion \<^verbatim>\<open>merchantID.(uuid.UUID)\<close> in front of what runs with the id.
\<close>

definition ctx_merchant :: "gin_context \<Rightarrow> ctx_val result" where
  "ctx_merchant c = needE ErrInvalidToken (c_Keys c CtxMerchantID)"

definition assert_uuid :: "ctx_val \<Rightarrow> server \<Rightarrow> (uuid \<Rightarrow> handled \<times> server) \<Rightarrow> handled \<times> server" where
  "assert_uuid v sv k =
     (case v of CtxUUID m \<Rightarrow> k m | _ \<Rightarrow> (Panicked ''interface conversion: interface {} is not uuid.UUID'', sv))"

definition EnqueueWebhook_ignored :: "RouterDeps \<Rightarrow> http_env \<Rightarrow> Transaction \<Rightarrow> server \<Rightarrow> server" where
  "EnqueueWebhook_ignored dp h txn sv =
     (case dp_WebhookSvc dp of
        None \<Rightarrow> sv
      | Some ws \<Rightarrow>
          (case EnqueueWebhook ws (hx_hook h) txn (sv_db sv) of
             Inr (Some job) \<Rightarrow> sv\<lparr>sv_hooks := sv_hooks sv @ [job]\<rparr>
           | _ \<Rightarrow> sv))"

text \<open>\<^verbatim>\<open>Format("2006-01-02T15:04:05Z07:00")\<close> of an instant in UTC: seconds, no fraction.\<close>

definition pad :: "nat \<Rightarrow> string \<Rightarrow> string" where
  "pad n s = replicate (n - length s) CHR ''0'' @ s"

definition Format_RFC3339 :: "time \<Rightarrow> string" where
  "Format_RFC3339 t =
     (let (y, m, d) = civil_from_days (t div day_usec); sec = (t mod day_usec) div 1000000
      in pad 4 (format_nat (nat y)) @ ''-'' @ pad 2 (format_nat (nat m)) @ ''-'' @ pad 2 (format_nat (nat d)) @ ''T'' @
         pad 2 (format_nat (nat (sec div 3600))) @ '':'' @ pad 2 (format_nat (nat (sec div 60 mod 60))) @ '':'' @
         pad 2 (format_nat (nat (sec mod 60))) @ ''Z'')"

definition toTransactionResponse :: "uuid_pkg \<Rightarrow> Transaction \<Rightarrow> TransactionResponse" where
  "toTransactionResponse U tx =
     \<lparr>tr_ID = uuid_String U (tx_ID tx), tr_ReferenceID = tx_ReferenceID tx, tr_Amount = tx_Amount tx,
      tr_TransactionType = tx_TransactionType tx, tr_Status = tx_Status tx,
      tr_CreatedAt = Format_RFC3339 (tx_CreatedAt tx),
      tr_ProcessedAt = map_option Format_RFC3339 (tx_ProcessedAt tx)\<rparr>"

text \<open>The end of the three handlers that move money.\<close>

definition finish_transaction ::
    "RouterDeps \<Rightarrow> http_env \<Rightarrow> gin_context \<Rightarrow> server \<Rightarrow> Transaction result \<times> world \<Rightarrow> handled \<times> server" where
  "finish_transaction dp h c sv r =
     (case r of
        (Inl err, w) \<Rightarrow> (fail_response dp h c err, sv\<lparr>sv_world := w\<rparr>)
      | (Inr txn, w) \<Rightarrow>
          (created_response dp h c (P_Transaction (toTransactionResponse (dp_uuid dp) txn)),
           EnqueueWebhook_ignored dp h txn (sv\<lparr>sv_world := w\<rparr>)))"

section \<open>payment_handler.go and wallet_handler.go\<close>

definition payment_request :: "gin_context \<Rightarrow> uuid \<Rightarrow> gostruct \<Rightarrow> PaymentRequest" where
  "payment_request c merchantID req =
     \<lparr>pq_MerchantID = merchantID, pq_ReferenceID = get_string ''reference_id'' req, pq_Amount = get_int64 ''amount'' req,
      pq_Currency = get_string ''currency'' req, pq_Signature = [], pq_ClientIP = hr_ClientIP (c_Request c),
      pq_ExtraData = get_string_ptr ''extra_data'' req\<rparr>"

definition PaymentHandler_ProcessPayment :: handler where
  "PaymentHandler_ProcessPayment dp h c sv =
     (case bindE (ctx_merchant c) (\<lambda>v. bindE (bind_request dp c ''PaymentRequest'' dto_PaymentRequest) (\<lambda>req. Inr (v, req))) of
        Inl err \<Rightarrow> (fail_response dp h c err, sv)
      | Inr (v, req) \<Rightarrow> assert_uuid v sv (\<lambda>merchantID.
          finish_transaction dp h c sv (ProcessPayment (dp_PaymentSvc dp) (hx_svc h) (payment_request c merchantID req) (sv_world sv))))"

definition refund_request :: "gin_context \<Rightarrow> uuid \<Rightarrow> gostruct \<Rightarrow> RefundRequest" where
  "refund_request c merchantID req =
     \<lparr>rq_MerchantID = merchantID, rq_OriginalReferenceID = get_string ''original_reference_id'' req,
      rq_Amount = get_int64_ptr ''amount'' req, rq_Reason = get_string ''reason'' req, rq_Signature = [],
      rq_ClientIP = hr_ClientIP (c_Request c)\<rparr>"

definition PaymentHandler_ProcessRefund :: handler where
  "PaymentHandler_ProcessRefund dp h c sv =
     (case bindE (ctx_merchant c) (\<lambda>v. bindE (bind_request dp c ''RefundRequest'' dto_RefundRequest) (\<lambda>req. Inr (v, req))) of
        Inl err \<Rightarrow> (fail_response dp h c err, sv)
      | Inr (v, req) \<Rightarrow> assert_uuid v sv (\<lambda>merchantID.
          finish_transaction dp h c sv (ProcessRefund (dp_PaymentSvc dp) (hx_svc h) (refund_request c merchantID req) (sv_world sv))))"

definition topup_request :: "uuid \<Rightarrow> gostruct \<Rightarrow> TopupRequest" where
  "topup_request merchantID req =
     \<lparr>tq_MerchantID = merchantID, tq_Amount = get_int64 ''amount'' req, tq_Currency = get_string ''currency'' req\<rparr>"

definition WalletHandler_Topup :: handler where
  "WalletHandler_Topup dp h c sv =
     (case bindE (ctx_merchant c) (\<lambda>v. bindE (bind_request dp c ''TopupRequest'' dto_TopupRequest) (\<lambda>req. Inr (v, req))) of
        Inl err \<Rightarrow> (fail_response dp h c err, sv)
      | Inr (v, req) \<Rightarrow> assert_uuid v sv (\<lambda>merchantID.
          finish_transaction dp h c sv (ProcessTopup (dp_PaymentSvc dp) (hx_svc h) (topup_request merchantID req) (sv_world sv))))"

definition WalletHandler_GetBalance :: handler where
  "WalletHandler_GetBalance dp h c sv =
     (case ctx_merchant c of
        Inl err \<Rightarrow> (fail_response dp h c err, sv)
      | Inr v \<Rightarrow> assert_uuid v sv (\<lambda>merchantID.
          case GetWalletBalance (dp_EncSvc dp) (hx_svc h) merchantID (sv_db sv) of
            Inl err \<Rightarrow> (fail_response dp h c err, sv)
          | Inr (balance, currency) \<Rightarrow> (ok_response dp h c (P_Balance balance currency), sv)))"

section \<open>auth_handler.go\<close>

definition AuthHandler_Register :: handler where
  "AuthHandler_Register dp h c sv =
     (case bind_request dp c ''RegisterRequest'' dto_RegisterRequest of
        Inl err \<Rightarrow> (fail_response dp h c err, sv)
      | Inr req \<Rightarrow>
          (case Register (dp_AuthSvc dp) (hx_svc h)
                  \<lparr>gq_Username = get_string ''username'' req, gq_Password = get_string ''password'' req,
                   gq_MerchantName = get_string ''merchant_name'' req,
                   gq_WebhookURL = get_string_ptr ''webhook_url'' req\<rparr> (sv_db sv) of
             (Inl err, d) \<Rightarrow> (fail_response dp h c err, set_db d sv)
           | (Inr r, d) \<Rightarrow>
               (created_response dp h c (P_Register (uuid_String (dp_uuid dp) (gr_MerchantID r)) (gr_AccessKey r) (gr_SecretKey r)),
                set_db d sv)))"

definition AuthHandler_Login :: handler where
  "AuthHandler_Login dp h c sv =
     (case bindE (bind_request dp c ''LoginRequest'' dto_LoginRequest) (\<lambda>req.
             Login (dp_AuthSvc dp) (hx_svc h) (get_string ''username'' req) (get_string ''password'' req) (sv_db sv)) of
        Inl err \<Rightarrow> (fail_response dp h c err, sv)
      | Inr (token, expiry) \<Rightarrow> (ok_response dp h c (P_Login token (word_of_int (Unix expiry))), sv))"

text \<open>
  \<^verbatim>\<open>HealthCheck\<close> pings every checker and answers without the envelope of the other handlers. The map
  of dependencies keeps the last entry of a name.
\<close>

definition dep_status :: "error option \<Rightarrow> string \<times> string" where
  "dep_status ping = (case ping of Some err \<Rightarrow> (''unhealthy'', Error_text err) | None \<Rightarrow> (''healthy'', []))"

definition HealthCheck :: handler where
  "HealthCheck dp h c sv =
     (let deps = foldl (\<lambda>m checker. m(hc_Name checker \<mapsto> dep_status (hc_Ping checker h))) Map.empty (dp_HealthCheckers dp);
          allHealthy = list_all (\<lambda>checker. hc_Ping checker h = None) (dp_HealthCheckers dp)
      in (Responded (respond c (if allHealthy then \<lparr>rp_status = 200, rp_body = Bare (P_Health ''healthy'' deps)\<rparr>
                     else \<lparr>rp_status = 503, rp_body = Bare (P_Health ''degraded'' deps)\<rparr>)), sv))"

section \<open>swagger.go\<close>

definition SwaggerSpec :: handler where
  "SwaggerSpec dp h c sv =
     (Responded (respond c (case dp_swaggerSpec dp of
        None \<Rightarrow> \<lparr>rp_status = 404, rp_body = Bare (P_Text ''text/plain; charset=utf-8'' ''OpenAPI spec not loaded'')\<rparr>
      | Some spec \<Rightarrow> \<lparr>rp_status = 200, rp_body = Bare (P_Text ''application/x-yaml'' spec)\<rparr>)), sv)"

text \<open>The page is one string literal of several lines; an apostrophe is \<^term>\<open>CHR 0x27\<close>.\<close>

definition line :: "string \<Rightarrow> string" where
  "line s = s @ [CHR 0x0A]"

definition js_quote :: "string \<Rightarrow> string" where
  "js_quote s = [CHR 0x27] @ s @ [CHR 0x27]"

definition swagger_html :: string where
  "swagger_html =
     line ''<!DOCTYPE html>'' @
     line ''<html lang=\"en\">'' @
     line ''<head>'' @
     line ''  <meta charset=\"UTF-8\">'' @
     line ''  <title>Secure Payment Gateway - API Docs</title>'' @
     line ''  <link rel=\"stylesheet\" href=\"https://cdn.jsdelivr.net/npm/swagger-ui-dist@5/swagger-ui.css\">'' @
     line ''</head>'' @
     line ''<body>'' @
     line ''  <div id=\"swagger-ui\"></div>'' @
     line ''  <script src=\"https://cdn.jsdelivr.net/npm/swagger-ui-dist@5/swagger-ui-bundle.js\"></script>'' @
     line ''  <script>'' @
     line ''    SwaggerUIBundle({'' @
     line (''      url: '' @ js_quote ''/swagger/spec'' @ '','') @
     line (''      dom_id: '' @ js_quote ''#swagger-ui'' @ '','') @
     line ''      presets: [SwaggerUIBundle.presets.apis, SwaggerUIBundle.SwaggerUIStandalonePreset],'' @
     line (''      layout: '' @ js_quote ''BaseLayout'') @
     line ''    });'' @
     line ''  </script>'' @
     line ''</body>'' @
     ''</html>''"

definition SwaggerUI :: handler where
  "SwaggerUI dp h c sv =
     (Responded (respond c \<lparr>rp_status = 200, rp_body = Bare (P_Text ''text/html; charset=utf-8'' swagger_html)\<rparr>), sv)"

section \<open>dashboard_handler.go\<close>

definition DefaultQuery :: "request \<Rightarrow> string \<Rightarrow> string \<Rightarrow> string" where
  "DefaultQuery rq k def = (case hr_Query rq k of Some v \<Rightarrow> v | None \<Rightarrow> def)"

definition DashboardHandler_GetStats :: handler where
  "DashboardHandler_GetStats dp h c sv =
     (case ctx_merchant c of
        Inl err \<Rightarrow> (fail_response dp h c err, sv)
      | Inr v \<Rightarrow> assert_uuid v sv (\<lambda>merchantID.
          case GetDashboardStats (hx_svc h) merchantID (DefaultQuery (c_Request c) ''period'' ''all'') (sv_db sv) of
            Inl err \<Rightarrow> (fail_response dp h c err, sv)
          | Inr stats \<Rightarrow> (ok_response dp h c (P_Stats stats), sv)))"

text \<open>
  The parameters of a listing. \<^verbatim>\<open>Atoi\<close> errors are ignored and its value used: 0 for text that is
  no number, the nearest \<^verbatim>\<open>int64\<close> for a number out of range.
\<close>

definition list_params :: "request \<Rightarrow> uuid \<Rightarrow> TransactionListParams" where
  "list_params rq merchantID =
     (let page = Atoi_value (DefaultQuery rq ''page'' ''1'');
          pageSize = Atoi_value (DefaultQuery rq ''page_size'' ''20'');
          text_of = \<lambda>k. (case DefaultQuery rq k [] of [] \<Rightarrow> None | s \<Rightarrow> Some s);
          int_of = \<lambda>k. Option.bind (text_of k) (\<lambda>s. case ParseIntE s of Inr v \<Rightarrow> Some v | Inl _ \<Rightarrow> None)
      in \<lparr>lp_MerchantID = merchantID, lp_Status = text_of ''status'', lp_Type = text_of ''type'',
          lp_From = int_of ''from'', lp_To = int_of ''to'',
          lp_Page = (if page <s 1 then 1 else page),
          lp_PageSize = (if pageSize <s 1 \<or> 100 <s pageSize then 20 else pageSize)\<rparr>)"

text \<open>
  \<^verbatim>\<open>int(math.Ceil(float64(total) / float64(pageSize)))\<close>, exact while the quotient needs fewer
  bits than a \<^verbatim>\<open>float64\<close> has beside its fraction, which holds for any table below 2^45 rows.
\<close>

definition total_pages :: "int64 \<Rightarrow> int64 \<Rightarrow> int64" where
  "total_pages tot pageSize = word_of_int ((sint tot + sint pageSize - 1) div sint pageSize)"

definition DashboardHandler_ListTransactions :: handler where
  "DashboardHandler_ListTransactions dp h c sv =
     (case ctx_merchant c of
        Inl err \<Rightarrow> (fail_response dp h c err, sv)
      | Inr v \<Rightarrow> assert_uuid v sv (\<lambda>merchantID.
          let params = list_params (c_Request c) merchantID
          in case ListTransactions (hx_svc h) params (sv_db sv) of
               Inl err \<Rightarrow> (fail_response dp h c err, sv)
             | Inr (txns, tot) \<Rightarrow>
                 (ok_response dp h c (P_Transactions
                    \<lparr>tl_Items = map (toTransactionResponse (dp_uuid dp)) txns, tl_Total = tot, tl_Page = lp_Page params,
                     tl_PageSize = lp_PageSize params, tl_TotalPages = total_pages tot (lp_PageSize params)\<rparr>), sv)))"

section \<open>merchant_handler.go\<close>

definition MerchantHandler_GetProfile :: handler where
  "MerchantHandler_GetProfile dp h c sv =
     (case ctx_merchant c of
        Inl err \<Rightarrow> (fail_response dp h c err, sv)
      | Inr v \<Rightarrow> assert_uuid v sv (\<lambda>merchantID.
          case GetProfile (hx_svc h) merchantID (sv_db sv) of
            Inl err \<Rightarrow> (fail_response dp h c err, sv)
          | Inr p \<Rightarrow> (ok_response dp h c (P_Profile (uuid_String (dp_uuid dp) (mp_ID p)) (mp_Username p) (mp_MerchantName p)
                        (mp_WebhookURL p) (mp_Status p) (mp_CreatedAt p)), sv)))"

definition MerchantHandler_UpdateWebhookURL :: handler where
  "MerchantHandler_UpdateWebhookURL dp h c sv =
     (case bindE (ctx_merchant c) (\<lambda>v.
           bindE (bind_request dp c ''UpdateWebhookRequest'' dto_UpdateWebhookRequest) (\<lambda>req. Inr (v, req))) of
        Inl err \<Rightarrow> (fail_response dp h c err, sv)
      | Inr (v, req) \<Rightarrow> assert_uuid v sv (\<lambda>merchantID.
          case UpdateWebhookURL (hx_svc h) merchantID (get_string_ptr ''webhook_url'' req) (sv_db sv) of
            Inl err \<Rightarrow> (fail_response dp h c err, sv)
          | Inr d \<Rightarrow> (ok_response dp h c (P_Message ''webhook URL updated''), set_db d sv)))"

definition MerchantHandler_RotateKeys :: "merchantService \<Rightarrow> handler" where
  "MerchantHandler_RotateKeys ms dp h c sv =
     (case ctx_merchant c of
        Inl err \<Rightarrow> (fail_response dp h c err, sv)
      | Inr v \<Rightarrow> assert_uuid v sv (\<lambda>merchantID.
          case RotateKeys ms (hx_svc h) merchantID (sv_db sv) of
            Inl err \<Rightarrow> (fail_response dp h c err, sv)
          | Inr (r, d) \<Rightarrow> (ok_response dp h c (P_Keys (rk_AccessKey r) (rk_SecretKey r)), set_db d sv)))"

section \<open>router.go\<close>

datatype auth = Public | ByHMAC | ByJWT

record route =
  rt_method :: string
  rt_path :: string
  rt_auth :: auth
  rt_limit :: string
  rt_handler :: handler

text \<open>A route without a call of \<^verbatim>\<open>rl\<close> has the empty group, for which there is no rule.\<close>

definition routes :: "RouterDeps \<Rightarrow> route list" where
  "routes dp =
     [\<lparr>rt_method = ''GET'', rt_path = ''/health'', rt_auth = Public, rt_limit = [], rt_handler = HealthCheck\<rparr>,
      \<lparr>rt_method = ''GET'', rt_path = ''/swagger'', rt_auth = Public, rt_limit = [], rt_handler = SwaggerUI\<rparr>,
      \<lparr>rt_method = ''GET'', rt_path = ''/swagger/spec'', rt_auth = Public, rt_limit = [], rt_handler = SwaggerSpec\<rparr>,
      \<lparr>rt_method = ''POST'', rt_path = ''/api/v1/auth/register'', rt_auth = Public, rt_limit = ''auth_register'',
       rt_handler = AuthHandler_Register\<rparr>,
      \<lparr>rt_method = ''POST'', rt_path = ''/api/v1/auth/login'', rt_auth = Public, rt_limit = ''auth_login'',
       rt_handler = AuthHandler_Login\<rparr>,
      \<lparr>rt_method = ''POST'', rt_path = ''/api/v1/payments'', rt_auth = ByHMAC, rt_limit = ''payments'',
       rt_handler = PaymentHandler_ProcessPayment\<rparr>,
      \<lparr>rt_method = ''POST'', rt_path = ''/api/v1/payments/refund'', rt_auth = ByHMAC, rt_limit = ''payments_refund'',
       rt_handler = PaymentHandler_ProcessRefund\<rparr>,
      \<lparr>rt_method = ''GET'', rt_path = ''/api/v1/wallets/balance'', rt_auth = ByJWT, rt_limit = ''dashboard'',
       rt_handler = WalletHandler_GetBalance\<rparr>,
      \<lparr>rt_method = ''POST'', rt_path = ''/api/v1/wallets/topup'', rt_auth = ByJWT, rt_limit = ''wallets_topup'',
       rt_handler = WalletHandler_Topup\<rparr>,
      \<lparr>rt_method = ''GET'', rt_path = ''/api/v1/dashboard/stats'', rt_auth = ByJWT, rt_limit = ''dashboard'',
       rt_handler = DashboardHandler_GetStats\<rparr>,
      \<lparr>rt_method = ''GET'', rt_path = ''/api/v1/transactions'', rt_auth = ByJWT, rt_limit = ''dashboard'',
       rt_handler = DashboardHandler_ListTransactions\<rparr>] @
     (case dp_MerchantSvc dp of
        None \<Rightarrow> []
      | Some ms \<Rightarrow>
          [\<lparr>rt_method = ''GET'', rt_path = ''/api/v1/merchants/me'', rt_auth = ByJWT, rt_limit = ''dashboard'',
            rt_handler = MerchantHandler_GetProfile\<rparr>,
           \<lparr>rt_method = ''PUT'', rt_path = ''/api/v1/merchants/me/webhook'', rt_auth = ByJWT, rt_limit = ''dashboard'',
            rt_handler = MerchantHandler_UpdateWebhookURL\<rparr>,
           \<lparr>rt_method = ''POST'', rt_path = ''/api/v1/merchants/me/rotate-keys'', rt_auth = ByJWT, rt_limit = ''dashboard'',
            rt_handler = MerchantHandler_RotateKeys ms\<rparr>])"

definition authenticate :: "auth \<Rightarrow> RouterDeps \<Rightarrow> http_env \<Rightarrow> gin_context \<Rightarrow> server \<Rightarrow> mw_result" where
  "authenticate a dp h c sv =
     (case a of Public \<Rightarrow> (Inr c, sv) | ByHMAC \<Rightarrow> HMACAuth dp h c sv | ByJWT \<Rightarrow> JWTAuth dp h c sv)"

text \<open>The chain of a route, with the context that the last handler left.\<close>

definition run_route :: "route \<Rightarrow> RouterDeps \<Rightarrow> http_env \<Rightarrow> gin_context \<Rightarrow> server \<Rightarrow> handled \<times> gin_context \<times> server" where
  "run_route rt dp h c sv =
     (case authenticate (rt_auth rt) dp h c sv of
        (Inl resp, sv1) \<Rightarrow> (Responded resp, c, sv1)
      | (Inr c1, sv1) \<Rightarrow>
          (case rl dp (rt_limit rt) h c1 sv1 of
             (Inl resp, sv2) \<Rightarrow> (Responded resp, c1, sv2)
           | (Inr c2, sv2) \<Rightarrow> (case rt_handler rt dp h c2 sv2 of (resp, sv3) \<Rightarrow> (resp, c2, sv3))))"

text \<open>What the global middleware makes of the outcome of a chain, from the inside out.\<close>

definition finish_request ::
    "RouterDeps \<Rightarrow> http_env \<Rightarrow> handled \<Rightarrow> gin_context \<Rightarrow> server \<Rightarrow> http_response \<times> server" where
  "finish_request dp h out c sv =
     (case out of
        Responded resp \<Rightarrow> (resp, RequestLogger_after dp h c resp (AuditLog_after dp h c resp sv))
      | Panicked v \<Rightarrow> Recovery dp v c sv)"

definition SetupRouter :: "RouterDeps \<Rightarrow> http_env \<Rightarrow> request \<Rightarrow> server \<Rightarrow> http_response option \<times> server" where
  "SetupRouter dp h rq sv =
     (let c = \<lparr>c_Request = MaxBodySize (2 ^ 20) rq, c_Keys = Map.empty, c_Headers = []\<rparr>
      in case find (\<lambda>rt. rt_method rt = hr_Method rq \<and> rt_path rt = hr_Path rq) (routes dp) of
           None \<Rightarrow> (None, sv)
         | Some rt \<Rightarrow>
             (case run_route rt dp h c sv of
                (out, c', sv1) \<Rightarrow> (case finish_request dp h out c' sv1 of (resp, sv') \<Rightarrow> (Some resp, sv'))))"

end
