(* ===== verification/Gateway.thy ===== *)
theory Gateway
  imports Handlers Account_Correct Idempotency
begin

text \<open>
  The gateway as a whole. \<open>gateway_action\<close> is the abstract specification of a request: what a
  caller with a given identity may do to PostgreSQL and Redis. \<open>SetupRouter_refines\<close> shows that
  every route of the router, with its middleware, implements it for the identity that the
  authentication of the route established. \<open>gateway_step\<close> adds the background writes of webhook and
  audit goroutines; the invariants of reachable states are proved by rule induction.
\<close>

section \<open>What middleware may change\<close>

lemma set_redis_fields [simp]: "sv_db (set_redis r sv) = sv_db sv" "sv_redis (set_redis r sv) = r"
  "sv_hooks (set_redis r sv) = sv_hooks sv" "sv_audit (set_redis r sv) = sv_audit sv"
  "sv_world (set_redis r sv) = (sv_world sv)\<lparr>wd_redis := r\<rparr>"
  by (simp_all add: set_redis_def)

lemma set_db_fields [simp]: "sv_db (set_db d sv) = d" "sv_redis (set_db d sv) = sv_redis sv"
  "sv_hooks (set_db d sv) = sv_hooks sv" "sv_audit (set_db d sv) = sv_audit sv"
  "sv_world (set_db d sv) = (sv_world sv)\<lparr>wd_db := d\<rparr>"
  by (simp_all add: set_db_def)

lemma set_redis_self [simp]: "set_redis (sv_redis sv) sv = sv"
  by (simp add: set_redis_def)

lemma set_redis_twice [simp]: "set_redis r (set_redis r' sv) = set_redis r sv"
  by (simp add: set_redis_def)

text \<open>
  A middleware only writes to Redis, and no write touches a nonce that is still alive: the
  stores work under key prefixes of their own, and the nonce store sets a key only when it is
  free.
\<close>

definition keeps_nonces :: "time \<Rightarrow> redis \<Rightarrow> redis \<Rightarrow> bool" where
  "keeps_nonces now r r' \<longleftrightarrow> (\<forall>k v ex. take 6 k = ''nonce:'' \<longrightarrow> r k = Some (v, Some ex) \<longrightarrow> now < ex \<longrightarrow> r' k = Some (v, Some ex))"

lemma keeps_nonces_refl [simp]: "keeps_nonces now r r"
  by (simp add: keeps_nonces_def)

lemma keeps_nonces_trans: "keeps_nonces now r r1 \<Longrightarrow> keeps_nonces now r1 r2 \<Longrightarrow> keeps_nonces now r r2"
  by (simp add: keeps_nonces_def)

lemma keeps_nonces_update: "take 6 k \<noteq> ''nonce:'' \<Longrightarrow> keeps_nonces now r (r(k \<mapsto> x))"
  by (auto simp: keeps_nonces_def)

lemma CheckAndSet_keeps:
  "NonceStore_CheckAndSet f now m n ttl r = Inr (b, r') \<Longrightarrow> keeps_nonces now r r'"
  by (auto simp: NonceStore_CheckAndSet_def Let_def res_simps redis_set_def redis_get_def keeps_nonces_def
      split: option.splits)

lemma incr_keeps: "take 6 k \<noteq> ''nonce:'' \<Longrightarrow> redis_incr now k r = Inr (n, r') \<Longrightarrow> keeps_nonces now r r'"
  by (auto simp: redis_incr_def intro: keeps_nonces_update split: option.splits json.splits if_splits)

lemma expire_keeps: "take 6 k \<noteq> ''nonce:'' \<Longrightarrow> keeps_nonces now r (redis_expire now k ttl r)"
  by (auto simp: redis_expire_def intro: keeps_nonces_update split: option.splits)

lemma Allow_keeps:
  assumes "RateLimitStore_Allow f g now k lim win r = Inr (x, r')"
  shows "keeps_nonces now r r'"
proof -
  let ?key = "ratelimit_key k (Unix now div win)"
  have key: "take 6 ?key \<noteq> ''nonce:''" by (simp add: ratelimit_key_def)
  from assms obtain n r1 where incr: "redis_incr now ?key r = Inr (n, r1)"
    and "r' = r1 \<or> r' = redis_expire now ?key (seconds (win + 1)) r1"
    by (auto simp: RateLimitStore_Allow_def Let_def res_simps split: if_splits)
  with incr_keeps [OF key incr] expire_keeps [OF key] keeps_nonces_trans show ?thesis by metis
qed

text \<open>The cached responses of the payment service are not touched at all.\<close>

definition keeps_cache :: "redis \<Rightarrow> redis \<Rightarrow> bool" where
  "keeps_cache r r' \<longleftrightarrow> (\<forall>k. r' (''idempotency:'' @ k) = r (''idempotency:'' @ k))"

lemma keeps_cache_refl [simp]: "keeps_cache r r"
  by (simp add: keeps_cache_def)

lemma keeps_cache_update: "take 12 k \<noteq> ''idempotency:'' \<Longrightarrow> keeps_cache r (r(k := x))"
  by (auto simp: keeps_cache_def)

lemma CheckAndSet_cache: "NonceStore_CheckAndSet f now m n ttl r = Inr (b, r') \<Longrightarrow> keeps_cache r r'"
  by (auto simp: NonceStore_CheckAndSet_def Let_def res_simps redis_set_def nonce_key_def intro!: keeps_cache_update split: option.splits)

text \<open>A rate limiter writes the counter of its window and nothing else.\<close>

lemma Allow_update:
  assumes "RateLimitStore_Allow f g now k lim win r = Inr (x, r')"
  shows "\<exists>v. r' = r(ratelimit_key k (Unix now div win) := v)"
proof -
  let ?key = "ratelimit_key k (Unix now div win)"
  from assms obtain n r1 where incr: "redis_incr now ?key r = Inr (n, r1)"
    and r': "r' = r1 \<or> r' = redis_expire now ?key (seconds (win + 1)) r1"
    by (auto simp: RateLimitStore_Allow_def Let_def res_simps split: if_splits)
  obtain v where "r1 = r(?key := v)" using incr by (auto simp: redis_incr_def split: option.splits json.splits if_splits)
  moreover have "\<exists>v. redis_expire now ?key ttl r1 = r1(?key := v)" for ttl
    by (auto simp: redis_expire_def split: option.splits intro: fun_upd_triv [symmetric])
  ultimately show ?thesis using r' by (metis fun_upd_upd)
qed

lemma Allow_cache: "RateLimitStore_Allow f g now k lim win r = Inr (x, r') \<Longrightarrow> keeps_cache r r'"
  by (auto dest!: Allow_update intro!: keeps_cache_update simp: ratelimit_key_def)

definition redis_only :: "time \<Rightarrow> server \<Rightarrow> server \<Rightarrow> bool" where
  "redis_only now sv sv' \<longleftrightarrow> (\<exists>r. sv' = set_redis r sv \<and> keeps_nonces now (sv_redis sv) r \<and> keeps_cache (sv_redis sv) r)"

lemma redis_only_refl [simp, intro]: "redis_only now sv sv"
  unfolding redis_only_def by (metis set_redis_self keeps_nonces_refl keeps_cache_refl)

lemma redis_only_set [intro]:
  "keeps_nonces now (sv_redis sv) r \<Longrightarrow> keeps_cache (sv_redis sv) r \<Longrightarrow> redis_only now sv (set_redis r sv)"
  unfolding redis_only_def by blast

lemma redis_only_trans: "redis_only now sv sv1 \<Longrightarrow> redis_only now sv1 sv2 \<Longrightarrow> redis_only now sv sv2"
  using keeps_nonces_trans by (fastforce simp: redis_only_def keeps_cache_def)

lemma verify_signature_state: "verify_signature dp h c m ts sv = (x, sv') \<Longrightarrow> sv' = sv"
  by (auto simp: verify_signature_def Let_def split: sum.splits if_splits)

lemma check_merchant_nonce_state:
  "check_merchant_nonce dp h c ts sv = (x, sv') \<Longrightarrow> redis_only (ev_now (hx_mw h)) sv sv'"
  by (auto simp: check_merchant_nonce_def Let_def dest!: verify_signature_state dest: CheckAndSet_keeps CheckAndSet_cache
      split: sum.splits option.splits if_splits prod.splits bool.splits)

lemma HMACAuth_state: "HMACAuth dp h c sv = (x, sv') \<Longrightarrow> redis_only (ev_now (hx_mw h)) sv sv'"
  by (auto simp: HMACAuth_def Let_def dest: check_merchant_nonce_state split: sum.splits if_splits)

lemma JWTAuth_state: "JWTAuth dp h c sv = (x, sv') \<Longrightarrow> sv' = sv"
  by (auto simp: JWTAuth_def Let_def split: sum.splits if_splits)

lemma authenticate_state: "authenticate a dp h c sv = (x, sv') \<Longrightarrow> redis_only (ev_now (hx_mw h)) sv sv'"
  by (cases a) (auto simp: authenticate_def dest: HMACAuth_state JWTAuth_state)

lemma rl_state: "rl dp g h c sv = (x, sv') \<Longrightarrow> redis_only (ev_now (hx_mw h)) sv sv'"
  by (auto simp: rl_def RateLimiter_def Let_def dest: Allow_keeps Allow_cache split: if_splits option.splits sum.splits prod.splits)

lemma rl_keys: "rl dp g h c sv = (Inr c', sv') \<Longrightarrow> c_Keys c' = c_Keys c \<and> c_Request c' = c_Request c"
  by (auto simp: rl_def RateLimiter_def Let_def split: if_splits option.splits sum.splits prod.splits)

section \<open>The specification of a request\<close>

fun owner :: "fund_request \<Rightarrow> uuid" where
  "owner (Pay req) = pq_MerchantID req"
| "owner (Refund req) = rq_MerchantID req"
| "owner (Topup req) = tq_MerchantID req"

inductive gateway_action :: "RouterDeps \<Rightarrow> env \<Rightarrow> uuid option \<Rightarrow> world \<Rightarrow> world \<Rightarrow> bool"
  for dp :: RouterDeps and e :: env where
  act_read: "gateway_action dp e m w w"
| act_fund: "owner q = m \<Longrightarrow> fund_op (dp_PaymentSvc dp) e q w = (r, w') \<Longrightarrow> gateway_action dp e (Some m) w w'"
| act_register: "Register (dp_AuthSvc dp) e req (wd_db w) = (r, d) \<Longrightarrow> gateway_action dp e None w (w\<lparr>wd_db := d\<rparr>)"
| act_webhook: "UpdateWebhookURL e m url (wd_db w) = Inr d \<Longrightarrow> gateway_action dp e (Some m) w (w\<lparr>wd_db := d\<rparr>)"
| act_rotate: "dp_MerchantSvc dp = Some ms \<Longrightarrow> RotateKeys ms e m (wd_db w) = Inr (resp, d) \<Longrightarrow>
    gateway_action dp e (Some m) w (w\<lparr>wd_db := d\<rparr>)"

text \<open>The identity of the caller of a request, as the authentication of its route finds it.\<close>

definition find_route :: "RouterDeps \<Rightarrow> request \<Rightarrow> route option" where
  "find_route dp rq = find (\<lambda>rt. rt_method rt = hr_Method rq \<and> rt_path rt = hr_Path rq) (routes dp)"

definition first_context :: "request \<Rightarrow> gin_context" where
  "first_context rq = \<lparr>c_Request = MaxBodySize (2 ^ 20) rq, c_Keys = Map.empty, c_Headers = []\<rparr>"

definition key_merchant :: "gin_context \<Rightarrow> uuid option" where
  "key_merchant c = (case c_Keys c CtxMerchantID of Some (CtxUUID m) \<Rightarrow> Some m | _ \<Rightarrow> None)"

definition caller :: "RouterDeps \<Rightarrow> http_env \<Rightarrow> request \<Rightarrow> server \<Rightarrow> uuid option" where
  "caller dp h rq sv =
     Option.bind (find_route dp rq) (\<lambda>rt.
       case fst (authenticate (rt_auth rt) dp h (first_context rq) sv) of Inl _ \<Rightarrow> None | Inr c \<Rightarrow> key_merchant c)"

lemma SetupRouter_alt:
  "SetupRouter dp h rq sv =
     (case find_route dp rq of
        None \<Rightarrow> (None, sv)
      | Some rt \<Rightarrow> (case run_route rt dp h (first_context rq) sv of
                     (out, c', sv1) \<Rightarrow> (case finish_request dp h out c' sv1 of (resp, sv') \<Rightarrow> (Some resp, sv'))))"
  unfolding SetupRouter_def find_route_def first_context_def Let_def ..

section \<open>The handlers implement it\<close>

lemma AuditLog_after_world [simp]: "sv_world (AuditLog_after dp h c resp sv) = sv_world sv"
  by (simp add: AuditLog_after_def split: option.splits)

lemma finish_request_world: "finish_request dp h out c sv = (resp, sv') \<Longrightarrow> sv_world sv' = sv_world sv"
  by (auto simp: finish_request_def RequestLogger_after_def Recovery_def Let_def split: handled.splits)

text \<open>The response and the state that a request leaves behind, through the chain of its route.\<close>

lemma SetupRouter_run:
  assumes "find_route dp rq = Some rt" and "run_route rt dp h (first_context rq) sv = (out, c', sv1)"
    and "finish_request dp h out c' sv1 = (resp, sv')"
  shows "SetupRouter dp h rq sv = (Some resp, sv')"
  using assms by (simp add: SetupRouter_alt)

lemma SetupRouter_world:
  assumes "find_route dp rq = Some rt" and "run_route rt dp h (first_context rq) sv = (out, c', sv1)"
    and "SetupRouter dp h rq sv = (resp, sv')"
  shows "sv_world sv' = sv_world sv1"
  using assms by (auto simp: SetupRouter_alt dest: finish_request_world split: prod.splits)

lemma EnqueueWebhook_ignored_world [simp]: "sv_world (EnqueueWebhook_ignored dp h t sv) = sv_world sv"
  by (simp add: EnqueueWebhook_ignored_def split: option.splits sum.splits)

lemma finish_transaction_world: "finish_transaction dp h c sv r = (resp, sv') \<Longrightarrow> sv_world sv' = snd r"
  by (auto simp: finish_transaction_def split: prod.splits sum.splits)

lemma ctx_merchant_Inr: "ctx_merchant c = Inr v \<longleftrightarrow> c_Keys c CtxMerchantID = Some v"
  by (simp add: ctx_merchant_def res_simps)

lemma ctx_merchant_uuid: "key_merchant c = Some m \<Longrightarrow> ctx_merchant c = Inr (CtxUUID m)"
  by (auto simp: ctx_merchant_Inr key_merchant_def split: option.splits ctx_val.splits)

lemma assert_uuid_simps [simp]: "assert_uuid (CtxUUID m) sv k = k m"
  by (simp add: assert_uuid_def)

text \<open>Behind a type assertion the identity of the context is at hand; before it nothing happened.\<close>

lemma assert_uuid_cases:
  assumes "assert_uuid v sv k = (out, sv')" and "c_Keys c CtxMerchantID = Some v"
  obtains m where "key_merchant c = Some m" "k m = (out, sv')" | "sv' = sv"
  using assms by (cases v) (auto simp: assert_uuid_def key_merchant_def)

text \<open>A handler only ever acts for the identity in its context; registration needs none.\<close>

definition implements :: "RouterDeps \<Rightarrow> auth \<Rightarrow> handler \<Rightarrow> bool" where
  "implements dp a hdl \<longleftrightarrow> (\<forall>h c sv resp sv'. hdl dp h c sv = (resp, sv') \<longrightarrow> (a = Public \<longrightarrow> key_merchant c = None) \<longrightarrow>
     gateway_action dp (hx_svc h) (key_merchant c) (sv_world sv) (sv_world sv'))"

lemma fund_handler:
  assumes run: "\<And>h c sv. hdl dp h c sv = (case F c of
        Inl err \<Rightarrow> (fail_response dp h c err, sv)
      | Inr (v, st) \<Rightarrow> assert_uuid v sv (\<lambda>m.
          finish_transaction dp h c sv (fund_op (dp_PaymentSvc dp) (hx_svc h) (K c m st) (sv_world sv))))"
    and own: "\<And>c v st. F c = Inr (v, st) \<Longrightarrow> c_Keys c CtxMerchantID = Some v" "\<And>c m st. owner (K c m st) = m"
  shows "implements dp a hdl"
  unfolding implements_def
proof (intro allI impI)
  fix h c sv resp sv'
  assume hdl: "hdl dp h c sv = (resp, sv')"
  show "gateway_action dp (hx_svc h) (key_merchant c) (sv_world sv) (sv_world sv')"
  proof (cases "F c")
    case (Inl err)
    then show ?thesis using hdl act_read by (simp add: run)
  next
    case (Inr p)
    then obtain v st where F: "F c = Inr (v, st)" by (cases p) simp
    with hdl have "assert_uuid v sv (\<lambda>m. finish_transaction dp h c sv (fund_op (dp_PaymentSvc dp) (hx_svc h) (K c m st) (sv_world sv))) = (resp, sv')"
      by (simp add: run)
    then show ?thesis
    proof (cases rule: assert_uuid_cases [OF _ own(1) [OF F], consumes 1])
      case (1 m)
      then show ?thesis using act_fund [OF own(2) prod.collapse [symmetric]] finish_transaction_world by metis
    qed (simp add: act_read)
  qed
qed

lemma fund_op_simps: "fund_op s e (Pay p) w = ProcessPayment s e p w" "fund_op s e (Refund r) w = ProcessRefund s e r w"
  "fund_op s e (Topup t) w = ProcessTopup s e t w"
  by (simp_all add: fund_op_def)

lemma implements_payment: "implements dp a PaymentHandler_ProcessPayment"
  by (rule fund_handler [where K = "(\<lambda>c m st. Pay (payment_request c m st))", OF PaymentHandler_ProcessPayment_def [folded fund_op_simps]])
    (auto simp: payment_request_def res_simps ctx_merchant_Inr)

lemma implements_refund: "implements dp a PaymentHandler_ProcessRefund"
  by (rule fund_handler [where K = "(\<lambda>c m st. Refund (refund_request c m st))", OF PaymentHandler_ProcessRefund_def [folded fund_op_simps]])
    (auto simp: refund_request_def res_simps ctx_merchant_Inr)

lemma implements_topup: "implements dp a WalletHandler_Topup"
  by (rule fund_handler [where K = "(\<lambda>c m st. Topup (topup_request m st))", OF WalletHandler_Topup_def [folded fund_op_simps]])
    (auto simp: topup_request_def res_simps ctx_merchant_Inr)

lemma implements_readers:
  "implements dp a WalletHandler_GetBalance" "implements dp a DashboardHandler_GetStats"
  "implements dp a DashboardHandler_ListTransactions" "implements dp a MerchantHandler_GetProfile"
  "implements dp a AuthHandler_Login" "implements dp a HealthCheck" "implements dp a SwaggerUI" "implements dp a SwaggerSpec"
  by (auto simp: implements_def Let_def HealthCheck_def SwaggerUI_def SwaggerSpec_def WalletHandler_GetBalance_def DashboardHandler_GetStats_def AuthHandler_Login_def
      DashboardHandler_ListTransactions_def MerchantHandler_GetProfile_def assert_uuid_def intro: act_read
      split: sum.splits prod.splits ctx_val.splits)

lemma implements_register: "implements dp Public AuthHandler_Register"
  by (auto simp: implements_def AuthHandler_Register_def intro: act_read act_register
      split: sum.splits prod.splits)

lemma implements_webhook: "implements dp a MerchantHandler_UpdateWebhookURL"
  by (auto simp: implements_def MerchantHandler_UpdateWebhookURL_def res_simps ctx_merchant_Inr
      intro: act_read act_webhook elim!: assert_uuid_cases split: sum.splits prod.splits)

lemma implements_rotate: "dp_MerchantSvc dp = Some ms \<Longrightarrow> implements dp a (MerchantHandler_RotateKeys ms)"
  by (auto simp: implements_def MerchantHandler_RotateKeys_def res_simps ctx_merchant_Inr
      intro: act_read act_rotate elim!: assert_uuid_cases split: sum.splits prod.splits)

lemmas implements_intros = implements_payment implements_refund implements_topup implements_readers
  implements_register implements_webhook implements_rotate

lemma routes_implement: "rt \<in> set (routes dp) \<Longrightarrow> implements dp (rt_auth rt) (rt_handler rt)"
  by (auto simp: routes_def implements_intros split: option.splits)

section \<open>The router refines the specification\<close>

lemma key_merchant_first [simp]: "key_merchant (first_context rq) = None"
  by (simp add: key_merchant_def first_context_def)

lemma authenticate_public: "authenticate Public dp h c sv = (Inr c, sv)"
  by (simp add: authenticate_def)

lemma key_merchant_rl: "rl dp g h c sv = (Inr c', sv') \<Longrightarrow> key_merchant c' = key_merchant c"
  by (drule rl_keys) (simp add: key_merchant_def)

lemma SetupRouter_refines:
  assumes "SetupRouter dp h rq sv = (resp, sv')"
  shows "\<exists>sv1. redis_only (ev_now (hx_mw h)) sv sv1 \<and>
    gateway_action dp (hx_svc h) (caller dp h rq sv) (sv_world sv1) (sv_world sv')"
proof (cases "find_route dp rq")
  case None
  then show ?thesis using assms act_read by (auto simp: SetupRouter_alt)
next
  case (Some rt)
  then have rt: "rt \<in> set (routes dp)" by (auto simp: find_route_def find_Some_iff)
  obtain x sv1 where auth: "authenticate (rt_auth rt) dp h (first_context rq) sv = (x, sv1)" by fastforce
  have r1: "redis_only (ev_now (hx_mw h)) sv sv1" by (rule authenticate_state [OF auth])
  show ?thesis
  proof (cases x)
    case (Inl resp')
    then have "sv_world sv' = sv_world sv1"
      using SetupRouter_world [OF Some _ assms] auth by (simp add: run_route_def)
    with r1 show ?thesis by (metis act_read)
  next
    case (Inr c1)
    have who: "caller dp h rq sv = key_merchant c1" by (simp add: caller_def Some auth Inr)
    obtain y sv2 where lim: "rl dp (rt_limit rt) h c1 sv1 = (y, sv2)" by fastforce
    have r2: "redis_only (ev_now (hx_mw h)) sv sv2" using r1 rl_state [OF lim] by (rule redis_only_trans)
    show ?thesis
    proof (cases y)
      case (Inl resp')
      then have "sv_world sv' = sv_world sv2"
        using SetupRouter_world [OF Some _ assms] auth Inr lim by (simp add: run_route_def)
      with r2 show ?thesis by (metis act_read)
    next
      case c2: (Inr c2)
      obtain resp3 sv3 where hdl: "rt_handler rt dp h c2 sv2 = (resp3, sv3)" by fastforce
      have "sv_world sv' = sv_world sv3"
        using SetupRouter_world [OF Some _ assms] auth Inr lim c2 hdl by (simp add: run_route_def)
      moreover have "key_merchant c2 = None" if "rt_auth rt = Public"
        using that auth Inr key_merchant_rl lim c2 by (auto simp: authenticate_public)
      then have "gateway_action dp (hx_svc h) (key_merchant c2) (sv_world sv2) (sv_world sv3)"
        using routes_implement [OF rt] hdl by (simp add: implements_def)
      ultimately show ?thesis using r2 who key_merchant_rl lim c2 by metis
    qed
  qed
qed

lemma redis_only_db: "redis_only now sv sv' \<Longrightarrow> sv_db sv' = sv_db sv"
  by (auto simp: redis_only_def)

section \<open>Isolation of merchants\<close>

text \<open>What belongs to merchants other than \<open>m\<close>.\<close>

definition others :: "uuid \<Rightarrow> db \<Rightarrow> Wallet list \<times> Transaction list \<times> Merchant list" where
  "others m d = (filter (\<lambda>w. w_MerchantID w \<noteq> m) (wallets d), filter (\<lambda>t. tx_MerchantID t \<noteq> m) (transactions d),
     filter (\<lambda>x. m_ID x \<noteq> m) (merchants d))"

text \<open>Every transaction is booked on a wallet of its own merchant.\<close>

definition owners_ok :: "db \<Rightarrow> bool" where
  "owners_ok d \<longleftrightarrow> (\<forall>t \<in> set (transactions d). \<forall>w \<in> set (wallets d). w_ID w = tx_WalletID t \<longrightarrow> w_MerchantID w = tx_MerchantID t)"

lemma filter_rows_update_other:
  assumes "\<And>x. x \<in> set xs \<Longrightarrow> P x \<Longrightarrow> \<not> Q x \<and> \<not> Q (f x)"
  shows "filter Q (rows_update P f xs) = filter Q xs"
  using assms by (induction xs) (auto simp: rows_update_def)

lemma same_wallet: "distinct (map w_ID ws) \<Longrightarrow> x \<in> set ws \<Longrightarrow> y \<in> set ws \<Longrightarrow> w_ID x = w_ID y \<Longrightarrow> x = y"
  by (metis inj_onD distinct_map)

lemma others_wallet_update:
  assumes "distinct (map w_ID (wallets d))" and "wallet \<in> set (wallets d)" and "w_MerchantID wallet = m"
  shows "filter (\<lambda>w. w_MerchantID w \<noteq> m) (rows_update (\<lambda>w. w_ID w = w_ID wallet)
      (\<lambda>w. w\<lparr>w_EncryptedBalance := c, w_UpdatedAt := n\<rparr>) (wallets d)) = filter (\<lambda>w. w_MerchantID w \<noteq> m) (wallets d)"
  by (rule filter_rows_update_other) (use same_wallet [OF assms(1)] assms(2,3) in auto)

lemma owners_ok_cong:
  assumes "map (\<lambda>w. (w_ID w, w_MerchantID w)) (wallets d') = map (\<lambda>w. (w_ID w, w_MerchantID w)) (wallets d)"
    and "\<And>t'. t' \<in> set (transactions d') \<Longrightarrow> (\<exists>t \<in> set (transactions d). tx_WalletID t' = tx_WalletID t \<and> tx_MerchantID t' = tx_MerchantID t) \<or>
      (\<exists>w \<in> set (wallets d). w_ID w = tx_WalletID t' \<and> w_MerchantID w = tx_MerchantID t')"
    and "owners_ok d" and "distinct (map w_ID (wallets d))"
  shows "owners_ok d'"
proof -
  have "(w_ID w', w_MerchantID w') \<in> (\<lambda>w. (w_ID w, w_MerchantID w)) ` set (wallets d)" if "w' \<in> set (wallets d')" for w'
    using arg_cong [OF assms(1), of set] that by auto
  with assms(2-4) same_wallet [OF assms(4)] show ?thesis
    unfolding owners_ok_def by (smt (verit, best) Pair_inject imageE)
qed

lemma wallet_pairs_update:
  "map (\<lambda>w. (w_ID w, w_MerchantID w)) (rows_update P (\<lambda>w. w\<lparr>w_EncryptedBalance := c, w_UpdatedAt := n\<rparr>) ws) =
   map (\<lambda>w. (w_ID w, w_MerchantID w)) ws"
  by (simp add: rows_update_def)

lemma ProcessPayment_isolated:
  assumes run: "ProcessPayment s e req w = (r, w')" and dist: "distinct (map w_ID (wallets (wd_db w)))" and ok: "owners_ok (wd_db w)"
  shows "others (pq_MerchantID req) (wd_db w') = others (pq_MerchantID req) (wd_db w) \<and> owners_ok (wd_db w')"
  using ProcessPayment_outcome [OF run]
proof
  assume "\<exists>txn resp. 0 < sint (pq_Amount req) \<and>
       idempotency_lookup e (BuildIdempotencyKey (ps_uuid s) (pq_MerchantID req) (pq_ReferenceID req)) w = Inr None \<and>
       payment_in_tx s e req (BuildIdempotencyKey (ps_uuid s) (pq_MerchantID req) (pq_ReferenceID req)) (wd_db w)
         = Inr (txn, resp, wd_db w') \<and> (\<forall>t. r = Inr t \<longrightarrow> t = txn)"
  then obtain k txn resp where "payment_in_tx s e req k (wd_db w) = Inr (txn, resp, wd_db w')" by blast
  then obtain wallet b c ae where
    w: "row_where (\<lambda>w. w_MerchantID w = pq_MerchantID req \<and> w_Currency w = pq_Currency req) (wallets (wd_db w)) = Some wallet"
    and t: "txn = payment_txn e req wallet ae"
    and d': "wallets (wd_db w') = rows_update (\<lambda>w. w_ID w = w_ID wallet)
            (\<lambda>w. w\<lparr>w_EncryptedBalance := c, w_UpdatedAt := ev_db_now e\<rparr>) (wallets (wd_db w))"
      "transactions (wd_db w') = transactions (wd_db w) @ [txn]" "merchants (wd_db w') = merchants (wd_db w)"
    by (rule payment_in_tx_Inr) auto
  have f: "wallet \<in> set (wallets (wd_db w))" "w_MerchantID wallet = pq_MerchantID req"
    "tx_MerchantID txn = pq_MerchantID req" "tx_WalletID txn = w_ID wallet"
    using row_where_Some [OF w] by (simp_all add: t payment_txn_def)
  have "owners_ok (wd_db w')"
    by (rule owners_ok_cong [OF _ _ ok dist]) (use f in \<open>auto simp: d' wallet_pairs_update\<close>)
  then show ?thesis by (simp add: others_def d' f others_wallet_update [OF dist f(1,2)])
qed (use ok in simp)

lemma ProcessTopup_isolated:
  assumes run: "ProcessTopup s e req w = (r, w')" and dist: "distinct (map w_ID (wallets (wd_db w)))" and ok: "owners_ok (wd_db w)"
  shows "others (tq_MerchantID req) (wd_db w') = others (tq_MerchantID req) (wd_db w) \<and> owners_ok (wd_db w')"
  using ProcessTopup_outcome [OF run]
proof
  assume "\<exists>txn. 0 < sint (tq_Amount req) \<and> topup_in_tx s e req (wd_db w) = Inr (txn, wd_db w') \<and>
       (\<forall>t. r = Inr t \<longrightarrow> t = txn)"
  then obtain txn where "topup_in_tx s e req (wd_db w) = Inr (txn, wd_db w')" by blast
  then obtain wallet b c ae where
    w: "row_where (\<lambda>w. w_MerchantID w = tq_MerchantID req \<and> w_Currency w = tq_Currency req) (wallets (wd_db w)) = Some wallet"
    and t: "txn = topup_txn s e req wallet ae"
    and d': "wallets (wd_db w') = rows_update (\<lambda>w. w_ID w = w_ID wallet)
            (\<lambda>w. w\<lparr>w_EncryptedBalance := c, w_UpdatedAt := ev_db_now e\<rparr>) (wallets (wd_db w))"
      "transactions (wd_db w') = transactions (wd_db w) @ [txn]" "merchants (wd_db w') = merchants (wd_db w)"
    by (rule topup_in_tx_Inr) auto
  have f: "wallet \<in> set (wallets (wd_db w))" "w_MerchantID wallet = tq_MerchantID req"
    "tx_MerchantID txn = tq_MerchantID req" "tx_WalletID txn = w_ID wallet"
    using row_where_Some [OF w] by (simp_all add: t topup_txn_def)
  have "owners_ok (wd_db w')"
    by (rule owners_ok_cong [OF _ _ ok dist]) (use f in \<open>auto simp: d' wallet_pairs_update\<close>)
  then show ?thesis by (simp add: others_def d' f others_wallet_update [OF dist f(1,2)])
qed (use ok in simp)

lemma ProcessRefund_isolated:
  assumes run: "ProcessRefund s e req w = (r, w')" and dist: "distinct (map w_ID (wallets (wd_db w)))"
    and txs: "distinct (map tx_ID (transactions (wd_db w)))" and ok: "owners_ok (wd_db w)"
  shows "others (rq_MerchantID req) (wd_db w') = others (rq_MerchantID req) (wd_db w) \<and> owners_ok (wd_db w')"
  using ProcessRefund_outcome [OF run]
proof
  let ?d = "wd_db w" and ?k = "BuildRefundIdempotencyKey (ps_uuid s) (rq_MerchantID req) (rq_OriginalReferenceID req)"
  assume "\<exists>txn resp origTx a. idempotency_lookup e ?k w = Inr None \<and> refund_checks e req ?d = Inr (origTx, a) \<and>
       refund_in_tx s e req ?k origTx a ?d = Inr (txn, resp, wd_db w') \<and> (\<forall>t. r = Inr t \<longrightarrow> t = txn)"
  then obtain txn resp origTx a where chk: "refund_checks e req ?d = Inr (origTx, a)"
    and "refund_in_tx s e req ?k origTx a ?d = Inr (txn, resp, wd_db w')" by blast
  then obtain wallet b c ae where
    w: "row_where (\<lambda>w. w_ID w = tx_WalletID origTx) (wallets ?d) = Some wallet"
    and t: "txn = refund_txn e req origTx a wallet ae"
    and d': "wallets (wd_db w') = rows_update (\<lambda>w. w_ID w = w_ID wallet)
            (\<lambda>w. w\<lparr>w_EncryptedBalance := c, w_UpdatedAt := ev_db_now e\<rparr>) (wallets ?d)"
      "transactions (wd_db w') = mark_reversed (ev_now e) txn (transactions ?d @ [txn])" "merchants (wd_db w') = merchants ?d"
    and new: "tx_ID txn \<notin> tx_ID ` set (transactions ?d)"
    by - (erule refund_in_tx_Inr, auto)
  have o: "origTx \<in> set (transactions ?d)" "tx_MerchantID origTx = rq_MerchantID req"
    using row_where_Some [OF refund_checks_Inr(1) [OF chk]] by simp_all
  have f: "wallet \<in> set (wallets ?d)" "w_ID wallet = tx_WalletID origTx" "tx_MerchantID txn = rq_MerchantID req"
    "tx_WalletID txn = w_ID wallet" "tx_OriginalTransactionID txn = Some (tx_ID origTx)"
    using row_where_Some [OF w] by (simp_all add: t refund_txn_def)
  have m: "w_MerchantID wallet = rq_MerchantID req" using ok o f(1,2) by (simp add: owners_ok_def)
  have same: "t = origTx" if "t \<in> set (transactions ?d)" "tx_ID t = tx_ID origTx" for t
    using that o(1) txs by (metis inj_onD distinct_map)
  let ?g = "\<lambda>t. (tx_WalletID t, tx_MerchantID t)"
  have img: "?g ` set (transactions (wd_db w')) = ?g ` set (transactions ?d @ [txn])"
    unfolding d' by (rule image_mark_reversed) simp
  have "owners_ok (wd_db w')"
  proof (rule owners_ok_cong [OF _ _ ok dist])
    fix t' assume "t' \<in> set (transactions (wd_db w'))"
    then have "?g t' \<in> ?g ` set (transactions ?d @ [txn])" unfolding img [symmetric] by (rule imageI)
    then show "(\<exists>t \<in> set (transactions ?d). tx_WalletID t' = tx_WalletID t \<and> tx_MerchantID t' = tx_MerchantID t) \<or>
        (\<exists>w \<in> set (wallets ?d). w_ID w = tx_WalletID t' \<and> w_MerchantID w = tx_MerchantID t')"
      using f m by auto
  qed (simp add: d' wallet_pairs_update)
  moreover have "filter (\<lambda>t. tx_MerchantID t \<noteq> rq_MerchantID req) (transactions (wd_db w')) =
      filter (\<lambda>t. tx_MerchantID t \<noteq> rq_MerchantID req) (transactions ?d @ [txn])"
    unfolding d' mark_reversed_def
  proof (rule filter_rows_update_other)
    fix x assume "x \<in> set (transactions ?d @ [txn])" "tx_OriginalTransactionID txn = Some (tx_ID x)"
    then have "tx_MerchantID x = rq_MerchantID req" using same [of x] o(2) f(3,5) by auto
    then show "\<not> tx_MerchantID x \<noteq> rq_MerchantID req \<and>
        \<not> tx_MerchantID (x\<lparr>tx_Status := TransactionStatusReversed, tx_ProcessedAt := Some (ev_now e)\<rparr>) \<noteq> rq_MerchantID req"
      by simp
  qed
  ultimately show ?thesis by (simp add: others_def d'(1,3) f(3) others_wallet_update [OF dist f(1) m])
qed (use ok in simp)

text \<open>Registration and key rotation leave the rows of other merchants alone.\<close>

lemma Register_rows:
  assumes "Register s e req d = (r, d')"
  shows "transactions d' = transactions d \<and> idempotency_logs d' = idempotency_logs d \<and> (\<exists>ms. merchants d' = merchants d @ ms) \<and>
    (\<exists>ws. wallets d' = wallets d @ ws \<and> (\<forall>w \<in> set ws. w_ID w \<notin> w_ID ` set (wallets d)))"
  using assms
proof (cases rule: Register_cases)
  case (merchant_only m sk err)
  from MerchantCreate_Inr(1) [OF this(2)] show ?thesis by simp
next
  case (both m sk c d1)
  note u = MerchantCreate_Inr(1) [OF both(2)] WalletCreate_Inr [OF both(4)]
  have "w_ID (default_wallet e m c) \<notin> w_ID ` set (wallets d)" using u by (simp add: wallets_constraints_def)
  with u(1,2) show ?thesis by simp
qed simp

lemma MerchantUpdate_others:
  assumes "MerchantRepo_Update f n m d = Inr d'"
  shows "others (m_ID m) d' = others (m_ID m) d"
proof -
  have "filter (\<lambda>x. m_ID x \<noteq> m_ID m) (merchants d') = filter (\<lambda>x. m_ID x \<noteq> m_ID m) (merchants d)"
    using assms by (auto simp: MerchantRepo_Update_def res_simps filter_rows_update_other split: if_splits)
  then show ?thesis using MerchantUpdate_tables [OF assms] by (simp add: others_def)
qed

section \<open>Invariants of a request\<close>

text \<open>
  The state of the gateway is in order when the books are, and every transaction is booked on a
  wallet of its own merchant. The services share one encryption service, as in \<^verbatim>\<open>main.go\<close>.
\<close>

definition gateway_inv :: "AESEncryptionService \<Rightarrow> db \<Rightarrow> bool" where
  "gateway_inv a d \<longleftrightarrow> book_inv (aes_encSvc a) d \<and> owners_ok d"

definition wired :: "AESEncryptionService \<Rightarrow> RouterDeps \<Rightarrow> bool" where
  "wired a dp \<longleftrightarrow> dp_EncSvc dp = aes_encSvc a \<and> ps_encSvc (dp_PaymentSvc dp) = aes_encSvc a \<and>
     as_encSvc (dp_AuthSvc dp) = aes_encSvc a \<and> dp_SigSvc dp = hmac_sigSvc"

lemma gateway_inv_keys: "gateway_inv a d \<Longrightarrow> distinct (map w_ID (wallets d)) \<and> distinct (map tx_ID (transactions d))"
  by (simp add: gateway_inv_def book_inv_def)

lemma gateway_inv_same: "wallets d' = wallets d \<Longrightarrow> transactions d' = transactions d \<Longrightarrow> gateway_inv a d' = gateway_inv a d"
  by (simp add: gateway_inv_def owners_ok_def book_inv_same_tables [of d' d])

lemma fund_op_isolated:
  assumes "gateway_inv a (wd_db w)" and "fund_op s e q w = (r, w')"
  shows "others (owner q) (wd_db w') = others (owner q) (wd_db w) \<and> owners_ok (wd_db w')"
proof -
  have ok: "distinct (map w_ID (wallets (wd_db w)))" "distinct (map tx_ID (transactions (wd_db w)))" "owners_ok (wd_db w)"
    using assms(1) gateway_inv_keys by (auto simp: gateway_inv_def)
  show ?thesis using assms(2) ok ProcessPayment_isolated ProcessRefund_isolated ProcessTopup_isolated
    by (cases q) (auto simp: fund_op_simps)
qed

lemma fund_op_inv:
  assumes "gateway_inv a (wd_db w)" and "ps_encSvc s = aes_encSvc a" and "fund_op s e q w = (r, w')"
  shows "gateway_inv a (wd_db w')"
proof -
  have "encryption_service (ps_encSvc s)" using aes.encryption_service_axioms assms(2) by simp
  from fund_operation.keeps_books [OF fund_op_fund_operation [OF this] _ assms(3)] assms(1,2)
  show ?thesis using fund_op_isolated [OF assms(1,3)] by (simp add: gateway_inv_def)
qed

lemma Register_inv:
  assumes "gateway_inv a d" and "as_encSvc s = aes_encSvc a" and reg: "Register s e req d = (r, d')"
  shows "gateway_inv a d'"
proof -
  have "encryption_service (as_encSvc s)" using aes.encryption_service_axioms assms(2) by simp
  from Register_books [OF this _ reg] have "book_inv (aes_encSvc a) d'"
    using assms(1,2) by (simp add: gateway_inv_def)
  moreover from Register_rows [OF reg] obtain ws where rows: "transactions d' = transactions d" "wallets d' = wallets d @ ws"
    "\<forall>w \<in> set ws. w_ID w \<notin> w_ID ` set (wallets d)" by auto
  have "tx_WalletID t \<in> w_ID ` set (wallets d)" if "t \<in> set (transactions d)" for t
    using that assms(1) by (auto simp: gateway_inv_def book_inv_def)
  then have "owners_ok d'" using assms(1) rows by (fastforce simp: gateway_inv_def owners_ok_def)
  ultimately show ?thesis by (simp add: gateway_inv_def)
qed

lemma UpdateWebhookURL_update:
  assumes "UpdateWebhookURL e m url d = Inr d'"
  obtains f n x where "MerchantRepo_Update f n x d = Inr d'" "m_ID x = m"
  using assms by (auto simp: UpdateWebhookURL_def res_simps dest!: find_merchant_Inr)

lemma RotateKeys_update:
  assumes "RotateKeys s e m d = Inr (resp, d')"
  obtains f n x where "MerchantRepo_Update f n x d = Inr d'" "m_ID x = m"
  by (rule RotateKeys_Inr [OF assms]) (use that in auto)

lemma gateway_action_inv:
  assumes "gateway_action dp e m w w'" and "wired a dp" and "gateway_inv a (wd_db w)"
  shows "gateway_inv a (wd_db w')"
  using assms
proof (induction rule: gateway_action.induct)
  case (act_fund q m w r w')
  then show ?case using fund_op_inv by (metis wired_def)
next
  case (act_register req w r d)
  then show ?case using Register_inv [of a "wd_db w" "dp_AuthSvc dp" e req r d] by (simp add: wired_def)
next
  case (act_webhook m url w d)
  from UpdateWebhookURL_update [OF act_webhook(1)] obtain f n x where "MerchantRepo_Update f n x (wd_db w) = Inr d" by metis
  from MerchantUpdate_tables [OF this] show ?case using act_webhook(3) gateway_inv_same [of d "wd_db w"] by simp
next
  case (act_rotate ms m w resp d)
  from RotateKeys_update [OF act_rotate(2)] obtain f n x where "MerchantRepo_Update f n x (wd_db w) = Inr d" by metis
  from MerchantUpdate_tables [OF this] show ?case using act_rotate(4) gateway_inv_same [of d "wd_db w"] by simp
qed simp

lemma gateway_action_isolated:
  assumes "gateway_action dp e (Some m) w w'" and "gateway_inv a (wd_db w)"
  shows "others m (wd_db w') = others m (wd_db w)"
  using assms(1)
proof (cases rule: gateway_action.cases)
  case (act_fund q r)
  then show ?thesis using fund_op_isolated [OF assms(2)] by metis
next
  case (act_webhook url d)
  then show ?thesis using MerchantUpdate_others by (metis UpdateWebhookURL_update world.select_convs(1) world.surjective world.update_convs(1))
next
  case (act_rotate ms resp d)
  then show ?thesis using MerchantUpdate_others by (metis RotateKeys_update world.select_convs(1) world.surjective world.update_convs(1))
qed simp

text \<open>An anonymous caller can only register: nothing that exists changes.\<close>

lemma gateway_action_anonymous:
  assumes "gateway_action dp e None w w'"
  shows "transactions (wd_db w') = transactions (wd_db w) \<and> idempotency_logs (wd_db w') = idempotency_logs (wd_db w) \<and>
    (\<exists>ws. wallets (wd_db w') = wallets (wd_db w) @ ws) \<and> (\<exists>ms. merchants (wd_db w') = merchants (wd_db w) @ ms)"
  using assms
proof (cases rule: gateway_action.cases)
  case (act_register req r d)
  with Register_rows [OF act_register(2)] act_register(1) show ?thesis by auto
qed auto

section \<open>Bearer tokens\<close>

lemma JWTAuth_bearer:
  assumes "hr_Header (c_Request c) ''Authorization'' = ''Bearer '' @ tok" and "tok \<noteq> []"
  shows "JWTAuth dp h c sv = (case Token_Validate (dp_jwt dp) (dp_uuid dp) (dp_TokenSvc dp) (ev_now (hx_mw h)) tok of
      Inl _ \<Rightarrow> (Inl (error_response dp h c ErrInvalidToken), sv)
    | Inr claims \<Rightarrow> (Inr (c\<lparr>c_Keys := (c_Keys c)(CtxMerchantID \<mapsto> CtxUUID (tc_MerchantID claims),
                      CtxAccessKey \<mapsto> CtxString (tc_AccessKey claims))\<rparr>), sv))"
  using assms by (simp add: JWTAuth_def Let_def Suc_le_eq)

section \<open>The gateway as a state machine\<close>

text \<open>
  Besides requests there are the goroutines that webhook deliveries and audit entries run in.
  They write to their log tables at any time; \<open>background\<close> allows any
  change of the log tables. \<open>deliver_background\<close> and \<open>audit_background\<close> show that the goroutines
  do no more than that.
\<close>

definition background :: "db \<Rightarrow> db \<Rightarrow> bool" where
  "background d d' \<longleftrightarrow> merchants d' = merchants d \<and> wallets d' = wallets d \<and>
     transactions d' = transactions d \<and> idempotency_logs d' = idempotency_logs d"

lemma background_refl [simp]: "background d d"
  by (simp add: background_def)

lemma background_trans: "background d d1 \<Longrightarrow> background d1 d2 \<Longrightarrow> background d d2"
  by (simp add: background_def)

lemma persistLog_background: "background (dl_db st) (dl_db (persistLog s de i st))"
  by (auto simp: persistLog_def webhookRepo_Update_def background_def Let_def callE_def split: option.splits)

lemma deliver_attempt_background: "deliver_attempt s de a st = (fin, st') \<Longrightarrow> background (dl_db st) (dl_db st')"
  using persistLog_background [of "st\<lparr>dl_log := l, dl_sent := x, dl_slept := y\<rparr>" for l x y]
  by (auto simp: deliver_attempt_def Let_def persistLog_def webhookRepo_Update_def background_def callE_def
      split: option.splits sum.splits if_splits)

lemma deliver_from_background: "background (dl_db st) (dl_db (deliver_from s de a st))"
proof (induction s de a st rule: deliver_from.induct)
  case (1 s de a st)
  obtain fin st' where step: "deliver_attempt s de a st = (fin, st')" by fastforce
  note bg = deliver_attempt_background [OF step]
  show ?case
  proof (cases "a \<le> length webhookRetryIntervals")
    case True
    with step 1(1) [OF True step [symmetric]] bg background_trans show ?thesis
      by (subst deliver_from.simps) (cases fin; auto)
  next
    case False
    then show ?thesis using persistLog_background [of "st\<lparr>dl_log := (dl_log st)\<lparr>wl_Status := WebhookStatusFailed, wl_NextRetryAt := None\<rparr>\<rparr>"]
      by (subst deliver_from.simps) simp
  qed
qed

lemma deliver_background: "background d (dl_db (deliverWithRetries s de job d))"
proof -
  have "background d (case webhookRepo_Create f l d of Inl _ \<Rightarrow> d | Inr d' \<Rightarrow> d')" for f l
    by (auto simp: webhookRepo_Create_def background_def callE_def bindE_def split: sum.splits option.splits)
  then show ?thesis
    unfolding deliverWithRetries_def Let_def
    by (intro background_trans [OF _ deliver_from_background]) simp
qed

lemma audit_background: "background d (auditService_Log has_repo f entry d)"
  by (auto simp: auditService_Log_def auditRepo_Create_def background_def callE_def bindE_def
      split: sum.splits option.splits)

inductive gateway_step :: "RouterDeps \<Rightarrow> server \<Rightarrow> server \<Rightarrow> bool" for dp :: RouterDeps where
  step_request: "SetupRouter dp h rq sv = (resp, sv') \<Longrightarrow> gateway_step dp sv sv'"
| step_background: "background (sv_db sv) (sv_db sv') \<Longrightarrow> sv_redis sv' = sv_redis sv \<Longrightarrow> gateway_step dp sv sv'"

inductive reachable :: "RouterDeps \<Rightarrow> server \<Rightarrow> bool" for dp :: RouterDeps where
  reach_init: "sv_db sv = empty_db \<Longrightarrow> reachable dp sv"
| reach_step: "reachable dp sv \<Longrightarrow> gateway_step dp sv sv' \<Longrightarrow> reachable dp sv'"

inductive_cases gateway_stepE: "gateway_step dp sv sv'"

lemma gateway_inv_empty: "gateway_inv a empty_db"
  by (simp add: gateway_inv_def owners_ok_def book_inv_def rows_ok_def ledger_inv_def refunds_covered_def
      no_overdraft_def refund_links_def statuses_ok_def empty_db_def total_def)

lemma SetupRouter_inv:
  assumes "SetupRouter dp h rq sv = (resp, sv')" and "wired a dp" and "gateway_inv a (sv_db sv)"
  shows "gateway_inv a (sv_db sv')"
proof -
  from SetupRouter_refines [OF assms(1)] obtain sv1 where "redis_only (ev_now (hx_mw h)) sv sv1"
    "gateway_action dp (hx_svc h) (caller dp h rq sv) (sv_world sv1) (sv_world sv')" by blast
  with gateway_action_inv [OF this(2) assms(2)] assms(3) redis_only_db show ?thesis by metis
qed

lemma reachable_inv: "reachable dp sv \<Longrightarrow> wired a dp \<Longrightarrow> gateway_inv a (sv_db sv)"
proof (induction rule: reachable.induct)
  case (reach_init sv)
  then show ?case by (simp add: gateway_inv_empty)
next
  case (reach_step sv sv')
  from reach_step(2) show ?case
  proof (cases rule: gateway_step.cases)
    case (step_request h rq resp)
    then show ?thesis using SetupRouter_inv reach_step(3,4) by blast
  next
    case step_background
    then show ?thesis using reach_step(3,4) gateway_inv_same [of "sv_db sv'" "sv_db sv" a] by (simp add: background_def)
  qed
qed

section \<open>Nonces survive their lifetime\<close>

lemma commit_and_cache_nonces:
  assumes "commit_and_cache e k txn resp tx w = (r, w')"
  shows "keeps_nonces now (wd_redis w) (wd_redis w')"
proof -
  have "keeps_nonces now r (r(''idempotency:'' @ k \<mapsto> x))" for r x by (rule keeps_nonces_update) simp
  then show ?thesis using assms
    by (auto simp: commit_and_cache_def IdempotencyCache_Set_def redis_set_def callE_def wrapE_def
        split: prod.splits sum.splits option.splits)
qed

lemma fund_op_nonces: "fund_op s e q w = (r, w') \<Longrightarrow> keeps_nonces now (wd_redis w) (wd_redis w')"
  by (cases q)
    (auto simp: fund_op_simps ProcessPayment_def ProcessRefund_def ProcessTopup_def Let_def
      dest: commit_and_cache_nonces split: if_splits sum.splits option.splits prod.splits)

lemma gateway_action_nonces: "gateway_action dp e m w w' \<Longrightarrow> keeps_nonces now (wd_redis w) (wd_redis w')"
  by (induction rule: gateway_action.induct) (auto dest: fund_op_nonces)

lemma SetupRouter_nonces:
  assumes "SetupRouter dp h rq sv = (resp, sv')"
  shows "keeps_nonces (ev_now (hx_mw h)) (sv_redis sv) (sv_redis sv')"
proof -
  from SetupRouter_refines [OF assms] obtain sv1 where "redis_only (ev_now (hx_mw h)) sv sv1"
    "gateway_action dp (hx_svc h) (caller dp h rq sv) (sv_world sv1) (sv_world sv')" by blast
  then show ?thesis using gateway_action_nonces keeps_nonces_trans by (fastforce simp: redis_only_def)
qed

end
