(* ===== verification/Account_Properties.thy ===== *)
theory Account_Properties
  imports Account_Correct Demo_World
begin

text \<open>
  The properties of registration, login and key rotation, with the Argon2id and JWT packages as
  parameters that meet their documentation.
\<close>

section \<open>Registration succeeds\<close>

lemma length_base64_digits: "length (base64_digits bs) = (4 * length bs + 2) div 3"
  by (induction bs rule: base64_digits.induct) simp_all

lemma length_RawStd: "length (RawStd_EncodeToString bs) = (4 * length bs + 2) div 3"
  by (simp add: RawStd_EncodeToString_def length_base64_digits)

lemma length_encode_argon2:
  "length salt = 16 \<Longrightarrow> length h = 32 \<Longrightarrow> length (encode_argon2 salt h) = 97"
  by (simp add: encode_argon2_def argon2_numbers length_RawStd)

lemma NewAuthService_fields [simp]:
  "as_uuid (NewAuthService U h en J t) = U" "as_hashSvc (NewAuthService U h en J t) = h"
  "as_encSvc (NewAuthService U h en J t) = en" "as_jwt (NewAuthService U h en J t) = J"
  "as_tokenSvc (NewAuthService U h en J t) = t"
  by (simp_all add: NewAuthService_def)

lemma generateRandomHex_ok: "no_faults e \<Longrightarrow> generateRandomHex n (rand_draw e i) = Inr (hex_encode (map (ev_rand e i) [0..<n]))"
  by (simp add: generateRandomHex_def rand_draw_ok read_full_def)

lemma aes_Encrypt_ok:
  assumes "no_faults e" and "length (key a) = 32"
  shows "\<exists>c. Encrypt (aes_encSvc a) (rand_draw e i) p = Inr c"
  using AES_Encrypt_total [OF assms(2), of "ev_rand e i" p] assms(1) by (simp add: aes_encSvc_def rand_draw_ok)

lemma register_runs:
  assumes pkg: "argon2_pkg IDKey" and nf: "no_faults e" and key: "length (key a) = 32"
    and name: "gq_Username req \<notin> m_Username ` set (merchants d)" "rune_count (gq_Username req) \<le> 50"
      "rune_count (gq_MerchantName req) \<le> 100"
    and fresh: "ev_uuid e 0 \<notin> m_ID ` set (merchants d)" "ev_uuid e 1 \<notin> w_ID ` set (wallets d)"
      "hex_encode (map (ev_rand e 0) [0..<32]) \<notin> m_AccessKey ` set (merchants d)"
  shows "\<exists>resp d'. Register (NewAuthService U (argon2_hashSvc IDKey) (aes_encSvc a) J ts) e req d = (Inr resp, d')"
proof -
  let ?s = "NewAuthService U (argon2_hashSvc IDKey) (aes_encSvc a) J ts"
  obtain c where c: "Encrypt (aes_encSvc a) (rand_draw e 3) (hex_encode (map (ev_rand e 1) [0..<32])) = Inr c"
    using aes_Encrypt_ok [OF nf key] by blast
  obtain z where z: "Encrypt (aes_encSvc a) (rand_draw e 4) ''0'' = Inr z" using aes_Encrypt_ok [OF nf key] by blast
  let ?salt = "map (ev_rand e 2) [0..<16]"
  let ?ph = "encode_argon2 ?salt (IDKey (bytes_of (gq_Password req)) ?salt argon2Time argon2Memory argon2Threads argon2KeyLen)"
  have ph: "Hash (argon2_hashSvc IDKey) (rand_draw e 2) (gq_Password req) = Inr ?ph"
    by (simp add: argon2_hashSvc_def Argon2_Hash_def rand_draw_ok [OF nf] read_full_def argon2SaltLen_def)
  have "length ?ph = 97"
    by (rule length_encode_argon2) (simp_all add: argon2_pkg.length_IDKey [OF pkg] argon2KeyLen_def)
  then have phl: "rune_count ?ph \<le> 255" using rune_count_le [of ?ph] by linarith
  have akl: "rune_count (hex_encode (map (ev_rand e 0) [0..<32])) \<le> 64"
    using rune_count_le [of "hex_encode (map (ev_rand e 0) [0..<32])"] by simp
  have un: "row_where (\<lambda>m. m_Username m = gq_Username req) (merchants d) = None"
    using name(1) by (auto simp: row_where_None image_iff)
  define m where "m = \<lparr>m_ID = ev_uuid e 0, m_Username = gq_Username req, m_PasswordHash = ?ph,
           m_MerchantName = gq_MerchantName req, m_AccessKey = hex_encode (map (ev_rand e 0) [0..<32]),
           m_SecretKeyEnc = c, m_WebhookURL = gq_WebhookURL req, m_Status = MerchantStatusActive,
           m_CreatedAt = ev_now e, m_UpdatedAt = ev_now e\<rparr>"
  have rm: "register_merchant ?s e req d = Inr (m, hex_encode (map (ev_rand e 1) [0..<32]))"
    using nf un ph c
    by (simp add: register_merchant_def MerchantRepo_GetByUsername_def generateRandomHex_ok m_def del: One_nat_def)
  have "check_all (merchants_constraints m d) = Inr ()"
    using name fresh phl akl by (simp add: merchants_constraints_def m_def rune_count_def)
  then have mc: "MerchantRepo_Create None m d = Inr (d\<lparr>merchants := merchants d @ [m]\<rparr>)"
    by (simp add: MerchantRepo_Create_def)
  have "check_all (wallets_constraints (default_wallet e m z) (d\<lparr>merchants := merchants d @ [m]\<rparr>)) = Inr ()"
    using fresh by (simp add: wallets_constraints_def default_wallet_def rune_count_def)
  then show ?thesis
    using nf rm mc z by (simp add: Register_def WalletRepo_Create_def)
qed

text \<open>
  A registration with an unused username and fresh random values succeeds. It stores one
  active merchant and one VND wallet whose balance decrypts to zero, keeps the books in order,
  and returns the secret key whose encryption was stored.
\<close>

theorem register_success:
  assumes "argon2_pkg IDKey" and "no_faults e" and "length (key a) = 32" and "book_inv (aes_encSvc a) d"
    and "gq_Username req \<notin> m_Username ` set (merchants d)" and "rune_count (gq_Username req) \<le> 50"
    and "rune_count (gq_MerchantName req) \<le> 100"
    and "ev_uuid e 0 \<notin> m_ID ` set (merchants d)" and "ev_uuid e 1 \<notin> w_ID ` set (wallets d)"
    and "hex_encode (map (ev_rand e 0) [0..<32]) \<notin> m_AccessKey ` set (merchants d)"
  shows "\<exists>resp d' m w. Register (NewAuthService U (argon2_hashSvc IDKey) (aes_encSvc a) J ts) e req d = (Inr resp, d') \<and>
    d' = d\<lparr>merchants := merchants d @ [m], wallets := wallets d @ [w]\<rparr> \<and>
    m_ID m = gr_MerchantID resp \<and> m_AccessKey m = gr_AccessKey resp \<and> IsActive m \<and>
    Decrypt (aes_encSvc a) (m_SecretKeyEnc m) = Inr (gr_SecretKey resp) \<and>
    w_MerchantID w = gr_MerchantID resp \<and> w_Currency w = ''VND'' \<and> balance_of (aes_encSvc a) w = Some 0 \<and>
    book_inv (aes_encSvc a) d'"
proof -
  let ?s = "NewAuthService U (argon2_hashSvc IDKey) (aes_encSvc a) J ts"
  obtain resp d' where reg: "Register ?s e req d = (Inr resp, d')"
    using register_runs [OF assms(1-3,5-10)] by blast
  obtain m c where d': "d' = d\<lparr>merchants := merchants d @ [m], wallets := wallets d @ [default_wallet e m c]\<rparr>"
    and m: "register_merchant ?s e req d = Inr (m, gr_SecretKey resp)"
    and ids: "gr_MerchantID resp = m_ID m" "gr_AccessKey resp = m_AccessKey m"
    and c: "Encrypt (aes_encSvc a) (rand_draw e 4) ''0'' = Inr c"
    by (rule Register_success [OF reg]) simp
  have "IsActive m" using register_merchant_Inr(3) [OF m] by (simp add: IsActive_def)
  moreover have "Decrypt (aes_encSvc a) (m_SecretKeyEnc m) = Inr (gr_SecretKey resp)"
    using register_merchant_Inr(5) [OF m] by (intro aes.decrypt_encrypt) simp
  moreover have "balance_of (aes_encSvc a) (default_wallet e m c) = Some 0"
    using aes.amount_roundtrip [of a "rand_draw e 4" 0 c] c by (simp add: balance_of_def default_wallet_def)
  moreover have "book_inv (aes_encSvc a) d'"
    using Register_books [OF _ _ reg] assms(4) aes.encryption_service_axioms by simp
  ultimately show ?thesis
    using reg d' ids
    by (intro exI [of _ resp] exI [of _ d'] exI [of _ m] exI [of _ "default_wallet e m c"])
      (simp add: default_wallet_def)
qed

definition demo_register :: RegisterRequest where
  "demo_register = \<lparr>gq_Username = ''cafe'', gq_Password = ''secret-pw'', gq_MerchantName = ''Cafe'', gq_WebhookURL = None\<rparr>"

definition demo_tokens :: JWTTokenService where
  "demo_tokens = NewJWTTokenService ''jwt-secret'' 86400000000 ''spg''"

definition demo_auth :: AuthServiceImpl where
  "demo_auth = NewAuthService rfc4122 (argon2_hashSvc sample_IDKey) (aes_encSvc demo_aes) sample_jwt demo_tokens"

lemma demo_access_key_fresh: "hex_encode (map (ev_rand demo_env 0) [0..<32]) \<notin> m_AccessKey ` set (merchants demo_topped_up)"
proof -
  have "length (hex_encode (map (ev_rand demo_env 0) [0..<32])) = 64" by simp
  then show ?thesis by fastforce
qed

lemma demo_registered:
  obtains resp d' where "Register demo_auth demo_env demo_register demo_topped_up = (Inr resp, d')"
  using register_runs [OF sample.argon2_pkg_axioms demo_no_faults demo_key, of demo_register demo_topped_up
      rfc4122 sample_jwt demo_tokens] demo_access_key_fresh
  by (force simp: demo_auth_def demo_register_def demo_env_def rune_count_def)

theorem register_success_witness:
  "\<exists>resp d' m w. Register demo_auth demo_env demo_register demo_topped_up = (Inr resp, d') \<and>
    merchants d' = [demo_merchant, m] \<and> wallets d' = [demo_wallet 1000, w] \<and>
    balance_of (aes_encSvc demo_aes) w = Some 0"
  using register_success [OF sample.argon2_pkg_axioms demo_no_faults demo_key, of demo_topped_up demo_register
      rfc4122 sample_jwt demo_tokens] demo_access_key_fresh
  by (force simp: demo_auth_def demo_register_def demo_env_def demo_books_topped_up rune_count_def)

section \<open>Login\<close>

text \<open>
  C15: After a registration the merchant logs in with its password; the session token it gets
  validates, until the second it expires in, to the id and access key of that merchant.
\<close>

theorem register_login_roundtrip:
  assumes "jwt_lib J" and "uuid_text U" and "argon2_pkg IDKey"
    and "s = NewAuthService U (argon2_hashSvc IDKey) (aes_encSvc a) J ts"
    and "Register s e req d = (Inr resp, d')" and "ev_fault e' S_Merchant_Get = None"
    and "Token_Generate J U ts (ev_now e') (gr_MerchantID resp) (gr_AccessKey resp) = Inr (tok, expiry)"
    and "now < Unix expiry * 1000000"
  shows "Login s e' (gq_Username req) (gq_Password req) d' = Inr (tok, expiry) \<and>
    Token_Validate J U ts now tok = Inr \<lparr>tc_MerchantID = gr_MerchantID resp, tc_AccessKey = gr_AccessKey resp\<rparr>"
proof
  have hash: "hash_service (as_hashSvc s)"
    using assms(3,4) by (simp add: argon2_pkg_hash_service)
  show "Login s e' (gq_Username req) (gq_Password req) d' = Inr (tok, expiry)"
    by (rule login_after_register [OF hash assms(5,6)]) (use assms(4,7) in simp)
  show "Token_Validate J U ts now tok = Inr \<lparr>tc_MerchantID = gr_MerchantID resp, tc_AccessKey = gr_AccessKey resp\<rparr>"
    by (rule jwt_lib.validate_generated [OF assms(1,2,7,8)])
qed

lemma demo_token: "\<exists>tok. Token_Generate sample_jwt rfc4122 demo_tokens n m k = Inr (tok, n + 86400000000)"
  by (simp add: Token_Generate_def sample_jwt_def sample_sign_def demo_tokens_def NewJWTTokenService_def)

theorem register_login_roundtrip_witness:
  "\<exists>resp d' tok expiry. Register demo_auth demo_env demo_register demo_topped_up = (Inr resp, d') \<and>
     Login demo_auth demo_env ''cafe'' ''secret-pw'' d' = Inr (tok, expiry) \<and>
     Token_Validate sample_jwt rfc4122 demo_tokens (ev_now demo_env) tok =
       Inr \<lparr>tc_MerchantID = gr_MerchantID resp, tc_AccessKey = gr_AccessKey resp\<rparr>"
proof -
  obtain resp d' where reg: "Register demo_auth demo_env demo_register demo_topped_up = (Inr resp, d')"
    by (rule demo_registered)
  obtain tok where tok: "Token_Generate sample_jwt rfc4122 demo_tokens (ev_now demo_env) (gr_MerchantID resp)
      (gr_AccessKey resp) = Inr (tok, ev_now demo_env + 86400000000)" using demo_token by blast
  have "ev_now demo_env < Unix (ev_now demo_env + 86400000000) * 1000000" by (simp add: demo_env_def Unix_def)
  from register_login_roundtrip [OF sample_jwt.jwt_lib_axioms rfc.uuid_text_axioms sample.argon2_pkg_axioms
      demo_auth_def reg _ tok this, of ]
  show ?thesis using reg by (auto simp: demo_register_def demo_env_def)
qed

text \<open>
  Login reveals no more than it must: an unknown username and a wrong password get the same
  error AUTH_001, and only who knows the password learns (AUTH_004) that the account is not
  active. No token is issued in any of these cases.
\<close>

theorem login_rejections:
  assumes "ev_fault e S_Merchant_Get = None"
    and "found = row_where (\<lambda>m. m_Username m = username) (merchants d)"
  shows "(found = None \<longrightarrow> Login s e username password d = Inl ErrInvalidCredentials) \<and>
    (\<forall>m. found = Some m \<longrightarrow> Verify_hash (as_hashSvc s) password (m_PasswordHash m) = Inr False \<longrightarrow>
       Login s e username password d = Inl ErrInvalidCredentials) \<and>
    (\<forall>m. found = Some m \<longrightarrow> Verify_hash (as_hashSvc s) password (m_PasswordHash m) = Inr True \<longrightarrow> \<not> IsActive m \<longrightarrow>
       Login s e username password d = Inl ErrMerchantSuspended)"
  using assms by (auto simp: Login_def MerchantRepo_GetByUsername_def)

theorem login_rejections_witness:
  "Login demo_auth demo_env ''nobody'' ''pw'' demo_topped_up = Inl ErrInvalidCredentials"
  using login_rejections [of demo_env _ "''nobody''" demo_topped_up demo_auth "''pw''"] by (simp add: demo_env_def)

text \<open>
  C16: Registration is not atomic: when the merchant was stored and the wallet was not, the
  caller gets an error, the merchant stays without a wallet, and the username stays taken, so that
  every later attempt to register it is refused as a duplicate.
\<close>

theorem registration_not_atomic:
  assumes "register_merchant s e req d = Inr (m, sk)"
    and "MerchantRepo_Create (ev_fault e S_Merchant_Create) m d = Inr d1"
    and "ev_fault e S_Wallet_Create = Some werr"
    and "ev_fault e' S_Merchant_Get = None" and "gq_Username req' = gq_Username req"
  shows "\<exists>err. Register s e req d = (Inl err, d1) \<and> m \<in> set (merchants d1) \<and> wallets d1 = wallets d \<and>
    Register s e' req' d1 = (Inl (Validation ''username already exists''), d1)"
proof -
  note u = MerchantCreate_Inr [OF assms(2)]
  have "\<exists>err. Register s e req d = (Inl err, d1)"
    using assms(1-3)
    by (cases "Encrypt (as_encSvc s) (rand_draw e 4) ''0''") (auto simp: Register_def WalletRepo_Create_def)
  moreover have "\<exists>x. row_where (\<lambda>x. m_Username x = gq_Username req) (merchants d1) = Some x"
    using register_merchant_Inr(2) [OF assms(1)] u(1) by (cases "row_where (\<lambda>x. m_Username x = gq_Username req) (merchants d1)")
      (auto simp: row_where_None)
  then have "Register s e' req' d1 = (Inl (Validation ''username already exists''), d1)"
    using assms(4,5) by (auto simp: Register_def register_merchant_def MerchantRepo_GetByUsername_def)
  ultimately show ?thesis using u(1) by simp
qed

lemma demo_register_merchant:
  obtains m sk d1 where "register_merchant demo_auth demo_env demo_register demo_topped_up = Inr (m, sk)"
    "MerchantRepo_Create None m demo_topped_up = Inr d1"
proof -
  obtain resp d' where "Register demo_auth demo_env demo_register demo_topped_up = (Inr resp, d')"
    by (rule demo_registered)
  then show ?thesis
    by (cases rule: Register_cases) (use that in \<open>auto simp: demo_env_def\<close>)
qed

theorem registration_not_atomic_witness:
  "\<exists>err d1. Register demo_auth (demo_env\<lparr>ev_fault := (\<lambda>_. None)(S_Wallet_Create := Some (Plain ''timeout''))\<rparr>)
      demo_register demo_topped_up = (Inl err, d1) \<and> wallets d1 = wallets demo_topped_up \<and>
    Register demo_auth demo_env demo_register d1 = (Inl (Validation ''username already exists''), d1)"
proof -
  let ?e = "demo_env\<lparr>ev_fault := (\<lambda>_. None)(S_Wallet_Create := Some (Plain ''timeout''))\<rparr>"
  obtain m sk d1 where m: "register_merchant demo_auth demo_env demo_register demo_topped_up = Inr (m, sk)"
    and c: "MerchantRepo_Create None m demo_topped_up = Inr d1" by (rule demo_register_merchant)
  from m have m': "register_merchant demo_auth ?e demo_register demo_topped_up = Inr (m, sk)"
    by (simp add: register_merchant_def rand_draw_def demo_env_def)
  from c have "MerchantRepo_Create (ev_fault ?e S_Merchant_Create) m demo_topped_up = Inr d1" by simp
  from registration_not_atomic [OF m' this, of "Plain ''timeout''" demo_env demo_register] show ?thesis
    by (auto simp: demo_env_def)
qed

section \<open>Key rotation\<close>

text \<open>
  A successful rotation makes the new access key find the merchant with the secret key that
  was returned, makes the old access key unknown, keeps status, webhook URL and password, and
  leaves every other merchant alone.
\<close>

theorem rotate_keys_replaces:
  assumes "db_wf d" and "RotateKeys \<lparr>ms_encSvc = aes_encSvc a\<rparr> e i d = Inr (resp, d')"
    and "row_where (\<lambda>m. m_ID m = i) (merchants d) = Some m0" and "m_AccessKey m0 \<noteq> rk_AccessKey resp"
  shows "(\<exists>m'. MerchantRepo_GetByAccessKey None (rk_AccessKey resp) d' = Inr (Some m') \<and> m_ID m' = i \<and>
      Decrypt (aes_encSvc a) (m_SecretKeyEnc m') = Inr (rk_SecretKey resp) \<and> m_Status m' = m_Status m0 \<and>
      m_WebhookURL m' = m_WebhookURL m0 \<and> m_PasswordHash m' = m_PasswordHash m0) \<and>
    MerchantRepo_GetByAccessKey None (m_AccessKey m0) d' = Inr None \<and>
    (\<forall>j. j \<noteq> i \<longrightarrow> MerchantRepo_GetByID None j d' = MerchantRepo_GetByID None j d)"
  using rotate_effects [of "\<lparr>ms_encSvc = aes_encSvc a\<rparr>", OF _ assms] aes.encryption_service_axioms
  by (simp add: MerchantRepo_GetByAccessKey_def MerchantRepo_GetByID_def)

lemma demo_db_wf: "db_wf demo_topped_up" "db_wf demo_paid"
  by (simp_all add: db_wf_def)

lemma demo_rotate:
  "\<exists>resp d'. RotateKeys \<lparr>ms_encSvc = aes_encSvc demo_aes\<rparr> demo_env 1 demo_topped_up = Inr (resp, d') \<and> length (rk_AccessKey resp) = 51"
proof -
  let ?ak = "''ak_'' @ hex_encode (map (ev_rand demo_env 0) [0..<24])"
  let ?sk = "''sk_'' @ hex_encode (map (ev_rand demo_env 1) [0..<32])"
  obtain c where c: "Encrypt (aes_encSvc demo_aes) (rand_draw demo_env 2) ?sk = Inr c"
    using aes_Encrypt_ok [OF demo_no_faults demo_key] by blast
  have l: "rune_count ?ak \<le> 64" using rune_count_le [of ?ak] by simp
  have k: "generateKey ''ak_'' 24 (rand_draw demo_env 0) = Inr ?ak" "generateKey ''sk_'' 32 (rand_draw demo_env 1) = Inr ?sk"
    by (simp_all add: generateKey_def rand_draw_ok read_full_def del: One_nat_def)
  have f: "find_merchant demo_env 1 demo_topped_up = Inr demo_merchant"
    by (simp add: find_merchant_def MerchantRepo_GetByID_def demo_env_def)
  have "\<exists>d'. MerchantRepo_Update None (ev_db_now demo_env)
      (demo_merchant\<lparr>m_AccessKey := ?ak, m_SecretKeyEnc := c, m_UpdatedAt := ev_now demo_env\<rparr>) demo_topped_up = Inr d'"
  proof -
    have "rune_count (m_MerchantName demo_merchant) \<le> 100" by (simp add: demo_merchant_def rune_count_def)
    then show ?thesis using l by (auto simp: MerchantRepo_Update_def rune_count_def)
  qed
  then show ?thesis
    using c k f by (auto simp: RotateKeys_def simp del: One_nat_def)
qed

theorem rotate_keys_replaces_witness:
  "\<exists>resp d' m'. RotateKeys \<lparr>ms_encSvc = aes_encSvc demo_aes\<rparr> demo_env 1 demo_topped_up = Inr (resp, d') \<and>
     MerchantRepo_GetByAccessKey None (rk_AccessKey resp) d' = Inr (Some m') \<and> m_ID m' = 1 \<and>
     MerchantRepo_GetByAccessKey None ''ak'' d' = Inr None"
proof -
  obtain resp d' where rot: "RotateKeys \<lparr>ms_encSvc = aes_encSvc demo_aes\<rparr> demo_env 1 demo_topped_up = Inr (resp, d')"
    and len: "length (rk_AccessKey resp) = 51" using demo_rotate by blast
  have "''ak'' \<noteq> rk_AccessKey resp"
  proof
    assume "''ak'' = rk_AccessKey resp"
    from arg_cong [OF this, of length] len show False by simp
  qed
  with rotate_keys_replaces [OF demo_db_wf(1) rot, of demo_merchant] rot show ?thesis by auto
qed

end
