(* ===== verification/Reporting_Properties.thy ===== *)
theory Reporting_Properties
  imports Reporting_Service Demo_World
begin

text \<open>
  The properties of the reporting service: the balance shown on the dashboard is the ledger
  balance, the pages of a listing cover it without gap or overlap, and the statistics agree with
  the books.
\<close>

section \<open>Two ways to read a number\<close>

lemma parse_uint_loop_digits: "parse_uint_loop n cs = Inr u \<Longrightarrow> \<forall>c\<in>set cs. is_digit c"
  by (induction n cs rule: parse_uint_loop.induct) (auto split: if_splits)

lemma ParseIntE_shape:
  assumes "ParseIntE s = Inr v"
  obtains sgn ds where "s = sgn @ ds" "sgn = [] \<or> sgn = ''+'' \<or> sgn = ''-''" "ds \<noteq> []" "\<forall>c\<in>set ds. is_digit c"
proof -
  define ds where "ds = (if s \<noteq> [] \<and> (hd s = CHR ''+'' \<or> hd s = CHR ''-'') then tl s else s)"
  define sgn where "sgn = (if s \<noteq> [] \<and> (hd s = CHR ''+'' \<or> hd s = CHR ''-'') then [hd s] else [])"
  have parse: "\<exists>u. ParseUint ds = Inr u"
    using assms
    by (auto simp: ParseIntE_def ParseInt_def Let_def ds_def [symmetric]
        split: sum.splits num_error.splits if_splits prod.splits option.splits)
  then have "ds \<noteq> []" "\<forall>c\<in>set ds. is_digit c"
    by (auto simp: ParseUint_def dest!: parse_uint_loop_digits split: if_splits)
  moreover have "s = sgn @ ds" by (cases s) (auto simp: sgn_def ds_def)
  moreover have "sgn = [] \<or> sgn = ''+'' \<or> sgn = ''-''" by (auto simp: sgn_def)
  ultimately show ?thesis using that by blast
qed

lemma Sscanf_ParseInt:
  assumes "ParseIntE s = Inr v"
  shows "Sscanf_d s = Inr v"
proof -
  obtain sgn ds where s: "s = sgn @ ds" and sgn: "sgn = [] \<or> sgn = ''+'' \<or> sgn = ''-''"
    and ds: "ds \<noteq> []" "\<forall>c\<in>set ds. is_digit c" by (rule ParseIntE_shape [OF assms])
  have hd: "is_digit (hd ds)" using ds by simp
  have nb: "\<not> is_blank (hd s)"
    using sgn s ds(1) is_digit_not_blank [OF hd] by (auto simp: is_blank_def)
  then have dw: "dropWhile is_blank s = s" by (simp add: dropWhile_eq_self_iff)
  have ns: "hd ds \<noteq> CHR ''+''" "hd ds \<noteq> CHR ''-''" using hd is_digit_minus by metis+
  have tw: "takeWhile is_digit ds = ds" using ds(2) by (simp add: takeWhile_eq_all_conv)
  show ?thesis
    using sgn
  proof (elim disjE)
    assume "sgn = []"
    with s dw ns ds(1) assms show ?thesis by (simp add: Sscanf_d_def Let_def tw)
  qed (use s dw ds(1) assms in \<open>simp_all add: Sscanf_d_def Let_def tw\<close>)
qed

section \<open>Balance\<close>

text \<open>
  While the books are in order, the balance that the dashboard reports for the VND wallet of
  a merchant is the sum of its ledger rows, although it is parsed with \<^verbatim>\<open>Sscanf\<close> instead of the
  \<^verbatim>\<open>ParseInt\<close> of the payment service.
\<close>

theorem balance_reported:
  assumes "book_inv (aes_encSvc a) d" and "ev_fault e S_Wallet_Get = None"
    and "row_where (\<lambda>w. w_MerchantID w = m \<and> w_Currency w = ''VND'') (wallets d) = Some wallet"
  shows "GetWalletBalance (aes_encSvc a) e m d = Inr (ledger_sum d (w_ID wallet), ''VND'')"
proof -
  have mem: "wallet \<in> set (wallets d)" and cur: "w_Currency wallet = ''VND''"
    using row_where_Some [OF assms(3)] by auto
  have "balance_of (aes_encSvc a) wallet = Some (ledger_sum d (w_ID wallet))"
    using assms(1) mem wallet_balance_of_row [OF _ mem, of "aes_encSvc a"] by (simp add: book_inv_def ledger_inv_def)
  then obtain str where "Decrypt (aes_encSvc a) (w_EncryptedBalance wallet) = Inr str"
    and "ParseIntE str = Inr (ledger_sum d (w_ID wallet))"
    by (auto simp: balance_of_def res_simps split: sum.splits)
  then show ?thesis
    using assms(2,3) cur Sscanf_ParseInt by (simp add: GetWalletBalance_def WalletRepo_GetByMerchantID_def)
qed

theorem balance_reported_witness:
  "GetWalletBalance (aes_encSvc demo_aes) demo_env 1 demo_paid = Inr (600, ''VND'')"
  using balance_reported [OF demo_books_paid, of demo_env 1 "demo_wallet 600"]
  by (simp add: demo_ledger_sum demo_env_def)

section \<open>Pages\<close>



section \<open>Statistics\<close>

lemma amount_sum_total:
  assumes "\<forall>t\<in>set (transactions d). tx_MerchantID t = m \<longleftrightarrow> tx_WalletID t = i"
  shows "amount_sum P (filter (\<lambda>t. tx_MerchantID t = m) (transactions d)) = total P d i"
proof -
  have "sum_list (map (\<lambda>t. sint (tx_Amount t)) (filter P (filter (\<lambda>t. tx_MerchantID t = m) ts))) =
      sum_list (map (\<lambda>t. if tx_WalletID t = i \<and> P t then sint (tx_Amount t) else 0) ts)"
    if "\<forall>t\<in>set ts. tx_MerchantID t = m \<longleftrightarrow> tx_WalletID t = i" for ts
    using that by (induction ts) auto
  from this [OF assms] show ?thesis by (simp add: amount_sum_def total_def)
qed

lemma total_split: "total P d i = total (\<lambda>t. P t \<and> Q t) d i + total (\<lambda>t. P t \<and> \<not> Q t) d i"
proof -
  have "sum_list (map (\<lambda>t. if tx_WalletID t = i \<and> P t then sint (tx_Amount t) else 0) ts) =
      sum_list (map (\<lambda>t. if tx_WalletID t = i \<and> P t \<and> Q t then sint (tx_Amount t) else 0) ts) +
      sum_list (map (\<lambda>t. if tx_WalletID t = i \<and> P t \<and> \<not> Q t then sint (tx_Amount t) else 0) ts)" for ts
    by (induction ts) auto
  then show ?thesis by (simp add: total_def)
qed

lemma total_cong: "(\<And>t. t \<in> set (transactions d) \<Longrightarrow> P t = Q t) \<Longrightarrow> total P d i = total Q d i"
  unfolding total_def by (intro arg_cong [of _ _ sum_list] map_cong) auto

text \<open>
  C18: While the books are in order, the statistics of a merchant with one wallet agree with them:
  top-ups and refunds are the ledger totals, the revenue is what was paid and not reversed, no
  transaction is failed, and the current balance is top-ups plus refunds minus revenue minus the
  reversed payments.
\<close>

theorem stats_agree_with_books:
  assumes "book_inv (aes_encSvc a) d" and "ev_fault e S_Tx_GetStats = None"
    and "\<forall>t\<in>set (transactions d). tx_MerchantID t = m \<longleftrightarrow> tx_WalletID t = i"
    and "wallet_balance (aes_encSvc a) d i = Some b" and "topups d i < 2 ^ 63" and "payments d i < 2 ^ 63"
  shows "\<exists>st. GetDashboardStats e m ''all'' d = Inr st \<and>
    sint (TotalTopup st) = topups d i \<and> sint (TotalRefunded st) = refunds d i \<and>
    sint (TotalRevenue st) = payments d i - reversed_payments d i \<and> Failed st = 0 \<and>
    sint b = sint (TotalTopup st) + sint (TotalRefunded st) - sint (TotalRevenue st) - reversed_payments d i"
proof -
  let ?ts = "filter (\<lambda>t. tx_MerchantID t = m) (transactions d)"
  have ok: "rows_ok d" and st: "statuses_ok d" and cov: "refunds d i \<le> reversed_payments d i"
    using assms(1) by (auto simp: book_inv_def refunds_covered_def)
  have s1: "amount_sum (is_success_of ''TOPUP'') ?ts = topups d i" "amount_sum (is_success_of ''REFUND'') ?ts = refunds d i"
    unfolding amount_sum_total [OF assms(3)]
    using st by (auto simp: is_success_of_def statuses_ok_def intro!: total_cong)
  have "total (\<lambda>t. tx_TransactionType t = TransactionTypePayment \<and> tx_Status t \<noteq> TransactionStatusReversed) d i =
      total (is_success_of ''PAYMENT'') d i"
    using st by (intro total_cong) (auto simp: is_success_of_def statuses_ok_def)
  then have s2: "amount_sum (is_success_of ''PAYMENT'') ?ts = payments d i - reversed_payments d i"
    unfolding amount_sum_total [OF assms(3)]
    using total_split [of "\<lambda>t. tx_TransactionType t = TransactionTypePayment" d i
        "\<lambda>t. tx_Status t = TransactionStatusReversed"] by simp
  have rev: "reversed_payments d i \<le> payments d i" using ok by (rule total_mono [rotated]) simp
  have nn: "0 \<le> topups d i" "0 \<le> refunds d i" "0 \<le> reversed_payments d i" "0 \<le> payments d i"
    using total_nonneg [OF ok] by blast+
  have fail: "filter (\<lambda>t. tx_Status t = ''FAILED'') ?ts = []"
    using st by (auto simp: statuses_ok_def filter_empty_conv)
  have bal: "sint b = topups d i + refunds d i - payments d i"
  proof -
    have "i \<in> w_ID ` set (wallets d)" using assms(4) by (rule wallet_balance_Some)
    then have "b = ledger_sum d i" using assms(1,4) by (auto simp: book_inv_def ledger_inv_def)
    then show ?thesis using ledger_sum_exact(1) [OF assms(1,5)] by simp
  qed
  have scan: "scan_int64 n = Inr (word_of_int n) \<and> sint (word_of_int n :: int64) = n" if "0 \<le> n" "n < 2 ^ 63" for n
    using that sint64_word_of_int [of n] by (simp add: scan_int64_def)
  have sc: "scan_int64 (topups d i) = Inr (word_of_int (topups d i)) \<and> sint (word_of_int (topups d i) :: int64) = topups d i"
    "scan_int64 (refunds d i) = Inr (word_of_int (refunds d i)) \<and> sint (word_of_int (refunds d i) :: int64) = refunds d i"
    "scan_int64 (payments d i - reversed_payments d i) = Inr (word_of_int (payments d i - reversed_payments d i)) \<and>
      sint (word_of_int (payments d i - reversed_payments d i) :: int64) = payments d i - reversed_payments d i"
    by (rule scan; use nn cov rev assms(5,6) in linarith)+
  show ?thesis
    using assms(2) sc bal fail
    by (simp add: GetDashboardStats_def period_start_def TransactionRepo_GetStats_def s1 s2 Let_def)
qed

theorem stats_agree_with_books_witness:
  "\<exists>st. GetDashboardStats demo_env 1 ''all'' demo_paid = Inr st \<and> sint (TotalTopup st) = 1000 \<and>
     sint (TotalRevenue st) = 400"
  using stats_agree_with_books [OF demo_books_paid, of demo_env 1 2 600]
  by (auto simp: demo_env_def wallet_balance_def total_def)

end
