(* ===== verification/Webhook_Properties.thy ===== *)
theory Webhook_Properties
  imports Webhook_Service Demo_World
begin

text \<open>
  The properties of webhook delivery: the attempts, sleeps and final status as a function of what
  the receiver does, the stored log row, and that the signature of a notification verifies.
\<close>

section \<open>Attempts\<close>

definition delivered :: "delivery_env \<Rightarrow> nat \<Rightarrow> bool" where
  "delivered de k \<longleftrightarrow> de_newreq de k = None \<and> (case de_do de k of Inr st \<Rightarrow> 200 \<le> st \<and> st < 300 | Inl _ \<Rightarrow> False)"

definition max_attempts :: nat where
  "max_attempts = Suc (length webhookRetryIntervals)"

definition sleeps :: "nat \<Rightarrow> nat \<Rightarrow> time list" where
  "sleeps a b = map (\<lambda>i. webhookRetryIntervals ! (i - 1)) (filter (\<lambda>i. 0 < i) [a..<b])"

definition sent :: "delivery_env \<Rightarrow> nat \<Rightarrow> nat \<Rightarrow> nat list" where
  "sent de a b = map Suc (filter (\<lambda>i. de_newreq de i = None) [a..<b])"

lemma persistLog_fields [simp]:
  "dl_sent (persistLog s de i st) = dl_sent st" "dl_slept (persistLog s de i st) = dl_slept st"
  "wl_Status (dl_log (persistLog s de i st)) = wl_Status (dl_log st)"
  "wl_Attempt (dl_log (persistLog s de i st)) = wl_Attempt (dl_log st)"
  "wl_NextRetryAt (dl_log (persistLog s de i st)) = wl_NextRetryAt (dl_log st)"
  "wl_LastError (dl_log (persistLog s de i st)) = wl_LastError (dl_log st)"
  by (auto simp: persistLog_def webhookRepo_Update_def Let_def callE_def split: option.splits)

lemma retry_at_fields [simp]:
  "wl_Status (retry_at de i l) = wl_Status l" "wl_Attempt (retry_at de i l) = wl_Attempt l"
  by (simp_all add: retry_at_def)

lemma deliver_attempt_effect:
  fixes st :: delivery
  assumes "deliver_attempt s de a st = (fin, st')"
  shows "fin = delivered de a" "dl_slept st' = dl_slept st @ sleeps a (Suc a)"
    "dl_sent st' = dl_sent st @ sent de a (Suc a)" "wl_Attempt (dl_log st') = Suc a"
    and "fin \<Longrightarrow> wl_Status (dl_log st') = WebhookStatusDelivered \<and> wl_NextRetryAt (dl_log st') = None \<and>
      wl_LastError (dl_log st') = None"
  using assms
  by (auto simp: deliver_attempt_def delivered_def sleeps_def sent_def Let_def
      split: option.splits sum.splits if_splits)

lemma upt_Cons: "a < b \<Longrightarrow> [a..<b] = a # [Suc a..<b]"
  by (rule upt_conv_Cons)

lemma sleeps_step: "a < b \<Longrightarrow> sleeps a (Suc a) @ sleeps (Suc a) b = sleeps a b"
  by (simp add: sleeps_def upt_Cons [of a b])

lemma sent_step: "a < b \<Longrightarrow> sent de a (Suc a) @ sent de (Suc a) b = sent de a b"
  by (simp add: sent_def upt_Cons [of a b])

lemma find_upt_Some: "find P [a..<b] = Some k \<Longrightarrow> a \<le> k \<and> k < b"
  by (auto simp: find_Some_iff)

text \<open>The whole loop, from any attempt on.\<close>

lemma deliver_from_effect:
  assumes "a \<le> max_attempts"
  shows "case find (delivered de) [a..<max_attempts] of
      None \<Rightarrow> wl_Status (dl_log (deliver_from s de a st)) = WebhookStatusFailed \<and>
        dl_slept (deliver_from s de a st) = dl_slept st @ sleeps a max_attempts \<and>
        dl_sent (deliver_from s de a st) = dl_sent st @ sent de a max_attempts \<and>
        (a < max_attempts \<longrightarrow> wl_Attempt (dl_log (deliver_from s de a st)) = max_attempts)
    | Some k \<Rightarrow> wl_Status (dl_log (deliver_from s de a st)) = WebhookStatusDelivered \<and>
        dl_slept (deliver_from s de a st) = dl_slept st @ sleeps a (Suc k) \<and>
        dl_sent (deliver_from s de a st) = dl_sent st @ sent de a (Suc k) \<and>
        wl_Attempt (dl_log (deliver_from s de a st)) = Suc k"
  using assms
proof (induction "max_attempts - a" arbitrary: a st)
  case 0
  then have "a = max_attempts" by simp
  then show ?case
    by (subst (1 2 3 4) deliver_from.simps) (simp add: max_attempts_def sleeps_def sent_def)
next
  case (Suc n)
  then have a: "a < max_attempts" by simp
  obtain fin st' where step: "deliver_attempt s de a st = (fin, st')" by fastforce
  note eff = deliver_attempt_effect [OF step]
  have unf: "deliver_from s de a st = (if fin then st' else deliver_from s de (Suc a) st')"
    using a step by (subst deliver_from.simps) (simp add: max_attempts_def)
  have upt: "[a..<max_attempts] = a # [Suc a..<max_attempts]" using a by (rule upt_Cons)
  show ?case
  proof (cases fin)
    case True
    then show ?thesis using eff unf upt by simp
  next
    case False
    have IH: "case find (delivered de) [Suc a..<max_attempts] of
      None \<Rightarrow> wl_Status (dl_log (deliver_from s de (Suc a) st')) = WebhookStatusFailed \<and>
        dl_slept (deliver_from s de (Suc a) st') = dl_slept st' @ sleeps (Suc a) max_attempts \<and>
        dl_sent (deliver_from s de (Suc a) st') = dl_sent st' @ sent de (Suc a) max_attempts \<and>
        (Suc a < max_attempts \<longrightarrow> wl_Attempt (dl_log (deliver_from s de (Suc a) st')) = max_attempts)
    | Some k \<Rightarrow> wl_Status (dl_log (deliver_from s de (Suc a) st')) = WebhookStatusDelivered \<and>
        dl_slept (deliver_from s de (Suc a) st') = dl_slept st' @ sleeps (Suc a) (Suc k) \<and>
        dl_sent (deliver_from s de (Suc a) st') = dl_sent st' @ sent de (Suc a) (Suc k) \<and>
        wl_Attempt (dl_log (deliver_from s de (Suc a) st')) = Suc k"
      using Suc.hyps(1) [of "Suc a" st'] Suc.hyps(2) a by simp
    have last: "wl_Attempt (dl_log (deliver_from s de max_attempts st')) = wl_Attempt (dl_log st')"
      by (subst deliver_from.simps) (simp add: max_attempts_def)
    show ?thesis
    proof (cases "find (delivered de) [Suc a..<max_attempts]")
      case None
      have "wl_Attempt (dl_log (deliver_from s de (Suc a) st')) = max_attempts"
        using IH None eff(4) last a by (cases "Suc a = max_attempts") auto
      with None IH False eff unf upt a show ?thesis
        by (simp add: sleeps_step [symmetric, of a max_attempts] sent_step [symmetric, of a max_attempts])
    next
      case (Some k)
      then have "a < Suc k" using find_upt_Some by fastforce
      with Some IH False eff unf upt show ?thesis
        by (simp add: sleeps_step [symmetric, of a "Suc k"] sent_step [symmetric, of a "Suc k"])
    qed
  qed
qed

text \<open>
  C19: Webhook delivery ends after at most six attempts. If the receiver answers some attempt with
  2xx, delivery stops at the first such attempt with status DELIVERED; otherwise all six attempts
  are made, with sleeps of 15 s, 1, 2, 5 and 10 minutes in between, and the status is FAILED.
\<close>

theorem webhook_delivery:
  "case find (delivered de) [0..<6] of
     None \<Rightarrow> wl_Status (dl_log (deliverWithRetries s de job d)) = WebhookStatusFailed \<and>
       wl_Attempt (dl_log (deliverWithRetries s de job d)) = 6 \<and>
       dl_slept (deliverWithRetries s de job d) = webhookRetryIntervals \<and>
       dl_sent (deliverWithRetries s de job d) = sent de 0 6
   | Some k \<Rightarrow> wl_Status (dl_log (deliverWithRetries s de job d)) = WebhookStatusDelivered \<and>
       wl_Attempt (dl_log (deliverWithRetries s de job d)) = Suc k \<and>
       dl_slept (deliverWithRetries s de job d) = take k webhookRetryIntervals \<and>
       dl_sent (deliverWithRetries s de job d) = sent de 0 (Suc k)"
proof -
  have m: "max_attempts = 6" by (simp add: max_attempts_def webhookRetryIntervals_def)
  have sl: "sleeps 0 (Suc k) = take k webhookRetryIntervals" if "k < 6" for k
  proof -
    have "sleeps 0 1 = take 0 webhookRetryIntervals" "sleeps 0 2 = take 1 webhookRetryIntervals"
      "sleeps 0 3 = take 2 webhookRetryIntervals" "sleeps 0 4 = take 3 webhookRetryIntervals"
      "sleeps 0 5 = take 4 webhookRetryIntervals" "sleeps 0 6 = take 5 webhookRetryIntervals" by code_simp+
    moreover have "k = 0 \<or> k = 1 \<or> k = 2 \<or> k = 3 \<or> k = 4 \<or> k = 5" using that by linarith
    ultimately show ?thesis by (elim disjE) (simp_all add: eval_nat_numeral)
  qed
  have "sleeps 0 6 = webhookRetryIntervals" by code_simp
  note eff = deliver_from_effect [where a = 0 and de = de and s = s, unfolded m] this
  show ?thesis
  proof (cases "find (delivered de) [0..<6]")
    case None
    with eff show ?thesis by (simp add: deliverWithRetries_def Let_def)
  next
    case (Some k)
    then have "k < 6" using find_upt_Some by blast
    with Some eff sl show ?thesis by (simp add: deliverWithRetries_def Let_def)
  qed
qed

section \<open>The stored log\<close>

text \<open>The row of the log that belongs to a delivery, up to what an UPDATE may change.\<close>

definition tracks :: "delivery \<Rightarrow> bool" where
  "tracks st \<longleftrightarrow> (\<exists>r. row_where (\<lambda>x. wl_ID x = wl_ID (dl_log st)) (webhook_delivery_logs (dl_db st)) = Some r \<and>
     wl_TransactionID r = wl_TransactionID (dl_log st) \<and> wl_MerchantID r = wl_MerchantID (dl_log st) \<and>
     wl_WebhookURL r = wl_WebhookURL (dl_log st) \<and> wl_Payload r = wl_Payload (dl_log st) \<and>
     wl_CreatedAt r = wl_CreatedAt (dl_log st))"

definition in_sync :: "delivery \<Rightarrow> bool" where
  "in_sync st \<longleftrightarrow> row_where (\<lambda>x. wl_ID x = wl_ID (dl_log st)) (webhook_delivery_logs (dl_db st)) = Some (dl_log st)"

lemma in_sync_tracks: "in_sync st \<Longrightarrow> tracks st"
  by (simp add: in_sync_def tracks_def)

lemma tracks_log_update:
  "tracks (st\<lparr>dl_log := l\<rparr>) = tracks st"
  if "wl_ID l = wl_ID (dl_log st)" "wl_TransactionID l = wl_TransactionID (dl_log st)"
    "wl_MerchantID l = wl_MerchantID (dl_log st)" "wl_WebhookURL l = wl_WebhookURL (dl_log st)"
    "wl_Payload l = wl_Payload (dl_log st)" "wl_CreatedAt l = wl_CreatedAt (dl_log st)"
  using that by (simp add: tracks_def)

lemma persistLog_sync:
  assumes "ws_persist s" and "de_persist_fault de i = None" and "tracks st"
  shows "in_sync (persistLog s de i st)"
proof -
  let ?l = "(dl_log st)\<lparr>wl_UpdatedAt := de_persist_now de i\<rparr>"
  let ?f = "\<lambda>r. r\<lparr>wl_HTTPStatus := wl_HTTPStatus ?l, wl_Attempt := wl_Attempt ?l, wl_Status := wl_Status ?l,
                   wl_NextRetryAt := wl_NextRetryAt ?l, wl_LastError := wl_LastError ?l, wl_UpdatedAt := wl_UpdatedAt ?l\<rparr>"
  from assms(3) obtain r where r: "row_where (\<lambda>x. wl_ID x = wl_ID ?l) (webhook_delivery_logs (dl_db st)) = Some r"
    and eq: "wl_TransactionID r = wl_TransactionID ?l" "wl_MerchantID r = wl_MerchantID ?l"
      "wl_WebhookURL r = wl_WebhookURL ?l" "wl_Payload r = wl_Payload ?l" "wl_CreatedAt r = wl_CreatedAt ?l"
    by (auto simp: tracks_def)
  have id: "wl_ID r = wl_ID ?l" using row_where_Some [OF r] by simp
  have "row_where (\<lambda>x. wl_ID x = wl_ID ?l) (rows_update (\<lambda>x. wl_ID x = wl_ID ?l) ?f (webhook_delivery_logs (dl_db st)))
      = map_option (\<lambda>x. if wl_ID x = wl_ID ?l then ?f x else x)
          (row_where (\<lambda>x. wl_ID x = wl_ID ?l) (webhook_delivery_logs (dl_db st)))"
    by (rule row_where_rows_update) simp
  also have "\<dots> = Some (?f r)" using r id by simp
  also have "?f r = ?l" using eq id by (intro WebhookDeliveryLog.equality) simp_all
  finally show ?thesis
    using assms(1,2) by (simp add: in_sync_def persistLog_def webhookRepo_Update_def Let_def)
qed

lemma deliver_attempt_sync:
  assumes "ws_persist s" and "de_persist_fault de a = None" and "tracks st"
    and "deliver_attempt s de a st = (fin, st')"
  shows "in_sync st'"
proof -
  have t: "tracks (st\<lparr>dl_slept := x, dl_sent := y, dl_log := l\<rparr>)" "tracks (st\<lparr>dl_slept := x, dl_log := l\<rparr>)"
    "tracks (st\<lparr>dl_sent := y, dl_log := l\<rparr>)" "tracks (st\<lparr>dl_log := l\<rparr>)"
    if "wl_ID l = wl_ID (dl_log st)" "wl_TransactionID l = wl_TransactionID (dl_log st)"
    "wl_MerchantID l = wl_MerchantID (dl_log st)" "wl_WebhookURL l = wl_WebhookURL (dl_log st)"
    "wl_Payload l = wl_Payload (dl_log st)" "wl_CreatedAt l = wl_CreatedAt (dl_log st)" for l x y
    using that assms(3) by (simp_all add: tracks_def)
  show ?thesis
    using assms(2,4)
    by (auto simp: deliver_attempt_def Let_def retry_at_def intro!: persistLog_sync [OF assms(1)] t
        split: option.splits sum.splits if_splits)
qed

lemma deliver_attempt_id: "deliver_attempt s de a st = (fin, st') \<Longrightarrow> wl_ID (dl_log st') = wl_ID (dl_log st)"
  by (auto simp: deliver_attempt_def Let_def retry_at_def persistLog_def webhookRepo_Update_def callE_def
      split: option.splits sum.splits if_splits)

lemma deliver_from_id: "wl_ID (dl_log (deliver_from s de a st)) = wl_ID (dl_log st)"
proof (induction s de a st rule: deliver_from.induct)
  case (1 s de a st)
  obtain fin st' where step: "deliver_attempt s de a st = (fin, st')" by fastforce
  show ?case
    using 1 step deliver_attempt_id [OF step]
    by (subst deliver_from.simps)
      (cases fin; auto simp: persistLog_def webhookRepo_Update_def callE_def Let_def split: option.splits)
qed

lemma deliver_from_sync:
  assumes "ws_persist s" and "\<And>i. de_persist_fault de i = None" and "tracks st"
  shows "in_sync (deliver_from s de a st)"
  using assms
proof (induction s de a st rule: deliver_from.induct)
  case (1 s de a st)
  show ?case
  proof (cases "a \<le> length webhookRetryIntervals")
    case True
    obtain fin st' where step: "deliver_attempt s de a st = (fin, st')" by fastforce
    have sync: "in_sync st'" by (rule deliver_attempt_sync [OF 1(2) 1(3) 1(4) step])
    then have "in_sync (deliver_from s de (Suc a) st')" if "\<not> fin"
      using 1(1) [OF True step [symmetric]] that 1(2-4) in_sync_tracks by simp
    with sync True step show ?thesis by (subst deliver_from.simps) (cases fin; simp)
  next
    case False
    then show ?thesis using 1(2-4)
      by (subst deliver_from.simps) (auto intro!: persistLog_sync simp: tracks_def)
  qed
qed

text \<open>
  When the log table works and the delivery log got a new id, the row stored for a delivery
  is, at its end, exactly the in-memory log: its attempt count, last HTTP status, error and final
  status are those of the delivery.
\<close>

theorem webhook_log_persisted:
  assumes "ws_persist s" and "de_create_fault de = None" and "\<And>i. de_persist_fault de i = None"
    and "de_uuid de \<notin> wl_ID ` set (webhook_delivery_logs d)"
    and "wj_txID job \<in> tx_ID ` set (transactions d)" and "wj_merchantID job \<in> m_ID ` set (merchants d)"
  shows "\<exists>r. r = deliverWithRetries s de job d \<and>
    row_where (\<lambda>x. wl_ID x = de_uuid de) (webhook_delivery_logs (dl_db r)) = Some (dl_log r)"
proof -
  define l where "l = \<lparr>wl_ID = de_uuid de, wl_TransactionID = wj_txID job, wl_MerchantID = wj_merchantID job,
            wl_WebhookURL = wj_url job, wl_Payload = payload_json (wj_payload job), wl_HTTPStatus = None,
            wl_Attempt = 0, wl_Status = WebhookStatusPending, wl_NextRetryAt = None, wl_LastError = None,
            wl_CreatedAt = de_start de, wl_UpdatedAt = de_start de\<rparr>"
  let ?d1 = "d\<lparr>webhook_delivery_logs := webhook_delivery_logs d @ [l]\<rparr>"
  let ?st = "\<lparr>dl_log = l, dl_db = ?d1, dl_sent = [], dl_slept = []\<rparr>"
  have "check_all (webhook_constraints l d) = Inr ()"
    using assms(4-6) by (simp add: webhook_constraints_def l_def rune_count_def)
  then have run: "deliverWithRetries s de job d = deliver_from s de 0 ?st"
    using assms(1,2) by (simp add: deliverWithRetries_def webhookRepo_Create_def l_def [symmetric])
  have "row_where (\<lambda>x. wl_ID x = wl_ID l) (webhook_delivery_logs d) = None"
    using assms(4) by (auto simp: row_where_None image_iff l_def)
  then have "tracks ?st" by (simp add: tracks_def row_where_append)
  then have "in_sync (deliver_from s de 0 ?st)" by (rule deliver_from_sync [OF assms(1,3)])
  moreover have "wl_ID (dl_log (deliver_from s de 0 ?st)) = de_uuid de"
    using deliver_from_id [of s de 0 ?st] by (simp add: l_def)
  ultimately show ?thesis using run by (simp add: in_sync_def)
qed

definition demo_hooked :: db where
  "demo_hooked = demo_paid\<lparr>merchants := [demo_merchant\<lparr>m_WebhookURL := Some ''https://shop.example/hook''\<rparr>]\<rparr>"

definition demo_webhooks :: webhookService where
  "demo_webhooks = \<lparr>ws_uuid = rfc4122, ws_encSvc = aes_encSvc demo_aes, ws_sigSvc = hmac_sigSvc, ws_persist = True\<rparr>"

text \<open>A receiver that is down twice and then answers 200.\<close>

definition demo_delivery :: delivery_env where
  "demo_delivery = \<lparr>de_uuid = 50, de_start = 0, de_create_fault = None, de_now = (\<lambda>_. 1), de_newreq = (\<lambda>_. None),
     de_do = (\<lambda>i. if i < 2 then Inl (Plain ''connection refused'') else Inr 200), de_retry_now = (\<lambda>_. 2),
     de_persist_fault = (\<lambda>_. None), de_persist_now = (\<lambda>_. 3)\<rparr>"

definition demo_payload :: WebhookPayload where
  "demo_payload = \<lparr>wp_EventType = EventPaymentUpdate,
     wp_Data = \<lparr>wd_MerchantOrderID = ''ORDER-1'', wd_GatewayTransactionID = ''11'', wd_Status = TransactionStatusSuccess,
       wd_Amount = 400, wd_Currency = ''VND'', wd_Reason = ''Transaction SUCCESS'', wd_Timestamp = 0\<rparr>,
     wp_Signature = ''sig''\<rparr>"

definition demo_job :: webhook_job where
  "demo_job = \<lparr>wj_url = ''https://shop.example/hook'', wj_payload = demo_payload, wj_txID = 11, wj_merchantID = 1\<rparr>"

lemma demo_hooked_tables [simp]: "transactions demo_hooked = transactions demo_paid" "wallets demo_hooked = wallets demo_paid"
  "merchants demo_hooked = [demo_merchant\<lparr>m_WebhookURL := Some ''https://shop.example/hook''\<rparr>]"
  "webhook_delivery_logs demo_hooked = []"
  by (simp_all add: demo_hooked_def demo_paid_def empty_db_def)

theorem webhook_log_persisted_witness:
  "\<exists>r. r = deliverWithRetries demo_webhooks demo_delivery demo_job demo_hooked \<and>
    row_where (\<lambda>x. wl_ID x = 50) (webhook_delivery_logs (dl_db r)) = Some (dl_log r)"
  using webhook_log_persisted [of demo_webhooks demo_delivery demo_hooked demo_job]
  by (simp add: demo_webhooks_def demo_delivery_def demo_job_def)

section \<open>What a notification says\<close>



end
