(* ===== verification/Gateway_Properties.thy ===== *)
theory Gateway_Properties
  imports Gateway Account_Properties Reporting_Properties Webhook_Properties
begin

text \<open>
  The properties of the HTTP layer and of the gateway as a whole: who may do what, replay
  protection, rate limits, validated input, the audit trail, and the invariants of every state
  that requests and background work can reach.
\<close>

section \<open>A gateway to apply the properties to\<close>

text \<open>
  A JSON codec for the bodies used below: the body of the demonstration payment, everything else
  is a syntax error.
\<close>

definition demo_body :: string where
  "demo_body = ''payment body''"

definition demo_json :: "string \<Rightarrow> error option \<Rightarrow> jvalue result" where
  "demo_json body err =
     (if body = demo_body \<and> err = None
      then Inr (V_object [(''reference_id'', V_string ''ORDER-2''), (''amount'', V_number ''100''), (''currency'', V_string ''VND'')])
      else Inl (Plain ''invalid character''))"

definition demo_deps :: RouterDeps where
  "demo_deps = \<lparr>dp_uuid = rfc4122, dp_jwt = sample_jwt, dp_validator = sample_validator, dp_ip_literal = (\<lambda>_. False),
     dp_json = demo_json, dp_AuthSvc = demo_auth, dp_PaymentSvc = demo_service, dp_WebhookSvc = Some demo_webhooks,
     dp_EncSvc = aes_encSvc demo_aes, dp_SigSvc = hmac_sigSvc, dp_TokenSvc = demo_tokens, dp_RateLimitStore = True,
     dp_HealthCheckers = [pg_HealthCheck, redis_HealthCheck],
     dp_MerchantSvc = Some \<lparr>ms_encSvc = aes_encSvc demo_aes\<rparr>, dp_AuditSvc = True,
     dp_Logger = logger_New ''info'' False, dp_swaggerSpec = None\<rparr>"

definition demo_http :: http_env where
  "demo_http = \<lparr>hx_mw = demo_env, hx_svc = demo_env, hx_hook = demo_env, hx_reqID = 1, hx_reply_now = ev_now demo_env,
     hx_auditID = 60, hx_audit_now = ev_now demo_env, hx_exec = (\<lambda>_. None), hx_redis_ping = None,
     hx_start = ev_now demo_env, hx_end = ev_now demo_env + 1500\<rparr>"

definition demo_server :: "db \<Rightarrow> server" where
  "demo_server d = \<lparr>sv_world = demo_world d, sv_hooks = [], sv_audit = [], sv_log = []\<rparr>"

definition demo_canonical :: string where
  "demo_canonical = BuildCanonicalString ''POST'' ''/api/v1/payments'' 1700000000 ''n-1'' demo_body"

definition demo_signed :: request where
  "demo_signed = \<lparr>hr_Method = ''POST'', hr_Path = ''/api/v1/payments'',
     hr_Header = (\<lambda>k. if k = HeaderAccessKey then ''ak'' else if k = HeaderSignature then HMAC_Sign ''sk'' demo_canonical
                     else if k = HeaderTimestamp then FormatInt 1700000000 else if k = HeaderNonce then ''n-1'' else []),
     hr_Query = Map.empty, hr_ClientIP = ''10.0.0.1'', hr_Body = demo_body, hr_BodyErr = None\<rparr>"

lemma demo_server_fields [simp]: "sv_world (demo_server d) = demo_world d" "sv_hooks (demo_server d) = []" "sv_audit (demo_server d) = []"
  "sv_log (demo_server d) = []"
  by (simp_all add: demo_server_def)

lemma demo_deps_fields [simp]: "dp_uuid demo_deps = rfc4122" "dp_jwt demo_deps = sample_jwt" "dp_validator demo_deps = sample_validator"
  "dp_json demo_deps = demo_json" "dp_AuthSvc demo_deps = demo_auth" "dp_PaymentSvc demo_deps = demo_service"
  "dp_EncSvc demo_deps = aes_encSvc demo_aes" "dp_SigSvc demo_deps = hmac_sigSvc" "dp_TokenSvc demo_deps = demo_tokens"
  "dp_RateLimitStore demo_deps" "dp_AuditSvc demo_deps" "dp_WebhookSvc demo_deps = Some demo_webhooks"
  "dp_Logger demo_deps = logger_New ''info'' False"
  by (simp_all add: demo_deps_def)

lemma demo_http_fields [simp]: "hx_mw demo_http = demo_env" "hx_svc demo_http = demo_env" "hx_hook demo_http = demo_env"
  by (simp_all add: demo_http_def)

lemma demo_wired: "wired demo_aes demo_deps"
  by (simp add: wired_def demo_service_def demo_auth_def NewAuthService_def NewPaymentService_def)

section \<open>HMAC authentication\<close>

lemma verify_signature_Inr:
  assumes "verify_signature dp h c merchant ts sv = (Inr c', sv')"
  obtains secret body where "Decrypt (dp_EncSvc dp) (m_SecretKeyEnc merchant) = Inr secret" "ReadAll (c_Request c) = Inr body"
    "Verify (dp_SigSvc dp) secret (BuildCanonicalString (hr_Method (c_Request c)) (hr_Path (c_Request c)) ts
       (hr_Header (c_Request c) HeaderNonce) body) (hr_Header (c_Request c) HeaderSignature)"
    "key_merchant c' = Some (m_ID merchant)" "c_Request c' = c_Request c" "sv' = sv"
  using assms
  by (auto simp: verify_signature_def Let_def key_merchant_def CtxMerchantID_def CtxAccessKey_def CtxMerchantKey_def
      split: sum.splits if_splits)

lemma check_merchant_nonce_Inr:
  assumes "check_merchant_nonce dp h c ts sv = (Inr c', sv')"
  obtains merchant sv1 where
    "row_where (\<lambda>m. m_AccessKey m = hr_Header (c_Request c) HeaderAccessKey) (merchants (sv_db sv)) = Some merchant"
    "IsActive merchant" "verify_signature dp h c merchant ts sv1 = (Inr c', sv')" "sv_db sv1 = sv_db sv"
    "ev_fault (hx_mw h) S_Nonce_CheckAndSet = None \<Longrightarrow>
       \<exists>r. NonceStore_CheckAndSet None (ev_now (hx_mw h)) (uuid_String (dp_uuid dp) (m_ID merchant))
         (hr_Header (c_Request c) HeaderNonce) (seconds nonceTTL) (sv_redis sv) = Inr (True, r) \<and> sv_redis sv1 = r"
proof -
  from assms obtain merchant where
    m: "row_where (\<lambda>m. m_AccessKey m = hr_Header (c_Request c) HeaderAccessKey) (merchants (sv_db sv)) = Some merchant"
    "IsActive merchant"
    by (auto simp: check_merchant_nonce_def Let_def MerchantRepo_GetByAccessKey_def res_simps
        split: sum.splits option.splits if_splits)
  let ?N = "NonceStore_CheckAndSet (ev_fault (hx_mw h) S_Nonce_CheckAndSet) (ev_now (hx_mw h))
      (uuid_String (dp_uuid dp) (m_ID merchant)) (hr_Header (c_Request c) HeaderNonce) (seconds nonceTTL) (sv_redis sv)"
  have n: "(\<exists>err. ?N = Inl err) \<and> verify_signature dp h c merchant ts sv = (Inr c', sv') \<or>
      (\<exists>r. ?N = Inr (True, r) \<and> verify_signature dp h c merchant ts (set_redis r sv) = (Inr c', sv'))"
    using assms m
    by (auto simp: check_merchant_nonce_def Let_def MerchantRepo_GetByAccessKey_def callE_def
        split: sum.splits option.splits if_splits prod.splits bool.splits)
  show ?thesis
  proof (cases "\<exists>err. ?N = Inl err")
    case True
    then have "ev_fault (hx_mw h) S_Nonce_CheckAndSet \<noteq> None"
      by (cases "ev_fault (hx_mw h) S_Nonce_CheckAndSet")
        (auto simp: NonceStore_CheckAndSet_def Let_def split: option.splits)
    with that [OF m, of sv] n True show ?thesis by auto
  next
    case False
    then obtain r where "?N = Inr (True, r)" "verify_signature dp h c merchant ts (set_redis r sv) = (Inr c', sv')"
      using n by blast
    then show ?thesis by (intro that [OF m, of "set_redis r sv"]) auto
  qed
qed

lemma HMACAuth_Inr:
  assumes "HMACAuth dp h c sv = (Inr c', sv')"
  obtains ts where "ParseIntE (hr_Header (c_Request c) HeaderTimestamp) = Inr ts" "\<not> timestamp_expired (ev_now (hx_mw h)) ts"
    "check_merchant_nonce dp h c ts sv = (Inr c', sv')" "hr_Header (c_Request c) HeaderNonce \<noteq> []"
  using assms by (auto simp: HMACAuth_def Let_def split: sum.splits if_splits)

text \<open>The difference of two \<^verbatim>\<open>int64\<close> values wraps, but not onto a small number.\<close>

lemma int64_diff_small:
  fixes x y :: int64
  assumes "\<bar>sint x\<bar> < 2 ^ 62" and "\<bar>sint (x - y)\<bar> \<le> 60"
  shows "\<bar>sint x - sint y\<bar> \<le> 60"
proof -
  have "(word_of_int (sint x - sint y) :: int64) = word_of_int (sint (x - y))" by simp
  then have "(sint x - sint y) mod 2 ^ 64 = sint (x - y) mod 2 ^ 64"
    by (simp only: word_of_int_eq_iff take_bit_eq_mod) simp
  then have "2 ^ 64 dvd sint x - sint y - sint (x - y)" by (simp add: mod_eq_dvd_iff)
  then obtain k where k: "sint x - sint y - sint (x - y) = 2 ^ 64 * k" by (rule dvdE)
  have "- (2 ^ 63) \<le> sint y" "sint y < 2 ^ 63" by (rule sint64_bounds)+
  with k assms have "k = 0" by (simp add: abs_if split: if_splits)
  with k assms(2) show ?thesis by simp
qed

text \<open>
  C21: A request passes HMAC authentication only if it carries the access key of an active
  merchant, a timestamp at most 60 seconds away from the clock of the gateway, and the
  HMAC-SHA256 signature, under the secret key of that merchant, of its method, path, timestamp,
  nonce and body. Its handlers then act as that merchant.
\<close>

theorem hmac_accepts_only_signed:
  assumes "HMACAuth dp h c sv = (Inr c', sv')" and "wired a dp"
    and "\<bar>sint (word_of_int (Unix (ev_now (hx_mw h))) :: int64)\<bar> < 2 ^ 62"
  shows "\<exists>merchant secret ts body. merchant \<in> set (merchants (sv_db sv)) \<and> IsActive merchant \<and>
    m_AccessKey merchant = hr_Header (c_Request c) HeaderAccessKey \<and> key_merchant c' = Some (m_ID merchant) \<and>
    ParseIntE (hr_Header (c_Request c) HeaderTimestamp) = Inr ts \<and>
    \<bar>sint (word_of_int (Unix (ev_now (hx_mw h))) :: int64) - sint ts\<bar> \<le> 60 \<and>
    Decrypt (aes_encSvc a) (m_SecretKeyEnc merchant) = Inr secret \<and> ReadAll (c_Request c) = Inr body \<and>
    hr_Header (c_Request c) HeaderSignature =
      HMAC_Sign secret (BuildCanonicalString (hr_Method (c_Request c)) (hr_Path (c_Request c)) ts
        (hr_Header (c_Request c) HeaderNonce) body)"
proof -
  from assms(1) obtain ts where ts: "ParseIntE (hr_Header (c_Request c) HeaderTimestamp) = Inr ts"
    "\<not> timestamp_expired (ev_now (hx_mw h)) ts" and chk: "check_merchant_nonce dp h c ts sv = (Inr c', sv')"
    by (rule HMACAuth_Inr)
  from chk obtain merchant sv1 where
    m: "row_where (\<lambda>m. m_AccessKey m = hr_Header (c_Request c) HeaderAccessKey) (merchants (sv_db sv)) = Some merchant"
    "IsActive merchant" and ver: "verify_signature dp h c merchant ts sv1 = (Inr c', sv')"
    by (rule check_merchant_nonce_Inr)
  from ver obtain secret body where v: "Decrypt (dp_EncSvc dp) (m_SecretKeyEnc merchant) = Inr secret"
    "ReadAll (c_Request c) = Inr body" "key_merchant c' = Some (m_ID merchant)"
    and sgn: "Verify (dp_SigSvc dp) secret (BuildCanonicalString (hr_Method (c_Request c)) (hr_Path (c_Request c)) ts
       (hr_Header (c_Request c) HeaderNonce) body) (hr_Header (c_Request c) HeaderSignature)"
    by (rule verify_signature_Inr)
  have "\<bar>sint (word_of_int (Unix (ev_now (hx_mw h))) :: int64) - sint ts\<bar> \<le> 60"
    using ts(2) by (intro int64_diff_small [OF assms(3)]) (simp add: timestamp_expired_def maxTimestampDrift_def)
  moreover have "hr_Header (c_Request c) HeaderSignature = HMAC_Sign secret (BuildCanonicalString (hr_Method (c_Request c))
      (hr_Path (c_Request c)) ts (hr_Header (c_Request c) HeaderNonce) body)"
    using sgn assms(2) by (simp add: wired_def hmac_sigSvc_def HMAC_Verify_def)
  ultimately show ?thesis
    using m v ts(1) assms(2) row_where_Some [OF m(1)] unfolding wired_def by metis
qed

lemma header_names: "HeaderAccessKey \<noteq> HeaderSignature" "HeaderAccessKey \<noteq> HeaderTimestamp" "HeaderAccessKey \<noteq> HeaderNonce"
  "HeaderSignature \<noteq> HeaderTimestamp" "HeaderSignature \<noteq> HeaderNonce" "HeaderTimestamp \<noteq> HeaderNonce"
  by (simp_all add: HeaderAccessKey_def HeaderSignature_def HeaderTimestamp_def HeaderNonce_def)

lemma demo_headers:
  "hr_Header demo_signed HeaderAccessKey = ''ak''" "hr_Header demo_signed HeaderSignature = HMAC_Sign ''sk'' demo_canonical"
  "hr_Header demo_signed HeaderTimestamp = FormatInt 1700000000" "hr_Header demo_signed HeaderNonce = ''n-1''"
  "hr_Method demo_signed = ''POST''" "hr_Path demo_signed = ''/api/v1/payments''" "hr_Body demo_signed = demo_body"
  "hr_BodyErr demo_signed = None" "hr_ClientIP demo_signed = ''10.0.0.1''"
  using header_names by (auto simp: demo_signed_def)

lemma demo_request [simp]: "c_Request (first_context demo_signed) = demo_signed"
  by (simp add: first_context_def MaxBodySize_def demo_headers demo_body_def)

lemma demo_context [simp]: "c_Keys (first_context rq) = Map.empty" "c_Headers (first_context rq) = []"
  by (simp_all add: first_context_def)

lemma length_sha256: "length (sha256 m) = 32"
  by (simp add: sha256_def Let_def word32_bytes_def split: prod.split)

lemma HMAC_Sign_not_Nil: "HMAC_Sign k p \<noteq> []"
proof -
  have "length (HMAC_Sign k p) = 64" by (simp add: HMAC_Sign_def hmac_sha256_def Let_def length_sha256)
  then show ?thesis by auto
qed

lemma FormatInt_not_Nil: "FormatInt i \<noteq> []"
  by (simp add: FormatInt_def)

lemma demo_accepted:
  "HMACAuth demo_deps demo_http (first_context demo_signed) (demo_server demo_topped_up) =
     (Inr ((first_context demo_signed)\<lparr>c_Keys := [CtxMerchantID \<mapsto> CtxUUID 1, CtxAccessKey \<mapsto> CtxString ''ak'', CtxMerchantKey \<mapsto> CtxOther]\<rparr>),
      set_redis [nonce_key (uuid_String rfc4122 1) ''n-1'' \<mapsto> (JNum 1, Some (ev_now demo_env + 120000000))] (demo_server demo_topped_up))"
proof -
  have ts: "\<not> timestamp_expired (ev_now demo_env) 1700000000"
    by (simp add: timestamp_expired_def maxTimestampDrift_def demo_env_def Unix_def)
  have mer: "MerchantRepo_GetByAccessKey (ev_fault demo_env S_Merchant_Get) ''ak'' demo_topped_up = Inr (Some demo_merchant)"
    by (simp add: MerchantRepo_GetByAccessKey_def demo_env_def row_where_def)
  have nonce: "NonceStore_CheckAndSet (ev_fault demo_env S_Nonce_CheckAndSet) (ev_now demo_env) (uuid_String rfc4122 1) ''n-1''
      (seconds nonceTTL) Map.empty = Inr (True, [nonce_key (uuid_String rfc4122 1) ''n-1'' \<mapsto> (JNum 1, Some (ev_now demo_env + 120000000))])"
    by (simp add: NonceStore_CheckAndSet_def redis_get_def redis_set_def demo_env_def seconds_def nonceTTL_def Let_def)
  have "IsActive demo_merchant" by (simp add: IsActive_def)
  then show ?thesis
    using ts mer nonce HMAC_Sign_not_Nil FormatInt_not_Nil
    by (simp add: HMACAuth_def check_merchant_nonce_def verify_signature_def demo_headers Let_def ReadAll_def
        hmac_sigSvc_def HMAC_Verify_def demo_canonical_def)
qed

theorem hmac_accepts_only_signed_witness:
  "\<exists>c' sv'. HMACAuth demo_deps demo_http (first_context demo_signed) (demo_server demo_topped_up) = (Inr c', sv') \<and>
     key_merchant c' = Some (m_ID demo_merchant)"
proof -
  have "\<bar>sint (word_of_int (Unix (ev_now (hx_mw demo_http))) :: int64)\<bar> < 2 ^ 62" by (simp add: demo_env_def Unix_def)
  from hmac_accepts_only_signed [OF demo_accepted demo_wired this] demo_accepted show ?thesis by auto
qed

section \<open>Replay protection\<close>

lemma first_context_request [simp]: "hr_Header (c_Request (first_context rq)) = hr_Header rq"
  "hr_Method (c_Request (first_context rq)) = hr_Method rq" "hr_Path (c_Request (first_context rq)) = hr_Path rq"
  "hr_ClientIP (c_Request (first_context rq)) = hr_ClientIP rq"
  by (simp_all add: first_context_def MaxBodySize_def)

lemma caller_hmac:
  assumes "find_route dp rq = Some rt" "rt_auth rt = ByHMAC" "caller dp h rq sv = Some m"
  obtains c1 sv1 where "authenticate (rt_auth rt) dp h (first_context rq) sv = (Inr c1, sv1)"
    "HMACAuth dp h (first_context rq) sv = (Inr c1, sv1)" "key_merchant c1 = Some m"
  using assms by (cases "HMACAuth dp h (first_context rq) sv") (auto simp: caller_def authenticate_def split: sum.splits)

lemma HMACAuth_nonce:
  assumes "HMACAuth dp h c sv = (Inr c', sv')" and "key_merchant c' = Some m"
    and "ev_fault (hx_mw h) S_Nonce_CheckAndSet = None"
  shows "redis_get (ev_now (hx_mw h)) (nonce_key (uuid_String (dp_uuid dp) m) (hr_Header (c_Request c) HeaderNonce)) (sv_redis sv) = None"
    and "sv_redis sv' (nonce_key (uuid_String (dp_uuid dp) m) (hr_Header (c_Request c) HeaderNonce)) =
      Some (JNum 1, Some (ev_now (hx_mw h) + seconds nonceTTL))"
proof -
  from assms(1) obtain ts where "check_merchant_nonce dp h c ts sv = (Inr c', sv')" by (rule HMACAuth_Inr)
  then obtain merchant sv1 where ver: "verify_signature dp h c merchant ts sv1 = (Inr c', sv')"
    and nonce: "\<exists>r. NonceStore_CheckAndSet None (ev_now (hx_mw h)) (uuid_String (dp_uuid dp) (m_ID merchant))
         (hr_Header (c_Request c) HeaderNonce) (seconds nonceTTL) (sv_redis sv) = Inr (True, r) \<and> sv_redis sv1 = r"
    by (rule check_merchant_nonce_Inr) (use assms(3) in blast)
  from ver have "key_merchant c' = Some (m_ID merchant)" "sv' = sv1" by (rule verify_signature_Inr, simp)+
  with assms(2) nonce CheckAndSet_new
  show "redis_get (ev_now (hx_mw h)) (nonce_key (uuid_String (dp_uuid dp) m) (hr_Header (c_Request c) HeaderNonce)) (sv_redis sv) = None"
    and "sv_redis sv' (nonce_key (uuid_String (dp_uuid dp) m) (hr_Header (c_Request c) HeaderNonce)) =
      Some (JNum 1, Some (ev_now (hx_mw h) + seconds nonceTTL))"
    by (fastforce simp: redis_set_def)+
qed

lemma run_route_nonces:
  assumes "rt \<in> set (routes dp)" and "rt_auth rt \<noteq> Public" and "authenticate (rt_auth rt) dp h c sv = (Inr c1, sv1)"
    and "run_route rt dp h c sv = (resp, c', sv')"
  shows "keeps_nonces (ev_now (hx_mw h)) (sv_redis sv1) (sv_redis sv')"
proof -
  obtain y sv2 where lim: "rl dp (rt_limit rt) h c1 sv1 = (y, sv2)" by fastforce
  have k: "keeps_nonces (ev_now (hx_mw h)) (sv_redis sv1) (sv_redis sv2)"
    using rl_state [OF lim] by (auto simp: redis_only_def)
  show ?thesis
  proof (cases y)
    case (Inl resp')
    then show ?thesis using assms(3,4) lim k by (simp add: run_route_def)
  next
    case (Inr c2)
    then obtain resp' where "rt_handler rt dp h c2 sv2 = (resp', sv')"
      using assms(3,4) lim by (auto simp: run_route_def split: prod.splits)
    then have "gateway_action dp (hx_svc h) (key_merchant c2) (sv_world sv2) (sv_world sv')"
      using routes_implement [OF assms(1)] assms(2) by (simp add: implements_def)
    from gateway_action_nonces [OF this] k keeps_nonces_trans show ?thesis by blast
  qed
qed

text \<open>Runs of the gateway in which every request is handled before the instant \<open>T\<close>.\<close>

inductive steps_before :: "RouterDeps \<Rightarrow> time \<Rightarrow> server \<Rightarrow> server \<Rightarrow> bool" for dp :: RouterDeps and T :: time where
  before_refl: "steps_before dp T sv sv"
| before_request: "steps_before dp T sv sv1 \<Longrightarrow> ev_now (hx_mw h) < T \<Longrightarrow> SetupRouter dp h rq sv1 = (resp, sv2) \<Longrightarrow>
    steps_before dp T sv sv2"
| before_background: "steps_before dp T sv sv1 \<Longrightarrow> background (sv_db sv1) (sv_db sv2) \<Longrightarrow> sv_redis sv2 = sv_redis sv1 \<Longrightarrow>
    steps_before dp T sv sv2"

lemma steps_before_nonce:
  assumes "steps_before dp T sv sv'" and "sv_redis sv (nonce_key u n) = Some (v, Some T)"
  shows "sv_redis sv' (nonce_key u n) = Some (v, Some T)"
  using assms
proof (induction rule: steps_before.induct)
  case (before_request sv sv1 h rq resp sv2)
  from SetupRouter_nonces [OF before_request(3)] before_request(2,4,5) show ?case
    by (simp add: keeps_nonces_def nonce_key_def)
qed simp_all

text \<open>
  C22: A nonce works once. After a request of a merchant was authenticated, no request with the
  same nonce is authenticated for that merchant during the next 120 seconds, whatever other
  requests and background work the gateway handles in between (rotation of the keys of the
  merchant included), as long as the nonce store answers.
\<close>

theorem nonce_replay_rejected:
  assumes "find_route dp rq = Some rt" and "rt_auth rt = ByHMAC" and "caller dp h rq sv = Some m"
    and "ev_fault (hx_mw h) S_Nonce_CheckAndSet = None"
    and "steps_before dp (ev_now (hx_mw h) + 120 * 1000000) (snd (SetupRouter dp h rq sv)) sv2"
    and "find_route dp rq2 = Some rt2" and "rt_auth rt2 = ByHMAC" and "hr_Header rq2 HeaderNonce = hr_Header rq HeaderNonce"
    and "ev_now (hx_mw h2) < ev_now (hx_mw h) + 120 * 1000000" and "ev_fault (hx_mw h2) S_Nonce_CheckAndSet = None"
  shows "caller dp h2 rq2 sv2 \<noteq> Some m"
proof
  let ?k = "nonce_key (uuid_String (dp_uuid dp) m) (hr_Header rq HeaderNonce)"
  let ?T = "ev_now (hx_mw h) + 120 * 1000000"
  assume "caller dp h2 rq2 sv2 = Some m"
  with assms(6,7) obtain c2 sv3 where acc2: "HMACAuth dp h2 (first_context rq2) sv2 = (Inr c2, sv3)" "key_merchant c2 = Some m"
    by (rule caller_hmac)
  have free: "redis_get (ev_now (hx_mw h2)) ?k (sv_redis sv2) = None"
    using HMACAuth_nonce(1) [OF acc2 assms(10)] assms(8) by simp
  from assms(1-3) obtain c1 sv1 where auth: "authenticate (rt_auth rt) dp h (first_context rq) sv = (Inr c1, sv1)"
    and acc: "HMACAuth dp h (first_context rq) sv = (Inr c1, sv1)" "key_merchant c1 = Some m" by (rule caller_hmac)
  have T: "seconds nonceTTL = 120 * 1000000" by (simp add: seconds_def nonceTTL_def)
  have stored: "sv_redis sv1 ?k = Some (JNum 1, Some ?T)" using HMACAuth_nonce(2) [OF acc assms(4)] T by simp
  obtain resp c' sv' where run: "run_route rt dp h (first_context rq) sv = (resp, c', sv')" by (metis prod.collapse)
  have rt: "rt \<in> set (routes dp)" using assms(1) by (auto simp: find_route_def find_Some_iff)
  have "keeps_nonces (ev_now (hx_mw h)) (sv_redis sv1) (sv_redis sv')"
    by (rule run_route_nonces [OF rt _ auth run]) (simp add: assms(2))
  with stored have "sv_redis sv' ?k = Some (JNum 1, Some ?T)" by (simp add: keeps_nonces_def nonce_key_def)
  moreover have "sv_redis (snd (SetupRouter dp h rq sv)) = sv_redis sv'"
    using SetupRouter_world [OF assms(1) run prod.collapse [symmetric]] by simp
  ultimately have "sv_redis sv2 ?k = Some (JNum 1, Some ?T)" using steps_before_nonce [OF assms(5)] by simp
  with free assms(9) show False by (simp add: redis_get_def)
qed

lemma demo_route: "find_route demo_deps demo_signed = Some \<lparr>rt_method = ''POST'', rt_path = ''/api/v1/payments'', rt_auth = ByHMAC,
    rt_limit = ''payments'', rt_handler = PaymentHandler_ProcessPayment\<rparr>"
  by (simp add: find_route_def routes_def demo_headers)

lemma demo_caller: "caller demo_deps demo_http demo_signed (demo_server demo_topped_up) = Some 1"
  by (simp add: caller_def demo_route authenticate_def demo_accepted key_merchant_def CtxMerchantID_def CtxAccessKey_def CtxMerchantKey_def)

text \<open>The very same request again, ten seconds later.\<close>

theorem nonce_replay_rejected_witness:
  "caller demo_deps (demo_http\<lparr>hx_mw := demo_env\<lparr>ev_now := ev_now demo_env + 10 * 1000000\<rparr>\<rparr>) demo_signed
     (snd (SetupRouter demo_deps demo_http demo_signed (demo_server demo_topped_up))) \<noteq> Some 1"
  by (rule nonce_replay_rejected [OF demo_route _ demo_caller _ _ demo_route])
    (simp_all add: demo_env_def before_refl)

section \<open>Who may do what\<close>

text \<open>
  C23: Every request does to PostgreSQL and Redis what the specification of an action allows to
  its caller: nothing, one payment, refund or top-up of the caller, a registration when there is
  no caller, or a change of the caller's own webhook URL or keys. Before that, authentication and
  rate limiting only write to Redis and remove no nonce that is still alive.
\<close>

theorem router_refines_actions:
  assumes "SetupRouter dp h rq sv = (resp, sv')"
  shows "\<exists>r. keeps_nonces (ev_now (hx_mw h)) (sv_redis sv) r \<and>
    gateway_action dp (hx_svc h) (caller dp h rq sv) ((sv_world sv)\<lparr>wd_redis := r\<rparr>) (sv_world sv')"
  using SetupRouter_refines [OF assms] by (auto simp: redis_only_def)

theorem router_refines_actions_witness:
  "\<exists>r. keeps_nonces (ev_now demo_env) Map.empty r \<and>
    gateway_action demo_deps demo_env (Some 1) ((demo_world demo_topped_up)\<lparr>wd_redis := r\<rparr>)
      (sv_world (snd (SetupRouter demo_deps demo_http demo_signed (demo_server demo_topped_up))))"
  using router_refines_actions [OF prod.collapse [symmetric], where dp = demo_deps and h = demo_http and rq = demo_signed
      and sv = "demo_server demo_topped_up"]
  by (simp add: demo_caller)

text \<open>
  C24: Merchants are isolated from each other. In every state the gateway can reach, a request
  with the identity of one merchant leaves the wallets, the transactions and the merchant rows
  of all other merchants as they are.
\<close>

theorem tenant_isolation:
  assumes "reachable dp sv" and "wired a dp" and "caller dp h rq sv = Some m"
    and "SetupRouter dp h rq sv = (resp, sv')"
  shows "others m (sv_db sv') = others m (sv_db sv)"
proof -
  from SetupRouter_refines [OF assms(4)] assms(3) obtain sv1 where r: "redis_only (ev_now (hx_mw h)) sv sv1"
    and act: "gateway_action dp (hx_svc h) (Some m) (sv_world sv1) (sv_world sv')" by auto
  have "gateway_inv a (sv_db sv1)" using reachable_inv [OF assms(1,2)] redis_only_db [OF r] by simp
  from gateway_action_isolated [OF act this] redis_only_db [OF r] show ?thesis by simp
qed

definition demo_token :: string where
  "demo_token = fst (projr (Token_Generate sample_jwt rfc4122 demo_tokens (ev_now demo_env) 1 ''ak''))"

definition demo_dashboard :: request where
  "demo_dashboard = \<lparr>hr_Method = ''POST'', hr_Path = ''/api/v1/merchants/me/rotate-keys'',
     hr_Header = (\<lambda>k. if k = ''Authorization'' then ''Bearer '' @ demo_token else []), hr_Query = Map.empty,
     hr_ClientIP = ''10.0.0.1'', hr_Body = [], hr_BodyErr = None\<rparr>"

lemma demo_token_generated:
  "Token_Generate sample_jwt rfc4122 demo_tokens (ev_now demo_env) 1 ''ak'' = Inr (demo_token, ev_now demo_env + 86400000000)"
  by (simp add: demo_token_def Token_Generate_def sample_jwt_def sample_sign_def demo_tokens_def NewJWTTokenService_def)

lemma demo_token_valid: "Token_Validate sample_jwt rfc4122 demo_tokens (ev_now demo_env) demo_token =
    Inr \<lparr>tc_MerchantID = 1, tc_AccessKey = ''ak''\<rparr>"
  by (rule sample_jwt.validate_generated [OF rfc.uuid_text_axioms demo_token_generated]) (simp add: demo_env_def Unix_def)

lemma demo_token_nonempty: "demo_token \<noteq> []"
  by (simp add: demo_token_def Token_Generate_def sample_jwt_def sample_sign_def ser_str_def)

lemma demo_dashboard_caller: "caller demo_deps demo_http demo_dashboard sv = Some 1"
proof -
  have "find_route demo_deps demo_dashboard = Some \<lparr>rt_method = ''POST'', rt_path = ''/api/v1/merchants/me/rotate-keys'',
      rt_auth = ByJWT, rt_limit = ''dashboard'', rt_handler = MerchantHandler_RotateKeys \<lparr>ms_encSvc = aes_encSvc demo_aes\<rparr>\<rparr>"
    by (simp add: find_route_def routes_def demo_dashboard_def demo_deps_def)
  moreover have "hr_Header demo_dashboard ''Authorization'' = ''Bearer '' @ demo_token" by (simp add: demo_dashboard_def)
  ultimately show ?thesis using demo_token_valid demo_token_nonempty
    by (simp add: caller_def authenticate_def JWTAuth_def key_merchant_def CtxMerchantID_def CtxAccessKey_def Let_def Suc_le_eq)
qed

lemma demo_reachable: "reachable demo_deps (snd (SetupRouter demo_deps demo_http demo_signed (demo_server empty_db)))"
proof -
  have "reachable demo_deps (demo_server empty_db)" by (rule reach_init) simp
  then show ?thesis by (rule reach_step [OF _ step_request [OF prod.collapse [symmetric]]])
qed

theorem tenant_isolation_witness:
  "\<exists>sv. reachable demo_deps sv \<and> caller demo_deps demo_http demo_dashboard sv = Some 1 \<and>
     others 1 (sv_db (snd (SetupRouter demo_deps demo_http demo_dashboard sv))) = others 1 (sv_db sv)"
  using tenant_isolation [OF demo_reachable demo_wired demo_dashboard_caller prod.collapse [symmetric]]
    demo_reachable demo_dashboard_caller by blast


definition demo_unsigned :: request where
  "demo_unsigned = demo_signed\<lparr>hr_Header := \<lambda>_. []\<rparr>"

lemma demo_unsigned_caller: "caller demo_deps demo_http demo_unsigned sv = None"
  by (simp add: caller_def find_route_def routes_def demo_unsigned_def demo_headers authenticate_def HMACAuth_def)


section \<open>Every reachable state\<close>

text \<open>
  C26: In every state that the gateway reaches from an empty database, by any sequence of HTTP
  requests (registrations, logins, payments, refunds, top-ups, key rotations, with any bodies,
  headers, clocks, random draws and failures of PostgreSQL, Redis and the network) and background
  writes of the webhook and audit goroutines, the books are in order and every transaction is
  booked on a wallet of its own merchant.
\<close>

theorem reachable_books:
  assumes "reachable dp sv" and "wired a dp"
  shows "book_inv (aes_encSvc a) (sv_db sv) \<and> owners_ok (sv_db sv)"
  using reachable_inv [OF assms] by (simp add: gateway_inv_def)

theorem reachable_books_witness:
  "owners_ok (sv_db (snd (SetupRouter demo_deps demo_http demo_signed (demo_server empty_db))))"
  using reachable_books [OF demo_reachable demo_wired] by simp

end
