(* ===== verification/Http_Properties.thy ===== *)
theory Http_Properties
  imports Gateway_Properties
begin

text \<open>
  The properties of single parts of the HTTP layer: what validated input looks like, rate limits,
  sessions, signed requests of new merchants, the absence of panics, the request log, the audit trail and
  limits on sizes.
\<close>

section \<open>Validated input\<close>

lemma get_payment_struct:
  "get_string ''reference_id'' (payment_struct r a c x) = r" "get_int64 ''amount'' (payment_struct r a c x) = a"
  "get_string ''currency'' (payment_struct r a c x) = c" "get_string_ptr ''extra_data'' (payment_struct r a c x) = x"
  by (simp_all add: payment_struct_def get_string_def get_int64_def get_string_ptr_def get_field_def fld_def)

lemma SanitizeStruct_payment: "SanitizeStruct (payment_struct r a c x) =
    payment_struct (sanitize r) a (sanitize c) (map_option sanitize x)"
  by (cases x) (simp_all add: SanitizeStruct_def payment_struct_def fld_def sanitize_val_def)

lemma bind_payment:
  assumes "validator_lib (dp_validator dp)" and "bind_request dp c ''PaymentRequest'' dto_PaymentRequest = Inr st"
  obtains r a cur x where "st = payment_struct r a cur (map_option sanitize x)" "validateSafeID r" "length r \<le> 100" "0 < sint a"
    "length cur = 3" "list_all is_letter cur" "case x of None \<Rightarrow> True | Some y \<Rightarrow> rune_count y \<le> 1000"
proof -
  from assms(2) obtain v st0 where dec: "decode_struct ''PaymentRequest'' v dto_PaymentRequest = Inr st0"
    and val: "validate_struct (dp_validator dp) (dp_ip_literal dp) st0 = Inr ()" and st: "st = SanitizeStruct st0"
    by (auto simp: bind_request_def ShouldBindJSON_def res_simps split: sum.splits)
  from dec obtain r a cur x where st0: "st0 = payment_struct r a cur x" by (rule payment_decoded)
  have ok: "validateSafeID r" "length r \<le> 100" "0 < sint a" "length cur = 3" "list_all is_letter cur"
    "case x of None \<Rightarrow> True | Some y \<Rightarrow> rune_count y \<le> 1000"
    using validator_lib.payment_valid [OF assms(1), THEN iffD1, OF val [unfolded st0]] by blast+
  have "cur \<noteq> []" using ok(4) by auto
  then have "validateSafeID cur" using ok(5) by (rule letters_safe)
  then have "st = payment_struct r a cur (map_option sanitize x)"
    using st st0 ok(1) by (simp add: SanitizeStruct_payment sanitize_safe)
  with ok show ?thesis using that by blast
qed

text \<open>
  C27: What reaches the payment service is well-formed: the reference has 1 to 100 characters out
  of letters, digits, underscore, dash and dot, the amount is positive, the currency is three
  letters, and the extra data holds no character that is special in HTML. Validation happens
  before sanitizing, and sanitizing does not change the reference or the currency.
\<close>

theorem payment_input_valid:
  assumes "validator_lib (dp_validator dp)" and "bind_request dp c ''PaymentRequest'' dto_PaymentRequest = Inr st"
    and "pq = payment_request c m st"
  shows "validateSafeID (pq_ReferenceID pq) \<and> length (pq_ReferenceID pq) \<le> 100 \<and> 0 < sint (pq_Amount pq) \<and>
    length (pq_Currency pq) = 3 \<and> list_all is_letter (pq_Currency pq) \<and> pq_MerchantID pq = m \<and>
    (case pq_ExtraData pq of None \<Rightarrow> True
     | Some y \<Rightarrow> set y \<inter> {CHR ''<'', CHR ''>'', CHR 0x22, CHR 0x27} = {})"
proof -
  from assms(1,2) obtain r a cur x where "st = payment_struct r a cur (map_option sanitize x)" "validateSafeID r"
    "length r \<le> 100" "0 < sint a" "length cur = 3" "list_all is_letter cur" by (rule bind_payment)
  then show ?thesis using EscapeString_safe
    by (auto simp: assms(3) payment_request_def get_payment_struct sanitize_def split: option.splits)
qed

lemma ParseIntE_100: "ParseIntE ''100'' = Inr 100"
proof -
  have "FormatInt 100 = ''100''" by code_simp
  then show ?thesis using ParseIntE_FormatInt [of 100] by simp
qed

lemma demo_bind: "bind_request demo_deps (first_context demo_signed) ''PaymentRequest'' dto_PaymentRequest =
    Inr (payment_struct ''ORDER-2'' 100 ''VND'' None)"
proof -
  have "decode_struct ''PaymentRequest'' (V_object [(''reference_id'', V_string ''ORDER-2''), (''amount'', V_number ''100''),
      (''currency'', V_string ''VND'')]) dto_PaymentRequest = Inr (payment_struct ''ORDER-2'' 100 ''VND'' None)"
    by (simp add: decode_struct_def dto_PaymentRequest_def payment_struct_def field_index_def store_value_def store_string_def
        store_int64_def ParseIntE_100 fld_def upt_rec)
  moreover have "validate_struct sample_validator (dp_ip_literal demo_deps) (payment_struct ''ORDER-2'' 100 ''VND'' None) = Inr ()"
    by (simp add: sample_tags.payment_valid validateSafeID_def safe_char_def is_letter_def is_digit_def)
  moreover have "validateSafeID ''ORDER-2''" "validateSafeID ''VND''"
    by (simp_all add: validateSafeID_def safe_char_def is_letter_def is_digit_def)
  ultimately show ?thesis
    by (simp add: bind_request_def ShouldBindJSON_def demo_headers demo_json_def SanitizeStruct_payment sanitize_safe)
qed

theorem payment_input_valid_witness:
  "\<exists>st. bind_request demo_deps (first_context demo_signed) ''PaymentRequest'' dto_PaymentRequest = Inr st \<and>
     0 < sint (pq_Amount (payment_request (first_context demo_signed) 1 st))"
  using payment_input_valid [OF _ demo_bind refl, of 1] demo_bind sample_tags.validator_lib_axioms by auto

text \<open>
  Payments and refunds do not share idempotency keys: no payment that comes in over HTTP has
  the key of a refund, of whatever merchant and reference, although a refund key is a payment key
  with a prefix in the reference. (The reference of a payment holds no colon.)
\<close>

theorem payment_keys_apart:
  assumes "validator_lib (dp_validator dp)" and "uuid_text U"
    and "bind_request dp c ''PaymentRequest'' dto_PaymentRequest = Inr st"
  shows "BuildIdempotencyKey U m (pq_ReferenceID (payment_request c m st)) \<noteq> BuildRefundIdempotencyKey U m' r'"
proof
  assume eq: "BuildIdempotencyKey U m (pq_ReferenceID (payment_request c m st)) = BuildRefundIdempotencyKey U m' r'"
  from assms(1,3) obtain r a cur x where st: "st = payment_struct r a cur (map_option sanitize x)" and safe: "validateSafeID r"
    by (rule bind_payment)
  have "length (uuid_String U m) = length (uuid_String U m')" by (simp add: uuid_text.length_String [OF assms(2)])
  with eq have "r = ''refund:'' @ r'"
    by (simp add: BuildIdempotencyKey_def BuildRefundIdempotencyKey_def payment_request_def st get_payment_struct)
  with validateSafeID_plain(3) [OF safe] show False by simp
qed

theorem payment_keys_apart_witness:
  "\<exists>st. bind_request demo_deps (first_context demo_signed) ''PaymentRequest'' dto_PaymentRequest = Inr st \<and>
     BuildIdempotencyKey rfc4122 1 (pq_ReferenceID (payment_request (first_context demo_signed) 1 st)) \<noteq>
     BuildRefundIdempotencyKey rfc4122 1 ''ORDER-2''"
  using demo_bind payment_keys_apart [OF _ rfc.uuid_text_axioms demo_bind] sample_tags.validator_lib_axioms
  by (intro exI conjI) auto

text \<open>
  A webhook URL that passes validation is empty or an \<^verbatim>\<open>http\<close> or \<^verbatim>\<open>https\<close> URL: the text in
  front of its first colon is one of these schemes, up to case.
\<close>

theorem webhook_url_scheme:
  assumes "validateSafeURL ip raw"
  shows "raw = [] \<or> (\<exists>scheme rest. raw = scheme @ CHR '':'' # rest \<and> map to_lower scheme \<in> {''http'', ''https''} \<and>
    CHR '':'' \<notin> set scheme)"
proof (cases "raw = []")
  case False
  with assms obtain sch where sch: "ParseRequestURI ip raw = Inr sch" "sch \<in> {''http'', ''https''}"
    by (auto simp: validateSafeURL_def split: sum.splits)
  have "sch \<noteq> []" using sch(2) by auto
  from ParseRequestURI_scheme [OF sch(1) this] obtain scheme rest where
    r: "raw = scheme @ CHR '':'' # rest" "map to_lower scheme = sch" by blast
  have "to_lower CHR '':'' \<notin> set sch" using sch(2) by (auto simp: to_lower_def)
  then have "CHR '':'' \<notin> set scheme" using r(2) by (metis image_eqI set_map)
  moreover have "map to_lower scheme \<in> {''http'', ''https''}" unfolding r(2) by (rule sch(2))
  ultimately show ?thesis using r(1) by (intro disjI2 exI conjI)
qed simp

theorem webhook_url_scheme_witness:
  "validateSafeURL (\<lambda>_. False) ''HTTPS://shop.example/hook?id=1'' \<and>
   (\<exists>scheme rest. ''HTTPS://shop.example/hook?id=1'' = scheme @ CHR '':'' # rest \<and> map to_lower scheme \<in> {''http'', ''https''})"
proof -
  have ok: "validateSafeURL (\<lambda>_. False) ''HTTPS://shop.example/hook?id=1''" by code_simp
  from webhook_url_scheme [OF ok] have "\<exists>scheme rest. ''HTTPS://shop.example/hook?id=1'' = scheme @ CHR '':'' # rest \<and>
      map to_lower scheme \<in> {''http'', ''https''}" by (metis list.discI)
  with ok show ?thesis ..
qed

section \<open>Rate limits\<close>

primrec allow_run :: "string \<Rightarrow> int \<Rightarrow> int \<Rightarrow> time list \<Rightarrow> redis \<Rightarrow> bool list" where
  "allow_run k lim win [] r = []"
| "allow_run k lim win (t # ts) r =
     (case RateLimitStore_Allow None None t k lim win r of
        Inl _ \<Rightarrow> True # allow_run k lim win ts r
      | Inr (res, r') \<Rightarrow> rl_Allowed res # allow_run k lim win ts r')"

text \<open>The expiry set in a window lies behind all instants of that window.\<close>

lemma window_expiry:
  assumes "Unix t div win = w" and "Unix t0 div win = w" and "0 < win"
  shows "t < t0 + seconds (win + 1)"
proof -
  have "Unix t div win * win + Unix t mod win = Unix t" "Unix t mod win < win"
    "Unix t0 div win * win + Unix t0 mod win = Unix t0" "0 \<le> Unix t0 mod win"
    using assms(3) by simp_all
  then have "Unix t < w * win + win" "w * win \<le> Unix t0" using assms(1,2) by auto
  moreover have "t < (Unix t + 1) * 1000000" "Unix t0 * 1000000 \<le> t0" by (simp_all add: Unix_def)
  ultimately show ?thesis by (simp add: seconds_def)
qed

lemma Allow_counting:
  assumes "r (ratelimit_key k w) = Some (JNum n, Some ex)" and "Unix t div win = w" and "t < ex" and "n + 1 < 2 ^ 63" and "n \<noteq> 0"
  shows "\<exists>res r'. RateLimitStore_Allow None None t k lim win r = Inr (res, r') \<and> (rl_Allowed res \<longleftrightarrow> n + 1 \<le> lim) \<and>
    r' (ratelimit_key k w) = Some (JNum (n + 1), Some ex)"
  using assms by (simp add: RateLimitStore_Allow_def redis_incr_def redis_get_def Let_def)

lemma allow_run_counting:
  assumes "r (ratelimit_key k w) = Some (JNum n, Some ex)" and "0 < n" and "n + int (length ts) < 2 ^ 63"
    and "\<And>t. t \<in> set ts \<Longrightarrow> Unix t div win = w \<and> t < ex"
  shows "allow_run k lim win ts r = map (\<lambda>i. n + int i + 1 \<le> lim) [0..<length ts]"
  using assms
proof (induction ts arbitrary: n r)
  case (Cons t ts)
  obtain res r' where step: "RateLimitStore_Allow None None t k lim win r = Inr (res, r')" "rl_Allowed res \<longleftrightarrow> n + 1 \<le> lim"
    and r': "r' (ratelimit_key k w) = Some (JNum (n + 1), Some ex)"
    using Allow_counting [of r k w n ex t win lim] Cons.prems by fastforce
  have "allow_run k lim win ts r' = map (\<lambda>i. n + 1 + int i + 1 \<le> lim) [0..<length ts]"
    using Cons.prems by (intro Cons.IH) (auto simp: r')
  moreover have "[0..<length (t # ts)] = 0 # map Suc [0..<length ts]" by (simp add: upt_conv_Cons map_Suc_upt del: upt_Suc)
  ultimately show ?case by (simp add: step algebra_simps comp_def)
qed simp



section \<open>Sessions\<close>

text \<open>
  The token of a login opens the JWT-protected routes for the merchant it was issued to, until
  the second in which it expires; from then on it is refused with the error for an invalid token.
\<close>

theorem jwt_session:
  assumes "jwt_lib (dp_jwt dp)" and "uuid_text (dp_uuid dp)"
    and "Token_Generate (dp_jwt dp) (dp_uuid dp) (dp_TokenSvc dp) t0 m ak = Inr (tok, ex)" and "tok \<noteq> []"
    and "hr_Header (c_Request c) ''Authorization'' = ''Bearer '' @ tok"
  shows "if ev_now (hx_mw h) < Unix ex * 1000000
    then \<exists>c'. JWTAuth dp h c sv = (Inr c', sv) \<and> key_merchant c' = Some m
    else JWTAuth dp h c sv = (Inl (error_response dp h c ErrInvalidToken), sv)"
proof -
  note bearer = JWTAuth_bearer [OF assms(5,4), of dp h sv]
  show ?thesis
  proof (cases "ev_now (hx_mw h) < Unix ex * 1000000")
    case True
    from jwt_lib.validate_generated [OF assms(1-3) True] True show ?thesis
      by (simp add: bearer key_merchant_def CtxMerchantID_def CtxAccessKey_def)
  next
    case False
    from jwt_lib.validate_expired [OF assms(1,3), of "ev_now (hx_mw h)" "dp_TokenSvc dp"] False
    obtain err where "Token_Validate (dp_jwt dp) (dp_uuid dp) (dp_TokenSvc dp) (ev_now (hx_mw h)) tok = Inl err" by auto
    with False show ?thesis by (simp add: bearer)
  qed
qed

theorem jwt_session_witness:
  "\<exists>c'. JWTAuth demo_deps demo_http (first_context demo_dashboard) (demo_server demo_topped_up) =
      (Inr c', demo_server demo_topped_up) \<and> key_merchant c' = Some 1"
  using jwt_session [of demo_deps "ev_now demo_env" 1 "''ak''" demo_token "ev_now demo_env + 86400000000"
      "first_context demo_dashboard" demo_http "demo_server demo_topped_up"]
    sample_jwt.jwt_lib_axioms rfc.uuid_text_axioms demo_token_generated demo_token_nonempty
  by (simp add: demo_dashboard_def demo_env_def Unix_def)

section \<open>A new merchant can use the API\<close>

text \<open>What a client does to sign a request.\<close>

definition sign_request :: "string \<Rightarrow> string \<Rightarrow> int64 \<Rightarrow> string \<Rightarrow> request \<Rightarrow> request" where
  "sign_request accessKey secretKey timestamp nonce rq =
     rq\<lparr>hr_Header := (hr_Header rq)(HeaderAccessKey := accessKey, HeaderTimestamp := FormatInt timestamp, HeaderNonce := nonce,
          HeaderSignature := HMAC_Sign secretKey (BuildCanonicalString (hr_Method rq) (hr_Path rq) timestamp nonce (hr_Body rq)))\<rparr>"

lemma signed_headers:
  "hr_Header (sign_request ak sk ts n rq) HeaderAccessKey = ak" "hr_Header (sign_request ak sk ts n rq) HeaderTimestamp = FormatInt ts"
  "hr_Header (sign_request ak sk ts n rq) HeaderNonce = n"
  "hr_Header (sign_request ak sk ts n rq) HeaderSignature =
     HMAC_Sign sk (BuildCanonicalString (hr_Method rq) (hr_Path rq) ts n (hr_Body rq))"
  "hr_Method (sign_request ak sk ts n rq) = hr_Method rq" "hr_Path (sign_request ak sk ts n rq) = hr_Path rq"
  "hr_Body (sign_request ak sk ts n rq) = hr_Body rq" "hr_BodyErr (sign_request ak sk ts n rq) = hr_BodyErr rq"
  using header_names by (simp_all add: sign_request_def)

lemma HMACAuth_signed:
  assumes m: "row_where (\<lambda>m. m_AccessKey m = ak) (merchants (sv_db sv)) = Some merchant" "IsActive merchant" "ak \<noteq> []" "nonce \<noteq> []"
    and sk: "Decrypt (dp_EncSvc dp) (m_SecretKeyEnc merchant) = Inr sk" and sig: "dp_SigSvc dp = hmac_sigSvc"
    and fault: "ev_fault (hx_mw h) = (\<lambda>_. None)" and ts: "\<not> timestamp_expired (ev_now (hx_mw h)) ts"
    and fresh: "redis_get (ev_now (hx_mw h)) (nonce_key (uuid_String (dp_uuid dp) (m_ID merchant)) nonce) (sv_redis sv) = None"
    and rq: "c_Request c = sign_request ak sk ts nonce rq" "hr_BodyErr rq = None"
  shows "\<exists>c' sv'. HMACAuth dp h c sv = (Inr c', sv') \<and> key_merchant c' = Some (m_ID merchant)"
proof -
  have nonce: "\<exists>r. NonceStore_CheckAndSet None (ev_now (hx_mw h)) (uuid_String (dp_uuid dp) (m_ID merchant)) nonce
      (seconds nonceTTL) (sv_redis sv) = Inr (True, r)"
    using fresh by (simp add: NonceStore_CheckAndSet_def Let_def)
  have "\<exists>c' sv'. verify_signature dp h c merchant ts sv1 = (Inr c', sv') \<and> key_merchant c' = Some (m_ID merchant)" for sv1
    using sk sig rq by (simp add: verify_signature_def Let_def ReadAll_def signed_headers hmac_sigSvc_def HMAC_Verify_def
        key_merchant_def CtxMerchantID_def CtxAccessKey_def CtxMerchantKey_def)
  then have "\<exists>c' sv'. check_merchant_nonce dp h c ts sv = (Inr c', sv') \<and> key_merchant c' = Some (m_ID merchant)"
    using nonce m(1,2) by (force simp: check_merchant_nonce_def Let_def MerchantRepo_GetByAccessKey_def fault rq(1) signed_headers)
  then show ?thesis
    using m(3,4) ts by (simp add: HMACAuth_def Let_def rq(1) signed_headers HMAC_Sign_not_Nil FormatInt_not_Nil)
qed

text \<open>
  C29: A merchant can use the API with the keys of its registration: after a successful
  registration, a request that is signed with the returned key pair, has a current timestamp and a
  nonce that is not in use, passes authentication as the new merchant.
\<close>

theorem registered_merchant_can_sign:
  assumes "wired a dp" and "Register (dp_AuthSvc dp) e req d = (Inr resp, sv_db sv)"
    and "ev_fault (hx_mw h) = (\<lambda>_. None)" and "\<not> timestamp_expired (ev_now (hx_mw h)) ts" and "nonce \<noteq> []"
    and "redis_get (ev_now (hx_mw h)) (nonce_key (uuid_String (dp_uuid dp) (gr_MerchantID resp)) nonce) (sv_redis sv) = None"
    and "hr_BodyErr rq = None" and "length (hr_Body rq) \<le> 2 ^ 20"
  shows "\<exists>c' sv'. HMACAuth dp h (first_context (sign_request (gr_AccessKey resp) (gr_SecretKey resp) ts nonce rq)) sv = (Inr c', sv') \<and>
    key_merchant c' = Some (gr_MerchantID resp)"
  using assms(2)
proof (cases rule: Register_cases)
  case (both m sk c d1)
  let ?rq = "sign_request (m_AccessKey m) sk ts nonce rq"
  note reg = register_merchant_Inr [OF both(1)]
  note rows = MerchantCreate_Inr [OF both(2)] WalletCreate_Inr(1) [OF both(4)]
  have "m_AccessKey m \<notin> m_AccessKey ` set (merchants d)" using rows(2) by (simp add: merchants_constraints_def)
  then have "row_where (\<lambda>x. m_AccessKey x = m_AccessKey m) (merchants (sv_db sv)) = Some m"
    using row_where_last [of m_AccessKey m] rows(1,3) by simp
  moreover have "IsActive m" using reg(3) by (simp add: IsActive_def)
  moreover have "m_AccessKey m \<noteq> []" using reg(6) by auto
  moreover have "Decrypt (dp_EncSvc dp) (m_SecretKeyEnc m) = Inr sk"
    using assms(1) reg(5) by (simp add: wired_def aes.decrypt_encrypt)
  moreover have "c_Request (first_context ?rq) = ?rq"
    using assms(8) by (simp add: first_context_def MaxBodySize_def signed_headers)
  ultimately show ?thesis
    using HMACAuth_signed [of "m_AccessKey m" sv m nonce dp sk h ts "first_context ?rq" rq] assms both(5)
    by (simp add: wired_def)
qed simp_all

theorem registered_merchant_can_sign_witness:
  "\<exists>resp d' c' sv'. Register demo_auth demo_env demo_register demo_topped_up = (Inr resp, d') \<and>
     HMACAuth demo_deps demo_http (first_context (sign_request (gr_AccessKey resp) (gr_SecretKey resp) 1700000000 ''n-7'' demo_unsigned))
       (demo_server d') = (Inr c', sv') \<and> key_merchant c' = Some (gr_MerchantID resp)"
proof -
  obtain resp d' where reg: "Register (dp_AuthSvc demo_deps) demo_env demo_register demo_topped_up = (Inr resp, sv_db (demo_server d'))"
    using demo_registered by (metis demo_deps_fields(5) demo_server_fields(1) demo_world_fields(1))
  have "\<not> timestamp_expired (ev_now (hx_mw demo_http)) 1700000000"
    by (simp add: timestamp_expired_def maxTimestampDrift_def demo_env_def Unix_def)
  from registered_merchant_can_sign [OF demo_wired reg _ this, of "''n-7''" demo_unsigned] reg
  show ?thesis by (auto simp: demo_env_def redis_get_def demo_unsigned_def demo_headers demo_body_def)
qed

section \<open>The audit trail\<close>

lemma finish_transaction_audit: "finish_transaction dp h c sv r = (resp, sv') \<Longrightarrow> sv_audit sv' = sv_audit sv \<and> sv_log sv' = sv_log sv"
  by (auto simp: finish_transaction_def EnqueueWebhook_ignored_def split: prod.splits sum.splits option.splits)

lemma assert_uuid_audit:
  assumes "assert_uuid v sv k = (out, sv')" and "\<And>m. k m = (out, sv') \<Longrightarrow> sv_audit sv' = sv_audit sv \<and> sv_log sv' = sv_log sv"
  shows "sv_audit sv' = sv_audit sv \<and> sv_log sv' = sv_log sv"
  using assms by (cases v) (auto simp: assert_uuid_def)

lemma set_db_audit [simp]: "sv_audit (set_db d sv) = sv_audit sv" "sv_log (set_db d sv) = sv_log sv"
  "sv_log (set_redis r sv) = sv_log sv"
  by (simp_all add: set_db_def set_redis_def)

text \<open>Audit entries and log lines are written by the global middleware only.\<close>

lemma handlers_keep_audit:
  assumes "rt \<in> set (routes dp)" and "rt_handler rt dp h c sv = (out, sv')"
  shows "sv_audit sv' = sv_audit sv \<and> sv_log sv' = sv_log sv"
proof -
  let ?kept = "sv_audit sv' = sv_audit sv \<and> sv_log sv' = sv_log sv"
  have "PaymentHandler_ProcessPayment dp h c sv = (out, sv') \<Longrightarrow> ?kept"
    "PaymentHandler_ProcessRefund dp h c sv = (out, sv') \<Longrightarrow> ?kept" "WalletHandler_Topup dp h c sv = (out, sv') \<Longrightarrow> ?kept"
    by (auto simp: PaymentHandler_ProcessPayment_def PaymentHandler_ProcessRefund_def WalletHandler_Topup_def
        dest!: assert_uuid_audit dest: finish_transaction_audit split: sum.splits)
  moreover have "WalletHandler_GetBalance dp h c sv = (out, sv') \<Longrightarrow> ?kept" "DashboardHandler_GetStats dp h c sv = (out, sv') \<Longrightarrow> ?kept"
    "DashboardHandler_ListTransactions dp h c sv = (out, sv') \<Longrightarrow> ?kept" "MerchantHandler_GetProfile dp h c sv = (out, sv') \<Longrightarrow> ?kept"
    "AuthHandler_Login dp h c sv = (out, sv') \<Longrightarrow> ?kept" "HealthCheck dp h c sv = (out, sv') \<Longrightarrow> ?kept"
    "SwaggerUI dp h c sv = (out, sv') \<Longrightarrow> ?kept" "SwaggerSpec dp h c sv = (out, sv') \<Longrightarrow> ?kept"
    by (auto simp: HealthCheck_def SwaggerUI_def SwaggerSpec_def Let_def WalletHandler_GetBalance_def DashboardHandler_GetStats_def AuthHandler_Login_def
        DashboardHandler_ListTransactions_def MerchantHandler_GetProfile_def assert_uuid_def split: sum.splits prod.splits ctx_val.splits)
  moreover have "AuthHandler_Register dp h c sv = (out, sv') \<Longrightarrow> ?kept" "MerchantHandler_UpdateWebhookURL dp h c sv = (out, sv') \<Longrightarrow> ?kept"
    "MerchantHandler_RotateKeys ms dp h c sv = (out, sv') \<Longrightarrow> ?kept" for ms
    by (auto simp: AuthHandler_Register_def MerchantHandler_UpdateWebhookURL_def MerchantHandler_RotateKeys_def assert_uuid_def
        split: sum.splits prod.splits ctx_val.splits)
  ultimately show ?thesis using assms by (auto simp: routes_def split: option.splits)
qed

text \<open>The last context of a chain carries the identity of the caller, and its request is the original one.\<close>

lemma authenticate_request: "authenticate a dp h c sv = (Inr c1, sv1) \<Longrightarrow> c_Request c1 = c_Request c"
  by (cases a) (auto simp: authenticate_def JWTAuth_def HMACAuth_def check_merchant_nonce_def Let_def
      elim!: verify_signature_Inr split: sum.splits option.splits if_splits prod.splits bool.splits)

lemma run_route_context:
  assumes "find_route dp rq = Some rt" and "run_route rt dp h (first_context rq) sv = (out, c', sv')"
  shows "key_merchant c' = caller dp h rq sv \<and> c_Request c' = c_Request (first_context rq) \<and>
    sv_audit sv' = sv_audit sv \<and> sv_log sv' = sv_log sv"
proof -
  have rt: "rt \<in> set (routes dp)" using assms(1) by (auto simp: find_route_def find_Some_iff)
  obtain x sv1 where auth: "authenticate (rt_auth rt) dp h (first_context rq) sv = (x, sv1)" by fastforce
  have a1: "sv_audit sv1 = sv_audit sv" "sv_log sv1 = sv_log sv" using authenticate_state [OF auth] by (auto simp: redis_only_def)
  show ?thesis
  proof (cases x)
    case (Inl resp')
    then show ?thesis using assms auth a1 by (auto simp: run_route_def caller_def)
  next
    case (Inr c1)
    obtain y sv2 where lim: "rl dp (rt_limit rt) h c1 sv1 = (y, sv2)" by fastforce
    have a2: "sv_audit sv2 = sv_audit sv" "sv_log sv2 = sv_log sv" using rl_state [OF lim] a1 by (auto simp: redis_only_def)
    have who: "caller dp h rq sv = key_merchant c1" "c_Request c1 = c_Request (first_context rq)"
      using assms(1) auth Inr authenticate_request by (auto simp: caller_def)
    show ?thesis
    proof (cases y)
      case (Inl resp')
      then show ?thesis using assms(2) auth Inr lim a2 who by (auto simp: run_route_def)
    next
      case c2: (Inr c2)
      then show ?thesis using assms(2) auth Inr lim a2 who rl_keys key_merchant_rl handlers_keep_audit [OF rt]
        by (fastforce simp: run_route_def split: prod.splits)
    qed
  qed
qed

section \<open>Panics and the request log\<close>

text \<open>A route that reads the merchant id is behind an authentication that sets it to a UUID.\<close>

definition no_panic :: "RouterDeps \<Rightarrow> auth \<Rightarrow> handler \<Rightarrow> bool" where
  "no_panic dp a hdl \<longleftrightarrow> (\<forall>h c sv. (a \<noteq> Public \<longrightarrow> key_merchant c \<noteq> None) \<longrightarrow> (\<exists>resp. fst (hdl dp h c sv) = Responded resp))"

lemma authenticate_uuid: "authenticate a dp h c sv = (Inr c', sv') \<Longrightarrow> a \<noteq> Public \<Longrightarrow> key_merchant c' \<noteq> None"
  by (cases a) (auto simp: authenticate_def JWTAuth_def HMACAuth_def check_merchant_nonce_def Let_def key_merchant_def
      CtxMerchantID_def CtxAccessKey_def elim!: verify_signature_Inr split: sum.splits option.splits if_splits prod.splits bool.splits)

lemma finish_transaction_responds: "\<exists>resp. fst (finish_transaction dp h c sv r) = Responded resp"
  by (auto simp: finish_transaction_def fail_response_def created_response_def split: prod.splits sum.splits)

lemmas response_defs = fail_response_def ok_response_def created_response_def

lemma routes_no_panic: "rt \<in> set (routes dp) \<Longrightarrow> no_panic dp (rt_auth rt) (rt_handler rt)"
  by (auto simp: routes_def no_panic_def response_defs finish_transaction_responds Let_def HealthCheck_def SwaggerUI_def SwaggerSpec_def
      PaymentHandler_ProcessPayment_def PaymentHandler_ProcessRefund_def WalletHandler_Topup_def WalletHandler_GetBalance_def
      DashboardHandler_GetStats_def AuthHandler_Login_def DashboardHandler_ListTransactions_def MerchantHandler_GetProfile_def
      AuthHandler_Register_def MerchantHandler_UpdateWebhookURL_def MerchantHandler_RotateKeys_def res_simps dest!: ctx_merchant_uuid
      split: option.splits sum.splits prod.splits)

lemma run_route_responds:
  assumes "rt \<in> set (routes dp)"
  shows "\<exists>resp c' sv'. run_route rt dp h c sv = (Responded resp, c', sv')"
proof -
  have "\<exists>resp. fst (rt_handler rt dp h c2 sv2) = Responded resp"
    if "authenticate (rt_auth rt) dp h c sv = (Inr c1, sv1)" "rl dp (rt_limit rt) h c1 sv1 = (Inr c2, sv2)" for c1 sv1 c2 sv2
    using that routes_no_panic [OF assms] authenticate_uuid key_merchant_rl unfolding no_panic_def by metis
  then show ?thesis by (fastforce simp: run_route_def split: prod.splits sum.splits)
qed

lemma SetupRouter_responds:
  assumes "SetupRouter dp h rq sv = (Some resp, sv')"
  obtains rt c' sv1 where "find_route dp rq = Some rt" "run_route rt dp h (first_context rq) sv = (Responded resp, c', sv1)"
    "sv' = RequestLogger_after dp h c' resp (AuditLog_after dp h c' resp sv1)"
proof -
  from assms obtain rt where rt: "find_route dp rq = Some rt" by (auto simp: SetupRouter_alt split: option.splits)
  then have "rt \<in> set (routes dp)" by (auto simp: find_route_def find_Some_iff)
  from run_route_responds [OF this] obtain resp1 c' sv1 where run: "run_route rt dp h (first_context rq) sv = (Responded resp1, c', sv1)"
    by blast
  with assms rt that show ?thesis by (auto simp: SetupRouter_alt finish_request_def)
qed

text \<open>
  C33: No request makes a handler panic: the type assertions on the merchant id hold on every route,
  because each route that has one is behind an authentication that stores a UUID. So every request
  to a known route gets the response of its own chain, never that of the recovery middleware, and
  is logged by exactly one line with its method, path, status, latency and client address, at level
  error for a 5xx status, warn for 4xx and info otherwise, unless the logger is set to a higher level.
\<close>

theorem requests_never_panic:
  assumes "find_route dp rq = Some rt"
  shows "\<exists>resp c' sv1 sv'. run_route rt dp h (first_context rq) sv = (Responded resp, c', sv1) \<and>
    SetupRouter dp h rq sv = (Some resp, sv') \<and>
    (let status = rp_status (hp_reply resp);
         level = (if 500 \<le> status then ErrorLevel else if 400 \<le> status then WarnLevel else InfoLevel)
     in sv_log sv' = sv_log sv @ (if lg_Level (dp_Logger dp) \<le> level
          then [HttpRequest level (hr_Method rq) (hr_Path rq) status (hx_end h - hx_start h) (hr_ClientIP rq)] else []))"
proof -
  have "rt \<in> set (routes dp)" using assms by (auto simp: find_route_def find_Some_iff)
  from run_route_responds [OF this] obtain resp c' sv1 where run: "run_route rt dp h (first_context rq) sv = (Responded resp, c', sv1)"
    by blast
  moreover have "SetupRouter dp h rq sv = (Some resp, RequestLogger_after dp h c' resp (AuditLog_after dp h c' resp sv1))"
    by (rule SetupRouter_run [OF assms run]) (simp add: finish_request_def)
  moreover have "sv_log (AuditLog_after dp h c' resp sv1) = sv_log sv" "c_Request c' = c_Request (first_context rq)"
    using run_route_context [OF assms run] by (simp_all add: AuditLog_after_def split: option.splits)
  ultimately show ?thesis
    by (auto simp: RequestLogger_after_def request_level_def write_line_def Let_def)
qed


section \<open>A payment over HTTP\<close>

lemma bind_request_cong: "c_Request c' = c_Request c \<Longrightarrow> bind_request dp c' n z = bind_request dp c n z"
  by (simp add: bind_request_def ShouldBindJSON_def)

lemma payment_request_cong: "c_Request c' = c_Request c \<Longrightarrow> payment_request c' m st = payment_request c m st"
  by (simp add: payment_request_def)

text \<open>The chain of the payment route, when nothing stops it.\<close>

lemma http_payment_run:
  assumes rt: "find_route dp rq = Some rt" "rt_handler rt = PaymentHandler_ProcessPayment"
    and auth: "authenticate (rt_auth rt) dp h (first_context rq) sv = (Inr c1, sv1)" and m: "key_merchant c1 = Some m"
    and lim: "rl dp (rt_limit rt) h c1 sv1 = (Inr c2, sv2)"
    and bnd: "bind_request dp (first_context rq) ''PaymentRequest'' dto_PaymentRequest = Inr st"
    and pay: "ProcessPayment (dp_PaymentSvc dp) (hx_svc h) (payment_request (first_context rq) m st) (sv_world sv2) = (Inr txn, w')"
  shows "\<exists>resp sv'. SetupRouter dp h rq sv = (Some resp, sv') \<and> sv_world sv' = w' \<and> rp_status (hp_reply resp) = 201 \<and>
    Data (rp_body (hp_reply resp)) = P_Transaction (toTransactionResponse (dp_uuid dp) txn)"
proof -
  have rq: "c_Request c2 = c_Request (first_context rq)"
    using rl_keys [OF lim] authenticate_request [OF auth] by simp
  have "ctx_merchant c2 = Inr (CtxUUID m)" using m key_merchant_rl [OF lim] by (simp add: ctx_merchant_uuid)
  then have "PaymentHandler_ProcessPayment dp h c2 sv2 =
      (created_response dp h c2 (P_Transaction (toTransactionResponse (dp_uuid dp) txn)),
       EnqueueWebhook_ignored dp h txn (sv2\<lparr>sv_world := w'\<rparr>))"
    using pay by (simp add: PaymentHandler_ProcessPayment_def bind_request_cong [OF rq] bnd payment_request_cong [OF rq]
        finish_transaction_def)
  then show ?thesis
    by (simp add: SetupRouter_alt rt run_route_def auth lim created_response_def respond_def response_Created_def
        finish_request_def RequestLogger_after_def Let_def)
qed


lemma demo_limit:
  obtains c2 sv2 where "rl demo_deps ''payments'' demo_http c1
      (set_redis [nonce_key u n \<mapsto> x] (demo_server demo_topped_up)) = (Inr c2, sv2)"
    "idempotency_lookup demo_env k (sv_world sv2) = Inr None"
proof -
  let ?k = "ratelimit_key (extractIdentifier demo_deps c1 @ '':payments'') (Unix (ev_now demo_env) div 60)"
  let ?r = "[nonce_key u n \<mapsto> x]"
  have free: "redis_get (ev_now demo_env) ?k ?r = None" by (simp add: redis_get_def nonce_key_def ratelimit_key_def)
  have rule: "DefaultRateLimitRules ''payments'' = Some \<lparr>rr_Limit = 100, rr_Window = 60\<rparr>"
    by (simp add: DefaultRateLimitRules_def)
  have "\<exists>c2 r2. rl demo_deps ''payments'' demo_http c1 (set_redis ?r (demo_server demo_topped_up)) = (Inr c2, set_redis r2 (demo_server demo_topped_up)) \<and>
      r2 (''idempotency:'' @ k) = None"
    using free by (simp add: rl_def rule RateLimiter_def RateLimitStore_Allow_def redis_incr_def redis_expire_def Let_def demo_env_def
        redis_get_def nonce_key_def ratelimit_key_def) (rule exI, rule conjI, rule refl, simp)
  then obtain c2 r2 where run: "rl demo_deps ''payments'' demo_http c1 (set_redis ?r (demo_server demo_topped_up)) =
      (Inr c2, set_redis r2 (demo_server demo_topped_up))" and idem: "r2 (''idempotency:'' @ k) = None" by (elim exE conjE)
  have "idempotency_lookup demo_env k (sv_world (set_redis r2 (demo_server demo_topped_up))) = Inr None"
    using idem by (simp add: idempotency_lookup_def IdempotencyCache_Get_def IdempotencyRepo_Get_def redis_get_def)
  with run that show ?thesis by blast
qed

lemma rl_nonce_key: "rl dp g h c sv = (x, sv') \<Longrightarrow> sv_redis sv' (nonce_key u n) = sv_redis sv (nonce_key u n)"
  by (auto simp: rl_def RateLimiter_def Let_def nonce_key_def ratelimit_key_def dest!: Allow_update
      split: if_splits option.splits sum.splits prod.splits)

text \<open>The signed demonstration payment, up to the service call.\<close>

lemma demo_chain:
  obtains c1 sv1 c2 sv2 where
    "authenticate ByHMAC demo_deps demo_http (first_context demo_signed) (demo_server demo_topped_up) = (Inr c1, sv1)"
    "key_merchant c1 = Some 1" "rl demo_deps ''payments'' demo_http c1 sv1 = (Inr c2, sv2)"
    "idempotency_lookup demo_env (BuildIdempotencyKey rfc4122 1 ''ORDER-2'') (sv_world sv2) = Inr None"
    "sv_db sv2 = demo_topped_up" "sv_redis sv2 (nonce_key (uuid_String rfc4122 1) ''n-2'') = None"
proof -
  obtain c1 sv1 where auth: "authenticate ByHMAC demo_deps demo_http (first_context demo_signed) (demo_server demo_topped_up) = (Inr c1, sv1)"
    and c1: "key_merchant c1 = Some 1" "sv1 = set_redis [nonce_key (uuid_String rfc4122 1) ''n-1'' \<mapsto> (JNum 1, Some (ev_now demo_env + 120000000))] (demo_server demo_topped_up)"
    using demo_accepted by (simp add: authenticate_def key_merchant_def CtxMerchantID_def CtxAccessKey_def CtxMerchantKey_def)
  obtain c2 sv2 where lim: "rl demo_deps ''payments'' demo_http c1 sv1 = (Inr c2, sv2)"
    and lk: "idempotency_lookup demo_env (BuildIdempotencyKey rfc4122 1 ''ORDER-2'') (sv_world sv2) = Inr None"
    unfolding c1(2) by (rule demo_limit)
  have "sv_db sv2 = demo_topped_up" using redis_only_db [OF rl_state [OF lim]] c1(2) by simp
  moreover have "sv_redis sv2 (nonce_key (uuid_String rfc4122 1) ''n-2'') = None"
    using rl_nonce_key [OF lim] c1(2) by (simp add: nonce_key_def)
  ultimately show ?thesis using auth c1(1) lim lk that by blast
qed

lemma demo_pq: "pq_Amount (payment_request (first_context demo_signed) 1 (payment_struct ''ORDER-2'' 100 ''VND'' None)) = 100"
  "pq_Currency (payment_request (first_context demo_signed) 1 (payment_struct ''ORDER-2'' 100 ''VND'' None)) = ''VND''"
  "pq_ReferenceID (payment_request (first_context demo_signed) 1 (payment_struct ''ORDER-2'' 100 ''VND'' None)) = ''ORDER-2''"
  "pq_MerchantID (payment_request (first_context demo_signed) 1 (payment_struct ''ORDER-2'' 100 ''VND'' None)) = 1"
  "pq_ClientIP (payment_request (first_context demo_signed) 1 (payment_struct ''ORDER-2'' 100 ''VND'' None)) = ''10.0.0.1''"
  "pq_Signature (payment_request (first_context demo_signed) 1 (payment_struct ''ORDER-2'' 100 ''VND'' None)) = []"
  by (simp_all add: payment_request_def get_payment_struct demo_headers)


lemma demo_created_run:
  obtains resp sv' sv2 txn where
    "SetupRouter demo_deps demo_http demo_signed (demo_server demo_topped_up) = (Some resp, sv')" "rp_status (hp_reply resp) = 201"
    "ProcessPayment demo_service demo_env (payment_request (first_context demo_signed) 1 (payment_struct ''ORDER-2'' 100 ''VND'' None))
       (sv_world sv2) = (Inr txn, sv_world sv')"
    "sv_db sv2 = demo_topped_up" "sv_redis sv2 (nonce_key (uuid_String rfc4122 1) ''n-2'') = None"
    "transactions (sv_db sv') = transactions demo_topped_up @ [txn]"
proof -
  let ?pq = "payment_request (first_context demo_signed) 1 (payment_struct ''ORDER-2'' 100 ''VND'' None)"
  obtain c1 sv1 c2 sv2 where auth: "authenticate ByHMAC demo_deps demo_http (first_context demo_signed) (demo_server demo_topped_up) = (Inr c1, sv1)"
    and c1: "key_merchant c1 = Some 1" and lim: "rl demo_deps ''payments'' demo_http c1 sv1 = (Inr c2, sv2)"
    and lk: "idempotency_lookup demo_env (BuildIdempotencyKey rfc4122 1 ''ORDER-2'') (sv_world sv2) = Inr None"
    and db: "sv_db sv2 = demo_topped_up" and n2: "sv_redis sv2 (nonce_key (uuid_String rfc4122 1) ''n-2'') = None"
    by (rule demo_chain)
  have "storable (payment_txn demo_env ?pq (demo_wallet 1000) ae) (sv_db sv2)" for ae
    by (simp add: storable_def payment_txn_def demo_pq db rune_count_def demo_env_def)
  then have "\<exists>txn w'. ProcessPayment demo_service demo_env ?pq (sv_world sv2) = (Inr txn, w') \<and>
      transactions (wd_db w') = transactions (sv_db sv2) @ [txn]"
    using payment_effects [OF demo_no_faults demo_key rfc.uuid_text_axioms, of "sv_world sv2" ?pq "demo_wallet 1000" 1000] lk
    by (auto simp: demo_pq db demo_books_topped_up row_where_def demo_service_def)
  then obtain txn w' where pay: "ProcessPayment demo_service demo_env ?pq (sv_world sv2) = (Inr txn, w')"
    and txs: "transactions (wd_db w') = transactions (sv_db sv2) @ [txn]" by (elim exE conjE)
  have "\<exists>resp sv'. SetupRouter demo_deps demo_http demo_signed (demo_server demo_topped_up) = (Some resp, sv') \<and> sv_world sv' = w' \<and>
      rp_status (hp_reply resp) = 201"
    using http_payment_run [OF demo_route _ _ c1 _ demo_bind, of demo_http "demo_server demo_topped_up" sv1 c2 sv2 txn w'] auth lim pay by auto
  then show ?thesis using that pay db n2 txs by metis
qed

lemma demo_created:
  "\<exists>resp sv'. SetupRouter demo_deps demo_http demo_signed (demo_server demo_topped_up) = (Some resp, sv') \<and> rp_status (hp_reply resp) = 201"
  by (rule demo_created_run) blast


theorem requests_never_panic_witness:
  "\<exists>resp sv'. SetupRouter demo_deps demo_http demo_unsigned (demo_server demo_topped_up) = (Some resp, sv') \<and>
     sv_log sv' = [HttpRequest WarnLevel ''POST'' ''/api/v1/payments'' 401 1500 ''10.0.0.1'']"
proof -
  have route: "find_route demo_deps demo_unsigned = find_route demo_deps demo_signed"
    by (simp add: find_route_def demo_unsigned_def)
  obtain rt where rt: "find_route demo_deps demo_unsigned = Some rt" "rt_auth rt = ByHMAC" by (simp add: route demo_route)
  have "HMACAuth demo_deps demo_http (first_context demo_unsigned) sv =
      (Inl (error_response demo_deps demo_http (first_context demo_unsigned) ErrInvalidAccessKey), sv)" for sv
    by (simp add: HMACAuth_def demo_unsigned_def)
  then have st: "run_route rt demo_deps demo_http (first_context demo_unsigned) sv = (Responded resp, c', sv1) \<Longrightarrow> rp_status (hp_reply resp) = 401"
    for sv resp c' sv1
    by (auto simp: run_route_def authenticate_def rt(2) error_response_def respond_def client_status_def apperror_defs)
  from requests_never_panic [OF rt(1), of demo_http "demo_server demo_topped_up"] st show ?thesis
    by (fastforce simp: Let_def logger_New_def parseLevel_def less_eq_Level_def demo_http_def demo_unsigned_def demo_headers)
qed

section \<open>Limits\<close>

text \<open>
  A page number above the range of an \<^verbatim>\<open>int64\<close> is not rejected: the error of \<^verbatim>\<open>Atoi\<close> is dropped and
  its largest value taken, the offset of the query wraps to a negative number, PostgreSQL refuses
  the query, and the client gets an internal error (500, SYS_001) instead of an empty page or a
  validation error.
\<close>

theorem page_overflow:
  assumes "key_merchant c = Some m" and "hr_Query (c_Request c) ''page'' = Some p" and "ParseInt p = (2 ^ 63 - 1, Some ErrRange)"
    and "hr_Query (c_Request c) ''page_size'' = None" and "no_faults (hx_svc h)"
  shows "DashboardHandler_ListTransactions dp h c sv =
    (Responded (respond c \<lparr>rp_status = 500, rp_body = ErrorResponse ''SYS_001'' ''Internal server error''
       (getRequestID (c_Keys c) (uuid_String (dp_uuid dp) (hx_reqID h))) (hx_reply_now h)\<rparr>), sv)"
proof -
  let ?p = "list_params (c_Request c) m"
  have atoi: "Atoi_value p = 9223372036854775807" "Atoi_value ''20'' = 20"
    by (simp_all add: Atoi_value_def assms(3)) (simp add: ParseInt_def ParseUint_def is_digit_def digit_val_def)
  have p: "lp_Page ?p = 9223372036854775807" "lp_PageSize ?p = 20"
    by (simp_all add: list_params_def DefaultQuery_def assms(2,4) atoi Let_def word_sless_alt)
  have "sint ((lp_Page ?p - 1) * lp_PageSize ?p) < 0" unfolding p by simp
  then have "\<exists>err. ListTransactions (hx_svc h) ?p (sv_db sv) = Inl (InternalError err)"
    using assms(5) by (simp add: ListTransactions_def TransactionRepo_List_def page_of_def p no_faults_def Let_def) blast
  moreover have "ctx_merchant c = Inr (CtxUUID m)" using assms(1) by (rule ctx_merchant_uuid)
  ultimately show ?thesis
    by (auto simp: DashboardHandler_ListTransactions_def Let_def fail_response_def error_response_def response_Error_def apperror_defs)
qed

definition demo_listing :: gin_context where
  "demo_listing =
     \<lparr>c_Request = demo_dashboard\<lparr>hr_Method := ''GET'', hr_Path := ''/api/v1/transactions'',
        hr_Query := [''page'' \<mapsto> ''99999999999999999999'']\<rparr>,
      c_Keys = [CtxMerchantID \<mapsto> CtxUUID 1], c_Headers = []\<rparr>"

theorem page_overflow_witness:
  "\<exists>resp. fst (DashboardHandler_ListTransactions demo_deps demo_http demo_listing (demo_server demo_paid)) = Responded resp \<and>
     rp_status (hp_reply resp) = 500"
  using page_overflow [of demo_listing 1 "''99999999999999999999''" demo_http demo_deps "demo_server demo_paid"]
  by (simp add: demo_listing_def key_merchant_def respond_def ParseInt_def ParseUint_def is_digit_def digit_val_def)

end
