(* ===== verification/Exactly_Once.thy ===== *)
theory Exactly_Once
  imports Http_Properties
begin

text \<open>
  Payments over HTTP are applied at most once. The idempotency log and the cache of responses are
  followed through everything that the gateway does: the other routes, the middleware with its own
  keys in Redis, and the background work.
\<close>

section \<open>The idempotency layers in the whole gateway\<close>

lemma idemp_inv_redis: "keeps_cache (wd_redis w) r \<Longrightarrow> idemp_inv (w\<lparr>wd_redis := r\<rparr>) = idemp_inv w"
  by (simp add: idemp_inv_def cache_coherent_def keeps_cache_def)

lemma idemp_inv_logs: "idempotency_logs d = idempotency_logs (wd_db w) \<Longrightarrow> idemp_inv (w\<lparr>wd_db := d\<rparr>) = idemp_inv w"
  by (simp add: idemp_inv_def cache_coherent_def)

text \<open>The log only grows, and the cache stays coherent with it.\<close>

definition keeps_logs :: "world \<Rightarrow> world \<Rightarrow> bool" where
  "keeps_logs w w' \<longleftrightarrow> (\<exists>ls. idempotency_logs (wd_db w') = idempotency_logs (wd_db w) @ ls) \<and> (idemp_inv w \<longrightarrow> idemp_inv w')"

lemma keeps_logs_refl [simp]: "keeps_logs w w"
  by (simp add: keeps_logs_def)

lemma keeps_logs_trans: "keeps_logs w w1 \<Longrightarrow> keeps_logs w1 w2 \<Longrightarrow> keeps_logs w w2"
  by (auto simp: keeps_logs_def)

lemma keeps_logs_db: "idempotency_logs d = idempotency_logs (wd_db w) \<Longrightarrow> keeps_logs w (w\<lparr>wd_db := d\<rparr>)"
  by (simp add: keeps_logs_def idemp_inv_logs)

lemma gateway_action_logs: "gateway_action dp e m w w' \<Longrightarrow> keeps_logs w w'"
proof (induction rule: gateway_action.induct)
  case (act_fund q m w r w')
  then show ?case using fund_log.log_grows fund_log.keeps_idemp_inv by (metis keeps_logs_def)
next
  case (act_register req w r d)
  then show ?case using Register_rows [OF act_register(1)] by (intro keeps_logs_db) simp
next
  case (act_webhook m url w d)
  then show ?case using MerchantUpdate_tables(3) by (metis UpdateWebhookURL_update keeps_logs_db)
next
  case (act_rotate ms m w resp d)
  then show ?case using MerchantUpdate_tables(3) by (metis RotateKeys_update keeps_logs_db)
qed simp

lemma redis_only_logs:
  assumes "redis_only now sv sv'"
  shows "keeps_logs (sv_world sv) (sv_world sv')"
  using assms by (auto simp: redis_only_def keeps_logs_def idemp_inv_redis)

lemma gateway_step_logs: "gateway_step dp sv sv' \<Longrightarrow> keeps_logs (sv_world sv) (sv_world sv')"
proof (induction rule: gateway_step.induct)
  case (step_request h rq sv resp sv')
  from SetupRouter_refines [OF this] redis_only_logs gateway_action_logs keeps_logs_trans show ?case by blast
next
  case (step_background sv sv')
  have "sv_world sv' = (sv_world sv)\<lparr>wd_db := sv_db sv'\<rparr>"
    using step_background(2) by (cases "sv_world sv'"; cases "sv_world sv") simp
  with step_background(1) keeps_logs_db [of "sv_db sv'" "sv_world sv"] show ?case by (simp add: background_def)
qed

lemma gateway_steps_logs: "(gateway_step dp)\<^sup>*\<^sup>* sv sv' \<Longrightarrow> keeps_logs (sv_world sv) (sv_world sv')"
  by (induction rule: rtranclp_induct) (auto dest: gateway_step_logs intro: keeps_logs_trans)

section \<open>The chain of a payment request\<close>

text \<open>A payment handler that changed anything has called the service for the merchant in its context.\<close>

lemma payment_handler_applied:
  assumes "PaymentHandler_ProcessPayment dp h c sv = (out, sv')" and "sv_world sv' \<noteq> sv_world sv"
  obtains m st r where "key_merchant c = Some m" "bind_request dp c ''PaymentRequest'' dto_PaymentRequest = Inr st"
    "ProcessPayment (dp_PaymentSvc dp) (hx_svc h) (payment_request c m st) (sv_world sv) = (r, sv_world sv')"
    "out = (case r of Inl err \<Rightarrow> fail_response dp h c err
       | Inr t \<Rightarrow> created_response dp h c (P_Transaction (toTransactionResponse (dp_uuid dp) t)))"
proof -
  from assms obtain st v where v: "c_Keys c CtxMerchantID = Some v" and st: "bind_request dp c ''PaymentRequest'' dto_PaymentRequest = Inr st"
    and run: "assert_uuid v sv (\<lambda>m. finish_transaction dp h c sv
      (ProcessPayment (dp_PaymentSvc dp) (hx_svc h) (payment_request c m st) (sv_world sv))) = (out, sv')"
    by (simp add: PaymentHandler_ProcessPayment_def split: sum.splits prod.splits) (auto simp: res_simps ctx_merchant_Inr)
  show ?thesis
  proof (cases rule: assert_uuid_cases [OF run v])
    case (1 m)
    obtain r w' where pay: "ProcessPayment (dp_PaymentSvc dp) (hx_svc h) (payment_request c m st) (sv_world sv) = (r, w')" by fastforce
    have "w' = sv_world sv'" using finish_transaction_world [OF 1(2)] pay by simp
    moreover have "out = (case r of Inl err \<Rightarrow> fail_response dp h c err
        | Inr t \<Rightarrow> created_response dp h c (P_Transaction (toTransactionResponse (dp_uuid dp) t)))"
      using 1(2) pay by (auto simp: finish_transaction_def split: sum.splits)
    ultimately show ?thesis using that 1(1) st pay by blast
  qed (use assms(2) in simp)
qed

lemma transaction_body:
  assumes "Responded resp = (case r of Inl err \<Rightarrow> fail_response dp h c err
      | Inr t \<Rightarrow> created_response dp h c (P_Transaction (toTransactionResponse (dp_uuid dp) t)))"
    and "rp_body (hp_reply resp) = SuccessResponse d i n"
  shows "\<exists>t. r = Inr t \<and> d = P_Transaction (toTransactionResponse (dp_uuid dp) t)"
  using assms by (auto simp: created_response_def fail_response_def error_response_def respond_def response_Created_def
      response_Error_def split: sum.splits option.splits error.splits)

text \<open>A request to the payment route that changed the database went through the whole chain.\<close>

lemma http_payment_applied:
  assumes "find_route dp rq = Some rt" and "rt_handler rt = PaymentHandler_ProcessPayment"
    and "SetupRouter dp h rq sv = (Some resp, sv')" and "sv_db sv' \<noteq> sv_db sv"
  obtains m st r sv2 where "caller dp h rq sv = Some m"
    "bind_request dp (first_context rq) ''PaymentRequest'' dto_PaymentRequest = Inr st"
    "keeps_logs (sv_world sv) (sv_world sv2)" "sv_db sv2 = sv_db sv"
    "ProcessPayment (dp_PaymentSvc dp) (hx_svc h) (payment_request (first_context rq) m st) (sv_world sv2) = (r, sv_world sv')"
    "\<forall>d i n. rp_body (hp_reply resp) = SuccessResponse d i n \<longrightarrow>
       (\<exists>t. r = Inr t \<and> d = P_Transaction (toTransactionResponse (dp_uuid dp) t))"
proof -
  from assms(3) obtain rt' c' sv3 where rt': "find_route dp rq = Some rt'"
    and run0: "run_route rt' dp h (first_context rq) sv = (Responded resp, c', sv3)" by (rule SetupRouter_responds)
  from rt' assms(1) run0 have run: "run_route rt dp h (first_context rq) sv = (Responded resp, c', sv3)" by simp
  have w: "sv_world sv' = sv_world sv3" by (rule SetupRouter_world [OF assms(1) run assms(3)])
  obtain x sv1 where auth: "authenticate (rt_auth rt) dp h (first_context rq) sv = (x, sv1)" by fastforce
  note r1 = authenticate_state [OF auth]
  have "x = Inr c1 \<Longrightarrow> ?thesis" for c1
  proof -
    assume x: "x = Inr c1"
    obtain y sv2 where lim: "rl dp (rt_limit rt) h c1 sv1 = (y, sv2)" by fastforce
    note r2 = rl_state [OF lim]
    have db2: "sv_db sv2 = sv_db sv" using redis_only_db [OF r1] redis_only_db [OF r2] by simp
    have kl: "keeps_logs (sv_world sv) (sv_world sv2)" using redis_only_logs [OF r1] redis_only_logs [OF r2] by (rule keeps_logs_trans)
    have "\<exists>c2. y = Inr c2" using run auth x lim w db2 assms(4) by (cases y) (auto simp: run_route_def)
    then obtain c2 where y: "y = Inr c2" ..
    have hdl: "PaymentHandler_ProcessPayment dp h c2 sv2 = (Responded resp, sv3)"
      using run auth x lim y assms(2) by (auto simp: run_route_def split: prod.splits)
    have rq: "c_Request c2 = c_Request (first_context rq)" and who: "caller dp h rq sv = key_merchant c2"
      using rl_keys [OF lim [unfolded y]] authenticate_request [OF auth [unfolded x]] key_merchant_rl [OF lim [unfolded y]]
        assms(1) auth x by (simp_all add: caller_def)
    have "sv_world sv3 \<noteq> sv_world sv2" using w db2 assms(4) by auto
    from payment_handler_applied [OF hdl this] obtain m st r where m: "key_merchant c2 = Some m"
      and st: "bind_request dp (first_context rq) ''PaymentRequest'' dto_PaymentRequest = Inr st"
      and pay: "ProcessPayment (dp_PaymentSvc dp) (hx_svc h) (payment_request (first_context rq) m st) (sv_world sv2) = (r, sv_world sv')"
      and out: "Responded resp = (case r of Inl err \<Rightarrow> fail_response dp h c2 err
        | Inr t \<Rightarrow> created_response dp h c2 (P_Transaction (toTransactionResponse (dp_uuid dp) t)))"
      unfolding w bind_request_cong [OF rq] payment_request_cong [OF rq] by blast
    show ?thesis by (rule that [OF _ st kl db2 pay]) (use who m transaction_body [OF out] in auto)
  qed
  then show ?thesis using run auth redis_only_db [OF r1] w assms(4) by (cases x) (auto simp: run_route_def)
qed

section \<open>A retry over HTTP\<close>

lemma toTransactionResponse_visible [simp]: "toTransactionResponse U (json_visible t) = toTransactionResponse U t"
  by (simp add: toTransactionResponse_def json_visible_def)

text \<open>A payment whose key is logged is answered from the log.\<close>

lemma payment_replayed:
  assumes "uuid_text (ps_uuid s)" and "idemp_inv w" and "l \<in> set (idempotency_logs (wd_db w))"
    and "il_Key l = BuildIdempotencyKey (ps_uuid s) (pq_MerchantID req) (pq_ReferenceID req)"
    and "il_ResponseJSON l = marshal_Transaction (ps_uuid s) t" and "0 < sint (pq_Amount req)" and "ev_fault e S_Idemp_Get = None"
  shows "ProcessPayment s e req w = (Inr (json_visible t), w)"
  using lookup_logged [OF assms(2,3,7)] assms(4-6) wsless_zero [of "pq_Amount req"]
  by (simp add: ProcessPayment_def Let_def unmarshalCachedTransaction_def uuid_text.unmarshal_marshal [OF assms(1)])

text \<open>A payment that was applied has logged its key with the row it appended.\<close>

lemma payment_applied_log:
  assumes "ProcessPayment s e req w = (r, w1)" and "wd_db w1 \<noteq> wd_db w"
  obtains l where "l \<in> set (idempotency_logs (wd_db w1))"
    "il_Key l = BuildIdempotencyKey (ps_uuid s) (pq_MerchantID req) (pq_ReferenceID req)"
    "il_ResponseJSON l = marshal_Transaction (ps_uuid s) (last (transactions (wd_db w1)))"
    "\<And>t. r = Inr t \<Longrightarrow> t = last (transactions (wd_db w1))"
  using assms(1)
proof (cases rule: ProcessPayment_cases)
  case (committed txn resp tx k)
  note lk = payment_logs_key [OF committed(2)]
  have "transactions tx = transactions (wd_db w) @ [txn]" by (rule payment_in_tx_Inr [OF committed(2)]) simp
  with applied_logged [OF committed(3) _ assms(2)] lk have "last (transactions (wd_db w1)) = txn" "\<And>t. r = Inr t \<Longrightarrow> t = txn"
    "\<lparr>il_Key = k, il_TransactionID = tx_ID txn, il_ResponseJSON = resp, il_CreatedAt = ev_now e\<rparr> \<in> set (idempotency_logs (wd_db w1))"
    by auto
  with lk committed(1) that show ?thesis by force
qed (use assms(2) in simp)

lemma rl_refused: "rl dp g h c sv = (Inl resp, sv') \<Longrightarrow> rp_status (hp_reply resp) = 429"
  by (auto simp: rl_def RateLimiter_def Let_def error_response_def respond_def client_status_def apperror_defs
      split: if_splits option.splits sum.splits prod.splits)

text \<open>An authenticated request with a logged reference changes no table; it is over the rate limit or answered from the log.\<close>

lemma http_payment_replayed:
  assumes "uuid_text (ps_uuid (dp_PaymentSvc dp))" and "idemp_inv (sv_world sv)" and "l \<in> set (idempotency_logs (sv_db sv))"
    and "il_Key l = BuildIdempotencyKey (ps_uuid (dp_PaymentSvc dp)) m (get_string ''reference_id'' st)"
    and "il_ResponseJSON l = marshal_Transaction (ps_uuid (dp_PaymentSvc dp)) t"
    and "find_route dp rq = Some rt" and "rt_handler rt = PaymentHandler_ProcessPayment" and "caller dp h rq sv = Some m"
    and "bind_request dp (first_context rq) ''PaymentRequest'' dto_PaymentRequest = Inr st" and "0 < sint (get_int64 ''amount'' st)"
    and "ev_fault (hx_svc h) S_Idemp_Get = None"
  shows "\<exists>resp sv'. SetupRouter dp h rq sv = (Some resp, sv') \<and> sv_db sv' = sv_db sv \<and>
    (rp_status (hp_reply resp) = 429 \<or>
     rp_status (hp_reply resp) = 201 \<and> Data (rp_body (hp_reply resp)) = P_Transaction (toTransactionResponse (dp_uuid dp) t))"
proof -
  obtain c1 sv1 where auth: "authenticate (rt_auth rt) dp h (first_context rq) sv = (Inr c1, sv1)" and c1: "key_merchant c1 = Some m"
    using assms(6,8) by (cases "authenticate (rt_auth rt) dp h (first_context rq) sv") (auto simp: caller_def split: sum.splits)
  obtain y sv2 where lim: "rl dp (rt_limit rt) h c1 sv1 = (y, sv2)" by fastforce
  note r1 = authenticate_state [OF auth] and r2 = rl_state [OF lim]
  have db2: "sv_db sv2 = sv_db sv" using redis_only_db [OF r1] redis_only_db [OF r2] by simp
  have inv2: "idemp_inv (sv_world sv2)"
    using assms(2) keeps_logs_trans [OF redis_only_logs [OF r1] redis_only_logs [OF r2]] by (simp add: keeps_logs_def)
  show ?thesis
  proof (cases y)
    case (Inl resp)
    then have "run_route rt dp h (first_context rq) sv = (Responded resp, c1, sv2)" by (simp add: run_route_def auth lim)
    from SetupRouter_run [OF assms(6) this] SetupRouter_world [OF assms(6) this] db2 rl_refused [OF lim [unfolded Inl]]
    show ?thesis by (simp add: finish_request_def)
  next
    case (Inr c2)
    let ?pq = "payment_request (first_context rq) m st"
    have "ProcessPayment (dp_PaymentSvc dp) (hx_svc h) ?pq (sv_world sv2) = (Inr (json_visible t), sv_world sv2)"
      using assms(3-5,10,11) inv2 db2 by (intro payment_replayed [OF assms(1), of _ l]) (simp_all add: payment_request_def)
    from http_payment_run [OF assms(6,7) auth c1 lim [unfolded Inr] assms(9) this] db2 show ?thesis by auto
  qed
qed

text \<open>
  C3: A payment over HTTP is applied exactly once. Take a request to the payment route that changed
  the database, whatever its answer was (also an error, when the outcome of \<^verbatim>\<open>COMMIT\<close> was unknown).
  After any further requests and background work, of any merchant, every request of the same merchant
  with the same reference gets an answer and changes no table: it is over the rate limit (429), or
  the answer is 201 with the transaction of the first request, which is also what the first answer
  said if it was a success. This holds whether Redis answers or not, as long as the idempotency log
  can be read.
\<close>

theorem http_payment_exactly_once:
  assumes "uuid_text (ps_uuid (dp_PaymentSvc dp))" and "validator_lib (dp_validator dp)" and "idemp_inv (sv_world sv)"
    and "find_route dp rq = Some rt" and "rt_handler rt = PaymentHandler_ProcessPayment"
    and "bind_request dp (first_context rq) ''PaymentRequest'' dto_PaymentRequest = Inr st"
    and "SetupRouter dp h rq sv = (Some resp, sv1)" and "sv_db sv1 \<noteq> sv_db sv" and "(gateway_step dp)\<^sup>*\<^sup>* sv1 sv2"
    and "find_route dp rq' = Some rt'" and "rt_handler rt' = PaymentHandler_ProcessPayment"
    and "bind_request dp (first_context rq') ''PaymentRequest'' dto_PaymentRequest = Inr st'"
    and "caller dp h' rq' sv2 = caller dp h rq sv" and "get_string ''reference_id'' st' = get_string ''reference_id'' st"
    and "ev_fault (hx_svc h') S_Idemp_Get = None" and "tr = toTransactionResponse (dp_uuid dp) (last (transactions (sv_db sv1)))"
  shows "(\<exists>resp' sv3. SetupRouter dp h' rq' sv2 = (Some resp', sv3) \<and> sv_db sv3 = sv_db sv2 \<and>
      (rp_status (hp_reply resp') = 429 \<or>
       rp_status (hp_reply resp') = 201 \<and> Data (rp_body (hp_reply resp')) = P_Transaction tr)) \<and>
    (\<forall>d i n. rp_body (hp_reply resp) = SuccessResponse d i n \<longrightarrow> d = P_Transaction tr)"
proof -
  let ?s = "dp_PaymentSvc dp"
  obtain m st0 r sv0 where m: "caller dp h rq sv = Some m"
    and st0: "bind_request dp (first_context rq) ''PaymentRequest'' dto_PaymentRequest = Inr st0"
    and k0: "keeps_logs (sv_world sv) (sv_world sv0)" and db0: "sv_db sv0 = sv_db sv"
    and pay0: "ProcessPayment ?s (hx_svc h) (payment_request (first_context rq) m st0) (sv_world sv0) = (r, sv_world sv1)"
    and out: "\<forall>d i n. rp_body (hp_reply resp) = SuccessResponse d i n \<longrightarrow>
       (\<exists>t. r = Inr t \<and> d = P_Transaction (toTransactionResponse (dp_uuid dp) t))"
    by (rule http_payment_applied [OF assms(4,5,7,8)], rule that, assumption+)
  have pay: "ProcessPayment ?s (hx_svc h) (payment_request (first_context rq) m st) (sv_world sv0) = (r, sv_world sv1)"
    using pay0 st0 assms(6) by simp
  have "sv_db sv1 \<noteq> sv_db sv0" using assms(8) db0 by simp
  from payment_applied_log [OF pay this] obtain l where l: "l \<in> set (idempotency_logs (sv_db sv1))"
      "il_Key l = BuildIdempotencyKey (ps_uuid ?s) m (get_string ''reference_id'' st)"
      "il_ResponseJSON l = marshal_Transaction (ps_uuid ?s) (last (transactions (sv_db sv1)))"
    and t: "\<And>t. r = Inr t \<Longrightarrow> t = last (transactions (sv_db sv1))" by (auto simp: payment_request_def)
  have "fund_op ?s (hx_svc h) (Pay (payment_request (first_context rq) m st)) (sv_world sv0) = (r, sv_world sv1)"
    using pay by (simp add: fund_op_simps)
  then have "idemp_inv (sv_world sv1)"
    using fund_log.keeps_idemp_inv k0 assms(3) by (metis keeps_logs_def)
  then have inv2: "idemp_inv (sv_world sv2)" and l2: "l \<in> set (idempotency_logs (sv_db sv2))"
    using gateway_steps_logs [OF assms(9)] l(1) by (auto simp: keeps_logs_def)
  have "0 < sint (get_int64 ''amount'' st')"
    by (rule bind_payment [OF assms(2,12)]) (simp add: get_payment_struct)
  moreover have "caller dp h' rq' sv2 = Some m" "il_Key l = BuildIdempotencyKey (ps_uuid ?s) m (get_string ''reference_id'' st')"
    using assms(13,14) m l(2) by simp_all
  ultimately have "\<exists>resp' sv3. SetupRouter dp h' rq' sv2 = (Some resp', sv3) \<and> sv_db sv3 = sv_db sv2 \<and>
      (rp_status (hp_reply resp') = 429 \<or>
       rp_status (hp_reply resp') = 201 \<and> Data (rp_body (hp_reply resp')) = P_Transaction tr)"
    using http_payment_replayed [OF assms(1) inv2 l2 _ l(3) assms(10,11) _ assms(12) _ assms(15)] by (simp add: assms(16))
  with out t show ?thesis by (auto simp: assms(16))
qed

text \<open>The demonstration payment again, signed with a new nonce.\<close>

definition demo_again :: request where
  "demo_again = sign_request ''ak'' ''sk'' 1700000000 ''n-2'' demo_signed"

lemma demo_again_request [simp]: "c_Request (first_context demo_again) = demo_again"
  by (simp add: first_context_def MaxBodySize_def demo_again_def signed_headers demo_headers demo_body_def)

lemma demo_again_route: "find_route demo_deps demo_again = find_route demo_deps demo_signed"
  by (simp add: find_route_def demo_again_def signed_headers)

lemma demo_again_bind: "bind_request demo_deps (first_context demo_again) ''PaymentRequest'' dto_PaymentRequest =
    Inr (payment_struct ''ORDER-2'' 100 ''VND'' None)"
proof -
  have "hr_Body (c_Request (first_context demo_again)) = hr_Body (c_Request (first_context demo_signed))"
    "hr_BodyErr (c_Request (first_context demo_again)) = hr_BodyErr (c_Request (first_context demo_signed))"
    by (simp_all only: demo_again_request demo_request) (simp_all add: demo_again_def signed_headers)
  with demo_bind show ?thesis by (simp add: bind_request_def ShouldBindJSON_def)
qed

lemma demo_again_caller:
  assumes "merchants (sv_db sv) = [demo_merchant]" and "sv_redis sv (nonce_key (uuid_String rfc4122 1) ''n-2'') = None"
  shows "caller demo_deps demo_http demo_again sv = Some 1"
proof -
  have "\<not> timestamp_expired (ev_now (hx_mw demo_http)) 1700000000"
    by (simp add: timestamp_expired_def maxTimestampDrift_def demo_env_def Unix_def)
  then have "\<exists>c' sv'. HMACAuth demo_deps demo_http (first_context demo_again) sv = (Inr c', sv') \<and> key_merchant c' = Some (m_ID demo_merchant)"
    using assms by (intro HMACAuth_signed [where ak = "''ak''" and sk = "''sk''" and nonce = "''n-2''" and rq = demo_signed and ts = 1700000000])
      (simp_all add: row_where_def IsActive_def redis_get_def demo_headers demo_again_def [symmetric], simp_all add: demo_env_def)
  then show ?thesis by (auto simp: caller_def demo_again_route demo_route authenticate_def)
qed

lemma payment_redis:
  assumes "ProcessPayment s e req w = (r, w')"
  shows "wd_redis w' (nonce_key u n) = wd_redis w (nonce_key u n)"
  using assms by (cases rule: ProcessPayment_cases)
    (auto simp: commit_and_cache_def tx_Commit_def IdempotencyCache_Set_def redis_set_def callE_def wrapE_def nonce_key_def
      split: prod.splits sum.splits option.splits if_splits)

lemma payment_merchants:
  assumes "ProcessPayment s e req w = (r, w')"
  shows "merchants (wd_db w') = merchants (wd_db w)"
  using assms
proof (cases rule: ProcessPayment_cases)
  case (committed txn resp tx k)
  have "merchants tx = merchants (wd_db w)" by (rule payment_in_tx_Inr [OF committed(2)]) simp
  with commit_and_cache_db [OF committed(3)] show ?thesis by auto
qed simp

theorem http_payment_exactly_once_witness:
  "\<exists>resp sv1 resp' sv3. SetupRouter demo_deps demo_http demo_signed (demo_server demo_topped_up) = (Some resp, sv1) \<and>
     length (transactions (sv_db sv1)) = 2 \<and> SetupRouter demo_deps demo_http demo_again sv1 = (Some resp', sv3) \<and> sv_db sv3 = sv_db sv1 \<and>
     (rp_status (hp_reply resp') = 429 \<or> rp_status (hp_reply resp') = 201 \<and> Data (rp_body (hp_reply resp')) =
       P_Transaction (toTransactionResponse rfc4122 (last (transactions (sv_db sv1)))))"
proof -
  let ?st = "payment_struct ''ORDER-2'' 100 ''VND'' None"
  obtain resp sv1 sv2 txn where run: "SetupRouter demo_deps demo_http demo_signed (demo_server demo_topped_up) = (Some resp, sv1)"
    and pay: "ProcessPayment demo_service demo_env (payment_request (first_context demo_signed) 1 ?st) (sv_world sv2) = (Inr txn, sv_world sv1)"
    and db: "sv_db sv2 = demo_topped_up" and n2: "sv_redis sv2 (nonce_key (uuid_String rfc4122 1) ''n-2'') = None"
    and txs: "transactions (sv_db sv1) = transactions demo_topped_up @ [txn]" by (rule demo_created_run)
  have ne: "sv_db sv1 \<noteq> sv_db (demo_server demo_topped_up)" using txs by (metis append_self_conv demo_server_fields(1) demo_world_fields(1) not_Cons_self2)
  have who: "caller demo_deps demo_http demo_again sv1 = caller demo_deps demo_http demo_signed (demo_server demo_topped_up)"
    using payment_merchants [OF pay] payment_redis [OF pay] db n2 by (simp add: demo_again_caller demo_caller)
  have len: "length (transactions (sv_db sv1)) = 2" by (simp add: txs)
  from http_payment_exactly_once [OF _ _ _ demo_route _ demo_bind run ne rtranclp.rtrancl_refl demo_again_route [unfolded demo_route]
      _ demo_again_bind who refl _ refl] run len
  show ?thesis by (auto simp: demo_service_def rfc.uuid_text_axioms sample_tags.validator_lib_axioms demo_env_def NewPaymentService_def)
qed

end
