(* ===== verification/Credential_Properties.thy ===== *)
theory Credential_Properties
  imports Http_Properties
begin

text \<open>
  What becomes of credentials when a merchant is suspended or rotates its keys. Key pairs are
  checked against the merchant row on every request, sessions are not.
\<close>

section \<open>Key pairs follow the merchant row\<close>

text \<open>An authenticated caller of a signed route is an active merchant, found under the access key of the request.\<close>

lemma hmac_caller:
  assumes "find_route dp rq = Some rt" and "rt_auth rt = ByHMAC" and "caller dp h rq sv = Some i"
  obtains m where "row_where (\<lambda>m. m_AccessKey m = hr_Header rq HeaderAccessKey) (merchants (sv_db sv)) = Some m"
    "IsActive m" "m_ID m = i"
proof -
  from assms obtain c1 sv1 where acc: "HMACAuth dp h (first_context rq) sv = (Inr c1, sv1)" and c1: "key_merchant c1 = Some i"
    by (rule caller_hmac)
  from acc obtain ts where "check_merchant_nonce dp h (first_context rq) ts sv = (Inr c1, sv1)" by (rule HMACAuth_Inr)
  then obtain m sv2 where m: "row_where (\<lambda>m. m_AccessKey m = hr_Header rq HeaderAccessKey) (merchants (sv_db sv)) = Some m" "IsActive m"
    and ver: "verify_signature dp h (first_context rq) m ts sv2 = (Inr c1, sv1)"
    by (rule check_merchant_nonce_Inr) simp
  from ver have "key_merchant c1 = Some (m_ID m)" by (rule verify_signature_Inr)
  with c1 m that show ?thesis by simp
qed

text \<open>A session, on the other hand, is whom its token names.\<close>

lemma jwt_caller:
  assumes "jwt_lib (dp_jwt dp)" and "uuid_text (dp_uuid dp)"
    and "Token_Generate (dp_jwt dp) (dp_uuid dp) (dp_TokenSvc dp) t0 i ak = Inr (tok, ex)" and "tok \<noteq> []"
    and "find_route dp rq = Some rt" and "rt_auth rt = ByJWT" and "hr_Header rq ''Authorization'' = ''Bearer '' @ tok"
    and "ev_now (hx_mw h) < Unix ex * 1000000"
  shows "caller dp h rq sv = Some i"
  using jwt_session [OF assms(1-4), of "first_context rq" h sv] assms(5-8) by (auto simp: caller_def authenticate_def)

section \<open>Suspended merchants\<close>

text \<open>
  C30: A merchant that is not active (suspended or deactivated) loses its key pair and its password at
  once: no signed request is authenticated as this merchant and no login issues a token. A session
  that was opened before is not affected: until its token expires, every request with it to a
  session-protected route (top-up, key rotation, webhook URL, balance, dashboard) is authenticated
  as the merchant, since the middleware does not look at the merchant row.
\<close>

theorem suspended_merchant_session:
  assumes "db_wf (sv_db sv)" and "m \<in> set (merchants (sv_db sv))" and "\<not> IsActive m"
    and "jwt_lib (dp_jwt dp)" and "uuid_text (dp_uuid dp)"
    and "Token_Generate (dp_jwt dp) (dp_uuid dp) (dp_TokenSvc dp) t0 (m_ID m) (m_AccessKey m) = Inr (tok, ex)" and "tok \<noteq> []"
    and "find_route dp rq = Some rt"
  shows "(rt_auth rt = ByHMAC \<longrightarrow> caller dp h rq sv \<noteq> Some (m_ID m)) \<and>
    (\<exists>err. Login (dp_AuthSvc dp) e (m_Username m) password (sv_db sv) = Inl err) \<and>
    (rt_auth rt = ByJWT \<longrightarrow> hr_Header rq ''Authorization'' = ''Bearer '' @ tok \<longrightarrow> ev_now (hx_mw h) < Unix ex * 1000000 \<longrightarrow>
       caller dp h rq sv = Some (m_ID m))"
proof (intro conjI impI)
  show "caller dp h rq sv \<noteq> Some (m_ID m)" if "rt_auth rt = ByHMAC"
  proof
    assume "caller dp h rq sv = Some (m_ID m)"
    from assms(8) that this obtain m' where
      "row_where (\<lambda>m. m_AccessKey m = hr_Header rq HeaderAccessKey) (merchants (sv_db sv)) = Some m'" "IsActive m'" "m_ID m' = m_ID m"
      by (rule hmac_caller)
    moreover have "inj_on m_ID (set (merchants (sv_db sv)))" using assms(1) by (simp add: db_wf_def distinct_map)
    ultimately show False using assms(2,3) row_where_Some by (metis (no_types, lifting) inj_onD)
  qed
  have "distinct (map m_Username (merchants (sv_db sv)))" using assms(1) by (simp add: db_wf_def)
  from row_where_key [OF this assms(2)] assms(3)
  show "\<exists>err. Login (dp_AuthSvc dp) e (m_Username m) password (sv_db sv) = Inl err"
    by (cases "Login (dp_AuthSvc dp) e (m_Username m) password (sv_db sv)")
      (auto simp: Login_def MerchantRepo_GetByUsername_def res_simps)
qed (use assms jwt_caller in blast)

lemma demo_dashboard_route: "find_route demo_deps demo_dashboard = Some \<lparr>rt_method = ''POST'', rt_path = ''/api/v1/merchants/me/rotate-keys'',
    rt_auth = ByJWT, rt_limit = ''dashboard'', rt_handler = MerchantHandler_RotateKeys \<lparr>ms_encSvc = aes_encSvc demo_aes\<rparr>\<rparr>"
  by (simp add: find_route_def routes_def demo_dashboard_def demo_deps_def)

definition demo_suspended :: db where
  "demo_suspended = demo_topped_up\<lparr>merchants := [demo_merchant\<lparr>m_Status := MerchantStatusSuspended\<rparr>]\<rparr>"

theorem suspended_merchant_session_witness:
  "(\<exists>err. Login demo_auth demo_env ''shop'' ''pw'' demo_suspended = Inl err) \<and>
   caller demo_deps demo_http demo_dashboard (demo_server demo_suspended) = Some 1"
proof -
  let ?m = "demo_merchant\<lparr>m_Status := MerchantStatusSuspended\<rparr>"
  have "db_wf demo_suspended" using demo_db_wf(1) by (simp add: db_wf_def demo_suspended_def)
  then have "db_wf (sv_db (demo_server demo_suspended))" "?m \<in> set (merchants (sv_db (demo_server demo_suspended)))" "\<not> IsActive ?m"
    by (simp_all add: demo_suspended_def IsActive_def)
  from suspended_merchant_session [OF this, of demo_deps, OF _ _ _ demo_token_nonempty demo_dashboard_route] demo_token_generated
  show ?thesis by (auto simp: sample_jwt.jwt_lib_axioms rfc.uuid_text_axioms demo_dashboard_def demo_env_def Unix_def)
qed

section \<open>Rotated keys\<close>

text \<open>
  C31: A key rotation takes effect with the next request: no request with the old access key is
  authenticated any more, whatever its signature, while a request that is signed with the returned
  key pair, has a current timestamp and a nonce that is not in use, is authenticated as the merchant
  if it is active. Sessions opened with the old access key stay valid.
\<close>

theorem rotated_keys_take_effect:
  assumes "wired a dp" and "db_wf d" and "RotateKeys \<lparr>ms_encSvc = aes_encSvc a\<rparr> e i d = Inr (resp, sv_db sv)"
    and "row_where (\<lambda>m. m_ID m = i) (merchants d) = Some m0" and "m_AccessKey m0 \<noteq> rk_AccessKey resp"
    and "find_route dp rq = Some rt" and "hr_BodyErr rq = None" and "length (hr_Body rq) \<le> 2 ^ 20"
    and "ev_fault (hx_mw h) = (\<lambda>_. None)" and "\<not> timestamp_expired (ev_now (hx_mw h)) ts" and "nonce \<noteq> []"
    and "redis_get (ev_now (hx_mw h)) (nonce_key (uuid_String (dp_uuid dp) i) nonce) (sv_redis sv) = None"
    and "jwt_lib (dp_jwt dp)" and "uuid_text (dp_uuid dp)"
    and "Token_Generate (dp_jwt dp) (dp_uuid dp) (dp_TokenSvc dp) t0 i (m_AccessKey m0) = Inr (tok, ex)" and "tok \<noteq> []"
  shows "(rt_auth rt = ByHMAC \<longrightarrow> hr_Header rq HeaderAccessKey = m_AccessKey m0 \<longrightarrow> caller dp h rq sv = None) \<and>
    (rt_auth rt = ByHMAC \<longrightarrow> IsActive m0 \<longrightarrow>
       caller dp h (sign_request (rk_AccessKey resp) (rk_SecretKey resp) ts nonce rq) sv = Some i) \<and>
    (rt_auth rt = ByJWT \<longrightarrow> hr_Header rq ''Authorization'' = ''Bearer '' @ tok \<longrightarrow> ev_now (hx_mw h) < Unix ex * 1000000 \<longrightarrow>
       caller dp h rq sv = Some i)"
proof (intro conjI impI)
  have enc: "encryption_service (ms_encSvc \<lparr>ms_encSvc = aes_encSvc a\<rparr>)" by (simp add: aes.encryption_service_axioms)
  note rot = rotate_effects [OF enc assms(2-5)]
  show "caller dp h rq sv = None" if "rt_auth rt = ByHMAC" "hr_Header rq HeaderAccessKey = m_AccessKey m0"
    using rot(2) that hmac_caller [OF assms(6) that(1), of h sv] by (cases "caller dp h rq sv") auto
  show "caller dp h (sign_request (rk_AccessKey resp) (rk_SecretKey resp) ts nonce rq) sv = Some i"
    if hm: "rt_auth rt = ByHMAC" and act: "IsActive m0"
  proof -
    let ?rq = "sign_request (rk_AccessKey resp) (rk_SecretKey resp) ts nonce rq"
    obtain m' where m': "row_where (\<lambda>m. m_AccessKey m = rk_AccessKey resp) (merchants (sv_db sv)) = Some m'" "m_ID m' = i"
      "Decrypt (dp_EncSvc dp) (m_SecretKeyEnc m') = Inr (rk_SecretKey resp)" "IsActive m'"
      using rot(1) act assms(1) by (auto simp: wired_def IsActive_def)
    have "rk_AccessKey resp \<noteq> []" using assms(3) by (auto simp: RotateKeys_def res_simps generateKey_def)
    moreover have "c_Request (first_context ?rq) = ?rq"
      using assms(8) by (simp add: first_context_def MaxBodySize_def signed_headers)
    ultimately have "\<exists>c' sv'. HMACAuth dp h (first_context ?rq) sv = (Inr c', sv') \<and> key_merchant c' = Some (m_ID m')"
      using m' assms by (intro HMACAuth_signed) (simp_all add: wired_def)
    moreover have "find_route dp ?rq = Some rt" using assms(6) by (simp add: find_route_def signed_headers)
    ultimately show ?thesis using hm m'(2) by (auto simp: caller_def authenticate_def)
  qed
qed (use assms jwt_caller in blast)

theorem rotated_keys_take_effect_witness:
  "\<exists>resp d'. RotateKeys \<lparr>ms_encSvc = aes_encSvc demo_aes\<rparr> demo_env 1 demo_topped_up = Inr (resp, d') \<and>
     caller demo_deps demo_http demo_signed (demo_server d') = None \<and>
     caller demo_deps demo_http (sign_request (rk_AccessKey resp) (rk_SecretKey resp) 1700000000 ''n-7'' demo_signed) (demo_server d') = Some 1"
proof -
  obtain resp d' where rot: "RotateKeys \<lparr>ms_encSvc = aes_encSvc demo_aes\<rparr> demo_env 1 demo_topped_up = Inr (resp, d')"
    and len: "length (rk_AccessKey resp) = 51" using demo_rotate by blast
  have rot': "RotateKeys \<lparr>ms_encSvc = aes_encSvc demo_aes\<rparr> demo_env 1 demo_topped_up = Inr (resp, sv_db (demo_server d'))"
    using rot by simp
  have new: "m_AccessKey demo_merchant \<noteq> rk_AccessKey resp" using len by (auto dest: arg_cong [of _ _ length])
  have old: "row_where (\<lambda>m. m_ID m = 1) (merchants demo_topped_up) = Some demo_merchant" by (simp add: row_where_def)
  have "\<not> timestamp_expired (ev_now (hx_mw demo_http)) 1700000000"
    by (simp add: timestamp_expired_def maxTimestampDrift_def demo_env_def Unix_def)
  from rotated_keys_take_effect [OF demo_wired demo_db_wf(1) rot' old new demo_route _ _ _ this, of "''n-7''", OF _ _ _ _ _ _ _ _ demo_token_nonempty]
    demo_token_generated rot
  show ?thesis by (auto simp: sample_jwt.jwt_lib_axioms rfc.uuid_text_axioms redis_get_def demo_headers demo_body_def demo_env_def IsActive_def)
qed

end
