(* ===== verification/Startup.thy ===== *)
theory Startup
  imports Gateway
begin

text \<open>
  config/config.go, the connection set-up of the two storage adapters and cmd/api/main.go:
  which configuration is used, which failures end the program, with which dependencies the router
  is built, and how the program ends once it serves.

  Viper, the pgx pool and the Redis client are packages outside the repository: they are the
  functions of \<open>viper_pkg\<close> and of \<open>start_env\<close>. A pool and a client are represented by the settings they were
  made from. Once the program serves, what happens to it is a sequence of events: a signal, or the
  return of \<^verbatim>\<open>ListenAndServe\<close> or \<^verbatim>\<open>Shutdown\<close> of net/http with whatever result.
\<close>

section \<open>config.go\<close>

record ServerConfig =
  sc_Host :: string
  sc_Port :: int64
  sc_Mode :: string

record DatabaseConfig =
  dc_Host :: string
  dc_Port :: int64
  dc_User :: string
  dc_Password :: string
  dc_DBName :: string
  dc_SSLMode :: string
  dc_MaxConns :: "32 word"
  dc_MinConns :: "32 word"
  dc_ConnMaxLifetime :: time

definition DSN :: "DatabaseConfig \<Rightarrow> string" where
  "DSN d = ''postgres://'' @ dc_User d @ '':'' @ dc_Password d @ ''@'' @ dc_Host d @ '':'' @ FormatInt (dc_Port d) @
     ''/'' @ dc_DBName d @ ''?sslmode='' @ dc_SSLMode d"

record RedisConfig =
  rc_Host :: string
  rc_Port :: int64
  rc_Password :: string
  rc_DB :: int64

definition Addr :: "RedisConfig \<Rightarrow> string" where
  "Addr r = rc_Host r @ '':'' @ FormatInt (rc_Port r)"

record JWTConfig =
  jc_Secret :: string
  jc_Expiry :: time
  jc_Issuer :: string

record AESConfig =
  ac_Key :: string

record LogConfig =
  lc_Level :: string
  lc_Pretty :: bool

record Config =
  cf_Server :: ServerConfig
  cf_Database :: DatabaseConfig
  cf_Redis :: RedisConfig
  cf_JWT :: JWTConfig
  cf_AES :: AESConfig
  cf_Log :: LogConfig

text \<open>
  A Viper instance as \<^verbatim>\<open>Load\<close> sets it up: defaults, where the file is looked for, the prefix and the
  key replacer of the environment, and the settings read from the file.
\<close>

datatype setting = VString string | VInt int | VBool bool

datatype config_file = ConfigFile string | ConfigSearch string string "string list"

record viper =
  vi_defaults :: "(string \<times> setting) list"
  vi_file :: config_file
  vi_envPrefix :: string
  vi_envReplacer :: "string \<times> string"
  vi_settings :: "(string \<times> setting) list"

datatype read_error = ConfigFileNotFoundError | ReadError error

record viper_pkg =
  vp_ReadInConfig :: "config_file \<Rightarrow> read_error + (string \<times> setting) list"
  vp_Unmarshal :: "viper \<Rightarrow> Config result"

definition config_defaults :: "(string \<times> setting) list" where
  "config_defaults =
     [(''server.host'', VString ''0.0.0.0''), (''server.port'', VInt 8080), (''server.mode'', VString ''debug''),
      (''database.host'', VString ''localhost''), (''database.port'', VInt 5432), (''database.user'', VString ''postgres''),
      (''database.password'', VString ''postgres''), (''database.dbname'', VString ''payment_gateway''),
      (''database.sslmode'', VString ''disable''), (''database.max_conns'', VInt 20), (''database.min_conns'', VInt 5),
      (''database.conn_max_lifetime'', VString ''30m''), (''redis.host'', VString ''localhost''), (''redis.port'', VInt 6379),
      (''redis.password'', VString []), (''redis.db'', VInt 0), (''jwt.secret'', VString []), (''jwt.expiry'', VString ''24h''),
      (''jwt.issuer'', VString ''secure-payment-gateway''), (''aes.key'', VString []), (''log.level'', VString ''info''),
      (''log.pretty'', VBool False)]"

definition config_viper :: "string \<Rightarrow> viper" where
  "config_viper path =
     \<lparr>vi_defaults = config_defaults,
      vi_file = (if path \<noteq> [] then ConfigFile path else ConfigSearch ''config'' ''yaml'' [''.'', ''./config'']),
      vi_envPrefix = ''SPG'', vi_envReplacer = (''.'', ''_''), vi_settings = []\<rparr>"

definition Load :: "viper_pkg \<Rightarrow> string \<Rightarrow> Config result" where
  "Load V path =
     (let v = config_viper path
      in case vp_ReadInConfig V (vi_file v) of
           Inl (ReadError err) \<Rightarrow> Inl (Wrapf ''reading config file'' err)
         | Inl ConfigFileNotFoundError \<Rightarrow> wrapE (Wrapf ''unmarshaling config'') (vp_Unmarshal V v)
         | Inr settings \<Rightarrow> wrapE (Wrapf ''unmarshaling config'') (vp_Unmarshal V (v\<lparr>vi_settings := settings\<rparr>)))"

text \<open>
  What the program relies on of Viper: a text setting that neither the file nor the environment
  gives has its default value. The variable of a key is the prefix, an underscore and the replaced
  key, in capitals.
\<close>

definition to_upper :: "char \<Rightarrow> char" where
  "to_upper c = (let n = of_char c :: nat in if 97 \<le> n \<and> n \<le> 122 then char_of (n - 32) else c)"

definition env_name :: "viper \<Rightarrow> string \<Rightarrow> string" where
  "env_name v k = map to_upper (vi_envPrefix v @ ''_'' @
     concat (map (\<lambda>c. if [c] = fst (vi_envReplacer v) then snd (vi_envReplacer v) else [c]) k))"

definition unset :: "(string \<Rightarrow> string option) \<Rightarrow> viper \<Rightarrow> string \<Rightarrow> bool" where
  "unset getenv v k \<longleftrightarrow> map_of (vi_settings v) k = None \<and> getenv (env_name v k) = None"

lemma env_names:
  "env_name (config_viper path) ''jwt.secret'' = ''SPG_JWT_SECRET''"
  "env_name (config_viper path) ''aes.key'' = ''SPG_AES_KEY''"
  by (simp_all add: env_name_def config_viper_def to_upper_def char_of_def bit_Suc_0_iff)

locale viper_lib =
  fixes V :: viper_pkg and getenv :: "string \<Rightarrow> string option"
  assumes default_secret: "vp_Unmarshal V v = Inr cfg \<Longrightarrow> unset getenv v ''jwt.secret'' \<Longrightarrow>
      map_of (vi_defaults v) ''jwt.secret'' = Some (VString s) \<Longrightarrow> jc_Secret (cf_JWT cfg) = s"
    and default_key: "vp_Unmarshal V v = Inr cfg \<Longrightarrow> unset getenv v ''aes.key'' \<Longrightarrow>
      map_of (vi_defaults v) ''aes.key'' = Some (VString s) \<Longrightarrow> ac_Key (cf_AES cfg) = s"
begin

text \<open>The two secrets of the program have no usable default.\<close>

lemma load_defaults:
  assumes "Load V path = Inr cfg" and "vp_ReadInConfig V (vi_file (config_viper path)) = Inl ConfigFileNotFoundError"
  shows "getenv ''SPG_JWT_SECRET'' = None \<Longrightarrow> jc_Secret (cf_JWT cfg) = []"
    and "getenv ''SPG_AES_KEY'' = None \<Longrightarrow> ac_Key (cf_AES cfg) = []"
proof -
  let ?v = "config_viper path"
  have cfg: "vp_Unmarshal V ?v = Inr cfg" using assms by (simp add: Load_def Let_def res_simps)
  have names: "env_name ?v ''jwt.secret'' = ''SPG_JWT_SECRET''" "env_name ?v ''aes.key'' = ''SPG_AES_KEY''"
    by (rule env_names)+
  have defs: "map_of (vi_defaults ?v) ''jwt.secret'' = Some (VString [])" "map_of (vi_defaults ?v) ''aes.key'' = Some (VString [])"
    "vi_settings ?v = []"
    by (simp_all add: config_viper_def config_defaults_def)
  show "getenv ''SPG_JWT_SECRET'' = None \<Longrightarrow> jc_Secret (cf_JWT cfg) = []"
    by (rule default_secret [OF cfg _ defs(1)]) (simp add: unset_def names defs)
  show "getenv ''SPG_AES_KEY'' = None \<Longrightarrow> ac_Key (cf_AES cfg) = []"
    by (rule default_key [OF cfg _ defs(2)]) (simp add: unset_def names defs)
qed

end

section \<open>postgres/db.go and redis/redis.go\<close>

text \<open>The settings of a pool that the program changes, beside the connection string they were parsed from.\<close>

record PoolConfig =
  pc_ConnString :: string
  pc_MaxConns :: "32 word"
  pc_MinConns :: "32 word"
  pc_MaxConnLifetime :: time

record RedisOptions =
  ro_Addr :: string
  ro_Password :: string
  ro_DB :: int64

text \<open>What the start of the program observes, and the packages it links.\<close>

record start_env =
  se_viper :: viper_pkg
  se_ParseConfig :: "string \<Rightarrow> PoolConfig result"
  se_NewWithConfig :: "PoolConfig \<Rightarrow> error option"
  se_PoolPing :: "PoolConfig \<Rightarrow> error option"
  se_RedisPing :: "RedisOptions \<Rightarrow> error option"
  se_spec :: "string result"
  se_uuid :: uuid_pkg
  se_jwt :: jwt_pkg
  se_IDKey :: argon2_IDKey
  se_validator :: validator_pkg
  se_ip_literal :: "string \<Rightarrow> bool"
  se_json :: "string \<Rightarrow> error option \<Rightarrow> jvalue result"

definition NewPool :: "start_env \<Rightarrow> DatabaseConfig \<Rightarrow> PoolConfig result" where
  "NewPool E cfg =
     bindE (wrapE (Wrapf ''parsing database config'') (se_ParseConfig E (DSN cfg))) (\<lambda>poolCfg0.
     let poolCfg1 = poolCfg0\<lparr>pc_MaxConns := dc_MaxConns cfg, pc_MinConns := dc_MinConns cfg\<rparr>;
         poolCfg = (if 0 < dc_ConnMaxLifetime cfg then poolCfg1\<lparr>pc_MaxConnLifetime := dc_ConnMaxLifetime cfg\<rparr> else poolCfg1)
     in bindE (wrapE (Wrapf ''creating connection pool'') (callE (se_NewWithConfig E poolCfg) (Inr ()))) (\<lambda>_.
        bindE (wrapE (Wrapf ''pinging database'') (callE (se_PoolPing E poolCfg) (Inr ()))) (\<lambda>_.
        Inr poolCfg)))"

definition NewClient :: "start_env \<Rightarrow> RedisConfig \<Rightarrow> RedisOptions result" where
  "NewClient E cfg =
     (let client = \<lparr>ro_Addr = Addr cfg, ro_Password = rc_Password cfg, ro_DB = rc_DB cfg\<rparr>
      in bindE (wrapE (Wrapf ''pinging redis'') (callE (se_RedisPing E client) (Inr ()))) (\<lambda>_. Inr client))"

section \<open>main.go\<close>

definition main_deps :: "start_env \<Rightarrow> Config \<Rightarrow> AESEncryptionService \<Rightarrow> RouterDeps" where
  "main_deps E cfg aes =
     (let encSvc = aes_encSvc aes;
          sigSvc = hmac_sigSvc;
          hashSvc = argon2_hashSvc (se_IDKey E);
          tokenSvc = NewJWTTokenService (jc_Secret (cf_JWT cfg)) (jc_Expiry (cf_JWT cfg)) (jc_Issuer (cf_JWT cfg));
          authSvc = NewAuthService (se_uuid E) hashSvc encSvc (se_jwt E) tokenSvc;
          paymentSvc = NewPaymentService (se_uuid E) encSvc;
          webhookSvc = NewWebhookService (se_uuid E) encSvc sigSvc [()];
          merchantSvc = NewMerchantService encSvc
      in \<lparr>dp_uuid = se_uuid E, dp_jwt = se_jwt E, dp_validator = se_validator E, dp_ip_literal = se_ip_literal E,
          dp_json = se_json E, dp_AuthSvc = authSvc, dp_PaymentSvc = paymentSvc, dp_WebhookSvc = Some webhookSvc,
          dp_EncSvc = encSvc, dp_SigSvc = sigSvc, dp_TokenSvc = tokenSvc, dp_RateLimitStore = True,
          dp_HealthCheckers = [pg_HealthCheck, redis_HealthCheck], dp_MerchantSvc = Some merchantSvc, dp_AuditSvc = True,
          dp_Logger = logger_New (lc_Level (cf_Log cfg)) (lc_Pretty (cf_Log cfg)),
          dp_swaggerSpec = (case se_spec E of Inr spec \<Rightarrow> Some spec | Inl _ \<Rightarrow> None)\<rparr>)"

text \<open>
  The program ends with status 1 and a message, or listens on an address. \<open>ReadHeaderTimeout\<close> is
  in microseconds.
\<close>

datatype outcome =
    Exit string error
  | Serve (listen_addr: string) (ReadHeaderTimeout: time) (served: RouterDeps)

definition main_run :: "start_env \<Rightarrow> outcome" where
  "main_run E =
     (case Load (se_viper E) [] of
        Inl err \<Rightarrow> Exit ''failed to load config'' err
      | Inr cfg \<Rightarrow>
          (case NewPool E (cf_Database cfg) of
             Inl err \<Rightarrow> Exit ''Failed to connect to PostgreSQL'' err
           | Inr pool \<Rightarrow>
               (case NewClient E (cf_Redis cfg) of
                  Inl err \<Rightarrow> Exit ''Failed to connect to Redis'' err
                | Inr rdb \<Rightarrow>
                    (case NewAESEncryptionService (ac_Key (cf_AES cfg)) of
                       Inl err \<Rightarrow> Exit ''Failed to initialize encryption service'' err
                     | Inr aes \<Rightarrow>
                         Serve (sc_Host (cf_Server cfg) @ '':'' @ FormatInt (sc_Port (cf_Server cfg)))
                           (seconds 10) (main_deps E cfg aes)))))"

section \<open>Serving and shutdown\<close>

text \<open>
  The main goroutine waits for SIGINT or SIGTERM, then calls \<^verbatim>\<open>Shutdown\<close> with a limit of 10 seconds and
  ends, whatever \<^verbatim>\<open>Shutdown\<close> returns. The goroutine of the server ends the program at once, with
  status 1, when \<^verbatim>\<open>ListenAndServe\<close> returns another error than \<^verbatim>\<open>ErrServerClosed\<close>. Signals that come during
  the shutdown stay in the channel.
\<close>

datatype os_signal = SIGINT | SIGTERM

datatype serve_error = ErrServerClosed | ServeError error

datatype server_event =
    Quit os_signal
  | ServeReturned serve_error
  | ShutdownReturned "error option"

datatype phase = Running | ShuttingDown | Exited int

fun main_step :: "phase \<Rightarrow> server_event \<Rightarrow> phase" where
  "main_step (Exited n) ev = Exited n"
| "main_step ph (ServeReturned (ServeError err)) = Exited 1"
| "main_step ph (ServeReturned ErrServerClosed) = ph"
| "main_step Running (Quit sig) = ShuttingDown"
| "main_step ShuttingDown (Quit sig) = ShuttingDown"
| "main_step ShuttingDown (ShutdownReturned r) = Exited 0"
| "main_step Running (ShutdownReturned r) = Running"

definition main_serve :: "server_event list \<Rightarrow> phase" where
  "main_serve evs = foldl main_step Running evs"

section \<open>Lemmas\<close>

lemma main_step_exited [simp]: "foldl main_step (Exited n) evs = Exited n"
  by (induction evs) simp_all

definition serve_failed :: "server_event \<Rightarrow> bool" where
  "serve_failed ev \<longleftrightarrow> (\<exists>err. ev = ServeReturned (ServeError err))"

lemma main_step_failed: "serve_failed ev \<Longrightarrow> main_step ph ev = (case ph of Exited n \<Rightarrow> Exited n | _ \<Rightarrow> Exited 1)"
  by (cases ph) (auto simp: serve_failed_def)

lemma main_step_ok:
  assumes "\<not> serve_failed ev"
  shows "main_step Running ev = (case ev of Quit sig \<Rightarrow> ShuttingDown | _ \<Rightarrow> Running)"
    and "main_step ShuttingDown ev = (case ev of ShutdownReturned r \<Rightarrow> Exited 0 | _ \<Rightarrow> ShuttingDown)"
proof -
  have "ev = ServeReturned x \<Longrightarrow> x = ErrServerClosed" for x using assms by (cases x) (auto simp: serve_failed_def)
  then show "main_step Running ev = (case ev of Quit sig \<Rightarrow> ShuttingDown | _ \<Rightarrow> Running)"
    and "main_step ShuttingDown ev = (case ev of ShutdownReturned r \<Rightarrow> Exited 0 | _ \<Rightarrow> ShuttingDown)"
    by (cases ev; simp)+
qed

text \<open>While the server does not fail, only the order of a signal and the return of \<^verbatim>\<open>Shutdown\<close> counts.\<close>

definition shut_down :: "server_event list \<Rightarrow> bool" where
  "shut_down evs \<longleftrightarrow> (\<exists>sig r. subseq [Quit sig, ShutdownReturned r] evs)"

lemma subseq_pair_snd: "subseq [x, y] xs \<Longrightarrow> y \<in> set xs"
  by (drule subseq_Cons') (simp add: subseq_singleton_left)

lemma shut_down_Cons:
  "shut_down (ev # evs) \<longleftrightarrow> (case ev of Quit sig \<Rightarrow> \<exists>r. ShutdownReturned r \<in> set evs | _ \<Rightarrow> shut_down evs)"
  by (cases ev) (auto simp: shut_down_def subseq_singleton_left dest: subseq_Cons' dest!: subseq_pair_snd)

lemma shutting_down_run:
  assumes "\<forall>ev \<in> set evs. \<not> serve_failed ev"
  shows "foldl main_step ShuttingDown evs = (if \<exists>r. ShutdownReturned r \<in> set evs then Exited 0 else ShuttingDown)"
  using assms by (induction evs) (auto simp: main_step_ok split: server_event.splits)

lemma running_run:
  assumes "\<forall>ev \<in> set evs. \<not> serve_failed ev"
  shows "foldl main_step Running evs = (if shut_down evs then Exited 0 else if \<exists>sig. Quit sig \<in> set evs then ShuttingDown else Running)"
  using assms
proof (induction evs)
  case Nil
  show ?case by (simp add: shut_down_def)
next
  case (Cons ev evs)
  then show ?case by (cases ev) (auto simp: main_step_ok shut_down_Cons shutting_down_run)
qed

lemma main_run_Serve:
  assumes "main_run E = Serve addr tmo dp"
  obtains cfg aes pool rdb where "Load (se_viper E) [] = Inr cfg" "NewPool E (cf_Database cfg) = Inr pool"
    "NewClient E (cf_Redis cfg) = Inr rdb" "NewAESEncryptionService (ac_Key (cf_AES cfg)) = Inr aes" "dp = main_deps E cfg aes"
  using assms by (auto simp: main_run_def split: sum.splits)

lemma main_deps_fields [simp]:
  "dp_jwt (main_deps E cfg aes) = se_jwt E" "dp_uuid (main_deps E cfg aes) = se_uuid E"
  "dp_PaymentSvc (main_deps E cfg aes) = NewPaymentService (se_uuid E) (aes_encSvc aes)"
  "dp_TokenSvc (main_deps E cfg aes) = NewJWTTokenService (jc_Secret (cf_JWT cfg)) (jc_Expiry (cf_JWT cfg)) (jc_Issuer (cf_JWT cfg))"
  "dp_MerchantSvc (main_deps E cfg aes) = Some (NewMerchantService (aes_encSvc aes))"
  "dp_WebhookSvc (main_deps E cfg aes) = Some (NewWebhookService (se_uuid E) (aes_encSvc aes) hmac_sigSvc [()])"
  by (simp_all add: main_deps_def Let_def)

lemma main_deps_wired: "wired aes (main_deps E cfg aes)"
  by (simp add: wired_def main_deps_def NewAuthService_def Let_def)

text \<open>An empty key is refused, so a program without a key does not serve.\<close>

lemma NewAES_empty: "\<exists>err. NewAESEncryptionService [] = Inl err"
  by (simp add: NewAESEncryptionService_def res_simps)

end
