(* ===== verification/Startup_Properties.thy ===== *)
theory Startup_Properties
  imports Startup Gateway_Properties
begin

text \<open>
  What holds of the program that main.go starts: the hypotheses of the properties of the router
  are met by the dependencies that it builds, which configurations it serves with, and how it ends.
\<close>

section \<open>A configuration to apply the properties to\<close>

text \<open>A reading of a Viper instance: environment over file over default, as text or number.\<close>

definition sample_string :: "(string \<Rightarrow> string option) \<Rightarrow> viper \<Rightarrow> string \<Rightarrow> string" where
  "sample_string getenv v k =
     (case getenv (env_name v k) of Some s \<Rightarrow> s
      | None \<Rightarrow> (case map_of (vi_settings v @ vi_defaults v) k of Some (VString s) \<Rightarrow> s | _ \<Rightarrow> []))"

definition sample_int :: "viper \<Rightarrow> string \<Rightarrow> int" where
  "sample_int v k = (case map_of (vi_settings v @ vi_defaults v) k of Some (VInt i) \<Rightarrow> i | _ \<Rightarrow> 0)"

definition sample_config :: "(string \<Rightarrow> string option) \<Rightarrow> viper \<Rightarrow> Config" where
  "sample_config getenv v =
     (let str = sample_string getenv v
      in \<lparr>cf_Server = \<lparr>sc_Host = str ''server.host'', sc_Port = word_of_int (sample_int v ''server.port''), sc_Mode = str ''server.mode''\<rparr>,
          cf_Database = \<lparr>dc_Host = str ''database.host'', dc_Port = word_of_int (sample_int v ''database.port''), dc_User = str ''database.user'',
            dc_Password = str ''database.password'', dc_DBName = str ''database.dbname'', dc_SSLMode = str ''database.sslmode'',
            dc_MaxConns = word_of_int (sample_int v ''database.max_conns''), dc_MinConns = word_of_int (sample_int v ''database.min_conns''),
            dc_ConnMaxLifetime = seconds 1800\<rparr>,
          cf_Redis = \<lparr>rc_Host = str ''redis.host'', rc_Port = word_of_int (sample_int v ''redis.port''), rc_Password = str ''redis.password'',
            rc_DB = word_of_int (sample_int v ''redis.db'')\<rparr>,
          cf_JWT = \<lparr>jc_Secret = str ''jwt.secret'', jc_Expiry = seconds 86400, jc_Issuer = str ''jwt.issuer''\<rparr>,
          cf_AES = \<lparr>ac_Key = str ''aes.key''\<rparr>, cf_Log = \<lparr>lc_Level = str ''log.level'', lc_Pretty = False\<rparr>\<rparr>)"

definition sample_viper :: "(string \<Rightarrow> string option) \<Rightarrow> viper_pkg" where
  "sample_viper getenv = \<lparr>vp_ReadInConfig = (\<lambda>_. Inl ConfigFileNotFoundError), vp_Unmarshal = (\<lambda>v. Inr (sample_config getenv v))\<rparr>"

lemma sample_string_default:
  "unset getenv v k \<Longrightarrow> map_of (vi_defaults v) k = Some (VString s) \<Longrightarrow> sample_string getenv v k = s"
  by (simp add: sample_string_def unset_def map_add_def)

lemma sample_secrets:
  "jc_Secret (cf_JWT (sample_config getenv v)) = sample_string getenv v ''jwt.secret''"
  "ac_Key (cf_AES (sample_config getenv v)) = sample_string getenv v ''aes.key''"
  by (simp_all add: sample_config_def Let_def)

interpretation sample_settings: viper_lib "sample_viper getenv" getenv for getenv
  by unfold_locales (auto simp: sample_viper_def sample_secrets sample_string_default)

definition demo_getenv :: "string \<Rightarrow> string option" where
  "demo_getenv = [''SPG_AES_KEY'' \<mapsto> hex_encode (replicate 32 0)]"

definition demo_start :: start_env where
  "demo_start = \<lparr>se_viper = sample_viper demo_getenv,
     se_ParseConfig = (\<lambda>dsn. Inr \<lparr>pc_ConnString = dsn, pc_MaxConns = 4, pc_MinConns = 0, pc_MaxConnLifetime = seconds 3600\<rparr>),
     se_NewWithConfig = (\<lambda>_. None), se_PoolPing = (\<lambda>_. None), se_RedisPing = (\<lambda>_. None), se_spec = Inl (Plain ''no such file''),
     se_uuid = rfc4122, se_jwt = sample_jwt, se_IDKey = sample_IDKey, se_validator = sample_validator,
     se_ip_literal = (\<lambda>_. False), se_json = demo_json\<rparr>"

lemma demo_start_serves:
  obtains addr tmo cfg where "main_run demo_start = Serve addr tmo (main_deps demo_start cfg demo_aes)" "jc_Secret (cf_JWT cfg) = []"
proof -
  let ?cfg = "sample_config demo_getenv (config_viper [])"
  have load: "Load (se_viper demo_start) [] = Inr ?cfg"
    by (simp add: Load_def demo_start_def sample_viper_def Let_def)
  have pool: "\<exists>p. NewPool demo_start (cf_Database ?cfg) = Inr p" and rdb: "\<exists>r. NewClient demo_start (cf_Redis ?cfg) = Inr r"
    by (simp_all add: NewPool_def NewClient_def demo_start_def Let_def)
  have "ac_Key (cf_AES ?cfg) = hex_encode (replicate 32 0)"
    by (simp add: sample_secrets sample_string_def env_names demo_getenv_def)
  then have key: "NewAESEncryptionService (ac_Key (cf_AES ?cfg)) = Inr demo_aes"
    by (simp add: NewAESEncryptionService_def demo_aes_def)
  have sec: "jc_Secret (cf_JWT ?cfg) = []"
    by (rule sample_settings.load_defaults(1) [of demo_getenv "[]"]) (use load in \<open>simp_all add: demo_start_def demo_getenv_def sample_viper_def\<close>)
  from load pool rdb key that [OF _ sec] show ?thesis by (auto simp: main_run_def)
qed

section \<open>Serving\<close>

text \<open>
  C35: When main.go gets as far as listening, it has an AES key of 32 bytes, every service that
  encrypts (payments, accounts, key rotation, webhooks, request signatures) uses that one key, and
  in every state that the served router then reaches from an empty database the books are in
  order and every transaction is booked on a wallet of its own merchant.
\<close>

theorem startup_serves_safely:
  assumes "main_run E = Serve addr tmo dp"
  shows "\<exists>a. length (key a) = 32 \<and> wired a dp \<and> dp_MerchantSvc dp = Some (NewMerchantService (aes_encSvc a)) \<and>
    map_option ws_encSvc (dp_WebhookSvc dp) = Some (aes_encSvc a) \<and>
    (\<forall>sv. reachable dp sv \<longrightarrow> book_inv (aes_encSvc a) (sv_db sv) \<and> owners_ok (sv_db sv))"
proof -
  from assms obtain cfg aes where key: "NewAESEncryptionService (ac_Key (cf_AES cfg)) = Inr aes" and dp: "dp = main_deps E cfg aes"
    by (rule main_run_Serve)
  have "reachable dp sv \<Longrightarrow> book_inv (aes_encSvc aes) (sv_db sv) \<and> owners_ok (sv_db sv)" for sv
    using reachable_inv [of dp sv aes] main_deps_wired by (simp add: dp gateway_inv_def)
  then show ?thesis using NewAES_key [OF key] main_deps_wired by (auto simp: dp NewWebhookService_def intro!: exI [of _ aes])
qed

theorem startup_serves_safely_witness:
  "\<exists>addr tmo dp a. main_run demo_start = Serve addr tmo dp \<and> length (key a) = 32 \<and> wired a dp"
  using demo_start_serves startup_serves_safely by metis

text \<open>
  C37: The health endpoint of the served program tells the truth about its two dependencies: it is
  open to everybody, changes neither PostgreSQL nor Redis, answers 200 with status "healthy" exactly when
  the statement on the pool and the ping to Redis both succeed and 503 with status "degraded"
  otherwise, and lists each dependency under its own name. A failing dependency is listed with the
  text of the driver's error.
\<close>

theorem health_reports_dependencies:
  assumes "main_run E = Serve addr tmo dp" and "hr_Method rq = ''GET''" and "hr_Path rq = ''/health''"
    and "pg = hx_exec h ''SELECT 1''" and "rds = hx_redis_ping h"
  shows "\<exists>resp sv'. SetupRouter dp h rq sv = (Some resp, sv') \<and> sv_world sv' = sv_world sv \<and> caller dp h rq sv = None \<and>
    hp_reply resp = \<lparr>rp_status = (if pg = None \<and> rds = None then 200 else 503),
      rp_body = Bare (P_Health (if pg = None \<and> rds = None then ''healthy'' else ''degraded'')
        [''postgresql'' \<mapsto> (case pg of None \<Rightarrow> (''healthy'', []) | Some err \<Rightarrow> (''unhealthy'', Error_text err)),
         ''redis'' \<mapsto> (case rds of None \<Rightarrow> (''healthy'', []) | Some err \<Rightarrow> (''unhealthy'', Error_text err))])\<rparr>"
proof -
  from assms(1) obtain cfg aes where "dp = main_deps E cfg aes" by (rule main_run_Serve)
  then have hc: "dp_HealthCheckers dp = [pg_HealthCheck, redis_HealthCheck]" by (simp add: main_deps_def Let_def)
  have rt: "find_route dp rq = Some \<lparr>rt_method = ''GET'', rt_path = ''/health'', rt_auth = Public, rt_limit = [], rt_handler = HealthCheck\<rparr>"
    using assms(2,3) by (simp add: find_route_def routes_def)
  have lim: "rl dp [] h c sv = (Inr c, sv)" for c by (simp add: rl_def DefaultRateLimitRules_def)
  obtain resp where run: "HealthCheck dp h (first_context rq) sv = (Responded resp, sv)"
    and reply: "hp_reply resp = \<lparr>rp_status = (if pg = None \<and> rds = None then 200 else 503),
      rp_body = Bare (P_Health (if pg = None \<and> rds = None then ''healthy'' else ''degraded'')
        [''postgresql'' \<mapsto> (case pg of None \<Rightarrow> (''healthy'', []) | Some err \<Rightarrow> (''unhealthy'', Error_text err)),
         ''redis'' \<mapsto> (case rds of None \<Rightarrow> (''healthy'', []) | Some err \<Rightarrow> (''unhealthy'', Error_text err))])\<rparr>"
    by (cases pg; cases rds) (simp_all add: HealthCheck_def hc pg_HealthCheck_def redis_HealthCheck_def dep_status_def respond_def
        assms(4,5) [symmetric])
  then have "run_route \<lparr>rt_method = ''GET'', rt_path = ''/health'', rt_auth = Public, rt_limit = [], rt_handler = HealthCheck\<rparr>
      dp h (first_context rq) sv = (Responded resp, first_context rq, sv)"
    by (simp add: run_route_def authenticate_public lim)
  from SetupRouter_run [OF rt this] SetupRouter_world [OF rt this] reply show ?thesis
    by (simp add: finish_request_def caller_def rt authenticate_public key_merchant_def)
qed

theorem health_reports_dependencies_witness:
  "\<exists>addr tmo dp resp sv'. main_run demo_start = Serve addr tmo dp \<and>
     SetupRouter dp (demo_http\<lparr>hx_redis_ping := Some (Plain ''dial tcp 10.0.0.5:6379: connect: connection refused'')\<rparr>)
       (demo_dashboard\<lparr>hr_Method := ''GET'', hr_Path := ''/health''\<rparr>) (demo_server empty_db) = (Some resp, sv') \<and>
     hp_reply resp = \<lparr>rp_status = 503, rp_body = Bare (P_Health ''degraded'' [''postgresql'' \<mapsto> (''healthy'', []),
       ''redis'' \<mapsto> (''unhealthy'', ''dial tcp 10.0.0.5:6379: connect: connection refused'')])\<rparr>"
proof -
  obtain addr tmo dp where run: "main_run demo_start = Serve addr tmo dp" using demo_start_serves by metis
  from health_reports_dependencies [OF run _ _ refl refl,
      of "demo_dashboard\<lparr>hr_Method := ''GET'', hr_Path := ''/health''\<rparr>"
        "demo_http\<lparr>hx_redis_ping := Some (Plain ''dial tcp 10.0.0.5:6379: connect: connection refused'')\<rparr>" "demo_server empty_db"] run
  show ?thesis by (auto simp: demo_http_def)
qed

text \<open>
  C36: The AES key has to be configured, but the secret of the session tokens need not be. With no
  configuration file and no \<^verbatim>\<open>SPG_JWT_SECRET\<close> in the environment the program starts all the same and
  signs tokens with the empty key, so a token that anybody makes with the empty key, for any
  merchant, opens the JWT-protected routes as that merchant.
\<close>

theorem startup_without_jwt_secret:
  assumes "viper_lib (se_viper E) getenv" and "vp_ReadInConfig (se_viper E) (vi_file (config_viper [])) = Inl ConfigFileNotFoundError"
    and "getenv ''SPG_JWT_SECRET'' = None" and "main_run E = Serve addr tmo dp"
    and "jwt_lib (se_jwt E)" and "uuid_text (se_uuid E)"
    and "Token_Generate (se_jwt E) (se_uuid E) (NewJWTTokenService [] lifetime issuer) t0 m ak = Inr (tok, ex)"
    and "tok \<noteq> []" and "hr_Header (c_Request c) ''Authorization'' = ''Bearer '' @ tok"
    and "ev_now (hx_mw h) < Unix ex * 1000000"
  shows "getenv ''SPG_AES_KEY'' \<noteq> None \<and> (\<exists>c'. JWTAuth dp h c sv = (Inr c', sv) \<and> key_merchant c' = Some m)"
proof -
  from assms(4) obtain cfg aes where load: "Load (se_viper E) [] = Inr cfg"
    and aes: "NewAESEncryptionService (ac_Key (cf_AES cfg)) = Inr aes" and dp: "dp = main_deps E cfg aes" by (rule main_run_Serve)
  note defs = viper_lib.load_defaults [OF assms(1) load assms(2)]
  have "jc_Secret (cf_JWT cfg) = []" using defs(1) assms(3) by simp
  then have secret: "Token_Validate (dp_jwt dp) (dp_uuid dp) (dp_TokenSvc dp) now tok =
      Token_Validate (se_jwt E) (se_uuid E) (NewJWTTokenService [] lifetime issuer) now tok" for now
    using Token_Validate_secret [of "dp_TokenSvc dp" "NewJWTTokenService [] lifetime issuer"]
    by (simp add: dp NewJWTTokenService_def)
  have "getenv ''SPG_AES_KEY'' \<noteq> None" using defs(2) aes NewAES_empty by (cases "getenv ''SPG_AES_KEY''") auto
  moreover have "\<exists>c'. JWTAuth dp h c sv = (Inr c', sv) \<and> key_merchant c' = Some m"
    using jwt_lib.validate_generated [OF assms(5,6,7,10)]
    by (simp add: JWTAuth_bearer [OF assms(9,8)] secret key_merchant_def CtxMerchantID_def CtxAccessKey_def)
  ultimately show ?thesis by blast
qed

definition demo_forged :: string where
  "demo_forged = fst (projr (Token_Generate sample_jwt rfc4122 (NewJWTTokenService [] 86400000000 []) (ev_now demo_env) 7 ''ak''))"

lemma demo_forged_token:
  "Token_Generate sample_jwt rfc4122 (NewJWTTokenService [] 86400000000 []) (ev_now demo_env) 7 ''ak'' =
     Inr (demo_forged, ev_now demo_env + 86400000000)" "demo_forged \<noteq> []"
  by (simp_all add: demo_forged_def Token_Generate_def sample_jwt_def sample_sign_def NewJWTTokenService_def)

definition demo_intruder :: gin_context where
  "demo_intruder = first_context (demo_dashboard\<lparr>hr_Header := (\<lambda>_. [])(''Authorization'' := ''Bearer '' @ demo_forged)\<rparr>)"

theorem startup_without_jwt_secret_witness:
  "\<exists>addr tmo dp c'. main_run demo_start = Serve addr tmo dp \<and>
     JWTAuth dp demo_http demo_intruder (demo_server demo_paid) = (Inr c', demo_server demo_paid) \<and> key_merchant c' = Some 7"
proof -
  obtain addr tmo cfg where run: "main_run demo_start = Serve addr tmo (main_deps demo_start cfg demo_aes)" by (rule demo_start_serves)
  have hdr: "hr_Header (c_Request demo_intruder) ''Authorization'' = ''Bearer '' @ demo_forged"
    by (simp add: demo_intruder_def first_context_def MaxBodySize_def demo_dashboard_def)
  have "\<exists>c'. JWTAuth (main_deps demo_start cfg demo_aes) demo_http demo_intruder (demo_server demo_paid) =
      (Inr c', demo_server demo_paid) \<and> key_merchant c' = Some 7"
    using startup_without_jwt_secret [OF _ _ _ run _ _ _ demo_forged_token(2) hdr, where getenv = demo_getenv and h = demo_http]
      sample_settings.viper_lib_axioms sample_jwt.jwt_lib_axioms rfc.uuid_text_axioms demo_forged_token(1)
    by (fastforce simp: demo_start_def sample_viper_def demo_getenv_def demo_http_def demo_env_def Unix_def)
  with run show ?thesis by blast
qed

section \<open>The end of the program\<close>

text \<open>
  Once it serves, the program ends in one of two ways. As long as the HTTP server does not fail it
  serves until SIGINT or SIGTERM comes, and ends with status 0 when \<^verbatim>\<open>Shutdown\<close> returned after that,
  with an error or without, however many signals came. A failure of the server ends it with status 1 at
  once, also during the shutdown, unless it has ended before.
\<close>

theorem program_end:
  assumes "\<forall>u \<in> set us. \<not> serve_failed u" and "serve_failed ev"
  shows "main_serve us = (if \<exists>sig r. subseq [Quit sig, ShutdownReturned r] us then Exited 0
      else if \<exists>sig. Quit sig \<in> set us then ShuttingDown else Running) \<and>
    main_serve (us @ ev # vs) = (if \<exists>sig r. subseq [Quit sig, ShutdownReturned r] us then Exited 0 else Exited 1)"
  using running_run [OF assms(1)] main_step_failed [OF assms(2)] by (auto simp: main_serve_def shut_down_def)

theorem program_end_witness:
  "main_serve [Quit SIGTERM, ServeReturned ErrServerClosed, ShutdownReturned (Some (Plain ''context deadline exceeded''))] = Exited 0 \<and>
   main_serve [ServeReturned (ServeError (Plain ''listen tcp :8080: bind: address already in use'')), Quit SIGINT] = Exited 1"
proof -
  let ?fail = "ServeReturned (ServeError (Plain ''listen tcp :8080: bind: address already in use''))"
  have "serve_failed ?fail" by (simp add: serve_failed_def)
  note run = program_end [OF _ this]
  have "subseq [Quit SIGTERM, ShutdownReturned r] [Quit SIGTERM, ServeReturned ErrServerClosed, ShutdownReturned r]" for r by simp
  then show ?thesis
    using run [of "[Quit SIGTERM, ServeReturned ErrServerClosed, ShutdownReturned (Some (Plain ''context deadline exceeded''))]"]
      run [of "[]" "[Quit SIGINT]"]
    by (auto simp: serve_failed_def)
qed

end
