(* ===== verification/Ports.thy ===== *)
theory Ports
  imports Payment_Correct
begin

text \<open>
  The payment service over the interfaces of internal/core/ports/repositories.go. \<^theory_text>\<open>Payment_Service\<close> has
  the service with the PostgreSQL repositories built in; here the repositories are a parameter,
  as in the Go struct, so that the service also runs on other implementations of the interfaces.
  A repository works on a state of its own type, and a call returns its result and the new
  state. In contrast to \<^theory_text>\<open>Payment_Service\<close> a failing operation keeps what it has written so far, until
  the deferred \<^verbatim>\<open>Rollback\<close> undoes it, or does not.
\<close>

section \<open>Calls on a repository state\<close>

type_synonym ('s, 'a) call = "'s \<Rightarrow> 'a result \<times> 's"

definition bindS :: "('s, 'a) call \<Rightarrow> ('a \<Rightarrow> ('s, 'b) call) \<Rightarrow> ('s, 'b) call" where
  "bindS m f s = (case m s of (Inl err, s1) \<Rightarrow> (Inl err, s1) | (Inr x, s1) \<Rightarrow> f x s1)"

definition liftS :: "'a result \<Rightarrow> ('s, 'a) call" where
  "liftS r s = (r, s)"

definition wrapS :: "(error \<Rightarrow> error) \<Rightarrow> ('s, 'a) call \<Rightarrow> ('s, 'a) call" where
  "wrapS g m s = (case m s of (r, s1) \<Rightarrow> (wrapE g r, s1))"

lemma bindS_simps [simp]:
  "m s = (Inl err, s1) \<Longrightarrow> bindS m f s = (Inl err, s1)"
  "m s = (Inr x, s1) \<Longrightarrow> bindS m f s = f x s1"
  by (simp_all add: bindS_def)

lemma bindS_Inr: "bindS m f s = (Inr y, s2) \<longleftrightarrow> (\<exists>x s1. m s = (Inr x, s1) \<and> f x s1 = (Inr y, s2))"
  by (cases "m s"; cases "fst (m s)") auto

lemma bindS_Inl: "bindS m f s = (Inl err, s2) \<longleftrightarrow>
    m s = (Inl err, s2) \<or> (\<exists>x s1. m s = (Inr x, s1) \<and> f x s1 = (Inl err, s2))"
  by (cases "m s"; cases "fst (m s)") auto

lemma wrapS_Inr: "wrapS g m s = (Inr x, s1) \<longleftrightarrow> m s = (Inr x, s1)"
  by (cases "m s") (simp add: wrapS_def res_simps)

lemma wrapS_Inl: "wrapS g m s = (Inl err, s1) \<longleftrightarrow> (\<exists>e0. m s = (Inl e0, s1) \<and> err = g e0)"
  by (cases "m s") (auto simp: wrapS_def res_simps)

lemmas call_simps = bindS_Inr bindS_Inl wrapS_Inr wrapS_Inl liftS_def

section \<open>The interfaces\<close>

text \<open>The methods of the five interfaces that the payment service calls.\<close>

record 's payment_ports =
  pp_Begin :: "('s, unit) call"
  pp_Commit :: "('s, unit) call"
  pp_Rollback :: "'s \<Rightarrow> 's"
  pp_Wallet_GetByMerchantIDForUpdate :: "uuid \<Rightarrow> string \<Rightarrow> ('s, Wallet option) call"
  pp_Wallet_GetByIDForUpdate :: "uuid \<Rightarrow> ('s, Wallet option) call"
  pp_Wallet_UpdateBalance :: "uuid \<Rightarrow> string \<Rightarrow> ('s, unit) call"
  pp_Tx_Create :: "Transaction \<Rightarrow> ('s, unit) call"
  pp_Tx_GetByReference :: "uuid \<Rightarrow> string \<Rightarrow> ('s, Transaction option) call"
  pp_Tx_UpdateStatus :: "uuid \<Rightarrow> TransactionStatus \<Rightarrow> ('s, unit) call"
  pp_Tx_CheckRefundExists :: "uuid \<Rightarrow> ('s, bool) call"
  pp_Idemp_Create :: "IdempotencyLog \<Rightarrow> ('s, unit) call"
  pp_Idemp_Get :: "string \<Rightarrow> ('s, IdempotencyLog option) call"

section \<open>The service\<close>

text \<open>
  \<^verbatim>\<open>Begin\<close>, the statements of the transaction, \<^verbatim>\<open>Commit\<close>, and the \<^verbatim>\<open>Rollback\<close> that is deferred once the
  transaction has begun.
\<close>

definition in_transaction :: "'s payment_ports \<Rightarrow> ('s, 'a) call \<Rightarrow> ('s, 'a) call" where
  "in_transaction P body s =
     (case wrapS (\<lambda>err. InternalError (Wrapf ''begin tx'' err)) (pp_Begin P) s of
        (Inl err, s1) \<Rightarrow> (Inl err, s1)
      | (Inr _, s1) \<Rightarrow>
          (case bindS body (\<lambda>x. bindS (wrapS (\<lambda>err. InternalError (Wrapf ''commit tx'' err)) (pp_Commit P)) (\<lambda>_. liftS (Inr x))) s1 of
             (r, s2) \<Rightarrow> (r, pp_Rollback P s2)))"

definition lookup_on :: "'s payment_ports \<Rightarrow> env \<Rightarrow> redis \<Rightarrow> string \<Rightarrow> ('s, json option) call" where
  "lookup_on P e r idempKey =
     (case IdempotencyCache_Get (ev_fault e S_Cache_Get) (ev_now e) idempKey r of
        Inr (Some cached) \<Rightarrow> liftS (Inr (Some cached))
      | _ \<Rightarrow>
          bindS (wrapS (\<lambda>err. InternalError (Wrapf ''db idempotency check'' err)) (pp_Idemp_Get P idempKey)) (\<lambda>idempLog.
          liftS (Inr (map_option il_ResponseJSON idempLog))))"

text \<open>The end of a payment or refund: the idempotency log of the transaction.\<close>

definition save_log_on :: "'s payment_ports \<Rightarrow> PaymentServiceImpl \<Rightarrow> env \<Rightarrow> string \<Rightarrow> Transaction \<Rightarrow> ('s, Transaction \<times> json) call" where
  "save_log_on P s e idempKey txn =
     (let respJSON = marshal_Transaction (ps_uuid s) txn;
          idempLogEntry = \<lparr>il_Key = idempKey, il_TransactionID = tx_ID txn, il_ResponseJSON = respJSON, il_CreatedAt = ev_now e\<rparr>
      in bindS (wrapS (\<lambda>err. InternalError (Wrapf ''save idempotency log'' err)) (pp_Idemp_Create P idempLogEntry)) (\<lambda>_.
         liftS (Inr (txn, respJSON))))"

definition payment_on :: "'s payment_ports \<Rightarrow> PaymentServiceImpl \<Rightarrow> env \<Rightarrow> PaymentRequest \<Rightarrow> string \<Rightarrow> ('s, Transaction \<times> json) call" where
  "payment_on P s e req idempKey =
     bindS (wrapS (\<lambda>err. InternalError (Wrapf ''lock wallet'' err))
       (pp_Wallet_GetByMerchantIDForUpdate P (pq_MerchantID req) (pq_Currency req))) (\<lambda>found.
     bindS (liftS (needE (ErrNotFound ''wallet'') found)) (\<lambda>wallet.
     bindS (liftS (bindE (read_balance s wallet) (\<lambda>currentBalance.
        bindE (failIf (currentBalance <s pq_Amount req) ErrInsufficientFunds) (\<lambda>_.
        bindE (encrypt_amount s e 0 ''encrypt new balance'' (currentBalance - pq_Amount req)) (\<lambda>newBalanceEnc.
        bindE (encrypt_amount s e 1 ''encrypt amount'' (pq_Amount req)) (\<lambda>amountEncrypted.
        Inr (newBalanceEnc, payment_txn e req wallet amountEncrypted))))))) (\<lambda>(newBalanceEnc, txn).
     bindS (wrapS (\<lambda>err. InternalError (Wrapf ''update balance'' err)) (pp_Wallet_UpdateBalance P (w_ID wallet) newBalanceEnc)) (\<lambda>_.
     bindS (wrapS (\<lambda>err. InternalError (Wrapf ''create transaction'' err)) (pp_Tx_Create P txn)) (\<lambda>_.
     save_log_on P s e idempKey txn)))))"

text \<open>What a service call on ports leaves behind: the repository state and Redis.\<close>

definition cache_response :: "env \<Rightarrow> string \<Rightarrow> (Transaction \<times> json) result \<Rightarrow> redis \<Rightarrow> redis" where
  "cache_response e idempKey res r =
     (case res of
        Inl _ \<Rightarrow> r
      | Inr (txn, respJSON) \<Rightarrow>
          (case IdempotencyCache_Set (ev_fault e S_Cache_Set) (ev_now e) idempKey respJSON idempotencyTTL r of
             Inl _ \<Rightarrow> r | Inr r' \<Rightarrow> r'))"

text \<open>Both idempotency layers in front of an operation, and the cache write behind it.\<close>

definition idempotent_on ::
    "'s payment_ports \<Rightarrow> PaymentServiceImpl \<Rightarrow> env \<Rightarrow> string \<Rightarrow> ('s, Transaction \<times> json) call \<Rightarrow> 's \<times> redis \<Rightarrow> Transaction result \<times> 's \<times> redis" where
  "idempotent_on P s e idempKey run st =
     (case st of (d, r) \<Rightarrow>
        (case lookup_on P e r idempKey d of
           (Inl err, d1) \<Rightarrow> (Inl err, d1, r)
         | (Inr (Some data), d1) \<Rightarrow> (unmarshalCachedTransaction s data, d1, r)
         | (Inr None, d1) \<Rightarrow>
             (case run d1 of (res, d2) \<Rightarrow> (bindE res (\<lambda>(txn, _). Inr txn), d2, cache_response e idempKey res r))))"

definition ProcessPayment_on ::
    "'s payment_ports \<Rightarrow> PaymentServiceImpl \<Rightarrow> env \<Rightarrow> PaymentRequest \<Rightarrow> 's \<times> redis \<Rightarrow> Transaction result \<times> 's \<times> redis" where
  "ProcessPayment_on P s e req st =
     (if pq_Amount req \<le>s 0 then (Inl ErrInvalidAmount, st)
      else let idempKey = BuildIdempotencyKey (ps_uuid s) (pq_MerchantID req) (pq_ReferenceID req)
      in idempotent_on P s e idempKey (in_transaction P (payment_on P s e req idempKey)) st)"

definition refund_checks_on :: "'s payment_ports \<Rightarrow> RefundRequest \<Rightarrow> ('s, Transaction \<times> int64) call" where
  "refund_checks_on P req =
     bindS (wrapS (\<lambda>err. InternalError (Wrapf ''find original tx'' err))
       (pp_Tx_GetByReference P (rq_MerchantID req) (rq_OriginalReferenceID req))) (\<lambda>found.
     bindS (liftS (bindE (needE (ErrNotFound ''original transaction'') found) (\<lambda>origTx.
        bindE (failIf (\<not> IsRefundable origTx) ErrInvalidRefund) (\<lambda>_. Inr origTx)))) (\<lambda>origTx.
     bindS (wrapS (\<lambda>err. InternalError (Wrapf ''check refund exists'' err)) (pp_Tx_CheckRefundExists P (tx_ID origTx))) (\<lambda>refundExists.
     liftS (bindE (failIf refundExists ErrDuplicateTransaction) (\<lambda>_.
        case rq_Amount req of
          None \<Rightarrow> Inr (origTx, tx_Amount origTx)
        | Some a \<Rightarrow>
            bindE (failIf (a \<le>s 0) ErrInvalidAmount) (\<lambda>_.
            bindE (failIf (tx_Amount origTx <s a) ErrRefundAmountExceedsOriginal) (\<lambda>_.
            Inr (origTx, a))))))))"

definition refund_on ::
    "'s payment_ports \<Rightarrow> PaymentServiceImpl \<Rightarrow> env \<Rightarrow> RefundRequest \<Rightarrow> string \<Rightarrow> Transaction \<Rightarrow> int64 \<Rightarrow> ('s, Transaction \<times> json) call" where
  "refund_on P s e req idempKey origTx refundAmount =
     bindS (wrapS (\<lambda>err. InternalError (Wrapf ''lock wallet'' err)) (pp_Wallet_GetByIDForUpdate P (tx_WalletID origTx))) (\<lambda>found.
     bindS (liftS (needE (ErrNotFound ''wallet'') found)) (\<lambda>wallet.
     bindS (liftS (bindE (read_balance s wallet) (\<lambda>currentBalance.
        bindE (encrypt_amount s e 0 ''encrypt new balance'' (currentBalance + refundAmount)) (\<lambda>newBalanceEnc.
        bindE (encrypt_amount s e 1 ''encrypt amount'' refundAmount) (\<lambda>amountEncrypted.
        Inr (newBalanceEnc, refund_txn e req origTx refundAmount wallet amountEncrypted)))))) (\<lambda>(newBalanceEnc, txn).
     bindS (wrapS (\<lambda>err. InternalError (Wrapf ''update balance'' err)) (pp_Wallet_UpdateBalance P (w_ID wallet) newBalanceEnc)) (\<lambda>_.
     bindS (wrapS (\<lambda>err. InternalError (Wrapf ''create refund tx'' err)) (pp_Tx_Create P txn)) (\<lambda>_.
     bindS (wrapS (\<lambda>err. InternalError (Wrapf ''reverse original tx'' err))
       (pp_Tx_UpdateStatus P (tx_ID origTx) TransactionStatusReversed)) (\<lambda>_.
     save_log_on P s e idempKey txn))))))"

definition ProcessRefund_on ::
    "'s payment_ports \<Rightarrow> PaymentServiceImpl \<Rightarrow> env \<Rightarrow> RefundRequest \<Rightarrow> 's \<times> redis \<Rightarrow> Transaction result \<times> 's \<times> redis" where
  "ProcessRefund_on P s e req st =
     (let idempKey = BuildRefundIdempotencyKey (ps_uuid s) (rq_MerchantID req) (rq_OriginalReferenceID req)
      in idempotent_on P s e idempKey (bindS (refund_checks_on P req) (\<lambda>(origTx, refundAmount).
           in_transaction P (refund_on P s e req idempKey origTx refundAmount))) st)"

definition topup_on :: "'s payment_ports \<Rightarrow> PaymentServiceImpl \<Rightarrow> env \<Rightarrow> TopupRequest \<Rightarrow> ('s, Transaction) call" where
  "topup_on P s e req =
     bindS (wrapS (\<lambda>err. InternalError (Wrapf ''lock wallet'' err))
       (pp_Wallet_GetByMerchantIDForUpdate P (tq_MerchantID req) (tq_Currency req))) (\<lambda>found.
     bindS (liftS (needE (ErrNotFound ''wallet'') found)) (\<lambda>wallet.
     bindS (liftS (bindE (read_balance s wallet) (\<lambda>currentBalance.
        bindE (encrypt_amount s e 0 ''encrypt new balance'' (currentBalance + tq_Amount req)) (\<lambda>newBalanceEnc.
        bindE (encrypt_amount s e 1 ''encrypt amount'' (tq_Amount req)) (\<lambda>amountEncrypted.
        Inr (newBalanceEnc, topup_txn s e req wallet amountEncrypted)))))) (\<lambda>(newBalanceEnc, txn).
     bindS (wrapS (\<lambda>err. InternalError (Wrapf ''update balance'' err)) (pp_Wallet_UpdateBalance P (w_ID wallet) newBalanceEnc)) (\<lambda>_.
     bindS (wrapS (\<lambda>err. InternalError (Wrapf ''create transaction'' err)) (pp_Tx_Create P txn)) (\<lambda>_.
     liftS (Inr txn))))))"

definition ProcessTopup_on ::
    "'s payment_ports \<Rightarrow> PaymentServiceImpl \<Rightarrow> env \<Rightarrow> TopupRequest \<Rightarrow> 's \<times> redis \<Rightarrow> Transaction result \<times> 's \<times> redis" where
  "ProcessTopup_on P s e req st =
     (if tq_Amount req \<le>s 0 then (Inl ErrInvalidAmount, st)
      else case st of (d, r) \<Rightarrow> (case in_transaction P (topup_on P s e req) d of (res, d1) \<Rightarrow> (res, d1, r)))"

definition fund_op_on ::
    "'s payment_ports \<Rightarrow> PaymentServiceImpl \<Rightarrow> env \<Rightarrow> fund_request \<Rightarrow> 's \<times> redis \<Rightarrow> Transaction result \<times> 's \<times> redis" where
  "fund_op_on P s e q st =
     (case q of Pay req \<Rightarrow> ProcessPayment_on P s e req st | Refund req \<Rightarrow> ProcessRefund_on P s e req st
      | Topup req \<Rightarrow> ProcessTopup_on P s e req st)"

end
