(* ===== verification/Interleaving.thy ===== *)
theory Interleaving
  imports Ports
begin

text \<open>
  The payment service one call at a time. A program is a sequence of calls, each of them one step on the
  shared state; between two calls of a request the calls of other requests may run. Run alone, the
  program of a payment is \<open>ProcessPayment_on\<close>. A state predicate that each single call of each
  program keeps holds in every state that interleaved requests can reach.
\<close>

section \<open>Programs\<close>

datatype ('s, 'r) prog = Return 'r | Atomic "'s \<Rightarrow> 's" "'s \<Rightarrow> ('s, 'r) prog"

primrec thenP :: "('s, 'a) prog \<Rightarrow> ('a \<Rightarrow> ('s, 'b) prog) \<Rightarrow> ('s, 'b) prog" where
  "thenP (Return x) f = f x"
| "thenP (Atomic u k) f = Atomic u (\<lambda>s. thenP (k s) f)"

definition bindP :: "('s, 'a result) prog \<Rightarrow> ('a \<Rightarrow> ('s, 'b result) prog) \<Rightarrow> ('s, 'b result) prog" where
  "bindP p f = thenP p (\<lambda>res. case res of Inl err \<Rightarrow> Return (Inl err) | Inr x \<Rightarrow> f x)"

primrec alone :: "('s, 'r) prog \<Rightarrow> 's \<Rightarrow> 'r \<times> 's" where
  "alone (Return x) s = (x, s)"
| "alone (Atomic u k) s = alone (k s) (u s)"

lemma alone_thenP: "alone (thenP p f) s = (case alone p s of (x, s') \<Rightarrow> alone (f x) s')"
  by (induction p arbitrary: s) simp_all

lemma alone_bindP: "alone (bindP p f) s = bindS (alone p) (\<lambda>x. alone (f x)) s"
  by (simp add: bindP_def alone_thenP bindS_def split: prod.split sum.split)

lemma bindP_simps [simp]:
  "bindP (Return (Inl err)) f = Return (Inl err)" "bindP (Return (Inr x)) f = f x"
  "bindP (Atomic u k) f = Atomic u (\<lambda>s. bindP (k s) f)"
  by (simp_all add: bindP_def)

section \<open>The program of a payment\<close>

text \<open>One call on the repositories, with its error wrapped, and the calls on Redis.\<close>

definition callP :: "(error \<Rightarrow> error) \<Rightarrow> ('s, 'a) call \<Rightarrow> ('s \<times> redis, 'a result) prog" where
  "callP g c = Atomic (\<lambda>(d, r). (snd (c d), r)) (\<lambda>(d, r). Return (wrapE g (fst (c d))))"

definition cache_getP :: "env \<Rightarrow> string \<Rightarrow> ('s \<times> redis, json option result) prog" where
  "cache_getP e k = Atomic id (\<lambda>(d, r). Return (IdempotencyCache_Get (ev_fault e S_Cache_Get) (ev_now e) k r))"

definition cache_setP :: "env \<Rightarrow> string \<Rightarrow> Transaction \<times> json \<Rightarrow> ('s \<times> redis, unit) prog" where
  "cache_setP e k x = Atomic (\<lambda>(d, r). (d, cache_response e k (Inr x) r)) (\<lambda>_. Return ())"

definition transactionP :: "'s payment_ports \<Rightarrow> ('s \<times> redis, 'a result) prog \<Rightarrow> ('s \<times> redis, 'a result) prog" where
  "transactionP P body =
     bindP (callP (\<lambda>err. InternalError (Wrapf ''begin tx'' err)) (pp_Begin P)) (\<lambda>_.
     thenP (bindP body (\<lambda>x. bindP (callP (\<lambda>err. InternalError (Wrapf ''commit tx'' err)) (pp_Commit P)) (\<lambda>_. Return (Inr x)))) (\<lambda>res.
     Atomic (\<lambda>(d, r). (pp_Rollback P d, r)) (\<lambda>_. Return res)))"

text \<open>What follows once the wallet has been read: the check and the three writes.\<close>

definition payment_writesP ::
    "'s payment_ports \<Rightarrow> PaymentServiceImpl \<Rightarrow> env \<Rightarrow> PaymentRequest \<Rightarrow> string \<Rightarrow> Wallet option \<Rightarrow> ('s \<times> redis, (Transaction \<times> json) result) prog" where
  "payment_writesP P s e req idempKey found =
     bindP (Return (needE (ErrNotFound ''wallet'') found)) (\<lambda>wallet.
     bindP (Return (bindE (read_balance s wallet) (\<lambda>currentBalance.
        bindE (failIf (currentBalance <s pq_Amount req) ErrInsufficientFunds) (\<lambda>_.
        bindE (encrypt_amount s e 0 ''encrypt new balance'' (currentBalance - pq_Amount req)) (\<lambda>newBalanceEnc.
        bindE (encrypt_amount s e 1 ''encrypt amount'' (pq_Amount req)) (\<lambda>amountEncrypted.
        Inr (newBalanceEnc, payment_txn e req wallet amountEncrypted))))))) (\<lambda>(newBalanceEnc, txn).
     bindP (callP (\<lambda>err. InternalError (Wrapf ''update balance'' err)) (pp_Wallet_UpdateBalance P (w_ID wallet) newBalanceEnc)) (\<lambda>_.
     bindP (callP (\<lambda>err. InternalError (Wrapf ''create transaction'' err)) (pp_Tx_Create P txn)) (\<lambda>_.
     let respJSON = marshal_Transaction (ps_uuid s) txn;
         idempLogEntry = \<lparr>il_Key = idempKey, il_TransactionID = tx_ID txn, il_ResponseJSON = respJSON, il_CreatedAt = ev_now e\<rparr>
     in bindP (callP (\<lambda>err. InternalError (Wrapf ''save idempotency log'' err)) (pp_Idemp_Create P idempLogEntry)) (\<lambda>_.
        Return (Inr (txn, respJSON)))))))"

definition paymentP ::
    "'s payment_ports \<Rightarrow> PaymentServiceImpl \<Rightarrow> env \<Rightarrow> PaymentRequest \<Rightarrow> ('s \<times> redis, Transaction result) prog" where
  "paymentP P s e req =
     (if pq_Amount req \<le>s 0 then Return (Inl ErrInvalidAmount)
      else let idempKey = BuildIdempotencyKey (ps_uuid s) (pq_MerchantID req) (pq_ReferenceID req) in
      thenP (cache_getP e idempKey) (\<lambda>cached.
      case cached of
        Inr (Some data) \<Rightarrow> Return (unmarshalCachedTransaction s data)
      | _ \<Rightarrow>
          bindP (callP (\<lambda>err. InternalError (Wrapf ''db idempotency check'' err)) (pp_Idemp_Get P idempKey)) (\<lambda>idempLog.
          case idempLog of
            Some l \<Rightarrow> Return (unmarshalCachedTransaction s (il_ResponseJSON l))
          | None \<Rightarrow>
              bindP (transactionP P
                (bindP (callP (\<lambda>err. InternalError (Wrapf ''lock wallet'' err))
                   (pp_Wallet_GetByMerchantIDForUpdate P (pq_MerchantID req) (pq_Currency req)))
                 (payment_writesP P s e req idempKey))) (\<lambda>(txn, respJSON).
              thenP (cache_setP e idempKey (txn, respJSON)) (\<lambda>_. Return (Inr txn))))))"

text \<open>Run alone, the program is the operation.\<close>

lemma alone_callP: "alone (callP g c) (d, r) = (case wrapS g c d of (x, d') \<Rightarrow> (x, (d', r)))"
  by (simp add: callP_def wrapS_def split: prod.split)

definition beside :: "redis \<Rightarrow> 'a \<times> 's \<Rightarrow> 'a \<times> 's \<times> redis" where
  "beside r x = (case x of (y, d) \<Rightarrow> (y, d, r))"

lemma bind_beside: "(\<And>d. p (d, r) = beside r (c d)) \<Longrightarrow> (\<And>x d. f x (d, r) = beside r (c' x d)) \<Longrightarrow> bindS p f (d, r) = beside r (bindS c c' d)"
  by (simp add: bindS_def beside_def split: prod.split sum.split)

lemma call_beside: "alone (callP g c) (d, r) = beside r (wrapS g c d)"
  by (simp add: alone_callP beside_def)

lemma return_beside: "alone (Return x) (d, r) = beside r (liftS x d)"
  by (simp add: liftS_def beside_def)

lemma writes_alone: "alone (bindP (callP (\<lambda>err. InternalError (Wrapf ''lock wallet'' err))
      (pp_Wallet_GetByMerchantIDForUpdate P (pq_MerchantID req) (pq_Currency req))) (payment_writesP P s e req k)) (d, r) =
    beside r (payment_on P s e req k d)"
  unfolding payment_on_def payment_writesP_def save_log_on_def Let_def alone_bindP case_prod_beta
  by (intro bind_beside call_beside return_beside)

lemma transaction_alone:
  assumes "\<And>d. alone body (d, r) = beside r (c d)"
  shows "alone (transactionP P body) (d, r) = beside r (in_transaction P c d)"
proof -
  have step: "alone (bindP body (\<lambda>x. bindP (callP g (pp_Commit P)) (\<lambda>_. Return (Inr x)))) (d, r) =
      beside r (bindS c (\<lambda>x. bindS (wrapS g (pp_Commit P)) (\<lambda>_. liftS (Inr x))) d)" for g d
    unfolding alone_bindP by (intro bind_beside assms call_beside return_beside)
  obtain b d1 where b: "wrapS (\<lambda>err. InternalError (Wrapf ''begin tx'' err)) (pp_Begin P) d = (b, d1)" by fastforce
  show ?thesis
    unfolding transactionP_def alone_bindP [of "callP _ (pp_Begin P)"] in_transaction_def b
    by (cases b) (simp_all add: bindS_def [of "alone (callP _ (pp_Begin P))"] call_beside b beside_def alone_thenP step split: prod.split)
qed

lemma alone_paymentP: "alone (paymentP P s e req) st = ProcessPayment_on P s e req st"
proof (cases st)
  case (Pair d r)
  let ?k = "BuildIdempotencyKey (ps_uuid s) (pq_MerchantID req) (pq_ReferenceID req)"
  let ?cached = "IdempotencyCache_Get (ev_fault e S_Cache_Get) (ev_now e) ?k r"
  let ?get = "\<lambda>err. InternalError (Wrapf ''db idempotency check'' err)"
  note body = transaction_alone [where c = "payment_on P s e req ?k", OF writes_alone]
  have set: "alone (bindP p (\<lambda>(txn, j). thenP (cache_setP e ?k (txn, j)) (\<lambda>_. Return (Inr txn)))) (d1, r) =
      (case c d1 of (res, d2) \<Rightarrow> (bindE res (\<lambda>(txn, _). Inr txn), d2, cache_response e ?k res r))"
    if "alone p (d1, r) = beside r (c d1)" for p d1 and c :: "('a, Transaction \<times> json) call"
    by (simp add: alone_bindP bindS_def that beside_def cache_setP_def cache_response_def split: prod.split sum.split)
  obtain res d1 where get: "wrapS ?get (pp_Idemp_Get P ?k) d = (res, d1)" by fastforce
  show ?thesis
    unfolding Pair paymentP_def ProcessPayment_on_def idempotent_on_def lookup_on_def Let_def
    by (simp add: cache_getP_def alone_bindP [of "callP ?get _"] bindS_def [of "alone (callP ?get _)"] call_beside
        bindS_def [of "wrapS ?get _"] get set [where c = "in_transaction P (payment_on P s e req ?k)", OF body] liftS_def beside_def split: prod.split sum.split option.split)
qed

section \<open>Interleaved requests\<close>

inductive interleave :: "'s \<times> ('s, 'r) prog list \<Rightarrow> 's \<times> ('s, 'r) prog list \<Rightarrow> bool" where
  "i < length ps \<Longrightarrow> ps ! i = Atomic u k \<Longrightarrow> interleave (s, ps) (u s, ps[i := k s])"

abbreviation interleaved :: "'s \<times> ('s, 'r) prog list \<Rightarrow> 's \<times> ('s, 'r) prog list \<Rightarrow> bool" where
  "interleaved \<equiv> interleave\<^sup>*\<^sup>*"

text \<open>The first \<open>n\<close> calls of a program.\<close>

fun after :: "nat \<Rightarrow> ('s, 'r) prog \<Rightarrow> 's \<Rightarrow> ('s, 'r) prog \<times> 's" where
  "after (Suc n) (Atomic u k) s = after n (k s) (u s)"
| "after _ p s = (p, s)"

lemma interleaved_after:
  assumes "i < length ps" and "after n (ps ! i) s = (p, s')"
  shows "interleaved (s, ps) (s', ps[i := p])"
  using assms
proof (induction n arbitrary: s ps)
  case 0
  then show ?case by auto
next
  case (Suc n)
  show ?case
  proof (cases "ps ! i")
    case (Return x)
    with Suc.prems have "p = ps ! i" "s' = s" by auto
    then show ?thesis by simp
  next
    case (Atomic u k)
    have "interleave (s, ps) (u s, ps[i := k s])" using Suc.prems(1) Atomic by (rule interleave.intros)
    moreover have "interleaved (u s, ps[i := k s]) (s', ps[i := k s, i := p])"
      using Suc.prems Atomic by (intro Suc.IH) simp_all
    ultimately show ?thesis by simp
  qed
qed

text \<open>A request may run to its end without being interrupted.\<close>

lemma interleaved_alone:
  assumes "i < length ps" and "alone (ps ! i) s = (x, s')"
  shows "interleaved (s, ps) (s', ps[i := Return x])"
proof -
  have "\<exists>n. after n p s = (Return x, s')" if "alone p s = (x, s')" for p :: "('a, 'b) prog" and s
    using that
  proof (induction p arbitrary: s)
    case (Atomic u k)
    then have "alone (k s) (u s) = (x, s')" by simp
    from Atomic.IH [OF rangeI this] obtain n where "after n (k s) (u s) = (Return x, s')" ..
    then show ?case by (metis after.simps(1))
  qed auto
  with assms interleaved_after show ?thesis by metis
qed

lemma alone_after: "after n p s = (p', s') \<Longrightarrow> alone p s = alone p' s'"
  by (induction n p s rule: after.induct) auto

section \<open>Predicates that every call keeps\<close>

inductive safe :: "('s \<Rightarrow> bool) \<Rightarrow> ('r \<Rightarrow> bool) \<Rightarrow> ('s, 'r) prog \<Rightarrow> bool" for I Q where
  Return: "Q x \<Longrightarrow> safe I Q (Return x)"
| Atomic: "(\<And>s. I s \<Longrightarrow> I (u s)) \<Longrightarrow> (\<And>s. I s \<Longrightarrow> safe I Q (k s)) \<Longrightarrow> safe I Q (Atomic u k)"

inductive_cases safe_AtomicE: "safe I Q (Atomic u k)"

lemma safe_thenP:
  assumes "safe I Q p" and "\<And>x. Q x \<Longrightarrow> safe I R (f x)"
  shows "safe I R (thenP p f)"
  using assms(1)
proof induction
  case (Return x)
  then show ?case using assms(2) by simp
qed (auto intro: safe.Atomic)

lemma safe_interleaved:
  assumes "interleaved (s, ps) (s', ps')" and "I s" and "\<forall>p \<in> set ps. safe I Q p"
  shows "I s' \<and> (\<forall>p \<in> set ps'. safe I Q p)"
  using assms(1)
proof (induction rule: rtranclp_induct2)
  case refl
  then show ?case using assms(2,3) by simp
next
  case (step s1 ps1 s2 ps2)
  from step.hyps(2) obtain i u k where i: "i < length ps1" "ps1 ! i = Atomic u k" "s2 = u s1" "ps2 = ps1[i := k s1]"
    by (auto elim: interleave.cases)
  with step.IH have "safe I Q (Atomic u k)" by (metis nth_mem)
  then have "I s2" "safe I Q (k s1)" using i(3) step.IH by (auto elim!: safe_AtomicE)
  then show ?case using step.IH by (auto simp: i(4) dest!: set_update_subset_insert [THEN subsetD])
qed

end
