(* ===== verification/Port_Contracts.thy ===== *)
theory Port_Contracts
  imports Ports
begin

text \<open>
  \<open>payment_repository\<close> is the contract of the repository interfaces: what a call that succeeds returns
  and writes, in terms of the stored rows. \<open>reliable_repository\<close> adds that calls succeed when the rows
  they need exist. In \<open>repository_pair\<close> it is shown once, from the contracts alone, that payments,
  refunds and top-ups give the same result on both: whenever a call on the first repository does
  not end in an internal error, the call on the second one returns the same, and the stored
  rows stay the same.
\<close>

section \<open>Computations that agree\<close>

definition internal :: "error \<Rightarrow> bool" where
  "internal err \<longleftrightarrow> (\<exists>x. err = InternalError x)"

text \<open>
  Started in states related by \<open>J\<close>: when the first computation succeeds, so does the second, with
  results related by \<open>Q\<close> and states related by \<open>J'\<close>; when the first fails with an error that is
  not internal, the second fails with the same error and states related by \<open>K\<close>.
\<close>

definition agree ::
    "('a \<Rightarrow> 'b \<Rightarrow> bool) \<Rightarrow> ('a \<Rightarrow> 'b \<Rightarrow> bool) \<Rightarrow> ('x \<Rightarrow> 'y \<Rightarrow> bool) \<Rightarrow> ('a \<Rightarrow> 'b \<Rightarrow> bool) \<Rightarrow> ('a, 'x) call \<Rightarrow> ('b, 'y) call \<Rightarrow> bool" where
  "agree J J' Q K c c' \<longleftrightarrow> (\<forall>a b. J a b \<longrightarrow> (case c a of
      (Inr x, a') \<Rightarrow> \<exists>y b'. c' b = (Inr y, b') \<and> Q x y \<and> J' a' b'
    | (Inl err, a') \<Rightarrow> internal err \<or> (\<exists>b'. c' b = (Inl err, b') \<and> K a' b')))"

lemma agree_success:
  assumes "agree J J' Q K c c'" and "J a b" and "c a = (Inr x, a')"
  obtains y b' where "c' b = (Inr y, b')" "Q x y" "J' a' b'"
  using assms(1) [unfolded agree_def, rule_format, OF assms(2)] that by (auto simp: assms(3))

lemma agree_failure:
  assumes "agree J J' Q K c c'" and "J a b" and "c a = (Inl err, a')" and "\<not> internal err"
  obtains b' where "c' b = (Inl err, b')" "K a' b'"
  using assms(1) [unfolded agree_def, rule_format, OF assms(2)] assms(4) that by (auto simp: assms(3))

lemma agreeI:
  assumes "\<And>a b x a'. J a b \<Longrightarrow> c a = (Inr x, a') \<Longrightarrow> \<exists>y b'. c' b = (Inr y, b') \<and> Q x y \<and> J' a' b'"
    and "\<And>a b err a'. J a b \<Longrightarrow> c a = (Inl err, a') \<Longrightarrow> \<not> internal err \<Longrightarrow> \<exists>b'. c' b = (Inl err, b') \<and> K a' b'"
  shows "agree J J' Q K c c'"
  unfolding agree_def
proof (intro allI impI)
  fix a b
  assume J: "J a b"
  obtain res a' where c: "c a = (res, a')" by fastforce
  show "case c a of (Inr x, a') \<Rightarrow> \<exists>y b'. c' b = (Inr y, b') \<and> Q x y \<and> J' a' b'
    | (Inl err, a') \<Rightarrow> internal err \<or> (\<exists>b'. c' b = (Inl err, b') \<and> K a' b')"
    using assms(1) [OF J] assms(2) [OF J] c by (cases res) auto
qed

lemma agree_bind:
  assumes "agree J J1 Q K c c'" and "\<And>x y. Q x y \<Longrightarrow> agree J1 J' Q' K (f x) (f' y)"
  shows "agree J J' Q' K (bindS c f) (bindS c' f')"
proof (rule agreeI)
  fix a b z a2
  assume J: "J a b" and run: "bindS c f a = (Inr z, a2)"
  then obtain x a1 where c: "c a = (Inr x, a1)" and f: "f x a1 = (Inr z, a2)"
    by (auto simp: bindS_Inr)
  from agree_success [OF assms(1) J c] obtain y b1 where c': "c' b = (Inr y, b1)" "Q x y" "J1 a1 b1" .
  from agree_success [OF assms(2) [OF c'(2)] c'(3) f] obtain y' b2 where "f' y b1 = (Inr y', b2)" "Q' z y'" "J' a2 b2" .
  then show "\<exists>y b'. bindS c' f' b = (Inr y, b') \<and> Q' z y \<and> J' a2 b'" using c'(1) by simp
next
  fix a b err a2
  assume J: "J a b" and run: "bindS c f a = (Inl err, a2)" and ext: "\<not> internal err"
  then consider "c a = (Inl err, a2)" | x a1 where "c a = (Inr x, a1)" "f x a1 = (Inl err, a2)"
    by (auto simp: bindS_Inl)
  then show "\<exists>b'. bindS c' f' b = (Inl err, b') \<and> K a2 b'"
  proof cases
    case 1
    from agree_failure [OF assms(1) J 1 ext] obtain b1 where "c' b = (Inl err, b1)" "K a2 b1" .
    then show ?thesis by simp
  next
    case 2
    from agree_success [OF assms(1) J 2(1)] obtain y b1 where c': "c' b = (Inr y, b1)" "Q x y" "J1 a1 b1" .
    from agree_failure [OF assms(2) [OF c'(2)] c'(3) 2(2) ext] obtain b2 where "f' y b1 = (Inl err, b2)" "K a2 b2" .
    then show ?thesis using c'(1) by simp
  qed
qed

lemma agree_lift: "(\<And>a b. J a b \<Longrightarrow> K a b) \<Longrightarrow> agree J J (=) K (liftS r) (liftS r)"
  by (auto simp: agree_def liftS_def split: sum.splits)

lemma agree_lift_Inr: "Q x y \<Longrightarrow> agree J J Q K (liftS (Inr x)) (liftS (Inr y))"
  by (auto simp: agree_def liftS_def)

text \<open>An error of a repository is wrapped as an internal error, so only its success matters.\<close>

lemma agree_wrap:
  assumes "\<And>a b x a'. J a b \<Longrightarrow> c a = (Inr x, a') \<Longrightarrow> \<exists>y b'. c' b = (Inr y, b') \<and> Q x y \<and> J' a' b'"
  shows "agree J J' Q K (wrapS (\<lambda>err. InternalError (g err)) c) (wrapS (\<lambda>err. InternalError (g err)) c')"
proof (rule agreeI)
  fix a b x a'
  assume "J a b" and "wrapS (\<lambda>err. InternalError (g err)) c a = (Inr x, a')"
  then show "\<exists>y b'. wrapS (\<lambda>err. InternalError (g err)) c' b = (Inr y, b') \<and> Q x y \<and> J' a' b'"
    using assms [of a b x a'] by (fastforce simp: wrapS_def res_simps split: prod.splits)
qed (auto simp: wrapS_def res_simps internal_def split: prod.splits)

lemma agree_weaken: "agree J J' Q K c c' \<Longrightarrow> (\<And>a b. J1 a b \<Longrightarrow> J a b) \<Longrightarrow> agree J1 J' Q K c c'"
  by (simp add: agree_def)

lemma agree_strengthen: "agree J J' Q K c c' \<Longrightarrow> (\<And>a b. K a b \<Longrightarrow> K1 a b) \<Longrightarrow> agree J J' Q K1 c c'"
  by (rule agreeI) (meson agree_success, meson agree_failure)

section \<open>Stored rows\<close>

text \<open>
  What the payment service can observe of a store. The update time of a wallet and the
  processing time of a transaction are left out: PostgreSQL stamps them on every update.
\<close>

record store =
  st_wallets :: "uuid \<rightharpoonup> Wallet"
  st_txs :: "uuid \<rightharpoonup> Transaction"
  st_logs :: "string \<rightharpoonup> IdempotencyLog"

definition wallet_view :: "Wallet \<Rightarrow> Wallet" where
  "wallet_view w = w\<lparr>w_UpdatedAt := 0\<rparr>"

definition tx_view :: "Transaction \<Rightarrow> Transaction" where
  "tx_view t = t\<lparr>tx_ProcessedAt := None\<rparr>"

lemma wallet_view_fields [simp]: "w_ID (wallet_view w) = w_ID w" "w_MerchantID (wallet_view w) = w_MerchantID w"
  "w_Currency (wallet_view w) = w_Currency w" "w_EncryptedBalance (wallet_view w) = w_EncryptedBalance w"
  by (simp_all add: wallet_view_def)

lemma tx_view_fields [simp]: "tx_ID (tx_view t) = tx_ID t" "tx_MerchantID (tx_view t) = tx_MerchantID t"
  "tx_ReferenceID (tx_view t) = tx_ReferenceID t" "tx_WalletID (tx_view t) = tx_WalletID t" "tx_Amount (tx_view t) = tx_Amount t"
  "tx_TransactionType (tx_view t) = tx_TransactionType t" "tx_Status (tx_view t) = tx_Status t"
  "tx_OriginalTransactionID (tx_view t) = tx_OriginalTransactionID t"
  by (simp_all add: tx_view_def)

lemma view_eq:
  fixes t t' :: Transaction
  assumes "tx_view t = tx_view t'"
  shows "tx_ID t = tx_ID t' \<and> tx_Amount t = tx_Amount t' \<and> tx_WalletID t = tx_WalletID t' \<and> IsRefundable t = IsRefundable t'"
proof -
  have "tx_ID (tx_view t) = tx_ID (tx_view t')" "tx_Amount (tx_view t) = tx_Amount (tx_view t')" "tx_WalletID (tx_view t) = tx_WalletID (tx_view t')"
    "tx_TransactionType (tx_view t) = tx_TransactionType (tx_view t')" "tx_Status (tx_view t) = tx_Status (tx_view t')"
    by (simp_all only: assms)
  then show ?thesis by (simp add: IsRefundable_def)
qed

text \<open>A query for one row with \<open>Q\<close>: some stored row that has it, or none when there is none.\<close>

definition answers :: "('r \<Rightarrow> bool) \<Rightarrow> ('r \<Rightarrow> 'k) \<Rightarrow> ('r \<Rightarrow> 'r) \<Rightarrow> ('k \<rightharpoonup> 'r) \<Rightarrow> 'r option \<Rightarrow> bool" where
  "answers Q kf view m x \<longleftrightarrow>
     (case x of None \<Rightarrow> \<forall>r \<in> ran m. \<not> Q r | Some r \<Rightarrow> m (kf r) = Some (view r) \<and> Q (view r))"

definition unique :: "('r \<Rightarrow> bool) \<Rightarrow> ('k \<rightharpoonup> 'r) \<Rightarrow> bool" where
  "unique Q m \<longleftrightarrow> (\<forall>i j r r'. m i = Some r \<longrightarrow> m j = Some r' \<longrightarrow> Q r \<longrightarrow> Q r' \<longrightarrow> r = r')"

lemma answers_unique:
  assumes "answers Q kf view m x" and "answers Q kf view m y" and "unique Q m"
  shows "map_option view x = map_option view y"
  using assms by (cases x; cases y) (auto simp: answers_def unique_def ran_def)

definition wallet_of :: "uuid \<Rightarrow> string \<Rightarrow> Wallet \<Rightarrow> bool" where
  "wallet_of m c w \<longleftrightarrow> w_MerchantID w = m \<and> w_Currency w = c"

definition referenced :: "uuid \<Rightarrow> string \<Rightarrow> Transaction \<Rightarrow> bool" where
  "referenced m r t \<longleftrightarrow> tx_MerchantID t = m \<and> tx_ReferenceID t = r"

text \<open>
  When the answers to the queries of a request do not depend on which of several rows a query
  returns: one wallet per merchant and currency, one transaction per reference, no failed refunds.
\<close>

definition determined :: "fund_request \<Rightarrow> store \<Rightarrow> bool" where
  "determined q st \<longleftrightarrow>
     (case q of
        Pay req \<Rightarrow> unique (wallet_of (pq_MerchantID req) (pq_Currency req)) (st_wallets st)
      | Refund req \<Rightarrow> unique (referenced (rq_MerchantID req) (rq_OriginalReferenceID req)) (st_txs st) \<and>
          (\<forall>t \<in> ran (st_txs st). tx_Status t \<noteq> TransactionStatusFailed)
      | Topup req \<Rightarrow> unique (wallet_of (tq_MerchantID req) (tq_Currency req)) (st_wallets st))"

section \<open>The contract\<close>

text \<open>
  \<open>idle\<close> are the states outside a transaction, \<open>active\<close> those inside one. \<open>abs\<close> are the rows that the
  next call sees.
\<close>

locale payment_repository =
  fixes P :: "'s payment_ports" and abs :: "'s \<Rightarrow> store" and idle :: "'s \<Rightarrow> bool" and active :: "'s \<Rightarrow> bool"
  assumes begin_tx: "idle s \<Longrightarrow> pp_Begin P s = (Inr u, s1) \<Longrightarrow>
      active s1 \<and> abs s1 = abs s \<and> idle (pp_Rollback P s1) \<and> abs (pp_Rollback P s1) = abs s"
    and commit_tx: "active s \<Longrightarrow> pp_Commit P s = (Inr u, s1) \<Longrightarrow> idle s1 \<and> abs s1 = abs s \<and> pp_Rollback P s1 = s1"
    and idemp_get: "idle s \<Longrightarrow> pp_Idemp_Get P k s = (Inr lo, s1) \<Longrightarrow> s1 = s \<and> lo = st_logs (abs s) k"
    and get_by_reference: "idle s \<Longrightarrow> pp_Tx_GetByReference P m r s = (Inr tt, s1) \<Longrightarrow>
      s1 = s \<and> answers (referenced m r) tx_ID tx_view (st_txs (abs s)) tt"
    and refund_exists: "idle s \<Longrightarrow> pp_Tx_CheckRefundExists P i s = (Inr b, s1) \<Longrightarrow> s1 = s \<and>
      ((\<forall>t \<in> ran (st_txs (abs s)). tx_Status t \<noteq> TransactionStatusFailed) \<longrightarrow> b = (\<exists>t \<in> ran (st_txs (abs s)). is_live_refund_of i t))"
    and lock_merchant: "active s \<Longrightarrow> pp_Wallet_GetByMerchantIDForUpdate P m c s = (Inr w, s1) \<Longrightarrow>
      s1 = s \<and> answers (wallet_of m c) w_ID wallet_view (st_wallets (abs s)) w"
    and lock_id: "active s \<Longrightarrow> pp_Wallet_GetByIDForUpdate P i s = (Inr w, s1) \<Longrightarrow>
      s1 = s \<and> map_option wallet_view w = st_wallets (abs s) i"
    and update_balance: "active s \<Longrightarrow> pp_Wallet_UpdateBalance P i c s = (Inr u, s1) \<Longrightarrow> active s1 \<and> i \<in> dom (st_wallets (abs s)) \<and>
      abs s1 = (abs s)\<lparr>st_wallets := (st_wallets (abs s))(i := map_option (w_EncryptedBalance_update (\<lambda>_. c)) (st_wallets (abs s) i))\<rparr>"
    and create_tx: "active s \<Longrightarrow> pp_Tx_Create P t s = (Inr u, s1) \<Longrightarrow> active s1 \<and>
      abs s1 = (abs s)\<lparr>st_txs := (st_txs (abs s))(tx_ID t \<mapsto> tx_view t)\<rparr>"
    and update_status: "active s \<Longrightarrow> pp_Tx_UpdateStatus P i x s = (Inr u, s1) \<Longrightarrow> active s1 \<and> i \<in> dom (st_txs (abs s)) \<and>
      abs s1 = (abs s)\<lparr>st_txs := (st_txs (abs s))(i := map_option (tx_Status_update (\<lambda>_. x)) (st_txs (abs s) i))\<rparr>"
    and create_log: "active s \<Longrightarrow> pp_Idemp_Create P l s = (Inr u, s1) \<Longrightarrow> active s1 \<and>
      abs s1 = (abs s)\<lparr>st_logs := (st_logs (abs s))(il_Key l \<mapsto> l)\<rparr>"

locale reliable_repository = payment_repository +
  assumes begin_tx_ok: "idle s \<Longrightarrow> \<exists>s1. pp_Begin P s = (Inr (), s1)"
    and commit_tx_ok: "active s \<Longrightarrow> \<exists>s1. pp_Commit P s = (Inr (), s1)"
    and idemp_get_ok: "idle s \<Longrightarrow> \<exists>x s1. pp_Idemp_Get P k s = (Inr x, s1)"
    and get_by_reference_ok: "idle s \<Longrightarrow> \<exists>x s1. pp_Tx_GetByReference P m r s = (Inr x, s1)"
    and refund_exists_ok: "idle s \<Longrightarrow> \<exists>x s1. pp_Tx_CheckRefundExists P i s = (Inr x, s1)"
    and lock_merchant_ok: "active s \<Longrightarrow> \<exists>x s1. pp_Wallet_GetByMerchantIDForUpdate P m c s = (Inr x, s1)"
    and lock_id_ok: "active s \<Longrightarrow> \<exists>x s1. pp_Wallet_GetByIDForUpdate P i s = (Inr x, s1)"
    and update_balance_ok: "active s \<Longrightarrow> i \<in> dom (st_wallets (abs s)) \<Longrightarrow> \<exists>s1. pp_Wallet_UpdateBalance P i c s = (Inr (), s1)"
    and create_tx_ok: "active s \<Longrightarrow> \<exists>s1. pp_Tx_Create P t s = (Inr (), s1)"
    and update_status_ok: "active s \<Longrightarrow> i \<in> dom (st_txs (abs s)) \<Longrightarrow> \<exists>s1. pp_Tx_UpdateStatus P i x s = (Inr (), s1)"
    and create_log_ok: "active s \<Longrightarrow> \<exists>s1. pp_Idemp_Create P l s = (Inr (), s1)"

section \<open>Two repositories with the same rows\<close>

locale repository_pair = A: payment_repository PA absA idleA activeA + B: reliable_repository PB absB idleB activeB
  for PA :: "'a payment_ports" and absA idleA activeA and PB :: "'b payment_ports" and absB idleB activeB
begin

definition same_idle :: "'a \<Rightarrow> 'b \<Rightarrow> bool" where
  "same_idle a b \<longleftrightarrow> idleA a \<and> idleB b \<and> absA a = absB b"

definition same_active :: "'a \<Rightarrow> 'b \<Rightarrow> bool" where
  "same_active a b \<longleftrightarrow> activeA a \<and> activeB b \<and> absA a = absB b"

text \<open>Reads keep both states as they are: \<open>at a b\<close> are the states \<open>a\<close> and \<open>b\<close> themselves.\<close>

definition at :: "'a \<Rightarrow> 'b \<Rightarrow> 'a \<Rightarrow> 'b \<Rightarrow> bool" where
  "at a0 b0 a b \<longleftrightarrow> a = a0 \<and> b = b0"

lemma agree_lookup:
  assumes "same_idle a0 b0"
  shows "agree (at a0 b0) (at a0 b0) (=) (at a0 b0) (lookup_on PA e r k) (lookup_on PB e r k)"
proof -
  have db: "agree (at a0 b0) (at a0 b0) (=) (at a0 b0)
      (wrapS (\<lambda>err. InternalError (Wrapf ''db idempotency check'' err)) (pp_Idemp_Get PA k))
      (wrapS (\<lambda>err. InternalError (Wrapf ''db idempotency check'' err)) (pp_Idemp_Get PB k))"
    using assms A.idemp_get B.idemp_get B.idemp_get_ok unfolding same_idle_def at_def by (intro agree_wrap) metis
  then show ?thesis
    by (auto simp: lookup_on_def intro!: agree_lift agree_bind [OF db] split: sum.splits option.splits)
qed

lemma agree_update_balance:
  "agree same_active same_active (=) K
     (wrapS (\<lambda>err. InternalError (g err)) (pp_Wallet_UpdateBalance PA i c)) (wrapS (\<lambda>err. InternalError (g err)) (pp_Wallet_UpdateBalance PB i c))"
  using A.update_balance B.update_balance B.update_balance_ok unfolding same_active_def by (intro agree_wrap) (metis (full_types) unit.exhaust)

lemma agree_create_tx:
  "agree same_active same_active (=) K
     (wrapS (\<lambda>err. InternalError (g err)) (pp_Tx_Create PA t)) (wrapS (\<lambda>err. InternalError (g err)) (pp_Tx_Create PB t))"
  using A.create_tx B.create_tx B.create_tx_ok unfolding same_active_def by (intro agree_wrap) (metis (full_types) unit.exhaust)

lemma agree_update_status:
  "agree same_active same_active (=) K
     (wrapS (\<lambda>err. InternalError (g err)) (pp_Tx_UpdateStatus PA i x)) (wrapS (\<lambda>err. InternalError (g err)) (pp_Tx_UpdateStatus PB i x))"
  using A.update_status B.update_status B.update_status_ok unfolding same_active_def by (intro agree_wrap) (metis (full_types) unit.exhaust)

lemma agree_save_log: "agree same_active same_active (=) K (save_log_on PA s e k t) (save_log_on PB s e k t)"
proof -
  have "agree same_active same_active (=) K
      (wrapS (\<lambda>err. InternalError (Wrapf ''save idempotency log'' err)) (pp_Idemp_Create PA l))
      (wrapS (\<lambda>err. InternalError (Wrapf ''save idempotency log'' err)) (pp_Idemp_Create PB l))" for l
    using A.create_log B.create_log B.create_log_ok unfolding same_active_def by (intro agree_wrap) (metis (full_types) unit.exhaust)
  then show ?thesis unfolding save_log_on_def Let_def by (rule agree_bind) (rule agree_lift_Inr, simp)
qed

lemma agree_lock_merchant:
  assumes "same_active a0 b0" and "unique (wallet_of m c) (st_wallets (absA a0))"
  shows "agree (at a0 b0) (at a0 b0) (\<lambda>x y. map_option wallet_view x = map_option wallet_view y) K
     (wrapS (\<lambda>err. InternalError (g err)) (pp_Wallet_GetByMerchantIDForUpdate PA m c))
     (wrapS (\<lambda>err. InternalError (g err)) (pp_Wallet_GetByMerchantIDForUpdate PB m c))"
proof (rule agree_wrap)
  fix a b x a'
  assume "at a0 b0 a b" and run: "pp_Wallet_GetByMerchantIDForUpdate PA m c a = (Inr x, a')"
  then have ab: "a = a0" "b = b0" "activeA a" "activeB b" "absA a = absB b" using assms(1) by (auto simp: at_def same_active_def)
  obtain y b' where run': "pp_Wallet_GetByMerchantIDForUpdate PB m c b = (Inr y, b')" using B.lock_merchant_ok [OF ab(4)] by blast
  from A.lock_merchant [OF ab(3) run] B.lock_merchant [OF ab(4) run'] assms(2)
  have "map_option wallet_view x = map_option wallet_view y" by (intro answers_unique [of _ w_ID]) (simp_all add: ab(1,5) [symmetric])
  then show "\<exists>y b'. pp_Wallet_GetByMerchantIDForUpdate PB m c b = (Inr y, b') \<and>
      map_option wallet_view x = map_option wallet_view y \<and> at a0 b0 a' b'"
    using run' A.lock_merchant [OF ab(3) run] B.lock_merchant [OF ab(4) run'] ab(1,2) by (auto simp: at_def)
qed

lemma agree_lock_id:
  assumes "same_active a0 b0"
  shows "agree (at a0 b0) (at a0 b0) (\<lambda>x y. map_option wallet_view x = map_option wallet_view y) K
     (wrapS (\<lambda>err. InternalError (g err)) (pp_Wallet_GetByIDForUpdate PA i)) (wrapS (\<lambda>err. InternalError (g err)) (pp_Wallet_GetByIDForUpdate PB i))"
  using assms A.lock_id B.lock_id B.lock_id_ok unfolding same_active_def at_def by (intro agree_wrap) metis

text \<open>From a locked wallet on: the check and the new balance, then the writes.\<close>

lemma agree_from_wallet:
  assumes "same_active a0 b0"
    and lock: "agree (at a0 b0) (at a0 b0) (\<lambda>x y. map_option wallet_view x = map_option wallet_view y) (at a0 b0) lockA lockB"
    and calc: "\<And>w w'. w_ID w = w_ID w' \<Longrightarrow> w_EncryptedBalance w = w_EncryptedBalance w' \<Longrightarrow> calc w = calc w'"
    and rest: "\<And>t. agree same_active same_active (=) (at a0 b0) (restA t) (restB t)"
  shows "agree (at a0 b0) same_active (=) (at a0 b0)
    (bindS lockA (\<lambda>found. bindS (liftS (needE err found)) (\<lambda>wallet. bindS (liftS (calc wallet)) (\<lambda>(bal, txn).
       bindS (wrapS (\<lambda>err. InternalError (g err)) (pp_Wallet_UpdateBalance PA (w_ID wallet) bal)) (\<lambda>_. restA txn)))))
    (bindS lockB (\<lambda>found. bindS (liftS (needE err found)) (\<lambda>wallet. bindS (liftS (calc wallet)) (\<lambda>(bal, txn).
       bindS (wrapS (\<lambda>err. InternalError (g err)) (pp_Wallet_UpdateBalance PB (w_ID wallet) bal)) (\<lambda>_. restB txn)))))"
proof (rule agree_bind [OF lock])
  fix x y
  assume "map_option wallet_view x = map_option wallet_view y"
  then have need: "agree (at a0 b0) (at a0 b0) (\<lambda>w w'. wallet_view w = wallet_view w') (at a0 b0) (liftS (needE err x)) (liftS (needE err y))"
    by (cases x; cases y) (auto simp: agree_def liftS_def)
  have writes: "agree (at a0 b0) same_active (=) (at a0 b0)
      (bindS (wrapS (\<lambda>err. InternalError (g err)) (pp_Wallet_UpdateBalance PA i bal)) (\<lambda>_. restA t))
      (bindS (wrapS (\<lambda>err. InternalError (g err)) (pp_Wallet_UpdateBalance PB i bal)) (\<lambda>_. restB t))" for i bal t
    using assms(1) by (intro agree_weaken [OF agree_bind [OF agree_update_balance rest], of "at a0 b0"]) (simp add: at_def)
  have view: "w_ID w = w_ID w' \<and> w_EncryptedBalance w = w_EncryptedBalance w'" if "wallet_view w = wallet_view w'" for w w' :: Wallet
    using that by (metis wallet_view_fields(1,4))
  show "agree (at a0 b0) same_active (=) (at a0 b0)
    (bindS (liftS (needE err x)) (\<lambda>wallet. bindS (liftS (calc wallet)) (\<lambda>(bal, txn).
       bindS (wrapS (\<lambda>err. InternalError (g err)) (pp_Wallet_UpdateBalance PA (w_ID wallet) bal)) (\<lambda>_. restA txn))))
    (bindS (liftS (needE err y)) (\<lambda>wallet. bindS (liftS (calc wallet)) (\<lambda>(bal, txn).
       bindS (wrapS (\<lambda>err. InternalError (g err)) (pp_Wallet_UpdateBalance PB (w_ID wallet) bal)) (\<lambda>_. restB txn))))"
  proof (rule agree_bind [OF need])
    fix w w' :: Wallet
    assume "wallet_view w = wallet_view w'"
    then have eq: "w_ID w = w_ID w'" "w_EncryptedBalance w = w_EncryptedBalance w'" using view by blast+
    show "agree (at a0 b0) same_active (=) (at a0 b0)
      (bindS (liftS (calc w)) (\<lambda>(bal, txn). bindS (wrapS (\<lambda>err. InternalError (g err)) (pp_Wallet_UpdateBalance PA (w_ID w) bal)) (\<lambda>_. restA txn)))
      (bindS (liftS (calc w')) (\<lambda>(bal, txn). bindS (wrapS (\<lambda>err. InternalError (g err)) (pp_Wallet_UpdateBalance PB (w_ID w') bal)) (\<lambda>_. restB txn)))"
      unfolding calc [OF eq] eq(1) using writes by (intro agree_bind [OF agree_lift]) auto
  qed
qed

lemma agree_payment:
  assumes "same_active a0 b0" and "unique (wallet_of (pq_MerchantID req) (pq_Currency req)) (st_wallets (absA a0))"
  shows "agree (at a0 b0) same_active (=) (at a0 b0) (payment_on PA s e req k) (payment_on PB s e req k)"
  unfolding payment_on_def
proof (rule agree_from_wallet [OF assms(1) agree_lock_merchant [OF assms]])
  show "agree same_active same_active (=) (at a0 b0)
      (bindS (wrapS (\<lambda>err. InternalError (Wrapf ''create transaction'' err)) (pp_Tx_Create PA t)) (\<lambda>_. save_log_on PA s e k t))
      (bindS (wrapS (\<lambda>err. InternalError (Wrapf ''create transaction'' err)) (pp_Tx_Create PB t)) (\<lambda>_. save_log_on PB s e k t))" for t
    by (rule agree_bind [OF agree_create_tx agree_save_log])
qed (simp add: read_balance_def payment_txn_def)

lemma agree_refund:
  assumes "same_active a0 b0"
  shows "agree (at a0 b0) same_active (=) (at a0 b0) (refund_on PA s e req k o1 am) (refund_on PB s e req k o1 am)"
  unfolding refund_on_def
proof (rule agree_from_wallet [OF assms agree_lock_id [OF assms]])
  show "agree same_active same_active (=) (at a0 b0)
      (bindS (wrapS (\<lambda>err. InternalError (Wrapf ''create refund tx'' err)) (pp_Tx_Create PA t)) (\<lambda>_.
        bindS (wrapS (\<lambda>err. InternalError (Wrapf ''reverse original tx'' err)) (pp_Tx_UpdateStatus PA i x)) (\<lambda>_. save_log_on PA s e k t)))
      (bindS (wrapS (\<lambda>err. InternalError (Wrapf ''create refund tx'' err)) (pp_Tx_Create PB t)) (\<lambda>_.
        bindS (wrapS (\<lambda>err. InternalError (Wrapf ''reverse original tx'' err)) (pp_Tx_UpdateStatus PB i x)) (\<lambda>_. save_log_on PB s e k t)))"
    for t i x
    by (intro agree_bind [OF agree_create_tx] agree_bind [OF agree_update_status] agree_save_log)
qed (simp add: read_balance_def refund_txn_def)

lemma agree_topup:
  assumes "same_active a0 b0" and "unique (wallet_of (tq_MerchantID req) (tq_Currency req)) (st_wallets (absA a0))"
  shows "agree (at a0 b0) same_active (=) (at a0 b0) (topup_on PA s e req) (topup_on PB s e req)"
  unfolding topup_on_def
proof (rule agree_from_wallet [OF assms(1) agree_lock_merchant [OF assms]])
  show "agree same_active same_active (=) (at a0 b0)
      (bindS (wrapS (\<lambda>err. InternalError (Wrapf ''create transaction'' err)) (pp_Tx_Create PA t)) (\<lambda>_. liftS (Inr t)))
      (bindS (wrapS (\<lambda>err. InternalError (Wrapf ''create transaction'' err)) (pp_Tx_Create PB t)) (\<lambda>_. liftS (Inr t)))" for t
    by (rule agree_bind [OF agree_create_tx]) (rule agree_lift_Inr, rule refl)
qed (simp add: read_balance_def topup_txn_def)

text \<open>A whole transaction: on success both commit, on a business error both states are as before.\<close>

lemma agree_transaction:
  assumes idle: "same_idle a0 b0"
    and body: "\<And>a1 b1. same_active a1 b1 \<Longrightarrow> absA a1 = absA a0 \<Longrightarrow> agree (at a1 b1) same_active (=) (at a1 b1) bodyA bodyB"
  shows "agree (at a0 b0) same_idle (=) same_idle (in_transaction PA bodyA) (in_transaction PB bodyB)"
proof (rule agreeI)
  fix a b x a'
  assume "at a0 b0 a b" and run: "in_transaction PA bodyA a = (Inr x, a')"
  then have ab: "a = a0" "b = b0" by (simp_all add: at_def)
  from run obtain u a1 a2 where beg: "pp_Begin PA a0 = (Inr u, a1)" and a': "a' = pp_Rollback PA a2"
    and rest: "bindS bodyA (\<lambda>x. bindS (wrapS (\<lambda>err. InternalError (Wrapf ''commit tx'' err)) (pp_Commit PA)) (\<lambda>_. liftS (Inr x))) a1 = (Inr x, a2)"
    by (auto simp: in_transaction_def ab wrapS_Inr split: prod.splits sum.splits)
  from rest obtain a3 v where bodyrun: "bodyA a1 = (Inr x, a3)" and com: "pp_Commit PA a3 = (Inr v, a2)" by (auto simp: call_simps)
  obtain b1 where beg': "pp_Begin PB b0 = (Inr (), b1)" using B.begin_tx_ok idle by (auto simp: same_idle_def)
  have act: "same_active a1 b1" "absA a1 = absA a0"
    using A.begin_tx [OF _ beg] B.begin_tx [OF _ beg'] idle by (auto simp: same_idle_def same_active_def)
  from agree_success [OF body [OF act] _ bodyrun, of b1] obtain y b3 where bodyrun': "bodyB b1 = (Inr y, b3)" "x = y" "same_active a3 b3"
    by (auto simp: at_def)
  obtain b2 where com': "pp_Commit PB b3 = (Inr (), b2)" using B.commit_tx_ok bodyrun'(3) by (auto simp: same_active_def)
  have "same_idle a' b2" "pp_Rollback PB b2 = b2"
    using A.commit_tx [OF _ com] B.commit_tx [OF _ com'] bodyrun'(3) by (auto simp: same_active_def same_idle_def a')
  then show "\<exists>y b'. in_transaction PB bodyB b = (Inr y, b') \<and> x = y \<and> same_idle a' b'"
    using bodyrun' by (simp add: in_transaction_def ab wrapS_def beg' com' liftS_def)
next
  fix a b err a'
  assume "at a0 b0 a b" and run: "in_transaction PA bodyA a = (Inl err, a')" and ext: "\<not> internal err"
  then have ab: "a = a0" "b = b0" by (simp_all add: at_def)
  from run ext obtain u a1 a2 where beg: "pp_Begin PA a0 = (Inr u, a1)" and a': "a' = pp_Rollback PA a2"
    and rest: "bindS bodyA (\<lambda>x. bindS (wrapS (\<lambda>err. InternalError (Wrapf ''commit tx'' err)) (pp_Commit PA)) (\<lambda>_. liftS (Inr x))) a1 = (Inl err, a2)"
    by (auto simp: in_transaction_def ab wrapS_Inr wrapS_Inl internal_def split: prod.splits sum.splits)
  from rest ext have bodyrun: "bodyA a1 = (Inl err, a2)" by (auto simp: call_simps internal_def)
  obtain b1 where beg': "pp_Begin PB b0 = (Inr (), b1)" using B.begin_tx_ok idle by (auto simp: same_idle_def)
  have act: "same_active a1 b1" "absA a1 = absA a0"
    using A.begin_tx [OF _ beg] B.begin_tx [OF _ beg'] idle by (auto simp: same_idle_def same_active_def)
  from agree_failure [OF body [OF act] _ bodyrun ext, of b1] have bodyrun': "bodyB b1 = (Inl err, b1)" "a2 = a1"
    by (auto simp: at_def)
  have "same_idle a' (pp_Rollback PB b1)"
    using A.begin_tx [OF _ beg] B.begin_tx [OF _ beg'] idle by (auto simp: same_idle_def a' bodyrun'(2))
  then show "\<exists>b'. in_transaction PB bodyB b = (Inl err, b') \<and> same_idle a' b'"
    using bodyrun'(1) by (simp add: in_transaction_def ab wrapS_def beg')
qed

lemma agree_get_by_reference:
  assumes "same_idle a0 b0" and "unique (referenced m r) (st_txs (absA a0))"
  shows "agree (at a0 b0) (at a0 b0) (\<lambda>x y. map_option tx_view x = map_option tx_view y) K
     (wrapS (\<lambda>err. InternalError (g err)) (pp_Tx_GetByReference PA m r)) (wrapS (\<lambda>err. InternalError (g err)) (pp_Tx_GetByReference PB m r))"
proof (rule agree_wrap)
  fix a b x a'
  assume "at a0 b0 a b" and run: "pp_Tx_GetByReference PA m r a = (Inr x, a')"
  then have ab: "a = a0" "b = b0" "idleA a" "idleB b" "absA a = absB b" using assms(1) by (auto simp: at_def same_idle_def)
  obtain y b' where run': "pp_Tx_GetByReference PB m r b = (Inr y, b')" using B.get_by_reference_ok [OF ab(4)] by blast
  from A.get_by_reference [OF ab(3) run] B.get_by_reference [OF ab(4) run'] assms(2)
  have "map_option tx_view x = map_option tx_view y" by (intro answers_unique [of _ tx_ID]) (simp_all add: ab(1,5) [symmetric])
  then show "\<exists>y b'. pp_Tx_GetByReference PB m r b = (Inr y, b') \<and> map_option tx_view x = map_option tx_view y \<and> at a0 b0 a' b'"
    using run' A.get_by_reference [OF ab(3) run] B.get_by_reference [OF ab(4) run'] ab(1,2) by (auto simp: at_def)
qed

lemma agree_refund_exists:
  assumes "same_idle a0 b0" and "\<forall>t \<in> ran (st_txs (absA a0)). tx_Status t \<noteq> TransactionStatusFailed"
  shows "agree (at a0 b0) (at a0 b0) (=) K
     (wrapS (\<lambda>err. InternalError (g err)) (pp_Tx_CheckRefundExists PA i)) (wrapS (\<lambda>err. InternalError (g err)) (pp_Tx_CheckRefundExists PB i))"
proof (rule agree_wrap)
  fix a b x a'
  assume "at a0 b0 a b" and run: "pp_Tx_CheckRefundExists PA i a = (Inr x, a')"
  then have ab: "a = a0" "b = b0" "idleA a" "idleB b" "absA a = absB b" using assms(1) by (auto simp: at_def same_idle_def)
  obtain y b' where run': "pp_Tx_CheckRefundExists PB i b = (Inr y, b')" using B.refund_exists_ok [OF ab(4)] by blast
  show "\<exists>y b'. pp_Tx_CheckRefundExists PB i b = (Inr y, b') \<and> x = y \<and> at a0 b0 a' b'"
    using A.refund_exists [OF ab(3) run] B.refund_exists [OF ab(4) run'] run' assms(2) ab by (auto simp: at_def)
qed

text \<open>The checks return the same original transaction, up to its processing time, and the same amount.\<close>

lemma agree_refund_checks:
  assumes "same_idle a0 b0" and "unique (referenced (rq_MerchantID req) (rq_OriginalReferenceID req)) (st_txs (absA a0))"
    and "\<forall>t \<in> ran (st_txs (absA a0)). tx_Status t \<noteq> TransactionStatusFailed"
  shows "agree (at a0 b0) (at a0 b0) (\<lambda>(x, m) (y, n). tx_view x = tx_view y \<and> m = n) (at a0 b0) (refund_checks_on PA req) (refund_checks_on PB req)"
  unfolding refund_checks_on_def
proof (rule agree_bind [OF agree_get_by_reference [OF assms(1,2)]])
  let ?orig = "\<lambda>found. bindE (needE (ErrNotFound ''original transaction'') found) (\<lambda>origTx.
      bindE (failIf (\<not> IsRefundable origTx) ErrInvalidRefund) (\<lambda>_. Inr origTx))"
  fix x y
  assume "map_option tx_view x = map_option tx_view y"
  then have orig: "agree (at a0 b0) (at a0 b0) (\<lambda>t t'. tx_view t = tx_view t') (at a0 b0) (liftS (?orig x)) (liftS (?orig y))"
  proof (cases x)
    case (Some t)
    with \<open>map_option tx_view x = map_option tx_view y\<close> obtain t' where y: "y = Some t'" and eq: "tx_view t = tx_view t'" by (cases y) auto
    have "IsRefundable t = IsRefundable t'" using view_eq [OF eq] by simp
    with eq show ?thesis by (cases "IsRefundable t'") (simp_all add: Some y agree_def liftS_def)
  qed (simp add: agree_def liftS_def)
  let ?amount = "\<lambda>found origTx. bindE (failIf found ErrDuplicateTransaction) (\<lambda>_. case rq_Amount req of None \<Rightarrow> Inr (origTx, tx_Amount origTx)
      | Some am \<Rightarrow> bindE (failIf (am \<le>s 0) ErrInvalidAmount) (\<lambda>_. bindE (failIf (tx_Amount origTx <s am) ErrRefundAmountExceedsOriginal) (\<lambda>_. Inr (origTx, am))))"
  show "agree (at a0 b0) (at a0 b0) (\<lambda>(x, m) (y, n). tx_view x = tx_view y \<and> m = n) (at a0 b0)
     (bindS (liftS (?orig x)) (\<lambda>t. bindS (wrapS (\<lambda>err. InternalError (Wrapf ''check refund exists'' err)) (pp_Tx_CheckRefundExists PA (tx_ID t))) (\<lambda>f. liftS (?amount f t))))
     (bindS (liftS (?orig y)) (\<lambda>t. bindS (wrapS (\<lambda>err. InternalError (Wrapf ''check refund exists'' err)) (pp_Tx_CheckRefundExists PB (tx_ID t))) (\<lambda>f. liftS (?amount f t))))"
  proof (rule agree_bind [OF orig])
    fix t t' :: Transaction
    assume eq: "tx_view t = tx_view t'"
    have "agree (at a0 b0) (at a0 b0) (\<lambda>(x, m) (y, n). tx_view x = tx_view y \<and> m = n) (at a0 b0) (liftS (?amount f t)) (liftS (?amount f t'))" for f
    proof -
      have "tx_Amount t = tx_Amount t'" using view_eq [OF eq] by simp
      with eq show ?thesis by (simp add: agree_def liftS_def failIf_def split: option.splits)
    qed
    then show "agree (at a0 b0) (at a0 b0) (\<lambda>(x, m) (y, n). tx_view x = tx_view y \<and> m = n) (at a0 b0)
      (bindS (wrapS (\<lambda>err. InternalError (Wrapf ''check refund exists'' err)) (pp_Tx_CheckRefundExists PA (tx_ID t))) (\<lambda>f. liftS (?amount f t)))
      (bindS (wrapS (\<lambda>err. InternalError (Wrapf ''check refund exists'' err)) (pp_Tx_CheckRefundExists PB (tx_ID t'))) (\<lambda>f. liftS (?amount f t')))"
      unfolding view_eq [OF eq, THEN conjunct1] by (intro agree_bind [OF agree_refund_exists [OF assms(1,3)]]) simp
  qed
qed

text \<open>Both idempotency layers around an operation that agrees.\<close>

lemma agree_idempotent:
  assumes idle: "same_idle a b" and run: "agree (at a b) same_idle (=) same_idle runA runB"
    and A: "idempotent_on PA s e k runA (a, r) = (res, a', r')" and ext: "\<And>err. res = Inl err \<Longrightarrow> \<not> internal err"
  shows "\<exists>b'. idempotent_on PB s e k runB (b, r) = (res, b', r') \<and> same_idle a' b'"
proof -
  note lk = agree_lookup [OF idle, of e r k]
  obtain lr a1 where la: "lookup_on PA e r k a = (lr, a1)" by fastforce
  show ?thesis
  proof (cases lr)
    case (Inl err)
    then have "res = Inl err" "a' = a1" "r' = r" using A la by (auto simp: idempotent_on_def)
    with agree_failure [OF lk _ la [unfolded Inl] ext] idle show ?thesis
      by (fastforce simp: at_def idempotent_on_def)
  next
    case (Inr o1)
    from agree_success [OF lk _ la [unfolded Inr], of b] have lb: "lookup_on PB e r k b = (Inr o1, b)" "a1 = a" by (auto simp: at_def)
    show ?thesis
    proof (cases o1)
      case (Some data)
      then show ?thesis using A la Inr lb idle by (auto simp: idempotent_on_def)
    next
      case None
      obtain out a2 where ra: "runA a = (out, a2)" by fastforce
      have res: "res = bindE out (\<lambda>(txn, _). Inr txn)" "a' = a2" "r' = cache_response e k out r"
        using A la Inr None lb(2) ra by (auto simp: idempotent_on_def)
      have "\<exists>b'. runB b = (out, b') \<and> same_idle a2 b'"
      proof (cases out)
        case Inl
        with agree_failure [OF run _ ra [unfolded Inl], of b] ext res(1) show ?thesis by (fastforce simp: at_def)
      next
        case Inr
        with agree_success [OF run _ ra [unfolded Inr], of b] show ?thesis by (fastforce simp: at_def)
      qed
      then show ?thesis using lb(1) None res by (auto simp: idempotent_on_def)
    qed
  qed
qed

lemma refund_on_view:
  fixes t t' :: Transaction
  assumes "tx_view t = tx_view t'"
  shows "refund_on P s e req k t am = refund_on P s e req k t' am"
proof -
  have "tx_ID t = tx_ID t'" "tx_WalletID t = tx_WalletID t'" using view_eq [OF assms] by simp_all
  then show ?thesis by (simp add: refund_on_def refund_txn_def)
qed

lemma agree_process_refund:
  assumes "same_idle a0 b0" and "determined (Refund req) (absA a0)"
  shows "agree (at a0 b0) same_idle (=) same_idle
    (bindS (refund_checks_on PA req) (\<lambda>(t, am). in_transaction PA (refund_on PA s e req k t am)))
    (bindS (refund_checks_on PB req) (\<lambda>(t, am). in_transaction PB (refund_on PB s e req k t am)))"
proof -
  have checks: "agree (at a0 b0) (at a0 b0) (\<lambda>(x, m) (y, n). tx_view x = tx_view y \<and> m = n) same_idle
      (refund_checks_on PA req) (refund_checks_on PB req)"
    by (rule agree_strengthen [OF agree_refund_checks]) (use assms in \<open>auto simp: determined_def at_def\<close>)
  show ?thesis
  proof (rule agree_bind [OF checks], clarify)
    fix t t' :: Transaction and am
    assume eq: "tx_view t = tx_view t'"
    show "agree (at a0 b0) same_idle (=) same_idle (in_transaction PA (refund_on PA s e req k t am)) (in_transaction PB (refund_on PB s e req k t' am))"
      unfolding refund_on_view [OF eq, of PA] by (rule agree_transaction [OF assms(1) agree_refund])
  qed
qed

text \<open>Payments, refunds and top-ups give the same result on both repositories.\<close>

lemma fund_op_agrees:
  assumes idle: "same_idle a b" and det: "determined q (absA a)"
    and A: "fund_op_on PA s e q (a, r) = (res, a', r')" and ext: "\<And>err. res = Inl err \<Longrightarrow> \<not> internal err"
  shows "\<exists>b'. fund_op_on PB s e q (b, r) = (res, b', r') \<and> same_idle a' b'"
proof (cases q)
  case (Pay req)
  have "agree (at a b) same_idle (=) same_idle (in_transaction PA (payment_on PA s e req k)) (in_transaction PB (payment_on PB s e req k))" for k
    using det by (intro agree_transaction [OF idle agree_payment]) (auto simp: Pay determined_def)
  from agree_idempotent [OF idle this _ ext] show ?thesis
    using A idle by (auto simp: Pay fund_op_on_def ProcessPayment_on_def Let_def split: if_splits)
next
  case (Refund req)
  from agree_idempotent [OF idle agree_process_refund [OF idle det [unfolded Refund]] _ ext] show ?thesis
    using A by (simp add: Refund fund_op_on_def ProcessRefund_on_def Let_def)
next
  case (Topup req)
  have run: "agree (at a b) same_idle (=) same_idle (in_transaction PA (topup_on PA s e req)) (in_transaction PB (topup_on PB s e req))"
    using det by (intro agree_transaction [OF idle agree_topup]) (auto simp: Topup determined_def)
  show ?thesis
  proof (cases "tq_Amount req \<le>s 0")
    case True
    then show ?thesis using A idle by (auto simp: Topup fund_op_on_def ProcessTopup_on_def)
  next
    case False
    then have tr: "in_transaction PA (topup_on PA s e req) a = (res, a')" "r' = r"
      using A by (auto simp: Topup fund_op_on_def ProcessTopup_on_def split: prod.splits)
    have "\<exists>b'. in_transaction PB (topup_on PB s e req) b = (res, b') \<and> same_idle a' b'"
    proof (cases res)
      case (Inl err)
      with agree_failure [OF run _ tr(1) [unfolded Inl], of b] ext show ?thesis by (fastforce simp: at_def)
    next
      case (Inr t)
      with agree_success [OF run _ tr(1) [unfolded Inr], of b] show ?thesis by (fastforce simp: at_def)
    qed
    with False tr(2) show ?thesis by (auto simp: Topup fund_op_on_def ProcessTopup_on_def)
  qed
qed

end

end
