(* ===== verification/Postgres_Ports.thy ===== *)
theory Postgres_Ports
  imports Port_Contracts
begin

text \<open>
  The PostgreSQL repositories as an implementation of the interfaces: statements of a transaction work
  on its private copy of the database, all others on the committed one. The payment service over
  these ports is the service of \<^theory_text>\<open>Payment_Service\<close>, and the ports meet the contract.
\<close>

section \<open>The ports\<close>

record pg_state =
  pg_db :: db
  pg_tx :: "db option"

text \<open>A statement inside a transaction; pgx refuses one on a transaction that is closed.\<close>

definition tx_call :: "(db \<Rightarrow> ('a \<times> db) result) \<Rightarrow> (pg_state, 'a) call" where
  "tx_call f st =
     (case pg_tx st of
        None \<Rightarrow> (Inl (Plain ''tx is closed''), st)
      | Some t \<Rightarrow> (case f t of Inl err \<Rightarrow> (Inl err, st) | Inr (x, t') \<Rightarrow> (Inr x, st\<lparr>pg_tx := Some t'\<rparr>)))"

definition tx_query :: "(db \<Rightarrow> 'a result) \<Rightarrow> (pg_state, 'a) call" where
  "tx_query f = tx_call (\<lambda>t. bindE (f t) (\<lambda>x. Inr (x, t)))"

definition tx_exec :: "(db \<Rightarrow> db result) \<Rightarrow> (pg_state, unit) call" where
  "tx_exec f = tx_call (\<lambda>t. bindE (f t) (\<lambda>t'. Inr ((), t')))"

definition pg_ports :: "uuid_pkg \<Rightarrow> env \<Rightarrow> pg_state payment_ports" where
  "pg_ports U e =
     \<lparr>pp_Begin = (\<lambda>st. case Transactor_Begin (ev_fault e S_Begin) (pg_db st) of
        Inl err \<Rightarrow> (Inl err, st) | Inr tx \<Rightarrow> (Inr (), st\<lparr>pg_tx := Some tx\<rparr>)),
      pp_Commit = (\<lambda>st. case pg_tx st of
        None \<Rightarrow> (Inl (Plain ''tx is closed''), st)
      | Some tx \<Rightarrow> (case tx_Commit e tx (pg_db st) of (r, d) \<Rightarrow> (r, \<lparr>pg_db = d, pg_tx = None\<rparr>))),
      pp_Rollback = (\<lambda>st. st\<lparr>pg_tx := None\<rparr>),
      pp_Wallet_GetByMerchantIDForUpdate = (\<lambda>m c. tx_query (WalletRepo_GetByMerchantIDForUpdate (ev_fault e S_Wallet_Lock) m c)),
      pp_Wallet_GetByIDForUpdate = (\<lambda>i. tx_query (WalletRepo_GetByIDForUpdate (ev_fault e S_Wallet_Lock) i)),
      pp_Wallet_UpdateBalance = (\<lambda>i c. tx_exec (WalletRepo_UpdateBalance U (ev_fault e S_Wallet_UpdateBalance) (ev_db_now e) i c)),
      pp_Tx_Create = (\<lambda>t. tx_exec (TransactionRepo_Create (ev_fault e S_Tx_Create) t)),
      pp_Tx_GetByReference = (\<lambda>m r st. (TransactionRepo_GetByReference (ev_fault e S_Tx_GetByReference) m r (pg_db st), st)),
      pp_Tx_UpdateStatus = (\<lambda>i x. tx_exec (TransactionRepo_UpdateStatus U (ev_fault e S_Tx_UpdateStatus) (ev_now e) i x)),
      pp_Tx_CheckRefundExists = (\<lambda>i st. (TransactionRepo_CheckRefundExists (ev_fault e S_Tx_CheckRefundExists) i (pg_db st), st)),
      pp_Idemp_Create = (\<lambda>l. tx_exec (IdempotencyRepo_Create (ev_fault e S_Idemp_Create) l)),
      pp_Idemp_Get = (\<lambda>k st. (IdempotencyRepo_Get (ev_fault e S_Idemp_Get) k (pg_db st), st))\<rparr>"

lemma pg_ports_fields [simp]:
  "pp_Wallet_GetByMerchantIDForUpdate (pg_ports U e) m c = tx_query (WalletRepo_GetByMerchantIDForUpdate (ev_fault e S_Wallet_Lock) m c)"
  "pp_Wallet_GetByIDForUpdate (pg_ports U e) i = tx_query (WalletRepo_GetByIDForUpdate (ev_fault e S_Wallet_Lock) i)"
  "pp_Wallet_UpdateBalance (pg_ports U e) i b = tx_exec (WalletRepo_UpdateBalance U (ev_fault e S_Wallet_UpdateBalance) (ev_db_now e) i b)"
  "pp_Tx_Create (pg_ports U e) t = tx_exec (TransactionRepo_Create (ev_fault e S_Tx_Create) t)"
  "pp_Tx_UpdateStatus (pg_ports U e) i x = tx_exec (TransactionRepo_UpdateStatus U (ev_fault e S_Tx_UpdateStatus) (ev_now e) i x)"
  "pp_Idemp_Create (pg_ports U e) l = tx_exec (IdempotencyRepo_Create (ev_fault e S_Idemp_Create) l)"
  "pp_Tx_GetByReference (pg_ports U e) m r st = (TransactionRepo_GetByReference (ev_fault e S_Tx_GetByReference) m r (pg_db st), st)"
  "pp_Tx_CheckRefundExists (pg_ports U e) i st = (TransactionRepo_CheckRefundExists (ev_fault e S_Tx_CheckRefundExists) i (pg_db st), st)"
  "pp_Idemp_Get (pg_ports U e) k st = (IdempotencyRepo_Get (ev_fault e S_Idemp_Get) k (pg_db st), st)"
  "pp_Rollback (pg_ports U e) st = st\<lparr>pg_tx := None\<rparr>"
  by (simp_all add: pg_ports_def)

section \<open>The service over these ports is the service\<close>

text \<open>
  \<open>runs_as c f\<close>: inside a transaction, the call \<open>c\<close> has the result and the private copy of \<open>f\<close>. What a
  failing call has written to the copy does not matter, because the copy is dropped.
\<close>

definition runs_as :: "(pg_state, 'a) call \<Rightarrow> (db \<Rightarrow> ('a \<times> db) result) \<Rightarrow> bool" where
  "runs_as c f \<longleftrightarrow> (\<forall>st t. pg_tx st = Some t \<longrightarrow>
     (case f t of
        Inl err \<Rightarrow> \<exists>t'. c st = (Inl err, st\<lparr>pg_tx := Some t'\<rparr>)
      | Inr (x, t') \<Rightarrow> c st = (Inr x, st\<lparr>pg_tx := Some t'\<rparr>)))"

lemma runs_as_tx_call: "runs_as (tx_call f) f"
  by (auto simp: runs_as_def tx_call_def split: sum.splits) (metis pg_state.surjective pg_state.update_convs(2))

lemma runs_as_lift: "runs_as (liftS r) (\<lambda>t. bindE r (\<lambda>x. Inr (x, t)))"
  by (cases r) (auto simp: runs_as_def liftS_def, metis pg_state.surjective pg_state.update_convs(2))

lemma runs_as_bind:
  assumes "runs_as c f" and "\<And>x. runs_as (c' x) (f' x)"
  shows "runs_as (bindS c c') (\<lambda>t. bindE (f t) (\<lambda>(x, t'). f' x t'))"
  unfolding runs_as_def
proof (intro allI impI)
  fix st :: pg_state and t
  assume t: "pg_tx st = Some t"
  note c = assms(1) [unfolded runs_as_def, rule_format, OF t]
  show "case bindE (f t) (\<lambda>(x, t'). f' x t') of
      Inl err \<Rightarrow> \<exists>t'. bindS c c' st = (Inl err, st\<lparr>pg_tx := Some t'\<rparr>)
    | Inr (x, t') \<Rightarrow> bindS c c' st = (Inr x, st\<lparr>pg_tx := Some t'\<rparr>)"
  proof (cases "f t")
    case (Inl err)
    with c show ?thesis by auto
  next
    case (Inr p)
    then obtain x t1 where p: "f t = Inr (x, t1)" by (cases p) simp
    with c have "c st = (Inr x, st\<lparr>pg_tx := Some t1\<rparr>)" by simp
    moreover have "pg_tx (st\<lparr>pg_tx := Some t1\<rparr>) = Some t1" by simp
    note assms(2) [unfolded runs_as_def, rule_format, OF this, of x]
    ultimately show ?thesis by (auto simp: p split: sum.splits)
  qed
qed

lemma runs_as_wrap:
  assumes "runs_as c f"
  shows "runs_as (wrapS g c) (\<lambda>t. wrapE g (f t))"
  unfolding runs_as_def
proof (intro allI impI)
  fix st :: pg_state and t
  assume "pg_tx st = Some t"
  from assms [unfolded runs_as_def, rule_format, OF this]
  show "case wrapE g (f t) of
      Inl err \<Rightarrow> \<exists>t'. wrapS g c st = (Inl err, st\<lparr>pg_tx := Some t'\<rparr>)
    | Inr (x, t') \<Rightarrow> wrapS g c st = (Inr x, st\<lparr>pg_tx := Some t'\<rparr>)"
    by (cases "f t") (auto simp: wrapS_def)
qed

lemma runs_as_eq: "runs_as c f \<Longrightarrow> (\<And>t. f t = f' t) \<Longrightarrow> runs_as c f'"
  by (simp add: runs_as_def)

lemmas runs_as_intros = runs_as_bind runs_as_wrap runs_as_lift runs_as_tx_call

lemma runs_as_query: "runs_as (wrapS g (tx_query f)) (\<lambda>t. bindE (wrapE g (f t)) (\<lambda>x. Inr (x, t)))"
  unfolding tx_query_def
  by (rule runs_as_eq [OF runs_as_wrap [OF runs_as_tx_call]]) (simp add: bindE_def wrapE_def split: sum.split)

lemma runs_as_exec: "runs_as (wrapS g (tx_exec f)) (\<lambda>t. bindE (wrapE g (f t)) (\<lambda>t'. Inr ((), t')))"
  unfolding tx_exec_def
  by (rule runs_as_eq [OF runs_as_wrap [OF runs_as_tx_call]]) (simp add: bindE_def wrapE_def split: sum.split)

lemma bindE_assoc: "bindE (bindE m f) g = bindE m (\<lambda>x. bindE (f x) g)"
  by (cases m) simp_all

lemmas runs_as_steps = runs_as_bind [OF runs_as_query] runs_as_bind [OF runs_as_exec] runs_as_bind [OF runs_as_lift]

lemma save_log_runs_as:
  "runs_as (save_log_on (pg_ports U e) s e k txn) (\<lambda>t.
     bindE (wrapE (\<lambda>err. InternalError (Wrapf ''save idempotency log'' err))
       (IdempotencyRepo_Create (ev_fault e S_Idemp_Create)
         \<lparr>il_Key = k, il_TransactionID = tx_ID txn, il_ResponseJSON = marshal_Transaction (ps_uuid s) txn, il_CreatedAt = ev_now e\<rparr> t)) (\<lambda>t'.
     Inr ((txn, marshal_Transaction (ps_uuid s) txn), t')))"
  unfolding save_log_on_def Let_def pg_ports_fields
  by (rule runs_as_eq [OF runs_as_bind [OF runs_as_exec runs_as_lift]]) (simp add: bindE_assoc)

lemma payment_runs_as:
  "runs_as (payment_on (pg_ports (ps_uuid s) e) s e req k) (\<lambda>t. bindE (payment_in_tx s e req k t) (\<lambda>(x, j, t'). Inr ((x, j), t')))"
  unfolding payment_on_def pg_ports_fields case_prod_beta
  by (rule runs_as_eq, rule runs_as_steps, rule runs_as_steps, rule runs_as_steps, rule runs_as_steps, rule runs_as_steps,
      rule save_log_runs_as)
    (simp add: payment_in_tx_def bindE_assoc Let_def case_prod_beta)

lemma refund_runs_as:
  "runs_as (refund_on (pg_ports (ps_uuid s) e) s e req k o1 am) (\<lambda>t. bindE (refund_in_tx s e req k o1 am t) (\<lambda>(x, j, t'). Inr ((x, j), t')))"
  unfolding refund_on_def pg_ports_fields case_prod_beta
  by (rule runs_as_eq, rule runs_as_steps, rule runs_as_steps, rule runs_as_steps, rule runs_as_steps, rule runs_as_steps, rule runs_as_steps,
      rule save_log_runs_as)
    (simp add: refund_in_tx_def bindE_assoc Let_def case_prod_beta)

lemma topup_runs_as: "runs_as (topup_on (pg_ports (ps_uuid s) e) s e req) (topup_in_tx s e req)"
  unfolding topup_on_def pg_ports_fields case_prod_beta
  by (rule runs_as_eq, rule runs_as_steps, rule runs_as_steps, rule runs_as_steps, rule runs_as_steps, rule runs_as_steps,
      rule runs_as_lift)
    (simp add: topup_in_tx_def bindE_assoc Let_def case_prod_beta)

abbreviation pg_idle :: "db \<Rightarrow> pg_state" where
  "pg_idle d \<equiv> \<lparr>pg_db = d, pg_tx = None\<rparr>"

lemma in_transaction_pg:
  assumes "runs_as body f"
  shows "in_transaction (pg_ports U e) body (pg_idle d) =
    (case bindE (wrapE (\<lambda>err. InternalError (Wrapf ''begin tx'' err)) (Transactor_Begin (ev_fault e S_Begin) d)) f of
       Inl err \<Rightarrow> (Inl err, pg_idle d)
     | Inr (x, tx) \<Rightarrow>
         (case tx_Commit e tx d of
            (Inl err, d') \<Rightarrow> (Inl (InternalError (Wrapf ''commit tx'' err)), pg_idle d')
          | (Inr _, d') \<Rightarrow> (Inr x, pg_idle d')))"
proof (cases "Transactor_Begin (ev_fault e S_Begin) d")
  case (Inl err)
  then show ?thesis by (simp add: in_transaction_def wrapS_def pg_ports_def)
next
  case (Inr tx)
  let ?st = "\<lparr>pg_db = d, pg_tx = Some tx\<rparr>"
  have beg: "wrapS g (pp_Begin (pg_ports U e)) (pg_idle d) = (Inr (), ?st)" for g
    using Inr by (simp add: wrapS_Inr pg_ports_def)
  have commit: "pp_Commit (pg_ports U e) \<lparr>pg_db = d, pg_tx = Some t\<rparr> = (case tx_Commit e t d of (r, d') \<Rightarrow> (r, pg_idle d'))" for t
    by (simp add: pg_ports_def)
  have "pg_tx ?st = Some tx" by simp
  note body = assms [unfolded runs_as_def, rule_format, OF this]
  show ?thesis
  proof (cases "f tx")
    case (Inl err)
    with body beg show ?thesis by (auto simp: in_transaction_def Inr)
  next
    case f: (Inr p)
    then obtain x t1 where p: "f tx = Inr (x, t1)" by (cases p) simp
    with body have run: "body ?st = (Inr x, \<lparr>pg_db = d, pg_tx = Some t1\<rparr>)" by simp
    obtain cr d' where c: "tx_Commit e t1 d = (cr, d')" by fastforce
    have "bindS body (\<lambda>x. bindS (wrapS g (pp_Commit (pg_ports U e))) (\<lambda>_. liftS (Inr x))) ?st =
        (bindE (wrapE g cr) (\<lambda>_. Inr x), pg_idle d')" for g
      by (cases cr) (simp_all add: run bindS_def wrapS_def commit c liftS_def)
    then show ?thesis by (cases cr) (simp_all add: in_transaction_def beg Inr p c)
  qed
qed

lemma lookup_on_pg: "lookup_on (pg_ports U e) e r k (pg_idle d) = (idempotency_lookup e k \<lparr>wd_db = d, wd_redis = r\<rparr>, pg_idle d)"
proof -
  have "bindS (wrapS g (pp_Idemp_Get (pg_ports U e) k)) (\<lambda>l. liftS (Inr (map_option il_ResponseJSON l))) (pg_idle d) =
      (bindE (wrapE g (IdempotencyRepo_Get (ev_fault e S_Idemp_Get) k d)) (\<lambda>l. Inr (map_option il_ResponseJSON l)), pg_idle d)" for g
    by (cases "IdempotencyRepo_Get (ev_fault e S_Idemp_Get) k d") (simp_all add: bindS_def wrapS_def liftS_def)
  then show ?thesis
    by (simp add: lookup_on_def idempotency_lookup_def liftS_def split: sum.splits option.splits)
qed

lemma refund_checks_pg: "refund_checks_on (pg_ports U e) req (pg_idle d) = (refund_checks e req d, pg_idle d)"
proof -
  let ?ref = "TransactionRepo_GetByReference (ev_fault e S_Tx_GetByReference) (rq_MerchantID req) (rq_OriginalReferenceID req) d"
  show ?thesis
  proof (cases ?ref)
    case (Inr found)
    show ?thesis
    proof (cases found)
      case (Some t)
      then show ?thesis
        by (cases "IsRefundable t"; cases "TransactionRepo_CheckRefundExists (ev_fault e S_Tx_CheckRefundExists) (tx_ID t) d")
          (simp_all add: refund_checks_on_def refund_checks_def Inr bindS_def wrapS_def liftS_def)
    qed (simp add: refund_checks_on_def refund_checks_def Inr bindS_def wrapS_def liftS_def)
  qed (simp add: refund_checks_on_def refund_checks_def bindS_def wrapS_def)
qed

text \<open>The service over the PostgreSQL ports and the service of \<^theory_text>\<open>Payment_Service\<close> are the same.\<close>

definition pg_world :: "Transaction result \<times> world \<Rightarrow> Transaction result \<times> pg_state \<times> redis" where
  "pg_world x = (case x of (res, w) \<Rightarrow> (res, pg_idle (wd_db w), wd_redis w))"

lemma idempotent_on_pg:
  assumes run: "run (pg_idle d) = (case X of Inl err \<Rightarrow> (Inl err, pg_idle d)
      | Inr (txn, j, tx) \<Rightarrow> (case tx_Commit e tx d of
            (Inl err, d') \<Rightarrow> (Inl (InternalError (Wrapf ''commit tx'' err)), pg_idle d') | (Inr _, d') \<Rightarrow> (Inr (txn, j), pg_idle d')))"
  shows "idempotent_on (pg_ports U e) s e k run (pg_idle d, r) =
    pg_world (case idempotency_lookup e k \<lparr>wd_db = d, wd_redis = r\<rparr> of
        Inl err \<Rightarrow> (Inl err, \<lparr>wd_db = d, wd_redis = r\<rparr>)
      | Inr (Some data) \<Rightarrow> (unmarshalCachedTransaction s data, \<lparr>wd_db = d, wd_redis = r\<rparr>)
      | Inr None \<Rightarrow> (case X of Inl err \<Rightarrow> (Inl err, \<lparr>wd_db = d, wd_redis = r\<rparr>)
          | Inr (txn, j, tx) \<Rightarrow> commit_and_cache e k txn j tx \<lparr>wd_db = d, wd_redis = r\<rparr>))"
  by (auto simp: idempotent_on_def lookup_on_pg run pg_world_def commit_and_cache_def cache_response_def
      split: sum.splits option.splits prod.splits)

lemma in_transaction_pg3:
  assumes "runs_as body (\<lambda>t. bindE (F t) (\<lambda>(x, j, t'). Inr ((x, j), t')))"
  shows "in_transaction (pg_ports U e) body (pg_idle d) =
    (case bindE (wrapE (\<lambda>err. InternalError (Wrapf ''begin tx'' err)) (Transactor_Begin (ev_fault e S_Begin) d)) F of
       Inl err \<Rightarrow> (Inl err, pg_idle d)
     | Inr (x, j, tx) \<Rightarrow> (case tx_Commit e tx d of
            (Inl err, d') \<Rightarrow> (Inl (InternalError (Wrapf ''commit tx'' err)), pg_idle d') | (Inr _, d') \<Rightarrow> (Inr (x, j), pg_idle d')))"
  unfolding in_transaction_pg [OF assms]
  by (cases "Transactor_Begin (ev_fault e S_Begin) d"; cases "F (projr (Transactor_Begin (ev_fault e S_Begin) d))") (auto split: prod.splits)

lemma ProcessPayment_on_pg:
  "ProcessPayment_on (pg_ports (ps_uuid s) e) s e req (pg_idle d, r) = pg_world (ProcessPayment s e req \<lparr>wd_db = d, wd_redis = r\<rparr>)"
proof (cases "pq_Amount req \<le>s 0")
  case False
  let ?k = "BuildIdempotencyKey (ps_uuid s) (pq_MerchantID req) (pq_ReferenceID req)"
  have "in_transaction (pg_ports (ps_uuid s) e) (payment_on (pg_ports (ps_uuid s) e) s e req ?k) (pg_idle d) =
      (case bindE (wrapE (\<lambda>err. InternalError (Wrapf ''begin tx'' err)) (Transactor_Begin (ev_fault e S_Begin) d)) (payment_in_tx s e req ?k) of
         Inl err \<Rightarrow> (Inl err, pg_idle d)
       | Inr (x, j, tx) \<Rightarrow> (case tx_Commit e tx d of
            (Inl err, d') \<Rightarrow> (Inl (InternalError (Wrapf ''commit tx'' err)), pg_idle d') | (Inr _, d') \<Rightarrow> (Inr (x, j), pg_idle d')))"
    by (rule in_transaction_pg3 [OF payment_runs_as])
  note step = idempotent_on_pg [where run = "in_transaction (pg_ports (ps_uuid s) e) (payment_on (pg_ports (ps_uuid s) e) s e req ?k)", OF this]
  show ?thesis using False unfolding ProcessPayment_on_def ProcessPayment_def Let_def step world.select_convs by simp
qed (simp add: ProcessPayment_on_def ProcessPayment_def pg_world_def)

lemma ProcessRefund_on_pg:
  "ProcessRefund_on (pg_ports (ps_uuid s) e) s e req (pg_idle d, r) = pg_world (ProcessRefund s e req \<lparr>wd_db = d, wd_redis = r\<rparr>)"
proof -
  let ?k = "BuildRefundIdempotencyKey (ps_uuid s) (rq_MerchantID req) (rq_OriginalReferenceID req)"
  let ?run = "bindS (refund_checks_on (pg_ports (ps_uuid s) e) req) (\<lambda>(o1, am).
      in_transaction (pg_ports (ps_uuid s) e) (refund_on (pg_ports (ps_uuid s) e) s e req ?k o1 am))"
  let ?X = "bindE (refund_checks e req d) (\<lambda>(o1, am). bindE (wrapE (\<lambda>err. InternalError (Wrapf ''begin tx'' err))
      (Transactor_Begin (ev_fault e S_Begin) d)) (refund_in_tx s e req ?k o1 am))"
  have "?run (pg_idle d) = (case ?X of Inl err \<Rightarrow> (Inl err, pg_idle d)
      | Inr (txn, j, tx) \<Rightarrow> (case tx_Commit e tx d of
            (Inl err, d') \<Rightarrow> (Inl (InternalError (Wrapf ''commit tx'' err)), pg_idle d') | (Inr _, d') \<Rightarrow> (Inr (txn, j), pg_idle d')))"
    using in_transaction_pg3 [OF refund_runs_as]
    by (cases "refund_checks e req d") (auto simp: bindS_def refund_checks_pg split: prod.splits)
  note step = idempotent_on_pg [where run = ?run, OF this]
  show ?thesis unfolding ProcessRefund_on_def ProcessRefund_def Let_def step world.select_convs ..
qed

lemma ProcessTopup_on_pg:
  "ProcessTopup_on (pg_ports (ps_uuid s) e) s e req (pg_idle d, r) = pg_world (ProcessTopup s e req \<lparr>wd_db = d, wd_redis = r\<rparr>)"
  using in_transaction_pg [OF topup_runs_as]
  by (auto simp: ProcessTopup_on_def ProcessTopup_def pg_world_def split: sum.splits prod.splits)

lemma fund_op_on_pg:
  "fund_op_on (pg_ports (ps_uuid s) e) s e q (pg_idle d, r) = pg_world (fund_op s e q \<lparr>wd_db = d, wd_redis = r\<rparr>)"
  by (cases q) (simp_all add: fund_op_on_def fund_op_def ProcessPayment_on_pg ProcessRefund_on_pg ProcessTopup_on_pg)

section \<open>The contract\<close>

definition rows_by :: "('r \<Rightarrow> 'k) \<Rightarrow> ('r \<Rightarrow> 'r) \<Rightarrow> 'r list \<Rightarrow> 'k \<rightharpoonup> 'r" where
  "rows_by k view t i = map_option view (row_where (\<lambda>r. k r = i) t)"

definition db_store :: "db \<Rightarrow> store" where
  "db_store d = \<lparr>st_wallets = rows_by w_ID wallet_view (wallets d), st_txs = rows_by tx_ID tx_view (transactions d),
     st_logs = rows_by il_Key id (idempotency_logs d)\<rparr>"

definition keys_ok :: "db \<Rightarrow> bool" where
  "keys_ok d \<longleftrightarrow> distinct (map w_ID (wallets d)) \<and> distinct (map tx_ID (transactions d)) \<and> distinct (map il_Key (idempotency_logs d))"

definition pg_abs :: "pg_state \<Rightarrow> store" where
  "pg_abs st = db_store (case pg_tx st of None \<Rightarrow> pg_db st | Some t \<Rightarrow> t)"

definition pg_idle_ok :: "pg_state \<Rightarrow> bool" where
  "pg_idle_ok st \<longleftrightarrow> pg_tx st = None \<and> keys_ok (pg_db st)"

definition pg_active_ok :: "pg_state \<Rightarrow> bool" where
  "pg_active_ok st \<longleftrightarrow> (\<exists>t. pg_tx st = Some t \<and> keys_ok t)"

lemma ran_rows_by:
  assumes "distinct (map k t)"
  shows "ran (rows_by k view t) = view ` set t"
proof -
  have "rows_by k view t i = Some v \<longleftrightarrow> (\<exists>r \<in> set t. k r = i \<and> v = view r)" for i v
    using assms row_where_key [OF assms] by (auto simp: rows_by_def dest!: row_where_Some)
  then show ?thesis by (auto simp: ran_def)
qed

lemma rows_by_key: "distinct (map k t) \<Longrightarrow> r \<in> set t \<Longrightarrow> rows_by k view t (k r) = Some (view r)"
  by (simp add: rows_by_def row_where_key)

lemma rows_by_answers:
  assumes "distinct (map k t)" and "\<And>r. Q (view r) = Q' r"
  shows "answers Q k view (rows_by k view t) (row_where Q' t)"
proof (cases "row_where Q' t")
  case None
  then have "\<forall>r \<in> set t. \<not> Q' r" by (simp add: row_where_None)
  then show ?thesis using assms by (auto simp: answers_def None ran_rows_by)
next
  case (Some r)
  with row_where_Some [OF Some] show ?thesis using assms by (simp add: answers_def rows_by_key)
qed

lemma rows_by_append:
  assumes "k r \<notin> k ` set t"
  shows "rows_by k view (t @ [r]) = (rows_by k view t)(k r \<mapsto> view r)"
proof
  fix i
  have "row_where (\<lambda>x. k x = k r) t = None" using assms by (auto simp: row_where_None image_iff)
  then show "rows_by k view (t @ [r]) i = ((rows_by k view t)(k r \<mapsto> view r)) i"
    by (cases "i = k r") (auto simp: rows_by_def row_where_append split: option.split)
qed

lemma rows_by_update:
  assumes "\<And>r. k (f r) = k r" and "\<And>r. view (f r) = g (view r)"
  shows "rows_by k view (rows_update (\<lambda>r. k r = i) f t) = (rows_by k view t)(i := map_option g (rows_by k view t i))"
proof
  fix j
  have "row_where (\<lambda>r. k r = j) (rows_update (\<lambda>r. k r = i) f t) =
      map_option (\<lambda>r. if k r = i then f r else r) (row_where (\<lambda>r. k r = j) t)"
    by (rule row_where_rows_update) (simp add: assms(1))
  then show "rows_by k view (rows_update (\<lambda>r. k r = i) f t) j = ((rows_by k view t)(i := map_option g (rows_by k view t i))) j"
    by (cases "row_where (\<lambda>r. k r = j) t") (auto simp: rows_by_def assms(2) dest: row_where_Some)
qed

lemma dom_rows_by: "i \<in> k ` set t \<Longrightarrow> i \<in> dom (rows_by k view t)"
  by (auto simp: rows_by_def dom_def row_where_None domIff)

lemma tx_query_Inr: "tx_query f st = (Inr x, st') \<longleftrightarrow> st' = st \<and> (\<exists>t. pg_tx st = Some t \<and> f t = Inr x)"
  by (cases "pg_tx st"; cases "f (the (pg_tx st))") (auto simp: tx_query_def tx_call_def)

lemma tx_exec_Inr: "tx_exec f st = (Inr u, st') \<longleftrightarrow> (\<exists>t t'. pg_tx st = Some t \<and> f t = Inr t' \<and> st' = st\<lparr>pg_tx := Some t'\<rparr>)"
  by (cases "pg_tx st"; cases "f (the (pg_tx st))") (auto simp: tx_exec_def tx_call_def)

lemma pg_idle_db: "pg_idle_ok s \<Longrightarrow> pg_abs s = db_store (pg_db s) \<and> keys_ok (pg_db s)"
  by (simp add: pg_idle_ok_def pg_abs_def)

lemma pg_query:
  assumes "pg_active_ok s" and "tx_query f s = (Inr x, s1)"
  obtains t where "s1 = s" "f t = Inr x" "keys_ok t" "pg_abs s = db_store t"
  using assms by (auto simp: pg_active_ok_def pg_abs_def tx_query_Inr)

lemma pg_exec:
  assumes "pg_active_ok s" and "tx_exec f s = (Inr u, s1)"
  obtains t t' where "f t = Inr t'" "keys_ok t" "pg_abs s = db_store t" "pg_abs s1 = db_store t'" "keys_ok t' \<Longrightarrow> pg_active_ok s1"
  using assms by (auto simp: pg_active_ok_def pg_abs_def tx_exec_Inr)

text \<open>Each statement in terms of the stored rows.\<close>

lemma UpdateBalance_store:
  assumes "WalletRepo_UpdateBalance U f n i c t = Inr t'" and "keys_ok t"
  shows "keys_ok t' \<and> i \<in> dom (st_wallets (db_store t)) \<and> db_store t' = (db_store t)\<lparr>st_wallets :=
    (st_wallets (db_store t))(i := map_option (w_EncryptedBalance_update (\<lambda>_. c)) (st_wallets (db_store t) i))\<rparr>"
  using UpdateBalance_Inr [OF assms(1)] assms(2)
    rows_by_update [of w_ID "\<lambda>w. w\<lparr>w_EncryptedBalance := c, w_UpdatedAt := n\<rparr>" wallet_view "w_EncryptedBalance_update (\<lambda>_. c)" i "wallets t"]
  by (simp add: db_store_def keys_ok_def map_rows_update dom_rows_by wallet_view_def)

lemma UpdateStatus_store:
  assumes "TransactionRepo_UpdateStatus U f n i x t = Inr t'" and "keys_ok t"
  shows "keys_ok t' \<and> i \<in> dom (st_txs (db_store t)) \<and> db_store t' = (db_store t)\<lparr>st_txs :=
    (st_txs (db_store t))(i := map_option (tx_Status_update (\<lambda>_. x)) (st_txs (db_store t) i))\<rparr>"
  using UpdateStatus_Inr [OF assms(1)] assms(2)
    rows_by_update [of tx_ID "\<lambda>t. t\<lparr>tx_Status := x, tx_ProcessedAt := Some n\<rparr>" tx_view "tx_Status_update (\<lambda>_. x)" i "transactions t"]
  by (simp add: db_store_def keys_ok_def map_rows_update dom_rows_by tx_view_def)

lemma TxCreate_store:
  assumes "TransactionRepo_Create f x t = Inr t'" and "keys_ok t"
  shows "keys_ok t' \<and> db_store t' = (db_store t)\<lparr>st_txs := (st_txs (db_store t))(tx_ID x \<mapsto> tx_view x)\<rparr>"
proof -
  have new: "tx_ID x \<notin> tx_ID ` set (transactions t)" using TxCreate_Inr(2) [OF assms(1)] by (simp add: transactions_constraints_def)
  from rows_by_append [of tx_ID, OF new] TxCreate_Inr(1) [OF assms(1)] assms(2) new show ?thesis
    by (simp add: db_store_def keys_ok_def)
qed

lemma IdempCreate_store:
  assumes "IdempotencyRepo_Create f l t = Inr t'" and "keys_ok t"
  shows "keys_ok t' \<and> db_store t' = (db_store t)\<lparr>st_logs := (st_logs (db_store t))(il_Key l \<mapsto> l)\<rparr>"
proof -
  have new: "il_Key l \<notin> il_Key ` set (idempotency_logs t)" using IdempCreate_Inr(2) [OF assms(1)] by (simp add: idempotency_constraints_def)
  from rows_by_append [of il_Key, OF new, of id] IdempCreate_Inr(1) [OF assms(1)] assms(2) new show ?thesis
    by (simp add: db_store_def keys_ok_def)
qed

interpretation pg: payment_repository "pg_ports U e" pg_abs pg_idle_ok pg_active_ok for U e
proof
  fix s s1 :: pg_state
  show "pg_idle_ok s \<Longrightarrow> pp_Begin (pg_ports U e) s = (Inr u, s1) \<Longrightarrow> pg_active_ok s1 \<and> pg_abs s1 = pg_abs s \<and>
      pg_idle_ok (pp_Rollback (pg_ports U e) s1) \<and> pg_abs (pp_Rollback (pg_ports U e) s1) = pg_abs s" for u
    by (auto simp: pg_ports_def Transactor_Begin_def pg_idle_ok_def pg_active_ok_def pg_abs_def res_simps split: sum.splits)
  show "pg_active_ok s \<Longrightarrow> pp_Commit (pg_ports U e) s = (Inr u, s1) \<Longrightarrow> pg_idle_ok s1 \<and> pg_abs s1 = pg_abs s \<and> pp_Rollback (pg_ports U e) s1 = s1" for u
    by (auto simp: pg_ports_def tx_Commit_def pg_idle_ok_def pg_active_ok_def pg_abs_def split: option.splits)
  show "pg_idle_ok s \<Longrightarrow> pp_Idemp_Get (pg_ports U e) k s = (Inr lo, s1) \<Longrightarrow> s1 = s \<and> lo = st_logs (pg_abs s) k" for k lo
    by (auto simp: IdempotencyRepo_Get_def res_simps db_store_def rows_by_def option.map_id dest!: pg_idle_db)
  show "pg_idle_ok s \<Longrightarrow> pp_Tx_GetByReference (pg_ports U e) m r s = (Inr tt, s1) \<Longrightarrow>
      s1 = s \<and> answers (referenced m r) tx_ID tx_view (st_txs (pg_abs s)) tt" for m r tt
    by (auto simp: TransactionRepo_GetByReference_def res_simps db_store_def referenced_def keys_ok_def
        intro!: rows_by_answers dest!: pg_idle_db)
  show "pg_idle_ok s \<Longrightarrow> pp_Tx_CheckRefundExists (pg_ports U e) i s = (Inr b, s1) \<Longrightarrow> s1 = s \<and>
      ((\<forall>t \<in> ran (st_txs (pg_abs s)). tx_Status t \<noteq> TransactionStatusFailed) \<longrightarrow> b = (\<exists>t \<in> ran (st_txs (pg_abs s)). is_live_refund_of i t))" for i b
    by (auto simp: TransactionRepo_CheckRefundExists_def res_simps db_store_def keys_ok_def ran_rows_by list_ex_iff is_live_refund_of_def
        dest!: pg_idle_db)
  show "pg_active_ok s \<Longrightarrow> pp_Wallet_GetByMerchantIDForUpdate (pg_ports U e) m c s = (Inr w, s1) \<Longrightarrow>
      s1 = s \<and> answers (wallet_of m c) w_ID wallet_view (st_wallets (pg_abs s)) w" for m c w
    by (auto simp: WalletRepo_GetByMerchantIDForUpdate_def res_simps db_store_def wallet_of_def keys_ok_def
        intro!: rows_by_answers elim!: pg_query)
  show "pg_active_ok s \<Longrightarrow> pp_Wallet_GetByIDForUpdate (pg_ports U e) i s = (Inr w, s1) \<Longrightarrow>
      s1 = s \<and> map_option wallet_view w = st_wallets (pg_abs s) i" for i w
    by (auto simp: WalletRepo_GetByIDForUpdate_def res_simps db_store_def rows_by_def elim!: pg_query)
  show "pg_active_ok s \<Longrightarrow> pp_Wallet_UpdateBalance (pg_ports U e) i c s = (Inr u, s1) \<Longrightarrow> pg_active_ok s1 \<and> i \<in> dom (st_wallets (pg_abs s)) \<and>
      pg_abs s1 = (pg_abs s)\<lparr>st_wallets := (st_wallets (pg_abs s))(i := map_option (w_EncryptedBalance_update (\<lambda>_. c)) (st_wallets (pg_abs s) i))\<rparr>" for i c u
    by (simp, erule (1) pg_exec) (use UpdateBalance_store in metis)
  show "pg_active_ok s \<Longrightarrow> pp_Tx_Create (pg_ports U e) t s = (Inr u, s1) \<Longrightarrow> pg_active_ok s1 \<and>
      pg_abs s1 = (pg_abs s)\<lparr>st_txs := (st_txs (pg_abs s))(tx_ID t \<mapsto> tx_view t)\<rparr>" for t u
    by (simp, erule (1) pg_exec) (use TxCreate_store in metis)
  show "pg_active_ok s \<Longrightarrow> pp_Tx_UpdateStatus (pg_ports U e) i x s = (Inr u, s1) \<Longrightarrow> pg_active_ok s1 \<and> i \<in> dom (st_txs (pg_abs s)) \<and>
      pg_abs s1 = (pg_abs s)\<lparr>st_txs := (st_txs (pg_abs s))(i := map_option (tx_Status_update (\<lambda>_. x)) (st_txs (pg_abs s) i))\<rparr>" for i x u
    by (simp, erule (1) pg_exec) (use UpdateStatus_store in metis)
  show "pg_active_ok s \<Longrightarrow> pp_Idemp_Create (pg_ports U e) l s = (Inr u, s1) \<Longrightarrow> pg_active_ok s1 \<and>
      pg_abs s1 = (pg_abs s)\<lparr>st_logs := (st_logs (pg_abs s))(il_Key l \<mapsto> l)\<rparr>" for l u
    by (simp, erule (1) pg_exec) (use IdempCreate_store in metis)
qed

end
