(* ===== verification/Inmemory_Repos.thy ===== *)
theory Inmemory_Repos
  imports Port_Contracts
begin

text \<open>
  tests/integration/inmemory_repos.go: the repositories on which the integration tests run the
  gateway instead of PostgreSQL. A repository is a Go map from keys to rows behind a mutex; every
  operation holds the mutex for its whole length, so it is one step.

  A map holds pointers to rows. \<^verbatim>\<open>Create\<close> and \<^verbatim>\<open>Update\<close> keep the pointer of their caller and the queries
  return copies. The services do not write to a row that they have handed over, so the model keeps the
  row that the pointer refers to at the time of the call.

  A \<^verbatim>\<open>range\<close> loop visits every entry of a map once, in an order that the language leaves open and that
  changes from loop to loop: a loop takes the order of its keys as an argument. \<open>range_of\<close> states what
  the language promises.
\<close>

section \<open>Go maps\<close>

definition range_of :: "'k list \<Rightarrow> ('k \<rightharpoonup> 'v) \<Rightarrow> bool" where
  "range_of ks m \<longleftrightarrow> distinct ks \<and> set ks = dom m"

definition range_values :: "'k list \<Rightarrow> ('k \<rightharpoonup> 'v) \<Rightarrow> 'v list" where
  "range_values ks m = List.map_filter m ks"

lemma set_range_values: "range_of ks m \<Longrightarrow> set (range_values ks m) = ran m"
  by (force simp: range_of_def range_values_def map_filter_def ran_def)

section \<open>Merchants\<close>

record inMemoryMerchantRepo =
  mm_merchants :: "uuid \<rightharpoonup> Merchant"

definition newInMemoryMerchantRepo :: inMemoryMerchantRepo where
  "newInMemoryMerchantRepo = \<lparr>mm_merchants = Map.empty\<rparr>"

definition memMerchant_Create :: "uuid list \<Rightarrow> Merchant \<Rightarrow> inMemoryMerchantRepo \<Rightarrow> inMemoryMerchantRepo result" where
  "memMerchant_Create ks m r =
     (if list_ex (\<lambda>existing. m_Username existing = m_Username m) (range_values ks (mm_merchants r))
      then Inl (Plain ''username already exists'')
      else Inr (r\<lparr>mm_merchants := (mm_merchants r)(m_ID m \<mapsto> m)\<rparr>))"

definition memMerchant_GetByID :: "uuid \<Rightarrow> inMemoryMerchantRepo \<Rightarrow> Merchant option result" where
  "memMerchant_GetByID i r = Inr (mm_merchants r i)"

definition memMerchant_GetByAccessKey :: "uuid list \<Rightarrow> string \<Rightarrow> inMemoryMerchantRepo \<Rightarrow> Merchant option result" where
  "memMerchant_GetByAccessKey ks k r = Inr (find (\<lambda>m. m_AccessKey m = k) (range_values ks (mm_merchants r)))"

definition memMerchant_GetByUsername :: "uuid list \<Rightarrow> string \<Rightarrow> inMemoryMerchantRepo \<Rightarrow> Merchant option result" where
  "memMerchant_GetByUsername ks u r = Inr (find (\<lambda>m. m_Username m = u) (range_values ks (mm_merchants r)))"

definition memMerchant_Update :: "Merchant \<Rightarrow> inMemoryMerchantRepo \<Rightarrow> inMemoryMerchantRepo result" where
  "memMerchant_Update m r =
     (if mm_merchants r (m_ID m) = None then Inl (Plain ''merchant not found'')
      else Inr (r\<lparr>mm_merchants := (mm_merchants r)(m_ID m \<mapsto> m)\<rparr>))"

section \<open>Wallets\<close>

record inMemoryWalletRepo =
  mw_wallets :: "uuid \<rightharpoonup> Wallet"

definition newInMemoryWalletRepo :: inMemoryWalletRepo where
  "newInMemoryWalletRepo = \<lparr>mw_wallets = Map.empty\<rparr>"

definition memWallet_Create :: "Wallet \<Rightarrow> inMemoryWalletRepo \<Rightarrow> inMemoryWalletRepo result" where
  "memWallet_Create w r = Inr (r\<lparr>mw_wallets := (mw_wallets r)(w_ID w \<mapsto> w)\<rparr>)"

definition memWallet_GetByID :: "uuid \<Rightarrow> inMemoryWalletRepo \<Rightarrow> Wallet option result" where
  "memWallet_GetByID i r = Inr (mw_wallets r i)"

definition memWallet_GetByMerchantID :: "uuid list \<Rightarrow> uuid \<Rightarrow> string \<Rightarrow> inMemoryWalletRepo \<Rightarrow> Wallet option result" where
  "memWallet_GetByMerchantID ks m c r =
     Inr (find (\<lambda>w. w_MerchantID w = m \<and> w_Currency w = c) (range_values ks (mw_wallets r)))"

definition memWallet_GetByMerchantIDForUpdate :: "uuid list \<Rightarrow> uuid \<Rightarrow> string \<Rightarrow> inMemoryWalletRepo \<Rightarrow> Wallet option result" where
  "memWallet_GetByMerchantIDForUpdate ks m c r = memWallet_GetByMerchantID ks m c r"

definition memWallet_GetByIDForUpdate :: "uuid \<Rightarrow> inMemoryWalletRepo \<Rightarrow> Wallet option result" where
  "memWallet_GetByIDForUpdate i r = memWallet_GetByID i r"

definition memWallet_UpdateBalance :: "uuid \<Rightarrow> string \<Rightarrow> inMemoryWalletRepo \<Rightarrow> inMemoryWalletRepo result" where
  "memWallet_UpdateBalance walletID encryptedBalance r =
     (case mw_wallets r walletID of
        None \<Rightarrow> Inl (Plain ''wallet not found'')
      | Some w \<Rightarrow> Inr (r\<lparr>mw_wallets := (mw_wallets r)(walletID \<mapsto> w\<lparr>w_EncryptedBalance := encryptedBalance\<rparr>)\<rparr>))"

section \<open>Transactions\<close>

record inMemoryTransactionRepo =
  mt_transactions :: "uuid \<rightharpoonup> Transaction"

definition newInMemoryTransactionRepo :: inMemoryTransactionRepo where
  "newInMemoryTransactionRepo = \<lparr>mt_transactions = Map.empty\<rparr>"

definition memTx_Create :: "Transaction \<Rightarrow> inMemoryTransactionRepo \<Rightarrow> inMemoryTransactionRepo result" where
  "memTx_Create t r = Inr (r\<lparr>mt_transactions := (mt_transactions r)(tx_ID t \<mapsto> t)\<rparr>)"

definition memTx_GetByID :: "uuid \<Rightarrow> inMemoryTransactionRepo \<Rightarrow> Transaction option result" where
  "memTx_GetByID i r = Inr (mt_transactions r i)"

definition memTx_GetByReference :: "uuid list \<Rightarrow> uuid \<Rightarrow> string \<Rightarrow> inMemoryTransactionRepo \<Rightarrow> Transaction option result" where
  "memTx_GetByReference ks m ref r =
     Inr (find (\<lambda>t. tx_MerchantID t = m \<and> tx_ReferenceID t = ref) (range_values ks (mt_transactions r)))"

definition memTx_UpdateStatus :: "uuid \<Rightarrow> TransactionStatus \<Rightarrow> inMemoryTransactionRepo \<Rightarrow> inMemoryTransactionRepo result" where
  "memTx_UpdateStatus i status r =
     (case mt_transactions r i of
        None \<Rightarrow> Inl (Plain ''transaction not found'')
      | Some t \<Rightarrow> Inr (r\<lparr>mt_transactions := (mt_transactions r)(i \<mapsto> t\<lparr>tx_Status := status\<rparr>)\<rparr>))"

definition memTx_CheckRefundExists :: "uuid list \<Rightarrow> uuid \<Rightarrow> inMemoryTransactionRepo \<Rightarrow> bool result" where
  "memTx_CheckRefundExists ks originalTxID r =
     Inr (list_ex (\<lambda>t. tx_OriginalTransactionID t = Some originalTxID \<and> tx_TransactionType t = TransactionTypeRefund)
            (range_values ks (mt_transactions r)))"

text \<open>
  \<^verbatim>\<open>List\<close> filters by merchant, status and type only, in the order of the loop. Slicing panics when a bound
  is negative or the upper bound is below the lower one: \<open>None\<close>.
\<close>

definition memTx_matches :: "TransactionListParams \<Rightarrow> Transaction \<Rightarrow> bool" where
  "memTx_matches p t \<longleftrightarrow> tx_MerchantID t = lp_MerchantID p \<and>
     (case lp_Status p of None \<Rightarrow> True | Some st \<Rightarrow> tx_Status t = st) \<and>
     (case lp_Type p of None \<Rightarrow> True | Some ty \<Rightarrow> tx_TransactionType t = ty)"

definition memTx_List ::
    "uuid list \<Rightarrow> TransactionListParams \<Rightarrow> inMemoryTransactionRepo \<Rightarrow> (Transaction list \<times> int64) result option" where
  "memTx_List ks p r =
     (let res = filter (memTx_matches p) (range_values ks (mt_transactions r));
          len = of_nat (length res) :: int64;
          start = (lp_Page p - 1) * lp_PageSize p
      in if len \<le>s start then Some (Inr ([], len))
         else let end0 = start + lp_PageSize p;
                  end1 = (if len <s end0 then len else end0)
         in if start <s 0 \<or> end1 <s start then None
            else Some (Inr (take (nat (sint end1 - sint start)) (drop (nat (sint start)) res), len)))"

definition memTx_count :: "TransactionStats \<Rightarrow> Transaction \<Rightarrow> TransactionStats" where
  "memTx_count s0 t =
     (let s1 = s0\<lparr>TotalTransactions := TotalTransactions s0 + 1\<rparr>;
          s2 = (if tx_Status t = TransactionStatusSuccess then s1\<lparr>Successful := Successful s1 + 1\<rparr>
                else if tx_Status t = TransactionStatusFailed then s1\<lparr>Failed := Failed s1 + 1\<rparr>
                else if tx_Status t = TransactionStatusReversed then s1\<lparr>Reversed := Reversed s1 + 1\<rparr> else s1)
      in if tx_Status t \<noteq> TransactionStatusSuccess then s2
         else if tx_TransactionType t = TransactionTypePayment then s2\<lparr>TotalRevenue := TotalRevenue s2 + tx_Amount t\<rparr>
         else if tx_TransactionType t = TransactionTypeRefund then s2\<lparr>TotalRefunded := TotalRefunded s2 + tx_Amount t\<rparr>
         else if tx_TransactionType t = TransactionTypeTopup then s2\<lparr>TotalTopup := TotalTopup s2 + tx_Amount t\<rparr> else s2)"

definition no_stats :: TransactionStats where
  "no_stats = \<lparr>TotalTransactions = 0, Successful = 0, Failed = 0, Reversed = 0, TotalRevenue = 0, TotalRefunded = 0, TotalTopup = 0\<rparr>"

definition memTx_GetStats :: "uuid list \<Rightarrow> uuid \<Rightarrow> int64 option \<Rightarrow> inMemoryTransactionRepo \<Rightarrow> TransactionStats result" where
  "memTx_GetStats ks m periodStart r =
     Inr (foldl (\<lambda>stats t.
            if tx_MerchantID t \<noteq> m then stats
            else if (case periodStart of None \<Rightarrow> False | Some v \<Rightarrow> Unix (tx_CreatedAt t) < sint v) then stats
            else memTx_count stats t) no_stats (range_values ks (mt_transactions r)))"

section \<open>Idempotency logs\<close>

record inMemoryIdempotencyRepo =
  ml_logs :: "string \<rightharpoonup> IdempotencyLog"

definition newInMemoryIdempotencyRepo :: inMemoryIdempotencyRepo where
  "newInMemoryIdempotencyRepo = \<lparr>ml_logs = Map.empty\<rparr>"

definition memIdemp_Create :: "IdempotencyLog \<Rightarrow> inMemoryIdempotencyRepo \<Rightarrow> inMemoryIdempotencyRepo result" where
  "memIdemp_Create l r = Inr (r\<lparr>ml_logs := (ml_logs r)(il_Key l \<mapsto> l)\<rparr>)"

definition memIdemp_Get :: "string \<Rightarrow> inMemoryIdempotencyRepo \<Rightarrow> IdempotencyLog option result" where
  "memIdemp_Get k r = Inr (ml_logs r k)"

section \<open>The repositories together\<close>

record memory =
  me_merchants :: inMemoryMerchantRepo
  me_wallets :: inMemoryWalletRepo
  me_transactions :: inMemoryTransactionRepo
  me_logs :: inMemoryIdempotencyRepo

definition new_memory :: memory where
  "new_memory = \<lparr>me_merchants = newInMemoryMerchantRepo, me_wallets = newInMemoryWalletRepo,
     me_transactions = newInMemoryTransactionRepo, me_logs = newInMemoryIdempotencyRepo\<rparr>"

text \<open>A transaction is a \<open>noopTx\<close>: neither \<^verbatim>\<open>Begin\<close>, \<^verbatim>\<open>Commit\<close> nor \<^verbatim>\<open>Rollback\<close> does anything.\<close>

definition inMemoryTransactor_Begin :: "(memory, unit) call" where
  "inMemoryTransactor_Begin m = (Inr (), m)"

definition noopTx_Commit :: "(memory, unit) call" where
  "noopTx_Commit m = (Inr (), m)"

definition noopTx_Rollback :: "memory \<Rightarrow> memory" where
  "noopTx_Rollback m = m"

text \<open>
  The ports of the payment service. \<open>ro n K\<close> is the order in which the \<open>n\<close>-th kind of loop of the call runs
  through the keys \<open>K\<close>.
\<close>

type_synonym range_orders = "nat \<Rightarrow> uuid set \<Rightarrow> uuid list"

definition mem_ports :: "range_orders \<Rightarrow> memory payment_ports" where
  "mem_ports ro =
     \<lparr>pp_Begin = inMemoryTransactor_Begin, pp_Commit = noopTx_Commit, pp_Rollback = noopTx_Rollback,
      pp_Wallet_GetByMerchantIDForUpdate = (\<lambda>m c s.
        (memWallet_GetByMerchantIDForUpdate (ro 0 (dom (mw_wallets (me_wallets s)))) m c (me_wallets s), s)),
      pp_Wallet_GetByIDForUpdate = (\<lambda>i s. (memWallet_GetByIDForUpdate i (me_wallets s), s)),
      pp_Wallet_UpdateBalance = (\<lambda>i c s. case memWallet_UpdateBalance i c (me_wallets s) of
        Inl err \<Rightarrow> (Inl err, s) | Inr r \<Rightarrow> (Inr (), s\<lparr>me_wallets := r\<rparr>)),
      pp_Tx_Create = (\<lambda>t s. case memTx_Create t (me_transactions s) of
        Inl err \<Rightarrow> (Inl err, s) | Inr r \<Rightarrow> (Inr (), s\<lparr>me_transactions := r\<rparr>)),
      pp_Tx_GetByReference = (\<lambda>m ref s.
        (memTx_GetByReference (ro 1 (dom (mt_transactions (me_transactions s)))) m ref (me_transactions s), s)),
      pp_Tx_UpdateStatus = (\<lambda>i x s. case memTx_UpdateStatus i x (me_transactions s) of
        Inl err \<Rightarrow> (Inl err, s) | Inr r \<Rightarrow> (Inr (), s\<lparr>me_transactions := r\<rparr>)),
      pp_Tx_CheckRefundExists = (\<lambda>i s.
        (memTx_CheckRefundExists (ro 2 (dom (mt_transactions (me_transactions s)))) i (me_transactions s), s)),
      pp_Idemp_Create = (\<lambda>l s. case memIdemp_Create l (me_logs s) of
        Inl err \<Rightarrow> (Inl err, s) | Inr r \<Rightarrow> (Inr (), s\<lparr>me_logs := r\<rparr>)),
      pp_Idemp_Get = (\<lambda>k s. (memIdemp_Get k (me_logs s), s))\<rparr>"

section \<open>The contract\<close>

text \<open>
  The invariant of the repositories: maps are finite and a row is stored under its own key.
\<close>

definition keyed :: "('r \<Rightarrow> 'k) \<Rightarrow> ('k \<rightharpoonup> 'r) \<Rightarrow> bool" where
  "keyed k m \<longleftrightarrow> finite (dom m) \<and> (\<forall>i r. m i = Some r \<longrightarrow> k r = i)"

definition mem_ok :: "memory \<Rightarrow> bool" where
  "mem_ok s \<longleftrightarrow> keyed m_ID (mm_merchants (me_merchants s)) \<and> keyed w_ID (mw_wallets (me_wallets s)) \<and>
     keyed tx_ID (mt_transactions (me_transactions s)) \<and> keyed il_Key (ml_logs (me_logs s))"

definition mem_store :: "memory \<Rightarrow> store" where
  "mem_store s = \<lparr>st_wallets = map_option wallet_view \<circ> mw_wallets (me_wallets s),
     st_txs = map_option tx_view \<circ> mt_transactions (me_transactions s), st_logs = ml_logs (me_logs s)\<rparr>"

text \<open>What Go promises of the orders of loops.\<close>

definition ranges :: "range_orders \<Rightarrow> bool" where
  "ranges ro \<longleftrightarrow> (\<forall>n K. finite K \<longrightarrow> distinct (ro n K) \<and> set (ro n K) = K)"

lemma ranges_range_of: "ranges ro \<Longrightarrow> keyed k m \<Longrightarrow> range_of (ro n (dom m)) m"
  by (simp add: ranges_def range_of_def keyed_def)

lemma keyed_update [simp]: "keyed k m \<Longrightarrow> k r = i \<Longrightarrow> keyed k (m(i \<mapsto> r))"
  by (auto simp: keyed_def)

lemma find_answers:
  assumes "range_of ks m" and "keyed k m" and "\<And>r. Q (view r) = Q' r"
  shows "answers Q k view (map_option view \<circ> m) (find Q' (range_values ks m))"
proof (cases "find Q' (range_values ks m)")
  case None
  then have "\<forall>r \<in> ran m. \<not> Q' r" using set_range_values [OF assms(1)] by (auto simp: find_None_iff)
  then show ?thesis using assms(3) by (auto simp: answers_def None ran_def)
next
  case (Some r)
  then have "r \<in> ran m" "Q' r" using set_range_values [OF assms(1)] by (auto simp: find_Some_iff)
  then show ?thesis using assms(2,3) by (auto simp: answers_def Some keyed_def ran_def)
qed

lemma mem_ok_fields:
  assumes "mem_ok s"
  shows "keyed w_ID (mw_wallets (me_wallets s))" "keyed tx_ID (mt_transactions (me_transactions s))"
  using assms by (simp_all add: mem_ok_def)

lemma mem_reliable:
  assumes "ranges ro"
  shows "reliable_repository (mem_ports ro) mem_store mem_ok mem_ok"
proof
  fix s s1 :: memory
  let ?w = "mw_wallets (me_wallets s)" and ?t = "mt_transactions (me_transactions s)"
  show "mem_ok s \<Longrightarrow> pp_Begin (mem_ports ro) s = (Inr u, s1) \<Longrightarrow> mem_ok s1 \<and> mem_store s1 = mem_store s \<and>
      mem_ok (pp_Rollback (mem_ports ro) s1) \<and> mem_store (pp_Rollback (mem_ports ro) s1) = mem_store s" for u
    by (simp add: mem_ports_def inMemoryTransactor_Begin_def noopTx_Rollback_def)
  show "mem_ok s \<Longrightarrow> pp_Commit (mem_ports ro) s = (Inr u, s1) \<Longrightarrow>
      mem_ok s1 \<and> mem_store s1 = mem_store s \<and> pp_Rollback (mem_ports ro) s1 = s1" for u
    by (simp add: mem_ports_def noopTx_Commit_def noopTx_Rollback_def)
  show "mem_ok s \<Longrightarrow> pp_Idemp_Get (mem_ports ro) k s = (Inr lo, s1) \<Longrightarrow> s1 = s \<and> lo = st_logs (mem_store s) k" for k lo
    by (auto simp: mem_ports_def memIdemp_Get_def mem_store_def)
  show "mem_ok s \<Longrightarrow> pp_Tx_GetByReference (mem_ports ro) m r s = (Inr tt, s1) \<Longrightarrow>
      s1 = s \<and> answers (referenced m r) tx_ID tx_view (st_txs (mem_store s)) tt" for m r tt
    using ranges_range_of [OF assms, of tx_ID ?t 1] mem_ok_fields(2) [of s]
    by (auto simp: mem_ports_def memTx_GetByReference_def mem_store_def referenced_def intro!: find_answers)
  show "mem_ok s \<Longrightarrow> pp_Tx_CheckRefundExists (mem_ports ro) i s = (Inr b, s1) \<Longrightarrow> s1 = s \<and>
      ((\<forall>t \<in> ran (st_txs (mem_store s)). tx_Status t \<noteq> TransactionStatusFailed) \<longrightarrow> b = (\<exists>t \<in> ran (st_txs (mem_store s)). is_live_refund_of i t))" for i b
  proof goal_cases
    case 1
    have "ran (st_txs (mem_store s)) = tx_view ` set (range_values (ro 2 (dom ?t)) ?t)"
      using set_range_values [OF ranges_range_of [OF assms mem_ok_fields(2) [OF 1(1)]]] by (auto simp: mem_store_def ran_def)
    with 1 show ?case by (auto simp: mem_ports_def memTx_CheckRefundExists_def list_ex_iff is_live_refund_of_def)
  qed
  show "mem_ok s \<Longrightarrow> pp_Wallet_GetByMerchantIDForUpdate (mem_ports ro) m c s = (Inr w, s1) \<Longrightarrow>
      s1 = s \<and> answers (wallet_of m c) w_ID wallet_view (st_wallets (mem_store s)) w" for m c w
    using ranges_range_of [OF assms, of w_ID ?w 0] mem_ok_fields(1) [of s]
    by (auto simp: mem_ports_def memWallet_GetByMerchantIDForUpdate_def memWallet_GetByMerchantID_def mem_store_def wallet_of_def
        intro!: find_answers)
  show "mem_ok s \<Longrightarrow> pp_Wallet_GetByIDForUpdate (mem_ports ro) i s = (Inr w, s1) \<Longrightarrow>
      s1 = s \<and> map_option wallet_view w = st_wallets (mem_store s) i" for i w
    by (auto simp: mem_ports_def memWallet_GetByIDForUpdate_def memWallet_GetByID_def mem_store_def)
  show "mem_ok s \<Longrightarrow> pp_Wallet_UpdateBalance (mem_ports ro) i c s = (Inr u, s1) \<Longrightarrow> mem_ok s1 \<and> i \<in> dom (st_wallets (mem_store s)) \<and>
      mem_store s1 = (mem_store s)\<lparr>st_wallets := (st_wallets (mem_store s))(i := map_option (w_EncryptedBalance_update (\<lambda>_. c)) (st_wallets (mem_store s) i))\<rparr>" for i c u
    by (auto simp: mem_ports_def memWallet_UpdateBalance_def mem_store_def mem_ok_def wallet_view_def fun_eq_iff keyed_def split: option.splits if_splits)
  show "mem_ok s \<Longrightarrow> pp_Tx_Create (mem_ports ro) t s = (Inr u, s1) \<Longrightarrow> mem_ok s1 \<and>
      mem_store s1 = (mem_store s)\<lparr>st_txs := (st_txs (mem_store s))(tx_ID t \<mapsto> tx_view t)\<rparr>" for t u
    by (auto simp: mem_ports_def memTx_Create_def mem_store_def mem_ok_def fun_eq_iff)
  show "mem_ok s \<Longrightarrow> pp_Tx_UpdateStatus (mem_ports ro) i x s = (Inr u, s1) \<Longrightarrow> mem_ok s1 \<and> i \<in> dom (st_txs (mem_store s)) \<and>
      mem_store s1 = (mem_store s)\<lparr>st_txs := (st_txs (mem_store s))(i := map_option (tx_Status_update (\<lambda>_. x)) (st_txs (mem_store s) i))\<rparr>" for i x u
    by (auto simp: mem_ports_def memTx_UpdateStatus_def mem_store_def mem_ok_def tx_view_def fun_eq_iff keyed_def split: option.splits if_splits)
  show "mem_ok s \<Longrightarrow> pp_Idemp_Create (mem_ports ro) l s = (Inr u, s1) \<Longrightarrow> mem_ok s1 \<and>
      mem_store s1 = (mem_store s)\<lparr>st_logs := (st_logs (mem_store s))(il_Key l \<mapsto> l)\<rparr>" for l u
    by (auto simp: mem_ports_def memIdemp_Create_def mem_store_def mem_ok_def)
qed (auto simp: mem_ports_def inMemoryTransactor_Begin_def noopTx_Commit_def memIdemp_Get_def memTx_GetByReference_def
    memTx_CheckRefundExists_def memWallet_GetByMerchantIDForUpdate_def memWallet_GetByMerchantID_def memWallet_GetByIDForUpdate_def
    memWallet_GetByID_def memWallet_UpdateBalance_def memTx_Create_def memTx_UpdateStatus_def memIdemp_Create_def mem_store_def)

text \<open>The order in which the keys are sorted is one that Go may choose.\<close>

definition sorted_ranges :: range_orders where
  "sorted_ranges n K = sorted_list_of_set K"

lemma ranges_sorted: "ranges sorted_ranges"
  by (simp add: ranges_def sorted_ranges_def)

interpretation mem: reliable_repository "mem_ports sorted_ranges" mem_store mem_ok mem_ok
  by (rule mem_reliable [OF ranges_sorted])

end
