(* ===== verification/Inmemory_Properties.thy ===== *)
theory Inmemory_Properties
  imports Postgres_Ports Inmemory_Repos Payment_Properties "HOL-Library.Multiset"
begin

text \<open>
  The in-memory repositories against the PostgreSQL ones: what the integration tests, which run the
  services on the former, say about the gateway, which runs on the latter.
\<close>

section \<open>The payment service on both\<close>

lemma pg_mem_pair:
  "ranges ro \<Longrightarrow> repository_pair (pg_ports U e) pg_abs pg_idle_ok pg_active_ok (mem_ports ro) mem_store mem_ok mem_ok"
  by (intro repository_pair.intro pg.payment_repository_axioms mem_reliable)

interpretation pg_mem: repository_pair "pg_ports U e" pg_abs pg_idle_ok pg_active_ok "mem_ports sorted_ranges" mem_store mem_ok mem_ok
  for U e
  by (rule pg_mem_pair [OF ranges_sorted])

lemma fund_op_on_pg_world:
  "fund_op_on (pg_ports (ps_uuid s) e) s e q (pg_idle (wd_db w), wd_redis w) = pg_world (fund_op s e q w)"
  using fund_op_on_pg [of s e q] by (cases w) simp

text \<open>
  The payment service over the interfaces of its repositories, run on the PostgreSQL
  implementation, is the service of \<^theory_text>\<open>Payment_Service\<close>: same result, same database, same Redis,
  and no transaction is left open.
\<close>

theorem service_on_postgres:
  "fund_op_on (pg_ports (ps_uuid s) e) s e q (pg_idle (wd_db w), wd_redis w) =
     (case fund_op s e q w of (res, w') \<Rightarrow> (res, pg_idle (wd_db w'), wd_redis w'))"
  by (simp add: fund_op_on_pg_world pg_world_def)


definition demo_memory :: memory where
  "demo_memory = new_memory\<lparr>me_merchants := \<lparr>mm_merchants = [1 \<mapsto> demo_merchant]\<rparr>, me_wallets := \<lparr>mw_wallets = [2 \<mapsto> demo_wallet 1000]\<rparr>,
     me_transactions := \<lparr>mt_transactions = [10 \<mapsto> demo_tx 10 ''TOPUP-1'' 1000 TransactionTypeTopup]\<rparr>\<rparr>"

lemma demo_memory_tables [simp]: "mm_merchants (me_merchants demo_memory) = [1 \<mapsto> demo_merchant]"
  "mw_wallets (me_wallets demo_memory) = [2 \<mapsto> demo_wallet 1000]"
  "mt_transactions (me_transactions demo_memory) = [10 \<mapsto> demo_tx 10 ''TOPUP-1'' 1000 TransactionTypeTopup]"
  "ml_logs (me_logs demo_memory) = Map.empty"
  by (simp_all add: demo_memory_def new_memory_def newInMemoryIdempotencyRepo_def)

lemma demo_memory_ok: "mem_ok demo_memory"
  by (simp add: mem_ok_def keyed_def)

lemma demo_memory_store: "mem_store demo_memory = db_store demo_topped_up"
  by (auto simp: mem_store_def db_store_def rows_by_def row_where_def fun_eq_iff)

lemma demo_keys_ok: "keys_ok demo_topped_up"
  by (simp add: keys_ok_def)

lemma demo_determined: "determined (Pay (demo_payment a)) (db_store demo_topped_up)"
  by (auto simp: determined_def unique_def db_store_def rows_by_def row_where_def)

lemma demo_payment_fields: "pq_MerchantID (demo_payment a) = 1" "pq_Currency (demo_payment a) = ''VND''" "pq_Amount (demo_payment a) = a"
  "pq_ReferenceID (demo_payment a) = ''ORDER-1''"
  by (simp_all add: demo_payment_def)

lemma demo_payment_runs_on_pg:
  obtains t w' where "fund_op demo_service demo_env (Pay (demo_payment 400)) (demo_world demo_topped_up) = (Inr t, w')"
proof -
  have "\<exists>ae w'. ProcessPayment (NewPaymentService rfc4122 (aes_encSvc demo_aes)) demo_env (demo_payment 400) (demo_world demo_topped_up) =
      (Inr (payment_txn demo_env (demo_payment 400) (demo_wallet 1000) ae), w')"
    using payment_effects [of demo_env demo_aes rfc4122 "demo_world demo_topped_up" "demo_payment 400" "demo_wallet 1000" 1000]
      demo_payment_storable
    by (simp add: demo_books_topped_up rfc.uuid_text_axioms row_where_def demo_payment_fields) blast
  then show ?thesis using that by (auto simp: demo_service_def fund_op_def)
qed


section \<open>Statistics\<close>

text \<open>Two lists of rows with the same stored content, in any order.\<close>

lemma map_range_values: "keyed k mem \<Longrightarrow> set ks \<subseteq> dom mem \<Longrightarrow> map k (range_values ks mem) = ks"
  unfolding range_values_def by (induction ks) (auto simp: map_filter_simps keyed_def split: option.split)

lemma range_values_rows:
  assumes "range_of ks mem" and "keyed k mem" and "distinct (map k rows)" and "map_option view \<circ> mem = rows_by k view rows"
    and "\<And>r. k (view r) = k r"
  shows "image_mset view (mset (range_values ks mem)) = image_mset view (mset rows)"
proof -
  have "distinct (map view xs)" if "distinct (map k xs)" for xs
    using that assms(5) by (auto simp: distinct_map inj_on_def) metis
  moreover have "distinct (map k (range_values ks mem))" using assms(1,2) by (simp add: map_range_values range_of_def)
  moreover have "set (map view (range_values ks mem)) = set (map view rows)"
  proof -
    have "set (map view rows) = ran (map_option view \<circ> mem)" by (simp add: assms(4) ran_rows_by [OF assms(3)])
    also have "\<dots> = view ` ran mem" by (auto simp: ran_def)
    finally show ?thesis by (simp add: set_range_values [OF assms(1)])
  qed
  ultimately have "mset (map view (range_values ks mem)) = mset (map view rows)"
    using assms(3) set_eq_iff_mset_eq_distinct by metis
  then show ?thesis by simp
qed

lemma count_view:
  assumes "image_mset view (mset xs) = image_mset view (mset ys)" and "\<And>r. P (view r) = P r"
  shows "length (filter P xs) = length (filter P ys)"
proof -
  have "length (filter P zs) = size (filter_mset P (image_mset view (mset zs)))" for zs
    by (induction zs) (simp_all add: assms(2))
  then show ?thesis using assms(1) by metis
qed

lemma amount_sum_view:
  assumes "image_mset tx_view (mset xs) = image_mset tx_view (mset ys)" and "\<And>r. P (tx_view r) = P r"
  shows "amount_sum P xs = amount_sum P ys"
proof -
  have "amount_sum P zs = (\<Sum>t\<in>#filter_mset P (image_mset tx_view (mset zs)). sint (tx_Amount t))" for zs
    by (induction zs) (simp_all add: assms(2) amount_sum_def)
  then show ?thesis using assms(1) by metis
qed

text \<open>What the counting loop returns for a list of rows.\<close>

definition stats_of :: "Transaction list \<Rightarrow> TransactionStats" where
  "stats_of ts = \<lparr>TotalTransactions = of_nat (length ts),
     Successful = of_nat (length (filter (\<lambda>t. tx_Status t = ''SUCCESS'') ts)),
     Failed = of_nat (length (filter (\<lambda>t. tx_Status t = ''FAILED'') ts)),
     Reversed = of_nat (length (filter (\<lambda>t. tx_Status t = ''REVERSED'') ts)),
     TotalRevenue = word_of_int (amount_sum (is_success_of ''PAYMENT'') ts),
     TotalRefunded = word_of_int (amount_sum (is_success_of ''REFUND'') ts),
     TotalTopup = word_of_int (amount_sum (is_success_of ''TOPUP'') ts)\<rparr>"

lemma stats_of_snoc: "stats_of (ts @ [t]) = memTx_count (stats_of ts) t"
  by (rule TransactionStats.equality)
    (simp_all only: stats_of_def memTx_count_def Let_def amount_sum_def is_success_of_def TransactionStats.simps
      filter_append filter.simps if_distrib [of length], simp_all)

lemma memTx_GetStats_stats_of:
  "memTx_GetStats ks m periodStart r = Inr (stats_of (filter (\<lambda>t. tx_MerchantID t = m \<and>
     (case periodStart of None \<Rightarrow> True | Some v \<Rightarrow> to_timestamp v \<le> tx_CreatedAt t)) (range_values ks (mt_transactions r))))"
proof -
  have unix: "Unix c < sint v \<longleftrightarrow> \<not> to_timestamp v \<le> c" for c v
    by (auto simp: Unix_def to_timestamp_def)
  have "foldl (\<lambda>stats t. if tx_MerchantID t \<noteq> m then stats
      else if (case periodStart of None \<Rightarrow> False | Some v \<Rightarrow> Unix (tx_CreatedAt t) < sint v) then stats else memTx_count stats t) no_stats ts =
    stats_of (filter (\<lambda>t. tx_MerchantID t = m \<and> (case periodStart of None \<Rightarrow> True | Some v \<Rightarrow> to_timestamp v \<le> tx_CreatedAt t)) ts)" for ts
    by (induction ts rule: rev_induct)
      (auto simp: stats_of_snoc unix split: option.split, simp_all add: stats_of_def no_stats_def amount_sum_def)
  then show ?thesis by (simp add: memTx_GetStats_def)
qed

lemma stats_of_view:
  assumes "image_mset tx_view (mset xs) = image_mset tx_view (mset ys)"
  shows "stats_of xs = stats_of ys"
proof -
  have "length xs = length ys" using count_view [OF assms, of "\<lambda>_. True"] by simp
  moreover have "length (filter (\<lambda>t. tx_Status t = x) xs) = length (filter (\<lambda>t. tx_Status t = x) ys)" for x
    by (rule count_view [OF assms]) simp
  moreover have "amount_sum (is_success_of ty) xs = amount_sum (is_success_of ty) ys" for ty
    by (rule amount_sum_view [OF assms]) (simp add: is_success_of_def)
  ultimately show ?thesis by (simp add: stats_of_def)
qed

text \<open>
  The in-memory repository computes the same statistics as the SQL query, in whatever order its loop
  runs through the map, whenever the query returns; the query fails where a total leaves the
  range of \<^verbatim>\<open>int64\<close>, while the loop wraps around.
\<close>

theorem inmemory_stats_agree:
  assumes "mem_ok s" and "keys_ok d" and "mem_store s = db_store d"
    and "range_of ks (mt_transactions (me_transactions s))" and "TransactionRepo_GetStats f m periodStart d = Inr st"
  shows "memTx_GetStats ks m periodStart (me_transactions s) = Inr st"
proof -
  let ?P = "\<lambda>t. tx_MerchantID t = m \<and> (case periodStart of None \<Rightarrow> True | Some v \<Rightarrow> to_timestamp v \<le> tx_CreatedAt t)"
  let ?rows = "range_values ks (mt_transactions (me_transactions s))"
  have "map_option tx_view \<circ> mt_transactions (me_transactions s) = rows_by tx_ID tx_view (transactions d)"
    using arg_cong [OF assms(3), of st_txs] by (simp add: mem_store_def db_store_def)
  with assms(1,2,4) have same: "image_mset tx_view (mset ?rows) = image_mset tx_view (mset (transactions d))"
    by (intro range_values_rows [where k = tx_ID]) (auto simp: mem_ok_def keys_ok_def)
  have "filter_mset ?P (image_mset tx_view M) = image_mset tx_view (filter_mset ?P M)" for M
    by (induction M) (auto simp: tx_view_def split: option.splits)
  with arg_cong [OF same, of "filter_mset ?P"] have "stats_of (filter ?P ?rows) = stats_of (filter ?P (transactions d))"
    by (intro stats_of_view) simp
  moreover from assms(5) have "st = stats_of (filter ?P (transactions d))"
    by (auto simp: TransactionRepo_GetStats_def stats_of_def Let_def scan_int64_def res_simps split: if_splits)
  ultimately show ?thesis by (simp add: memTx_GetStats_stats_of)
qed

theorem inmemory_stats_agree_witness:
  "memTx_GetStats [10] 1 (Some 0) (me_transactions demo_memory) = TransactionRepo_GetStats None 1 (Some 0) demo_topped_up"
  using inmemory_stats_agree [OF demo_memory_ok demo_keys_ok demo_memory_store, of "[10]" None 1 "Some 0"]
  by (simp add: range_of_def TransactionRepo_GetStats_def to_timestamp_def scan_int64_def amount_sum_def is_success_of_def)

section \<open>Merchants and pages\<close>

text \<open>Creating a merchant fails exactly when the username is taken; afterwards every lookup finds the merchant.\<close>

definition usernames_unique :: "inMemoryMerchantRepo \<Rightarrow> bool" where
  "usernames_unique r \<longleftrightarrow> (\<forall>x \<in> ran (mm_merchants r). \<forall>y \<in> ran (mm_merchants r). m_Username x = m_Username y \<longrightarrow> x = y)"

lemma memMerchant_Create_iff:
  assumes "range_of ks (mm_merchants r)"
  shows "(\<exists>r'. memMerchant_Create ks m r = Inr r') \<longleftrightarrow> (\<forall>x \<in> ran (mm_merchants r). m_Username x \<noteq> m_Username m)"
  using set_range_values [OF assms] by (auto simp: memMerchant_Create_def list_ex_iff)

lemma memMerchant_Create_keeps:
  assumes "range_of ks (mm_merchants r)" and "memMerchant_Create ks m r = Inr r'" and "keyed m_ID (mm_merchants r)" and "usernames_unique r"
  shows "keyed m_ID (mm_merchants r') \<and> usernames_unique r' \<and> memMerchant_GetByID (m_ID m) r' = Inr (Some m)"
proof -
  have new: "\<forall>x \<in> ran (mm_merchants r). m_Username x \<noteq> m_Username m" and r': "r' = r\<lparr>mm_merchants := (mm_merchants r)(m_ID m \<mapsto> m)\<rparr>"
    using memMerchant_Create_iff [OF assms(1), of m] assms(2) by (auto simp: memMerchant_Create_def split: if_splits)
  have sub: "ran ((mm_merchants r)(m_ID m \<mapsto> m)) \<subseteq> insert m (ran (mm_merchants r))" by (auto simp: ran_def split: if_splits)
  have "x = y" if "x \<in> ran (mm_merchants r')" "y \<in> ran (mm_merchants r')" "m_Username x = m_Username y" for x y
  proof -
    have "x \<in> insert m (ran (mm_merchants r))" "y \<in> insert m (ran (mm_merchants r))" using that sub by (auto simp: r')
    with that(3) new assms(4) show ?thesis unfolding usernames_unique_def by (metis insertE)
  qed
  then show ?thesis using assms(3) by (auto simp: usernames_unique_def r' memMerchant_GetByID_def)
qed

lemma memMerchant_GetByUsername_created:
  assumes "range_of ks (mm_merchants r)" and "usernames_unique r" and "m \<in> ran (mm_merchants r)"
  shows "memMerchant_GetByUsername ks (m_Username m) r = Inr (Some m)"
proof -
  have rows: "set (range_values ks (mm_merchants r)) = ran (mm_merchants r)" by (rule set_range_values [OF assms(1)])
  then obtain x where x: "find (\<lambda>x. m_Username x = m_Username m) (range_values ks (mm_merchants r)) = Some x"
    using assms(3) by (cases "find (\<lambda>x. m_Username x = m_Username m) (range_values ks (mm_merchants r))") (auto simp: find_None_iff)
  then have "x \<in> ran (mm_merchants r)" "m_Username x = m_Username m" using rows by (auto simp: find_Some_iff)
  then show ?thesis using x assms(2,3) by (auto simp: memMerchant_GetByUsername_def usernames_unique_def)
qed

text \<open>
  A page with a positive number and size: the rows at its position among the matching ones, and
  their number. Slicing does not panic.
\<close>

lemma memTx_List_page:
  assumes "0 < sint (lp_Page p)" and "0 < sint (lp_PageSize p)" and "sint (lp_Page p) * sint (lp_PageSize p) < 2 ^ 63"
    and "rows = filter (memTx_matches p) (range_values ks (mt_transactions r))" and "length rows < 2 ^ 63"
  shows "memTx_List ks p r = Some (Inr (take (nat (sint (lp_PageSize p))) (drop (nat ((sint (lp_Page p) - 1) * sint (lp_PageSize p))) rows), of_nat (length rows)))"
proof -
  let ?n = "sint (lp_Page p)" and ?z = "sint (lp_PageSize p)"
  let ?start = "(lp_Page p - 1) * lp_PageSize p" and ?len = "of_nat (length rows) :: int64"
  have z: "0 \<le> (?n - 1) * ?z" "(?n - 1) * ?z + ?z = ?n * ?z" using assms(1,2) by (simp_all add: left_diff_distrib)
  have "?start = word_of_int ((?n - 1) * ?z)" by simp
  then have start: "sint ?start = (?n - 1) * ?z" using z assms(2,3) by (simp only: sint64_word_of_int)
  have "?start + lp_PageSize p = word_of_int ((?n - 1) * ?z + ?z)" by simp
  then have "?start + lp_PageSize p = word_of_int (?n * ?z)" unfolding z(2) .
  then have stop: "sint (?start + lp_PageSize p) = ?n * ?z" using z assms(2,3) by (simp only: sint64_word_of_int)
  have "?len = word_of_int (int (length rows))" by simp
  moreover have "sint (word_of_int (int (length rows)) :: int64) = int (length rows)" using assms(5) by (intro sint64_word_of_int) simp_all
  ultimately have len: "sint ?len = int (length rows)" by simp
  have le: "(?len \<le>s ?start) = (int (length rows) \<le> (?n - 1) * ?z)" by (simp add: word_sle_eq len start)
  have lt: "(?len <s ?start + lp_PageSize p) = (int (length rows) < ?n * ?z)" by (simp add: word_sless_alt len stop)
  have ok: "\<not> ?start <s 0" using z(1) by (simp add: word_sless_alt start)
  show ?thesis
  proof (cases "int (length rows) \<le> (?n - 1) * ?z")
    case True
    then show ?thesis by (simp add: memTx_List_def assms(4) [symmetric] Let_def le)
  next
    case False
    let ?upto = "if ?len <s ?start + lp_PageSize p then ?len else ?start + lp_PageSize p"
    have e: "sint ?upto = min (int (length rows)) (?n * ?z)" using lt len stop by auto
    then have "\<not> ?upto <s ?start" using False z assms(2) unfolding word_sless_alt start by linarith
    moreover have "take (nat (sint ?upto - sint ?start)) (drop (nat (sint ?start)) rows) = take (nat ?z) (drop (nat ((?n - 1) * ?z)) rows)"
      unfolding start e using z False by (cases "int (length rows) < ?n * ?z") (auto simp: min_def nat_le_iff algebra_simps)
    ultimately show ?thesis using False ok
      unfolding memTx_List_def assms(4) [symmetric] Let_def le by simp
  qed
qed

end
