(* ===== verification/Inmemory_Races.thy ===== *)
theory Inmemory_Races
  imports Interleaving Inmemory_Properties
begin

text \<open>
  Concurrent payments on the in-memory repositories, the subject of
  tests/integration/concurrency_test.go. These repositories lock a map for the length of one call,
  but no row for the length of a transaction: payments may read the same balance and overwrite each
  other's. Still no payment ever stores a negative balance.
\<close>

section \<open>Balances stay non-negative\<close>

definition solvent :: "EncryptionService \<Rightarrow> memory \<Rightarrow> bool" where
  "solvent enc m \<longleftrightarrow> (\<forall>w \<in> ran (mw_wallets (me_wallets m)). \<exists>b. balance_of enc w = Some b \<and> 0 \<le> sint b)"

abbreviation solvent_state :: "EncryptionService \<Rightarrow> memory \<times> redis \<Rightarrow> bool" where
  "solvent_state enc \<equiv> \<lambda>(m, r). solvent enc m"

lemma safe_callP:
  assumes "\<And>m. solvent enc m \<Longrightarrow> solvent enc (snd (c m))"
  shows "safe (solvent_state enc) (\<lambda>_. True) (callP g c)"
  unfolding callP_def by (rule safe.Atomic) (auto simp: assms intro: safe.Return)

lemma safe_bindP:
  assumes "safe I (\<lambda>_. True) p" and "\<And>x. safe I (\<lambda>_. True) (f x)"
  shows "safe I (\<lambda>_. True) (bindP p f)"
  unfolding bindP_def
  by (rule safe_thenP [OF assms(1)]) (auto split: sum.split intro: assms(2) safe.Return)

lemma safe_reads:
  assumes "\<And>m. snd (c m) = m"
  shows "safe (solvent_state enc) (\<lambda>_. True) (callP g c)"
  using assms by (intro safe_callP) simp

lemma sint64_minus:
  assumes "0 < sint (a :: int64)" and "sint a \<le> sint b"
  shows "sint (b - a) = sint b - sint a"
proof -
  have "sint (word_of_int (sint b - sint a) :: int64) = sint b - sint a"
    using assms sint64_bounds [of a] sint64_bounds [of b] by (intro sint64_word_of_int) linarith+
  then show ?thesis by simp
qed

lemma UpdateBalance_solvent:
  assumes "solvent enc m" and "bindE (Decrypt enc c) ParseIntE = Inr b" and "0 \<le> sint b"
  shows "solvent enc (snd (pp_Wallet_UpdateBalance (mem_ports ro) i c m))"
  using assms by (auto simp: mem_ports_def memWallet_UpdateBalance_def solvent_def ran_def balance_of_def split: option.split)

lemma safe_writes:
  assumes "encryption_service (ps_encSvc s)" and "0 < sint (pq_Amount req)"
  shows "safe (solvent_state (ps_encSvc s)) (\<lambda>_. True) (payment_writesP (mem_ports ro) s e req k found)"
proof (cases found)
  case (Some wallet)
  let ?pre = "bindE (read_balance s wallet) (\<lambda>currentBalance.
        bindE (failIf (currentBalance <s pq_Amount req) ErrInsufficientFunds) (\<lambda>_.
        bindE (encrypt_amount s e 0 ''encrypt new balance'' (currentBalance - pq_Amount req)) (\<lambda>newBalanceEnc.
        bindE (encrypt_amount s e 1 ''encrypt amount'' (pq_Amount req)) (\<lambda>amountEncrypted.
        Inr (newBalanceEnc, payment_txn e req wallet amountEncrypted)))))"
  show ?thesis
  proof (cases ?pre)
    case (Inl err)
    then show ?thesis by (simp add: payment_writesP_def Some safe.Return)
  next
    case (Inr p)
    obtain c txn where p: "p = (c, txn)" by (cases p)
    from Inr p obtain b where c: "Encrypt (ps_encSvc s) (rand_draw e 0) (FormatInt (b - pq_Amount req)) = Inr c" and b: "sint (pq_Amount req) \<le> sint b"
      by (auto simp: res_simps encrypt_amount_Inr wsless_sint)
    have c': "bindE (Decrypt (ps_encSvc s) c) ParseIntE = Inr (b - pq_Amount req)"
      by (rule encryption_service.amount_roundtrip [OF assms(1) c])
    have "safe (solvent_state (ps_encSvc s)) (\<lambda>_. True) (callP g (pp_Wallet_UpdateBalance (mem_ports ro) (w_ID wallet) c))" for g
      using UpdateBalance_solvent [OF _ c'] sint64_minus [OF assms(2) b] b by (intro safe_callP) simp
    moreover have "safe (solvent_state enc) (\<lambda>_. True) (callP g (pp_Tx_Create (mem_ports ro) t))"
      "safe (solvent_state enc) (\<lambda>_. True) (callP g (pp_Idemp_Create (mem_ports ro) l))" for enc g t l
      by (rule safe_callP, simp add: mem_ports_def memTx_Create_def memIdemp_Create_def solvent_def)+
    ultimately show ?thesis
      by (simp add: payment_writesP_def Some Inr p Let_def safe_bindP safe.Return del: One_nat_def)
  qed
qed (simp add: payment_writesP_def safe.Return)

lemma safe_paymentP:
  assumes "encryption_service (ps_encSvc s)"
  shows "safe (solvent_state (ps_encSvc s)) (\<lambda>_. True) (paymentP (mem_ports ro) s e req)"
proof (cases "pq_Amount req \<le>s 0")
  case False
  then have pos: "0 < sint (pq_Amount req)" by (simp add: wsless_zero)
  let ?I = "solvent_state (ps_encSvc s)"
  have reads: "safe ?I (\<lambda>_. True) (callP g (pp_Idemp_Get (mem_ports ro) k))"
    "safe ?I (\<lambda>_. True) (callP g (pp_Wallet_GetByMerchantIDForUpdate (mem_ports ro) i x))"
    "safe ?I (\<lambda>_. True) (callP g (pp_Begin (mem_ports ro)))" "safe ?I (\<lambda>_. True) (callP g (pp_Commit (mem_ports ro)))" for g k i x
    by (auto simp: mem_ports_def inMemoryTransactor_Begin_def noopTx_Commit_def intro!: safe_reads)
  have tx: "safe ?I (\<lambda>_. True) (transactionP (mem_ports ro) p)" if "safe ?I (\<lambda>_. True) p" for p :: "(_, 'x result) prog"
    unfolding transactionP_def
    by (intro safe_bindP reads safe_thenP [where Q = "\<lambda>_. True"] that safe.Return safe.Atomic TrueI)
      (auto simp: mem_ports_def noopTx_Rollback_def)
  have cache: "safe ?I (\<lambda>_. True) (cache_getP e k)" "safe ?I (\<lambda>_. True) (cache_setP e k x)" for k x
    by (auto simp: cache_getP_def cache_setP_def intro!: safe.intros)
  show ?thesis
    using False unfolding paymentP_def Let_def
    by (auto split: sum.split option.split intro!: safe_thenP [OF cache(1)] safe_thenP [OF cache(2)] safe_bindP tx reads safe_writes [OF assms pos] safe.Return)
qed (simp add: paymentP_def safe.Return)

text \<open>
  C39: However concurrent payments are interleaved on the in-memory repositories, call by call, no wallet ever
  has a negative balance, when none has one at the start.
\<close>

theorem inmemory_never_negative:
  assumes "solvent (aes_encSvc a) m"
    and "interleaved ((m, r), map (\<lambda>(ro, e, req). paymentP (mem_ports ro) (NewPaymentService U (aes_encSvc a)) e req) reqs) ((m', r'), ps)"
  shows "solvent (aes_encSvc a) m'"
proof -
  have "safe (solvent_state (aes_encSvc a)) (\<lambda>_. True) (paymentP (mem_ports ro) (NewPaymentService U (aes_encSvc a)) e req)" for ro e req
    using safe_paymentP [of "NewPaymentService U (aes_encSvc a)"] aes.encryption_service_axioms by (simp add: NewPaymentService_def)
  with safe_interleaved [OF assms(2), of "solvent_state (aes_encSvc a)" "\<lambda>_. True"] assms(1) show ?thesis by (simp add: split_beta)
qed

section \<open>Updates may be lost\<close>

text \<open>The program of a payment from the moment its wallet has been read.\<close>

definition payment_restP ::
    "'s payment_ports \<Rightarrow> PaymentServiceImpl \<Rightarrow> env \<Rightarrow> PaymentRequest \<Rightarrow> Wallet option \<Rightarrow> ('s \<times> redis, Transaction result) prog" where
  "payment_restP P s e req found =
     (let idempKey = BuildIdempotencyKey (ps_uuid s) (pq_MerchantID req) (pq_ReferenceID req) in
      bindP (thenP (bindP (payment_writesP P s e req idempKey found)
          (\<lambda>x. bindP (callP (\<lambda>err. InternalError (Wrapf ''commit tx'' err)) (pp_Commit P)) (\<lambda>_. Return (Inr x)))) (\<lambda>res.
        Atomic (\<lambda>(d, r). (pp_Rollback P d, r)) (\<lambda>_. Return res))) (\<lambda>(txn, respJSON).
      thenP (cache_setP e idempKey (txn, respJSON)) (\<lambda>_. Return (Inr txn))))"

text \<open>The first four calls: both idempotency checks, \<^verbatim>\<open>Begin\<close> and the read of the wallet.\<close>

lemma payment_reads:
  assumes "0 < sint (pq_Amount req)" and "k = BuildIdempotencyKey (ps_uuid s) (pq_MerchantID req) (pq_ReferenceID req)"
    and "IdempotencyCache_Get (ev_fault e S_Cache_Get) (ev_now e) k r = Inr None" and "memIdemp_Get k (me_logs m) = Inr None"
    and "memWallet_GetByMerchantIDForUpdate (ro 0 (dom (mw_wallets (me_wallets m)))) (pq_MerchantID req) (pq_Currency req) (me_wallets m) = Inr (Some wallet)"
  shows "after 4 (paymentP (mem_ports ro) s e req) (m, r) = (payment_restP (mem_ports ro) s e req (Some wallet), (m, r))"
proof -
  have "\<not> pq_Amount req \<le>s 0" using assms(1) by (simp add: wsless_zero)
  with assms(3-5) show ?thesis
    unfolding assms(2)
    by (simp add: paymentP_def payment_restP_def Let_def cache_getP_def callP_def transactionP_def numeral_eq_Suc mem_ports_def
        inMemoryTransactor_Begin_def)
qed

lemma read_row:
  assumes "ranges ro" and "mem_ok m"
    and "memWallet_GetByMerchantIDForUpdate (ro n (dom (mw_wallets (me_wallets m)))) i c (me_wallets m) = Inr (Some wallet)"
  shows "mw_wallets (me_wallets m) (w_ID wallet) = Some wallet"
proof -
  have ok: "keyed w_ID (mw_wallets (me_wallets m))" using assms(2) by (simp add: mem_ok_def)
  from assms(3) have "wallet \<in> set (range_values (ro n (dom (mw_wallets (me_wallets m)))) (mw_wallets (me_wallets m)))"
    by (auto simp: memWallet_GetByMerchantIDForUpdate_def memWallet_GetByMerchantID_def find_Some_iff)
  then show ?thesis using set_range_values [OF ranges_range_of [OF assms(1) ok]] ok by (auto simp: ran_def keyed_def)
qed

text \<open>The rest, run alone on a state that still has the wallet: the balance read before is the one that counts.\<close>

lemma payment_rest_alone:
  assumes nf: "no_faults e" and key: "length (key a) = 32" and s: "s = NewPaymentService U (aes_encSvc a)"
    and b: "balance_of (aes_encSvc a) wallet = Some b" "sint (pq_Amount req) \<le> sint b"
    and row: "mw_wallets (me_wallets m) (w_ID wallet) = Some w"
  obtains t m' r' w' where "alone (payment_restP (mem_ports ro) s e req (Some wallet)) (m, r) = (Inr t, (m', r'))"
    "tx_ID t = ev_uuid e 0" "tx_Amount t = pq_Amount req"
    "mt_transactions (me_transactions m') = (mt_transactions (me_transactions m))(tx_ID t \<mapsto> t)"
    "mw_wallets (me_wallets m') = (mw_wallets (me_wallets m))(w_ID wallet \<mapsto> w')" "balance_of (aes_encSvc a) w' = Some (b - pq_Amount req)"
proof -
  let ?k = "BuildIdempotencyKey (ps_uuid s) (pq_MerchantID req) (pq_ReferenceID req)"
  obtain c where c: "encrypt_amount s e 0 ''encrypt new balance'' (b - pq_Amount req) = Inr c"
      "bindE (Decrypt (aes_encSvc a) c) ParseIntE = Inr (b - pq_Amount req)"
    using encrypt_amount_aes [OF nf key] s by metis
  obtain ae where ae: "encrypt_amount s e 1 ''encrypt amount'' (pq_Amount req) = Inr ae"
    using encrypt_amount_aes [OF nf key] s by metis
  define t where "t = payment_txn e req wallet ae"
  define j where "j = marshal_Transaction (ps_uuid s) t"
  define m' where "m' = m\<lparr>me_wallets := (me_wallets m)\<lparr>mw_wallets := (mw_wallets (me_wallets m))(w_ID wallet \<mapsto> w\<lparr>w_EncryptedBalance := c\<rparr>)\<rparr>,
      me_transactions := (me_transactions m)\<lparr>mt_transactions := (mt_transactions (me_transactions m))(tx_ID t \<mapsto> t)\<rparr>,
      me_logs := (me_logs m)\<lparr>ml_logs := (ml_logs (me_logs m))(?k \<mapsto>
        \<lparr>il_Key = ?k, il_TransactionID = tx_ID t, il_ResponseJSON = j, il_CreatedAt = ev_now e\<rparr>)\<rparr>\<rparr>"
  have read: "read_balance s wallet = Inr b" using b(1) s by (simp add: read_balance_Inr NewPaymentService_def)
  have ge: "(b <s pq_Amount req) = False" using b(2) wsless_sint by blast
  have "payment_writesP (mem_ports ro) s e req ?k (Some wallet) =
      bindP (callP (\<lambda>err. InternalError (Wrapf ''update balance'' err)) (pp_Wallet_UpdateBalance (mem_ports ro) (w_ID wallet) c)) (\<lambda>_.
      bindP (callP (\<lambda>err. InternalError (Wrapf ''create transaction'' err)) (pp_Tx_Create (mem_ports ro) t)) (\<lambda>_.
      bindP (callP (\<lambda>err. InternalError (Wrapf ''save idempotency log'' err)) (pp_Idemp_Create (mem_ports ro)
        \<lparr>il_Key = ?k, il_TransactionID = tx_ID t, il_ResponseJSON = j, il_CreatedAt = ev_now e\<rparr>)) (\<lambda>_. Return (Inr (t, j)))))"
    by (simp add: payment_writesP_def read c(1) ae ge Let_def t_def j_def del: One_nat_def)
  then have "alone (payment_restP (mem_ports ro) s e req (Some wallet)) (m, r) =
      (Inr t, (m', cache_response e ?k (Inr (t, j)) r))"
    by (simp add: payment_restP_def Let_def callP_def mem_ports_def memWallet_UpdateBalance_def row memTx_Create_def memIdemp_Create_def
        noopTx_Commit_def noopTx_Rollback_def cache_setP_def m'_def)
  moreover have "balance_of (aes_encSvc a) (w\<lparr>w_EncryptedBalance := c\<rparr>) = Some (b - pq_Amount req)"
    using c(2) by (simp add: balance_of_def)
  ultimately show ?thesis
    by (intro that [of t m']) (simp_all add: t_def payment_txn_def m'_def)
qed

text \<open>
  C40: Two payments from one wallet may read the same balance \<open>b\<close> on the in-memory repositories. Both then succeed and
  both transactions are stored, even when together they exceed the balance, and even when they are
  the same payment sent twice; the wallet has lost only the amount of one.
\<close>

theorem inmemory_lost_update:
  assumes "no_faults e1" and "no_faults e2" and "ev_uuid e1 0 \<noteq> ev_uuid e2 0" and "length (key a) = 32"
    and "s = NewPaymentService U (aes_encSvc a)" and "mem_ok m" and "ranges ro"
    and "0 < sint (pq_Amount req1)" and "0 < sint (pq_Amount req2)" and "sint (pq_Amount req1) \<le> sint b" and "sint (pq_Amount req2) \<le> sint b"
    and "\<forall>(e, req) \<in> {(e1, req1), (e2, req2)}. let k = BuildIdempotencyKey U (pq_MerchantID req) (pq_ReferenceID req) in
      IdempotencyCache_Get (ev_fault e S_Cache_Get) (ev_now e) k r = Inr None \<and> memIdemp_Get k (me_logs m) = Inr None \<and>
      memWallet_GetByMerchantIDForUpdate (ro 0 (dom (mw_wallets (me_wallets m)))) (pq_MerchantID req) (pq_Currency req) (me_wallets m) = Inr (Some wallet)"
    and "balance_of (aes_encSvc a) wallet = Some b"
  shows "\<exists>m' r' t1 t2. interleaved ((m, r), [paymentP (mem_ports ro) s e1 req1, paymentP (mem_ports ro) s e2 req2]) ((m', r'), [Return (Inr t1), Return (Inr t2)]) \<and>
    tx_Amount t1 = pq_Amount req1 \<and> tx_Amount t2 = pq_Amount req2 \<and>
    mt_transactions (me_transactions m') (tx_ID t1) = Some t1 \<and> mt_transactions (me_transactions m') (tx_ID t2) = Some t2 \<and>
    Option.bind (mw_wallets (me_wallets m') (w_ID wallet)) (balance_of (aes_encSvc a)) = Some (b - pq_Amount req1)"
proof -
  let ?p1 = "paymentP (mem_ports ro) s e1 req1" and ?p2 = "paymentP (mem_ports ro) s e2 req2"
  have U: "ps_uuid s = U" by (simp add: assms(5) NewPaymentService_def)
  have first: "after 4 ?p1 (m, r) = (payment_restP (mem_ports ro) s e1 req1 (Some wallet), (m, r))"
    and second: "after 4 ?p2 (m, r) = (payment_restP (mem_ports ro) s e2 req2 (Some wallet), (m, r))"
    using assms(12) by (auto simp: Let_def U intro!: payment_reads [OF assms(8) refl] payment_reads [OF assms(9) refl])
  have row: "mw_wallets (me_wallets m) (w_ID wallet) = Some wallet"
    using assms(12) by (intro read_row [OF assms(7,6)]) (auto simp: Let_def)
  obtain t2 m2 r2 w2 where two: "alone (payment_restP (mem_ports ro) s e2 req2 (Some wallet)) (m, r) = (Inr t2, (m2, r2))"
      "tx_ID t2 = ev_uuid e2 0" "tx_Amount t2 = pq_Amount req2"
      "mt_transactions (me_transactions m2) = (mt_transactions (me_transactions m))(tx_ID t2 \<mapsto> t2)"
      "mw_wallets (me_wallets m2) = (mw_wallets (me_wallets m))(w_ID wallet \<mapsto> w2)"
    by (rule payment_rest_alone [OF assms(2,4,5,13,11) row])
  then have row2: "mw_wallets (me_wallets m2) (w_ID wallet) = Some w2" by simp
  obtain t1 m1 r1 w1 where one: "alone (payment_restP (mem_ports ro) s e1 req1 (Some wallet)) (m2, r2) = (Inr t1, (m1, r1))"
      "tx_ID t1 = ev_uuid e1 0" "tx_Amount t1 = pq_Amount req1"
      "mt_transactions (me_transactions m1) = (mt_transactions (me_transactions m2))(tx_ID t1 \<mapsto> t1)"
      "mw_wallets (me_wallets m1) = (mw_wallets (me_wallets m2))(w_ID wallet \<mapsto> w1)" "balance_of (aes_encSvc a) w1 = Some (b - pq_Amount req1)"
    by (rule payment_rest_alone [OF assms(1,4,5,13,10) row2])
  let ?q1 = "payment_restP (mem_ports ro) s e1 req1 (Some wallet)"
  have "interleaved ((m, r), [?p1, ?p2]) ((m, r), [?q1, ?p2])"
    using interleaved_after [of 0 "[?p1, ?p2]" 4 "(m, r)"] first by simp
  also have "interleaved ((m, r), [?q1, ?p2]) ((m2, r2), [?q1, Return (Inr t2)])"
    using interleaved_alone [of 1 "[?q1, ?p2]" "(m, r)"] alone_after [OF second] two(1) by simp
  also have "interleaved ((m2, r2), [?q1, Return (Inr t2)]) ((m1, r1), [Return (Inr t1), Return (Inr t2)])"
    using interleaved_alone [of 0 "[?q1, Return (Inr t2)]" "(m2, r2)"] one(1) by simp
  finally show ?thesis using one two assms(3) by (intro exI conjI) auto
qed

text \<open>Two requests with the same payment of 700 from a wallet with 1000.\<close>

lemma demo_memory_reads:
  "IdempotencyCache_Get None n k Map.empty = Inr None" "memIdemp_Get k (me_logs demo_memory) = Inr None"
  "memWallet_GetByMerchantIDForUpdate (sorted_ranges 0 (dom (mw_wallets (me_wallets demo_memory)))) 1 ''VND'' (me_wallets demo_memory) =
     Inr (Some (demo_wallet 1000))"
  by (simp_all add: IdempotencyCache_Get_def redis_get_def memIdemp_Get_def memWallet_GetByMerchantIDForUpdate_def
      memWallet_GetByMerchantID_def sorted_ranges_def range_values_def map_filter_simps)

theorem inmemory_lost_update_witness:
  "\<exists>m' r' t1 t2. interleaved ((demo_memory, Map.empty),
       [paymentP (mem_ports sorted_ranges) demo_service demo_env (demo_payment 700),
        paymentP (mem_ports sorted_ranges) demo_service (demo_env\<lparr>ev_uuid := \<lambda>i. 200 + of_nat i\<rparr>) (demo_payment 700)])
     ((m', r'), [Return (Inr t1), Return (Inr t2)]) \<and> tx_Amount t1 = 700 \<and> tx_Amount t2 = 700 \<and>
     Option.bind (mw_wallets (me_wallets m') 2) (balance_of (aes_encSvc demo_aes)) = Some 300"
  using inmemory_lost_update [of demo_env "demo_env\<lparr>ev_uuid := \<lambda>i. 200 + of_nat i\<rparr>" demo_aes demo_service rfc4122 demo_memory sorted_ranges
      "demo_payment 700" "demo_payment 700" 1000 Map.empty "demo_wallet 1000"] demo_memory_reads
  by (auto simp: no_faults_def demo_env_def demo_service_def demo_memory_ok ranges_sorted demo_payment_fields Let_def)

theorem inmemory_never_negative_witness:
  "\<exists>m' r' t. interleaved ((demo_memory, Map.empty), [paymentP (mem_ports sorted_ranges) demo_service demo_env (demo_payment 700)])
     ((m', r'), [Return (Inr t)]) \<and> solvent (aes_encSvc demo_aes) m'"
proof -
  let ?p = "paymentP (mem_ports sorted_ranges) demo_service demo_env (demo_payment 700)"
  have "sint (pq_Amount (demo_payment 700)) \<le> sint (1000 :: int64)" by (simp add: demo_payment_fields)
  then obtain t m' r' where "alone (payment_restP (mem_ports sorted_ranges) demo_service demo_env (demo_payment 700) (Some (demo_wallet 1000)))
      (demo_memory, Map.empty) = (Inr t, (m', r'))"
    by (rule payment_rest_alone [OF demo_no_faults demo_key demo_service_def demo_balance, where req = "demo_payment 700" and m = demo_memory]) simp_all
  moreover have "after 4 ?p (demo_memory, Map.empty) =
      (payment_restP (mem_ports sorted_ranges) demo_service demo_env (demo_payment 700) (Some (demo_wallet 1000)), (demo_memory, Map.empty))"
    using demo_memory_reads by (intro payment_reads) (simp_all add: demo_payment_fields demo_env_def)
  ultimately have run: "interleaved ((demo_memory, Map.empty), [?p]) ((m', r'), [Return (Inr t)])"
    using interleaved_alone [of 0 "[?p]" "(demo_memory, Map.empty)"] by (simp add: alone_after)
  moreover have "solvent (aes_encSvc demo_aes) demo_memory" by (simp add: solvent_def)
  with inmemory_never_negative [of demo_aes demo_memory Map.empty rfc4122 "[(sorted_ranges, demo_env, demo_payment 700)]" m' r'] run
  have "solvent (aes_encSvc demo_aes) m'" by (simp add: demo_service_def)
  ultimately show ?thesis by blast
qed

end
