(* ===== verification/Spec2Isabelle.thy ===== *)
theory Spec2Isabelle
  imports Payment_Properties Concurrency_Properties Exactly_Once Credential_Properties Startup_Properties Inmemory_Races
begin

text \<open>
  A verification library of the secure payment gateway (Go, src/): merchants register, sign their
  requests with HMAC, pay from and top up wallets whose balances are encrypted in PostgreSQL, get
  refunds, see a dashboard, and are notified by webhooks.

  \<^bold>\<open>The parts of the program and the theories that model them.\<close> A theory per component holds its
  records, datatypes and operations under the names of the code.

  \<^item> Go itself. \<^theory_text>\<open>Prelude\<close> has the base types, the error monad in which fallible calls are written
    (every early return is a branch), and tables as lists of rows. \<^theory_text>\<open>Go_Strings\<close> has strconv, hex
    and runes, \<^theory_text>\<open>Go_Crypto\<close> AES-256-GCM and HMAC-SHA256 as computable functions on bytes,
    \<^theory_text>\<open>Go_Encoding\<close> base64 and Sscanf, \<^theory_text>\<open>Go_Url\<close> net/url, strings.TrimSpace and html.EscapeString.
  \<^item> pkg/apperror and pkg/response: \<^theory_text>\<open>Apperror\<close>. internal/core/domain and the request types of
    internal/core/ports: \<^theory_text>\<open>Domain\<close>. The clock, the UUIDs, the random draws and the failures that
    a call meets are the record \<open>env\<close> of \<^theory_text>\<open>Runtime\<close>, one failure per external call.
  \<^item> internal/service: \<^theory_text>\<open>Security_Services\<close> (encryption, signatures), \<^theory_text>\<open>Hash_Service\<close> (Argon2 strings),
    \<^theory_text>\<open>Token_Service\<close> (JWT sessions), \<^theory_text>\<open>Payment_Service\<close> (payments, refunds, top-ups),
    \<^theory_text>\<open>Account_Services\<close> (auth_service.go, merchant_service.go), \<^theory_text>\<open>Reporting_Service\<close>,
    \<^theory_text>\<open>Webhook_Service\<close>; audit_service.go is in \<^theory_text>\<open>Middleware\<close>.
  \<^item> internal/adapter/storage: \<^theory_text>\<open>Postgres\<close> (each statement on the tables of db/schema.sql with its
    constraints), \<^theory_text>\<open>Redis\<close> (keys with expiry). A database transaction is the database value that
    the statements produce; \<open>tx_Commit\<close> may fail, and then it is open whether it was applied.
  \<^item> internal/adapter/http: \<^theory_text>\<open>Dto\<close> (bodies, validation, sanitizing), \<^theory_text>\<open>Middleware\<close> (body limit,
    HMAC and JWT authentication, rate limits, audit, request log, recovery from panics, health checkers), \<^theory_text>\<open>Handlers\<close>
    (handlers, routes, \<open>SetupRouter\<close>). A request maps the state of the server (database, Redis, queued
    webhooks and audit entries, log lines) to a response and a new state. A handler responds or panics;
    the type assertions on the merchant id are where it could.
  \<^item> pkg/logger: \<^theory_text>\<open>Logger_Pkg\<close>. config, the connection set-up and cmd/api/main.go: \<^theory_text>\<open>Startup\<close>, with the end
    of the program as a state machine over signals and the events of the HTTP server.
  \<^item> internal/core/ports/repositories.go: \<^theory_text>\<open>Ports\<close> has the payment service over the interfaces, with the
    repositories as a record of operations on a state of any type. \<^theory_text>\<open>Postgres_Ports\<close> is the record
    of the PostgreSQL repositories and \<^theory_text>\<open>Inmemory_Repos\<close> that of tests/integration/inmemory_repos.go, where
    loops over Go maps take their order as an argument. \<^theory_text>\<open>Interleaving\<close> has the payment as a program of
    single calls, between which other requests may run.

  \<^bold>\<open>Specifications and what is shown.\<close>

  \<^item> \<^theory_text>\<open>Ledger\<close> specifies money movements: a lawful posting of one transaction, and the invariant
    \<open>book_inv\<close> (each balance is the sum of its ledger rows, refunds point to reversed payments that
    cover them, nothing is overdrawn). \<^theory_text>\<open>Payment_Correct\<close> shows that the operations refine it, through
    the locale \<open>fund_operation\<close>; \<^theory_text>\<open>Idempotency\<close> does the same for the two idempotency layers
    (\<open>logged_operation\<close>); \<^theory_text>\<open>Payment_Effects\<close> has the exact effects of successful calls. The
    properties are in \<^theory_text>\<open>Payment_Properties\<close> and at the end of this theory.
  \<^item> \<^theory_text>\<open>Concurrency\<close> runs payments, refunds and top-ups as interleaved sessions with row locks, and
    \<^theory_text>\<open>Concurrency_Properties\<close> shows that they are serializable and keep the books and the
    uniqueness of references although the reads before a transaction may be out of date.
  \<^item> \<^theory_text>\<open>Account_Correct\<close> and \<^theory_text>\<open>Account_Properties\<close>: registration, login, key rotation.
    \<^theory_text>\<open>Reporting_Properties\<close>: balance, pages and statistics agree with the books.
    \<^theory_text>\<open>Webhook_Properties\<close>: retries end, the stored log is the real one, notifications are signed.
  \<^item> \<^theory_text>\<open>Gateway\<close> specifies the actions that a caller may cause, shows that every route refines them,
    and makes the gateway a state machine of requests and background work. \<^theory_text>\<open>Gateway_Properties\<close>
    derives authentication, replay protection, isolation of merchants and the invariant of all
    reachable states; \<^theory_text>\<open>Http_Properties\<close> validated input, rate limits, sessions, the audit trail and
    that no request panics and a correct request succeeds. \<^theory_text>\<open>Exactly_Once\<close> follows the idempotency
    log and the cache through everything the gateway does: a payment over HTTP is applied exactly once.
    \<^theory_text>\<open>Credential_Properties\<close> shows what suspension and key rotation do to key pairs and to sessions.
    \<^theory_text>\<open>Startup_Properties\<close> applies this to the program that main.go starts, with its health endpoint, and
    shows how it ends. \<^theory_text>\<open>Demo_World\<close> has the concrete databases and requests of the witnesses.

  \<^item> \<^theory_text>\<open>Port_Contracts\<close> states what the repository interfaces promise as the locales \<open>payment_repository\<close> and
    \<open>reliable_repository\<close>, both interpreted, and proves once, in \<open>repository_pair\<close>, that the service gives the
    same results on any two implementations. \<^theory_text>\<open>Inmemory_Properties\<close> applies it: what the integration
    tests see on the in-memory repositories is what PostgreSQL would give, apart from internal errors;
    and \<open>Payment_Service\<close> is the service over the PostgreSQL ports. \<^theory_text>\<open>Inmemory_Races\<close> shows where the tests are
    no substitute: without row locks updates are lost, though no balance becomes negative.

  \<^bold>\<open>Packages outside the repository\<close> are parameters with their documented behaviour as locales:
  UUID text (\<open>uuid_text\<close>), Argon2 key derivation (\<open>argon2_pkg\<close>), JWT (\<open>jwt_lib\<close>), struct validation
  (\<open>validator_lib\<close>), Viper (\<open>viper_lib\<close>). Each is interpreted on a computable instance. Gin's JSON parser,
  the pgx pool, the Redis client and IP literals in URLs are functions without assumptions.

  \<^bold>\<open>Bounds and termination.\<close> Amounts, counters and page numbers are 64-bit words and wrap as in Go. All
  functions are total: webhook delivery recurses over the remaining attempts, at most six, and the
  loops of cipher and hash over the rounds and blocks there are. No result depends on fuel.

  \<^bold>\<open>Choices.\<close> Time is in microseconds, as PostgreSQL stores it, and the clock of the server is in UTC. The
  cached and logged response of a payment is a JSON value, not its text. In \<^theory_text>\<open>Gateway\<close> a request is
  one step; in \<^theory_text>\<open>Concurrency\<close> the transactions are interleaved, and constraints are checked at
  the commit, because PostgreSQL makes inserts of the same key wait for each other. The number of
  pages is computed on integers, which agrees with the floating-point code below 2^45 rows.

  \<^bold>\<open>Not modelled.\<close> The log lines of the services and of main.go, which nothing reads, and the text format of
  zerolog; the HTTP server of net/http, of which only the return of its functions is seen; panics
  inside packages outside the repository; answers that Gin gives to unknown routes; the generated
  mocks, and the pgx methods of the test transaction that no repository calls; pool.go, which only
  declares an interface over types of pgx.
\<close>

text \<open>
  C1: The books always balance. Starting from a database whose books are in order, any sequence
  of payments, refunds and top-ups, under any pattern of failures, leaves the books in order:
  the decrypted balance of every wallet is the sum of its ledger rows, every refund is covered
  by a reversed payment, and no payment overdraws a wallet.
\<close>

theorem books_balance:
  assumes "book_inv (aes_encSvc a) (wd_db w)"
  shows "book_inv (aes_encSvc a) (wd_db (run_all (fund_op (NewPaymentService U (aes_encSvc a))) eqs w))"
  using assms by (rule fund.books_run_all)

theorem books_balance_witness:
  "book_inv (aes_encSvc demo_aes) (wd_db (run_all (fund_op demo_service)
     [(demo_env, Pay (demo_payment 400)), (demo_env\<lparr>ev_uuid := \<lambda>_. 200\<rparr>, Refund (demo_refund None))]
     (demo_world demo_topped_up)))"
  unfolding demo_service_def by (rule books_balance) (simp add: demo_books_topped_up)

text \<open>
  C2: After any sequence of operations, a wallet whose top-ups fit into an \<^verbatim>\<open>int64\<close> holds exactly
  its top-ups plus refunds minus payments, and that is never negative.
\<close>

theorem balance_exact:
  assumes "book_inv (aes_encSvc a) (wd_db w)"
    and "d = wd_db (run_all (fund_op (NewPaymentService U (aes_encSvc a))) eqs w)"
    and "wl \<in> set (wallets d)" and "topups d (w_ID wl) < 2 ^ 63"
  shows "\<exists>b. wallet_balance (aes_encSvc a) d (w_ID wl) = Some b \<and> 0 \<le> sint b \<and>
    sint b = topups d (w_ID wl) + refunds d (w_ID wl) - payments d (w_ID wl)"
  using fund.balance_run_all [OF assms(1)] assms(2-4) by simp

theorem balance_exact_witness:
  "\<exists>b. wallet_balance (aes_encSvc demo_aes) demo_paid 2 = Some b \<and> 0 \<le> sint b \<and>
     sint b = topups demo_paid 2 + refunds demo_paid 2 - payments demo_paid 2"
  using balance_exact [of demo_aes "demo_world demo_paid" demo_paid rfc4122 "[]" "demo_wallet 600"]
  by (simp add: demo_books_paid total_def)

end
